(* ===== verification/Mycs_Prelude.thy ===== *)
theory Mycs_Prelude
  imports
    Main
    "HOL-Library.Word"
    "HOL-Library.Signed_Division"
    "HOL-Library.Char_ord"
    "HOL-Library.List_Lexorder"
begin

text \<open>
  Shared vocabulary of the development: Go's fixed-width integers, panics as values,
  the small slice helpers the sources use, facts about sums over lists, and the
  interfaces of a transition system with an inductive invariant and of one whose runs end.
\<close>

section \<open>Machine integers\<close>

type_synonym int64 = "64 word"
type_synonym uint16 = "16 word"
type_synonym uint32 = "32 word"

text \<open>
  Go's \<open>int\<close>, \<open>int64\<close> and \<open>time.Duration\<close> are 64 bit two's complement values:
  addition and subtraction wrap, \<open>sint\<close> reads them, the order is the signed one
  and division truncates towards zero.
\<close>

definition go_div :: "int64 \<Rightarrow> int64 \<Rightarrow> int64" where
  "go_div a b = word_of_int (sint a sdiv sint b)"

definition millisecond :: int64 where "millisecond = 1000000"
definition second :: int64 where "second = 1000000000"
definition minute :: int64 where "minute = 60000000000"

named_theorems duration_simps \<open>values of Go's duration constants\<close>

declare millisecond_def [duration_simps] second_def [duration_simps] minute_def [duration_simps]

lemma sint64_bounds: "- (2 ^ 63) \<le> sint (w :: int64)" "sint (w :: int64) < 2 ^ 63"
  using sint_ge [of w] sint_lt [of w] by simp_all

lemma sint64_of_int:
  assumes "- (2 ^ 63) \<le> i" and "i < 2 ^ 63"
  shows "sint (word_of_int i :: int64) = i"
  using assms by (simp add: signed_of_int signed_take_bit_int_eq_self)

lemma abs_sdiv_le:
  fixes a b :: int
  shows "\<bar>a sdiv b\<bar> \<le> \<bar>a\<bar>"
proof -
  have "\<bar>a sdiv b\<bar> \<le> \<bar>a\<bar> div \<bar>b\<bar>"
    by (auto simp: signed_divide_int_def abs_mult sgn_if pos_imp_zdiv_nonneg_iff
        div_int_pos_iff)
  also have "\<bar>a\<bar> div \<bar>b\<bar> \<le> \<bar>a\<bar>"
    using zdiv_mono2 [of "\<bar>a\<bar>" 1 "\<bar>b\<bar>"] by (cases "b = 0") simp_all
  finally show ?thesis .
qed

section \<open>Panics\<close>

text \<open>A Go call that may panic returns \<open>Panic\<close> with the runtime's reason.\<close>

datatype 'a outcome = Panic string | Ret 'a

section \<open>Slices\<close>

text \<open>
  \<open>copy(dst, src)\<close> overwrites the first \<open>min (len dst) (len src)\<close> elements of
  \<open>dst\<close>.
\<close>

definition go_copy :: "'a list \<Rightarrow> 'a list \<Rightarrow> 'a list" where
  "go_copy dst src = take (length dst) src @ drop (length src) dst"

lemma length_go_copy [simp]: "length (go_copy dst src) = length dst"
  by (simp add: go_copy_def)

lemma go_copy_shift:
  "i < length xs \<Longrightarrow> go_copy (drop i xs) (drop (Suc i) xs) = drop (Suc i) xs @ [last xs]"
  by (cases xs rule: rev_cases) (auto simp: go_copy_def Suc_diff_le)

lemma map_list_update_same: "f y = f (xs ! i) \<Longrightarrow> map f (xs[i := y]) = map f xs"
  by (induction xs arbitrary: i) (auto split: nat.split)

section \<open>Sums over lists\<close>

lemma sum_list_update:
  fixes f :: "'a \<Rightarrow> 'b :: ab_group_add"
  assumes "i < length xs"
  shows "sum_list (map f (xs[i := y])) = sum_list (map f xs) - f (xs ! i) + f y"
  using assms
proof (induction xs arbitrary: i)
  case (Cons x xs)
  then show ?case by (cases i) (auto simp: algebra_simps)
qed simp

lemma sum_list_map_remove_index:
  fixes f :: "'a \<Rightarrow> 'b :: ab_group_add"
  assumes "i < length xs"
  shows "sum_list (map f (take i xs @ drop (Suc i) xs)) = sum_list (map f xs) - f (xs ! i)"
proof -
  have "xs = take i xs @ xs ! i # drop (Suc i) xs"
    using assms by (rule id_take_nth_drop)
  then have "sum_list (map f xs) =
      sum_list (map f (take i xs)) + f (xs ! i) + sum_list (map f (drop (Suc i) xs))"
    by (metis add.assoc list.simps(9) map_append sum_list.Cons sum_list.append)
  then show ?thesis by simp
qed

text \<open>Splitting a list into the elements at the chosen positions and the others.\<close>

lemma sum_list_partition_indices:
  fixes f :: "'a \<Rightarrow> 'b :: ab_group_add"
  assumes "distinct is" and "set is \<subseteq> {..<length xs}"
  shows "sum_list (map f xs) =
    sum_list (map (\<lambda>i. f (xs ! i)) is) +
    sum_list (map (\<lambda>i. f (xs ! i)) (filter (\<lambda>i. i \<notin> set is) [0..<length xs]))"
proof -
  have "map f xs = map (\<lambda>i. f (xs ! i)) [0..<length xs]"
    by (rule nth_equalityI) simp_all
  then have "sum_list (map f xs) = sum_list (map (\<lambda>i. f (xs ! i)) [0..<length xs])"
    by (rule arg_cong)
  also have "\<dots> = (\<Sum>i\<in>{..<length xs}. f (xs ! i))"
    by (simp add: sum_list_distinct_conv_sum_set atLeast0LessThan)
  also have "\<dots> = (\<Sum>i\<in>set is. f (xs ! i)) + (\<Sum>i\<in>{..<length xs} - set is. f (xs ! i))"
    using assms(2) by (subst sum.subset_diff [of "set is"]) (auto simp: add.commute)
  also have "(\<Sum>i\<in>set is. f (xs ! i)) = sum_list (map (\<lambda>i. f (xs ! i)) is)"
    using assms(1) by (simp add: sum_list_distinct_conv_sum_set)
  also have "(\<Sum>i\<in>{..<length xs} - set is. f (xs ! i)) =
      sum_list (map (\<lambda>i. f (xs ! i)) (filter (\<lambda>i. i \<notin> set is) [0..<length xs]))"
    by (subst sum_list_distinct_conv_sum_set) (auto intro!: sum.cong)
  finally show ?thesis .
qed

section \<open>Transition systems\<close>

text \<open>
  The state machines of the development share one contract: an initial condition, a
  step relation and an invariant that the initial states have and every step keeps.
\<close>

locale transition_system =
  fixes initial :: "'s \<Rightarrow> bool"
    and step :: "'s \<Rightarrow> 's \<Rightarrow> bool"
    and invariant :: "'s \<Rightarrow> bool"
  assumes initial_invariant: "initial s \<Longrightarrow> invariant s"
    and step_invariant: "invariant s \<Longrightarrow> step s t \<Longrightarrow> invariant t"
begin

lemma run_invariant: "step\<^sup>*\<^sup>* s t \<Longrightarrow> invariant s \<Longrightarrow> invariant t"
  by (induction rule: rtranclp_induct) (auto intro: step_invariant)

lemma reachable_invariant: "initial s \<Longrightarrow> step\<^sup>*\<^sup>* s t \<Longrightarrow> invariant t"
  by (blast intro: run_invariant initial_invariant)

end

text \<open>
  A system whose steps use up a budget: no run is longer than what the budget allows, and
  every run can be continued to a state without steps.
\<close>

locale bounded_system = transition_system initial step invariant
  for initial :: "'s \<Rightarrow> bool" and step :: "'s \<Rightarrow> 's \<Rightarrow> bool" and invariant :: "'s \<Rightarrow> bool" +
  fixes budget :: "'s \<Rightarrow> nat"
  assumes step_budget: "invariant s \<Longrightarrow> step s t \<Longrightarrow> budget t < budget s"
begin

lemma run_bounded: "(step ^^ n) s t \<Longrightarrow> invariant s \<Longrightarrow> n + budget t \<le> budget s"
proof (induction n arbitrary: t)
  case (Suc n)
  then obtain u where u: "(step ^^ n) s u" "step u t" by auto
  from u(1) Suc.prems(2) have "invariant u" by (blast intro: run_invariant relpowp_imp_rtranclp)
  with Suc.IH [OF u(1) Suc.prems(2)] step_budget [OF _ u(2)] show ?case by simp
qed simp

lemma run_settles: "invariant s \<Longrightarrow> \<exists>t. step\<^sup>*\<^sup>* s t \<and> \<not> (\<exists>u. step t u)"
proof (induction "budget s" arbitrary: s rule: less_induct)
  case less
  show ?case
  proof (cases "\<exists>u. step s u")
    case True
    then obtain u where u: "step s u" by blast
    from less.hyps [OF step_budget [OF less.prems u] step_invariant [OF less.prems u]] u
    show ?thesis by (blast intro: converse_rtranclp_into_rtranclp)
  qed blast
qed

end

end
