(* ===== verification/Counter.thy ===== *)
theory Counter
  imports Mycs_Prelude
begin

text \<open>
  Model of \<^verbatim>\<open>monitors/counter.go\<close>: the counter record, its operations
  and the snapshot a collection takes of it. Values are \<open>int64\<close> and wrap. The
  mutex of the source makes every operation atomic, so each operation is one function
  on the record.
\<close>

section \<open>Data\<close>

text \<open>
  A string map is an association list with distinct keys; the nil map of Go is
  \<open>None\<close>. Counters are shared by pointer, so a pointer is a position in the store
  of counters (theory \<open>Monitor\<close>).
\<close>

type_synonym attribs = "(string \<times> string) list"
type_synonym cref = nat

record counter =
  ctr_name :: string
  ctr_attribs :: "attribs option"
  cumalative :: bool
  ignoreZeroSnapshots :: bool
  incBy :: int64
  ctr_value :: int64
  cumalativeValue :: int64

text \<open>
  A snapshot does not copy the attributes: its field points into the counter
  (\<open>AttribsOf\<close>). A snapshot decoded from an event owns its map (\<open>OwnAttribs\<close>) or
  has none.
\<close>

datatype attribs_ptr = NilAttribs | AttribsOf cref | OwnAttribs attribs

record counterSnapshot =
  snap_name :: "string option"
  snap_timestamp :: int64
  snap_value :: int64
  snap_attribs :: attribs_ptr

section \<open>Operations\<close>

definition NewCounter :: "string \<Rightarrow> bool \<Rightarrow> bool \<Rightarrow> counter" where
  "NewCounter name cum ignoreZero =
     \<lparr>ctr_name = name, ctr_attribs = None, cumalative = cum, ignoreZeroSnapshots = ignoreZero,
      incBy = 1, ctr_value = 0, cumalativeValue = 0\<rparr>"

definition NewCounterWithAttribs :: "string \<Rightarrow> bool \<Rightarrow> bool \<Rightarrow> attribs option \<Rightarrow> counter" where
  "NewCounterWithAttribs name cum ignoreZero attrs =
     \<lparr>ctr_name = name, ctr_attribs = attrs, cumalative = cum, ignoreZeroSnapshots = ignoreZero,
      incBy = 1, ctr_value = 0, cumalativeValue = 0\<rparr>"

text \<open>Storing into a map: the new value replaces the old one of the same key.\<close>

fun put_attrib :: "attribs \<Rightarrow> string \<Rightarrow> string \<Rightarrow> attribs" where
  "put_attrib [] k v = [(k, v)]"
| "put_attrib ((k', v') # m) k v = (if k' = k then (k, v) # m else (k', v') # put_attrib m k v)"

text \<open>Assigning to an entry of a nil map panics.\<close>

definition AddAttribute :: "string \<Rightarrow> string \<Rightarrow> counter \<Rightarrow> counter outcome" where
  "AddAttribute k v c = (case ctr_attribs c of
      None \<Rightarrow> Panic ''assignment to entry in nil map''
    | Some m \<Rightarrow> Ret (c\<lparr>ctr_attribs := Some (put_attrib m k v)\<rparr>))"

text \<open>
  \<open>collect\<close> takes the clock reading \<open>now\<close> in nanoseconds and the counter's own
  address \<open>r\<close>, for the attribute pointer.
\<close>

definition collect :: "int64 \<Rightarrow> cref \<Rightarrow> counter \<Rightarrow> counterSnapshot option \<times> counter" where
  "collect now r c =
     (if \<not> ignoreZeroSnapshots c \<or> ctr_value c \<noteq> 0 then
        (Some \<lparr>snap_name = Some (ctr_name c), snap_timestamp = go_div now millisecond,
               snap_value = ctr_value c, snap_attribs = AttribsOf r\<rparr>,
         if cumalative c
         then c\<lparr>cumalativeValue := cumalativeValue c + ctr_value c, ctr_value := 0\<rparr>
         else c)
      else (None, c))"

definition Name :: "counter \<Rightarrow> string" where
  "Name c = ctr_name c"

definition Get :: "counter \<Rightarrow> int64" where
  "Get c = ctr_value c + cumalativeValue c"

definition SetInc :: "int64 \<Rightarrow> counter \<Rightarrow> counter" where
  "SetInc incValue c = c\<lparr>incBy := incValue\<rparr>"

definition Set :: "int64 \<Rightarrow> counter \<Rightarrow> counter" where
  "Set v c =
     (if cumalative c then c\<lparr>ctr_value := v - cumalativeValue c\<rparr> else c\<lparr>ctr_value := v\<rparr>)"

definition Inc :: "counter \<Rightarrow> counter" where
  "Inc c = c\<lparr>ctr_value := ctr_value c + incBy c\<rparr>"

definition Add :: "int64 \<Rightarrow> counter \<Rightarrow> counter" where
  "Add v c = c\<lparr>ctr_value := ctr_value c + v\<rparr>"

named_theorems counter_defs \<open>definitions of the counter operations\<close>

declare NewCounter_def [counter_defs] NewCounterWithAttribs_def [counter_defs]
  collect_def [counter_defs] Get_def [counter_defs] SetInc_def [counter_defs]
  Set_def [counter_defs] Inc_def [counter_defs] Add_def [counter_defs]
  AddAttribute_def [counter_defs]

section \<open>Operations as one alphabet\<close>

datatype counter_op =
    OpSetInc int64
  | OpSet int64
  | OpInc
  | OpAdd int64
  | OpAddAttribute string string

text \<open>A panic in \<open>AddAttribute\<close> leaves the counter as it was.\<close>

fun apply_op :: "counter_op \<Rightarrow> counter \<Rightarrow> counter" where
  "apply_op (OpSetInc v) c = SetInc v c"
| "apply_op (OpSet v) c = Set v c"
| "apply_op OpInc c = Inc c"
| "apply_op (OpAdd v) c = Add v c"
| "apply_op (OpAddAttribute k v) c = (case AddAttribute k v c of Ret c' \<Rightarrow> c' | Panic _ \<Rightarrow> c)"

text \<open>
  The abstract counter: a running total and an increment, with no notion of
  collection.
\<close>

fun spec_op :: "counter_op \<Rightarrow> int64 \<times> int64 \<Rightarrow> int64 \<times> int64" where
  "spec_op (OpSetInc v) (tot, inc) = (tot, v)"
| "spec_op (OpSet v) (tot, inc) = (v, inc)"
| "spec_op OpInc (tot, inc) = (tot + inc, inc)"
| "spec_op (OpAdd v) (tot, inc) = (tot + v, inc)"
| "spec_op (OpAddAttribute _ _) (tot, inc) = (tot, inc)"

definition abs_counter :: "counter \<Rightarrow> int64 \<times> int64" where
  "abs_counter c = (Get c, incBy c)"

text \<open>A counter's life: updates and collections, in any order.\<close>

datatype counter_event = Update counter_op | Collect int64

fun run_counter :: "cref \<Rightarrow> counter_event list \<Rightarrow> counter \<Rightarrow> counterSnapshot list \<times> counter" where
  "run_counter r [] c = ([], c)"
| "run_counter r (Update u # es) c = run_counter r es (apply_op u c)"
| "run_counter r (Collect now # es) c =
     (let (s, c') = collect now r c; (ss, c'') = run_counter r es c'
      in ((case s of None \<Rightarrow> ss | Some s \<Rightarrow> s # ss), c''))"

fun spec_run :: "counter_event list \<Rightarrow> int64 \<times> int64 \<Rightarrow> int64 \<times> int64" where
  "spec_run [] a = a"
| "spec_run (Update u # es) a = spec_run es (spec_op u a)"
| "spec_run (Collect now # es) a = spec_run es a"

section \<open>Invariant\<close>

text \<open>
  A counter that is not cumulative never accumulates; this is what makes \<open>Get\<close>
  agree with the last value set.
\<close>

definition counter_ok :: "counter \<Rightarrow> bool" where
  "counter_ok c \<longleftrightarrow> cumalative c \<or> cumalativeValue c = 0"

lemma counter_ok_new [simp]:
  "counter_ok (NewCounter n cum z)" "counter_ok (NewCounterWithAttribs n cum z a)"
  by (simp_all add: counter_ok_def counter_defs)

lemma apply_op_frame [simp]:
  "cumalative (apply_op u c) = cumalative c"
  "ctr_name (apply_op u c) = ctr_name c"
  "cumalativeValue (apply_op u c) = cumalativeValue c"
  "ignoreZeroSnapshots (apply_op u c) = ignoreZeroSnapshots c"
  by (cases u; auto simp: counter_defs split: option.split)+

lemma collect_frame [simp]:
  "cumalative (snd (collect now r c)) = cumalative c"
  "ctr_name (snd (collect now r c)) = ctr_name c"
  "ignoreZeroSnapshots (snd (collect now r c)) = ignoreZeroSnapshots c"
  "incBy (snd (collect now r c)) = incBy c"
  "ctr_attribs (snd (collect now r c)) = ctr_attribs c"
  by (auto simp: collect_def)

lemma counter_ok_apply [simp]: "counter_ok (apply_op u c) = counter_ok c"
  by (simp add: counter_ok_def)

lemma counter_ok_collect [simp]: "counter_ok c \<Longrightarrow> counter_ok (snd (collect now r c))"
  by (auto simp: counter_ok_def collect_def)

section \<open>Collection as an interface\<close>

text \<open>
  What the monitor service relies on when it gathers from a source of measurements:
  gathering never changes the reading, the amount it returns is exactly what it adds to
  the reported total, and after it the reported total has caught up with the reading.
\<close>

locale metric_source =
  fixes gather :: "'t \<Rightarrow> 'c \<Rightarrow> 's option \<times> 'c"
    and amount :: "'s \<Rightarrow> int64"
    and reading :: "'c \<Rightarrow> int64"
    and reported :: "'c \<Rightarrow> int64"
    and valid :: "'c \<Rightarrow> bool"
  assumes gather_valid: "valid c \<Longrightarrow> valid (snd (gather t c))"
    and gather_reading: "valid c \<Longrightarrow> reading (snd (gather t c)) = reading c"
    and gather_amount: "valid c \<Longrightarrow>
      reported (snd (gather t c)) =
        reported c + (case fst (gather t c) of None \<Rightarrow> 0 | Some s \<Rightarrow> amount s)"
    and gather_flushes: "valid c \<Longrightarrow> reported (snd (gather t c)) = reading c"
begin

lemma gather_twice_nothing:
  assumes "valid c"
  shows "(case fst (gather t' (snd (gather t c))) of None \<Rightarrow> 0 | Some s \<Rightarrow> amount s) = 0"
  using gather_amount [OF gather_valid, OF assms, of t' t]
    gather_flushes [OF gather_valid, OF assms, of t' t]
    gather_flushes [OF assms, of t] gather_reading [OF assms, of t]
  by simp

lemma gather_amount_eq:
  assumes "valid c"
  shows "(case fst (gather t c) of None \<Rightarrow> 0 | Some s \<Rightarrow> amount s) = reading c - reported c"
  using gather_amount [OF assms, of t] gather_flushes [OF assms, of t] by (simp add: algebra_simps)

end

interpretation ctr: metric_source "\<lambda>(now, r). collect now r" snap_value Get cumalativeValue cumalative
  by unfold_locales (auto simp: counter_defs split: if_splits)

lemmas collect_reading = ctr.gather_reading [of _ "(now, r)" for now r, simplified]
lemmas collect_amount = ctr.gather_amount [of _ "(now, r)" for now r, simplified]
lemmas collect_flushes = ctr.gather_flushes [of _ "(now, r)" for now r, simplified]

lemma collect_Get [simp]: "Get (snd (collect now r c)) = Get c"
  by (auto simp: counter_defs)

lemma collect_abs [simp]: "abs_counter (snd (collect now r c)) = abs_counter c"
  by (simp add: abs_counter_def)

lemma abs_counter_new [simp]: "abs_counter (NewCounter n cum z) = (0, 1)"
  by (simp add: abs_counter_def counter_defs)

lemma apply_op_abs: "counter_ok c \<Longrightarrow> abs_counter (apply_op u c) = spec_op u (abs_counter c)"
  by (cases u) (auto simp: abs_counter_def counter_ok_def counter_defs split: option.split)

lemma run_counter_abs:
  "counter_ok c \<Longrightarrow> abs_counter (snd (run_counter r es c)) = spec_run es (abs_counter c)"
proof (induction es arbitrary: c)
  case (Cons e es)
  then show ?case
    by (cases e) (auto simp: apply_op_abs Let_def case_prod_beta)
qed simp

lemma run_counter_reported:
  assumes "cumalative c"
  shows "cumalativeValue (snd (run_counter r es c)) =
    cumalativeValue c + sum_list (map snap_value (fst (run_counter r es c)))"
  using assms
proof (induction es arbitrary: c)
  case (Cons e es)
  show ?case
  proof (cases e)
    case (Update u)
    with Cons show ?thesis by simp
  next
    case (Collect now)
    show ?thesis
      using Cons.IH [of "snd (collect now r c)"] Cons.prems Collect
        collect_amount [OF Cons.prems, of now r]
      by (auto simp: Let_def case_prod_beta split: option.split)
  qed
qed simp

lemma run_counter_append:
  "run_counter r (es @ fs) c =
     (let (ss, c') = run_counter r es c; (ts, c'') = run_counter r fs c' in (ss @ ts, c''))"
proof (induction es arbitrary: c)
  case (Cons e es)
  then show ?case by (cases e) (auto simp: Let_def case_prod_beta split: option.split)
qed simp

lemma run_counter_cumalative [simp]: "cumalative (snd (run_counter r es c)) = cumalative c"
proof (induction es arbitrary: c)
  case (Cons e es)
  then show ?case by (cases e) (auto simp: Let_def case_prod_beta)
qed simp

section \<open>Properties\<close>

text \<open>
  C12: A counter refines the abstract counter. Whatever updates and collections happen,
  in whatever order, the value read by \<open>Get\<close> (and the increment) is the one the
  updates alone determine: collecting never loses or adds to a counter's total, for
  cumulative and plain counters alike.
\<close>

theorem counter_refines_total:
  "abs_counter (snd (run_counter r es (NewCounter n cum z))) = spec_run es (0, 1)"
  using run_counter_abs [of "NewCounter n cum z" r es] by simp

text \<open>
  C22: The snapshots of a cumulative counter account for its whole total. After any
  history that ends with a collection, the sum of all values ever reported (with
  64 bit wrap-around) is the counter's value: nothing is reported twice and nothing
  is left out.
\<close>

theorem snapshots_account_for_total:
  "sum_list (map snap_value (fst (run_counter r (es @ [Collect now]) (NewCounter n True z)))) =
   Get (snd (run_counter r (es @ [Collect now]) (NewCounter n True z)))"
proof -
  let ?c = "NewCounter n True z" and ?d = "snd (run_counter r es (NewCounter n True z))"
  have cum: "cumalative ?c" "cumalative ?d" by (simp_all add: counter_defs)
  have last: "snd (run_counter r (es @ [Collect now]) ?c) = snd (collect now r ?d)"
    by (auto simp: run_counter_append Let_def case_prod_beta)
  from run_counter_reported [OF cum(1), of r "es @ [Collect now]"]
  have "sum_list (map snap_value (fst (run_counter r (es @ [Collect now]) ?c))) =
      cumalativeValue (snd (run_counter r (es @ [Collect now]) ?c))"
    by (simp add: counter_defs)
  also have "\<dots> = Get ?d" unfolding last by (rule collect_flushes [OF cum(2)])
  finally show ?thesis unfolding last by simp
qed

lemma run_counter_plain:
  assumes "\<not> cumalative c" and "\<not> ignoreZeroSnapshots c"
  shows "run_counter r (map Collect ts) c =
    (map (\<lambda>now. \<lparr>snap_name = Some (ctr_name c), snap_timestamp = go_div now millisecond,
       snap_value = ctr_value c, snap_attribs = AttribsOf r\<rparr>) ts, c)"
  using assms by (induction ts) (auto simp: collect_def)

text \<open>
  A counter that is not cumulative is not reset by a collection: with no update in
  between, \<open>k\<close> collections report its value \<open>k\<close> times, so their sum is \<open>k\<close> times the
  total. The sums add up only for cumulative counters.
\<close>

theorem plain_counter_reports_value_each_time:
  assumes "\<not> cumalative c" and "\<not> ignoreZeroSnapshots c"
  shows "sum_list (map snap_value (fst (run_counter r (map Collect ts) c))) =
    of_nat (length ts) * ctr_value c"
  using assms by (simp add: run_counter_plain comp_def sum_list_triv)

theorem plain_counter_reports_value_each_time_witness:
  "\<not> cumalative (Add 5 (NewCounter ''testCounter'' False False)) \<and>
   sum_list (map snap_value (fst (run_counter 0 (map Collect [1000000, 2000000, 3000000])
     (Add 5 (NewCounter ''testCounter'' False False))))) = (15 :: int64)"
  using plain_counter_reports_value_each_time
      [of "Add 5 (NewCounter ''testCounter'' False False)" 0 "[1000000, 2000000, 3000000]"]
  by (simp add: counter_defs)

lemma put_attrib_lookup: "map_of (put_attrib m k v) = (map_of m)(k \<mapsto> v)"
  by (induction m k v rule: put_attrib.induct) auto

lemma put_attrib_keys: "fst ` set (put_attrib m k v) = insert k (fst ` set m)"
  by (induction m k v rule: put_attrib.induct) auto

lemma put_attrib_distinct: "distinct (map fst m) \<Longrightarrow> distinct (map fst (put_attrib m k v))"
  by (induction m k v rule: put_attrib.induct) (auto simp: put_attrib_keys)

text \<open>
  Attributes can be added to a counter exactly when it was created with an
  attribute map; the new value then shadows the old one of the same key and no other key
  changes. On a counter made by \<open>NewCounter\<close> the call panics.
\<close>

theorem AddAttribute_behaviour:
  "AddAttribute k v (NewCounter n cum z) = Panic ''assignment to entry in nil map'' \<and>
   (\<exists>c m'. AddAttribute k v (NewCounterWithAttribs n cum z (Some m)) = Ret c \<and>
      ctr_attribs c = Some m' \<and> map_of m' = (map_of m)(k \<mapsto> v) \<and> Get c = 0)"
  by (simp add: counter_defs put_attrib_lookup)

end
