(* ===== verification/Go_Json.thy ===== *)
theory Go_Json
  imports Mycs_Prelude
begin

text \<open>
  What the sources use of Go's \<^verbatim>\<open>encoding/json\<close>, at the level of document trees:
  the values a document holds and the rules by which \<^verbatim>\<open>json.Unmarshal\<close> stores
  a value into a Go field. Rendering a tree to text and back is not modelled.
\<close>

datatype json =
    JNull
  | JBool bool
  | JNum int
  | JStr string
  | JArr "json list"
  | JObj "(string \<times> json) list"

datatype json_error = UnmarshalTypeError string | SyntaxError string

section \<open>Decoding rules\<close>

text \<open>Field names are matched without regard to case; the last matching key wins.\<close>

definition ascii_lower :: "char \<Rightarrow> char" where
  "ascii_lower c =
     (let n = of_char c :: nat in if 65 \<le> n \<and> n \<le> 90 then char_of (n + 32) else c)"

definition fold_equal :: "string \<Rightarrow> string \<Rightarrow> bool" where
  "fold_equal s t \<longleftrightarrow> map ascii_lower s = map ascii_lower t"

definition json_field :: "string \<Rightarrow> (string \<times> json) list \<Rightarrow> json" where
  "json_field k kvs =
     (case find (\<lambda>(k', _). fold_equal k' k) (rev kvs) of None \<Rightarrow> JNull | Some (_, v) \<Rightarrow> v)"

text \<open>
  \<^verbatim>\<open>null\<close> leaves a scalar at its zero value, so a missing field and a null
  field decode alike; a value of the wrong kind, or an integer that does not fit, is an
  error.
\<close>

definition decode_int64 :: "json \<Rightarrow> json_error + int64" where
  "decode_int64 j = (case j of
      JNull \<Rightarrow> Inr 0
    | JNum i \<Rightarrow> if - (2 ^ 63) \<le> i \<and> i < 2 ^ 63 then Inr (word_of_int i)
                else Inl (UnmarshalTypeError ''int64'')
    | _ \<Rightarrow> Inl (UnmarshalTypeError ''int64''))"

definition decode_string :: "json \<Rightarrow> json_error + string" where
  "decode_string j = (case j of
      JNull \<Rightarrow> Inr [] | JStr s \<Rightarrow> Inr s | _ \<Rightarrow> Inl (UnmarshalTypeError ''string''))"

text \<open>A pointer field is nil for \<^verbatim>\<open>null\<close> and points to the decoded value otherwise.\<close>

definition decode_ptr :: "(json \<Rightarrow> json_error + 'a) \<Rightarrow> json \<Rightarrow> json_error + 'a option" where
  "decode_ptr dec j = (if j = JNull then Inr None else map_sum id Some (dec j))"

fun decode_all :: "('j \<Rightarrow> json_error + 'a) \<Rightarrow> 'j list \<Rightarrow> json_error + 'a list" where
  "decode_all dec [] = Inr []"
| "decode_all dec (j # js) = (case dec j of
      Inl e \<Rightarrow> Inl e
    | Inr x \<Rightarrow> (case decode_all dec js of Inl e \<Rightarrow> Inl e | Inr xs \<Rightarrow> Inr (x # xs)))"

definition decode_slice :: "(json \<Rightarrow> json_error + 'a) \<Rightarrow> json \<Rightarrow> json_error + 'a list" where
  "decode_slice dec j = (case j of
      JNull \<Rightarrow> Inr [] | JArr js \<Rightarrow> decode_all dec js | _ \<Rightarrow> Inl (UnmarshalTypeError ''slice''))"

definition decode_object ::
    "((string \<times> json) list \<Rightarrow> json_error + 'a) \<Rightarrow> json \<Rightarrow> json_error + 'a" where
  "decode_object dec j = (case j of
      JObj kvs \<Rightarrow> dec kvs | JNull \<Rightarrow> dec [] | _ \<Rightarrow> Inl (UnmarshalTypeError ''struct''))"

section \<open>Encoding rules\<close>

text \<open>A nil slice is written as \<^verbatim>\<open>null\<close>.\<close>

definition encode_slice :: "('a \<Rightarrow> json) \<Rightarrow> 'a list \<Rightarrow> json" where
  "encode_slice enc xs = (if xs = [] then JNull else JArr (map enc xs))"

definition encode_int64 :: "int64 \<Rightarrow> json" where
  "encode_int64 w = JNum (sint w)"

definition encode_ptr :: "('a \<Rightarrow> json) \<Rightarrow> 'a option \<Rightarrow> json" where
  "encode_ptr enc p = (case p of None \<Rightarrow> JNull | Some x \<Rightarrow> enc x)"

section \<open>Round trips of the building blocks\<close>

named_theorems json_defs \<open>decoding and encoding rules\<close>

declare json_field_def [json_defs] fold_equal_def [json_defs] ascii_lower_def [json_defs]

lemma decode_int64_encode [simp]: "decode_int64 (encode_int64 w) = Inr w"
  using sint64_bounds [of w] by (simp add: decode_int64_def encode_int64_def)

lemma decode_string_JStr [simp]: "decode_string (JStr s) = Inr s"
  by (simp add: decode_string_def)

lemma decode_all_map:
  assumes "\<And>x. x \<in> set xs \<Longrightarrow> dec (enc x) = Inr (f x)"
  shows "decode_all dec (map enc xs) = Inr (map f xs)"
  using assms by (induction xs) auto

lemma decode_slice_encode:
  assumes "\<And>x. x \<in> set xs \<Longrightarrow> dec (enc x) = Inr (f x)"
  shows "decode_slice dec (encode_slice enc xs) = Inr (map f xs)"
  using decode_all_map [of xs dec enc f, OF assms]
  by (auto simp: decode_slice_def encode_slice_def)

lemma decode_ptr_encode:
  assumes "\<And>x. p = Some x \<Longrightarrow> enc x \<noteq> JNull \<and> dec (enc x) = Inr (f x)"
  shows "decode_ptr dec (encode_ptr enc p) = Inr (map_option f p)"
  using assms by (cases p) (auto simp: decode_ptr_def encode_ptr_def)

end
