(* ===== verification/Cloud_Events.thy ===== *)
theory Cloud_Events
  imports Go_Json
begin

text \<open>
  The CloudEvents SDK is a third-party package: the sources build events through it and
  read them back, and the model takes its operations as a parameter. \<open>ce_laws\<close> names
  the documented behaviour the sources rely on: data stored by \<open>SetData\<close> as JSON is the
  data of the event, and setting the source leaves it alone.
\<close>

record 'ev ce_api =
  NewEvent :: 'ev
  SetID :: "string \<Rightarrow> 'ev \<Rightarrow> 'ev"
  SetType :: "string \<Rightarrow> 'ev \<Rightarrow> 'ev"
  SetSource :: "string \<Rightarrow> 'ev \<Rightarrow> 'ev"
  SetSubject :: "string \<Rightarrow> 'ev \<Rightarrow> 'ev"
  SetDataContentType :: "string \<Rightarrow> 'ev \<Rightarrow> 'ev"
  SetTime :: "int64 \<Rightarrow> 'ev \<Rightarrow> 'ev"
  SetData :: "string \<Rightarrow> json \<Rightarrow> 'ev \<Rightarrow> string option \<times> 'ev"
  EventData :: "'ev \<Rightarrow> json option"
  MarshalJSON :: "'ev \<Rightarrow> string + string"

text \<open>An event that could not be posted, with the reason (\<^verbatim>\<open>events.CloudEventError\<close>).\<close>

record 'ev CloudEventError =
  cee_event :: 'ev
  cee_error :: string

definition ce_laws :: "'ev ce_api \<Rightarrow> bool" where
  "ce_laws api \<longleftrightarrow>
     (\<forall>j e. fst (SetData api ''application/json'' j e) = None \<and>
        EventData api (snd (SetData api ''application/json'' j e)) = Some j) \<and>
     (\<forall>s e. EventData api (SetSource api s e) = EventData api e)"

text \<open>A concrete event, for the witnesses: the attributes the sources set, and the data.\<close>

record sample_event =
  ev_id :: string
  ev_type :: string
  ev_source :: string
  ev_subject :: string
  ev_contenttype :: string
  ev_time :: int64
  ev_data :: "json option"

definition sample_api :: "sample_event ce_api" where
  "sample_api =
     \<lparr>NewEvent = \<lparr>ev_id = [], ev_type = [], ev_source = [], ev_subject = [], ev_contenttype = [],
        ev_time = 0, ev_data = None\<rparr>,
      SetID = (\<lambda>s e. e\<lparr>ev_id := s\<rparr>), SetType = (\<lambda>s e. e\<lparr>ev_type := s\<rparr>),
      SetSource = (\<lambda>s e. e\<lparr>ev_source := s\<rparr>), SetSubject = (\<lambda>s e. e\<lparr>ev_subject := s\<rparr>),
      SetDataContentType = (\<lambda>s e. e\<lparr>ev_contenttype := s\<rparr>),
      SetTime = (\<lambda>t e. e\<lparr>ev_time := t\<rparr>),
      SetData = (\<lambda>ct j e. (None, e\<lparr>ev_contenttype := ct, ev_data := Some j\<rparr>)),
      EventData = ev_data,
      MarshalJSON = (\<lambda>e. if ev_id e = [] then Inl ''id: MUST be a non-empty string'' else Inr (ev_id e))\<rparr>"

lemma sample_api_laws [simp]: "ce_laws sample_api"
  by (simp add: ce_laws_def sample_api_def)

lemma ce_lawsD:
  assumes "ce_laws api"
  shows "fst (SetData api ''application/json'' j e) = None"
    "EventData api (snd (SetData api ''application/json'' j e)) = Some j"
    "EventData api (SetSource api s e) = EventData api e"
  using assms by (simp_all add: ce_laws_def)

end
