(* ===== verification/Monitor.thy ===== *)
theory Monitor
  imports Counter Cloud_Events
begin

text \<open>
  Model of \<^verbatim>\<open>monitors/monitor.go\<close>: monitors, the payloads their snapshots form,
  the service that collects and posts them, and the background posts it starts.
  Counters and monitors are shared by pointer, so the model keeps a store of counters
  and refers to them by position. A goroutine started by \<open>postEvents\<close> is an entry of
  \<open>jobs\<close>, which is also what the wait group counts.
\<close>

section \<open>Data\<close>

record monitor =
  mon_name :: string
  mon_counters :: "cref list"

type_synonym mref = nat

text \<open>Slices of pointers: an element is nil only if it was decoded from a document.\<close>

record monitorSnapshot =
  ms_name :: string
  ms_counters :: "counterSnapshot option list"

record eventPayload =
  ep_monitors :: "monitorSnapshot option list"

text \<open>
  A goroutine of \<open>postEvents\<close>: it first builds its events from the copied payloads,
  then waits for the sender.
\<close>

datatype 'ev job = Spawned "eventPayload list" | Posting "eventPayload list" "'ev list"

record 'ev monitorService =
  collectInterval :: int64
  collectCount :: int64
  sendCountdown :: int64
  monitors :: "monitor list"
  eventPayloads :: "eventPayload list"
  snapshotTimer :: bool
  counters :: "counter list"
  clock :: nat
  jobs :: "'ev job list"

section \<open>JSON form of a payload\<close>

definition sorted_attribs :: "attribs \<Rightarrow> attribs" where
  "sorted_attribs m = sort_key fst m"

definition encode_attribs :: "attribs \<Rightarrow> json" where
  "encode_attribs m = JObj (map (\<lambda>(k, v). (k, JStr v)) (sorted_attribs m))"

text \<open>
  The field \<open>attribs,omitempty\<close> is left out when the pointer is nil; a pointer to a nil
  map is written as null. The pointer is followed when the document is written.
\<close>

definition attribs_field :: "counter list \<Rightarrow> attribs_ptr \<Rightarrow> (string \<times> json) list" where
  "attribs_field st p = (case p of
      NilAttribs \<Rightarrow> []
    | AttribsOf r \<Rightarrow> (case ctr_attribs (st ! r) of
          None \<Rightarrow> [(''attribs'', JNull)] | Some m \<Rightarrow> [(''attribs'', encode_attribs m)])
    | OwnAttribs m \<Rightarrow> [(''attribs'', encode_attribs m)])"

definition encode_counterSnapshot :: "counter list \<Rightarrow> counterSnapshot \<Rightarrow> json" where
  "encode_counterSnapshot st s =
     JObj ([(''name'', encode_ptr JStr (snap_name s)),
            (''timestamp'', encode_int64 (snap_timestamp s)),
            (''value'', encode_int64 (snap_value s))] @ attribs_field st (snap_attribs s))"

definition encode_monitorSnapshot :: "counter list \<Rightarrow> monitorSnapshot \<Rightarrow> json" where
  "encode_monitorSnapshot st m =
     JObj [(''name'', JStr (ms_name m)),
           (''counters'', encode_slice (encode_ptr (encode_counterSnapshot st)) (ms_counters m))]"

definition encode_eventPayload :: "counter list \<Rightarrow> eventPayload \<Rightarrow> json" where
  "encode_eventPayload st p =
     JObj [(''monitors'', encode_slice (encode_ptr (encode_monitorSnapshot st)) (ep_monitors p))]"

text \<open>Decoding a map stores the entries one after the other into a new map.\<close>

definition build_attribs :: "(string \<times> string) list \<Rightarrow> attribs" where
  "build_attribs kvs = foldl (\<lambda>m (k, v). put_attrib m k v) [] kvs"

definition decode_attribs :: "json \<Rightarrow> json_error + attribs" where
  "decode_attribs j = (case j of
      JObj kvs \<Rightarrow> map_sum id build_attribs
        (decode_all (\<lambda>(k, v). map_sum id (Pair k) (decode_string v)) kvs)
    | _ \<Rightarrow> Inl (UnmarshalTypeError ''map''))"

definition decode_counterSnapshot :: "json \<Rightarrow> json_error + counterSnapshot" where
  "decode_counterSnapshot = decode_object (\<lambda>kvs.
     case decode_ptr decode_string (json_field ''name'' kvs) of Inl e \<Rightarrow> Inl e | Inr n \<Rightarrow>
     (case decode_int64 (json_field ''timestamp'' kvs) of Inl e \<Rightarrow> Inl e | Inr t \<Rightarrow>
     (case decode_int64 (json_field ''value'' kvs) of Inl e \<Rightarrow> Inl e | Inr v \<Rightarrow>
     (case decode_ptr decode_attribs (json_field ''attribs'' kvs) of Inl e \<Rightarrow> Inl e | Inr a \<Rightarrow>
        Inr \<lparr>snap_name = n, snap_timestamp = t, snap_value = v,
             snap_attribs = (case a of None \<Rightarrow> NilAttribs | Some m \<Rightarrow> OwnAttribs m)\<rparr>))))"

definition decode_monitorSnapshot :: "json \<Rightarrow> json_error + monitorSnapshot" where
  "decode_monitorSnapshot = decode_object (\<lambda>kvs.
     case decode_string (json_field ''name'' kvs) of Inl e \<Rightarrow> Inl e | Inr n \<Rightarrow>
     (case decode_slice (decode_ptr decode_counterSnapshot) (json_field ''counters'' kvs) of
        Inl e \<Rightarrow> Inl e | Inr cs \<Rightarrow> Inr \<lparr>ms_name = n, ms_counters = cs\<rparr>))"

definition decode_eventPayload :: "json \<Rightarrow> json_error + eventPayload" where
  "decode_eventPayload = decode_object (\<lambda>kvs.
     case decode_slice (decode_ptr decode_monitorSnapshot) (json_field ''monitors'' kvs) of
        Inl e \<Rightarrow> Inl e | Inr ms \<Rightarrow> Inr \<lparr>ep_monitors = ms\<rparr>)"

section \<open>Service operations\<close>

text \<open>
  \<open>make\<close> with a negative capacity panics; otherwise the service starts with no monitor
  and a countdown of \<open>collectCount - 1\<close>.
\<close>

definition NewMonitorService :: "int64 \<Rightarrow> int64 \<Rightarrow> 'ev monitorService outcome" where
  "NewMonitorService collectCnt collectIntv =
     (if collectCnt <s 0 then Panic ''makeslice: cap out of range''
      else Ret \<lparr>collectInterval = collectIntv, collectCount = collectCnt - 1,
                sendCountdown = collectCnt - 1, monitors = [], eventPayloads = [],
                snapshotTimer = False, counters = [], clock = 0, jobs = []\<rparr>)"

definition NewMonitor :: "string \<Rightarrow> 'ev monitorService \<Rightarrow> mref \<times> 'ev monitorService" where
  "NewMonitor name ms =
     (length (monitors ms), ms\<lparr>monitors := monitors ms @ [\<lparr>mon_name = name, mon_counters = []\<rparr>]\<rparr>)"

text \<open>A new counter is allocated in the store.\<close>

definition alloc_counter :: "counter \<Rightarrow> 'ev monitorService \<Rightarrow> cref \<times> 'ev monitorService" where
  "alloc_counter c ms = (length (counters ms), ms\<lparr>counters := counters ms @ [c]\<rparr>)"

definition update_counter :: "counter_op \<Rightarrow> cref \<Rightarrow> 'ev monitorService \<Rightarrow> 'ev monitorService" where
  "update_counter u r ms = ms\<lparr>counters := (counters ms)[r := apply_op u (counters ms ! r)]\<rparr>"

definition AddCounter :: "mref \<Rightarrow> cref \<Rightarrow> 'ev monitorService \<Rightarrow> 'ev monitorService" where
  "AddCounter m r ms = ms\<lparr>monitors := (monitors ms)
     [m := (monitors ms ! m)\<lparr>mon_counters := mon_counters (monitors ms ! m) @ [r]\<rparr>]\<rparr>"

text \<open>
  The loop of \<open>DeleteCounter\<close> runs \<open>i\<close> downwards; at the first match it shifts the tail
  one to the left and stops. The slice is then cut by one element in any case.
\<close>

fun delete_scan :: "cref list \<Rightarrow> cref \<Rightarrow> nat \<Rightarrow> cref list" where
  "delete_scan cs r 0 = cs"
| "delete_scan cs r (Suc i) =
     (if cs ! i = r then take i cs @ go_copy (drop i cs) (drop (Suc i) cs) else delete_scan cs r i)"

definition delete_cref :: "cref \<Rightarrow> cref list \<Rightarrow> cref list outcome" where
  "delete_cref r cs =
     (if cs = [] then Panic ''slice bounds out of range [:-1]''
      else Ret (take (length cs - 1) (delete_scan cs r (length cs))))"

definition DeleteCounter :: "mref \<Rightarrow> cref \<Rightarrow> 'ev monitorService \<Rightarrow> 'ev monitorService outcome" where
  "DeleteCounter m r ms = (case delete_cref r (mon_counters (monitors ms ! m)) of
      Panic w \<Rightarrow> Panic w
    | Ret cs \<Rightarrow> Ret (ms\<lparr>monitors := (monitors ms)[m := (monitors ms ! m)\<lparr>mon_counters := cs\<rparr>]\<rparr>))"

subsection \<open>Collecting\<close>

text \<open>
  The clock is read once per snapshot taken: \<open>now i\<close> is the \<open>i\<close>-th reading of the
  run. The loops thread the store and the number of readings.
\<close>

fun collect_counters ::
    "(nat \<Rightarrow> int64) \<Rightarrow> cref list \<Rightarrow> counter list \<Rightarrow> nat \<Rightarrow> counterSnapshot list \<times> counter list \<times> nat"
where
  "collect_counters now [] st t = ([], st, t)"
| "collect_counters now (r # rs) st t =
     (let (s, c') = collect (now t) r (st ! r);
          (ss, st', t') = collect_counters now rs (st[r := c']) (if s = None then t else Suc t)
      in ((case s of None \<Rightarrow> ss | Some s \<Rightarrow> s # ss), st', t'))"

fun collect_monitors ::
    "(nat \<Rightarrow> int64) \<Rightarrow> monitor list \<Rightarrow> counter list \<Rightarrow> nat \<Rightarrow>
     monitorSnapshot option list \<times> bool \<times> counter list \<times> nat"
where
  "collect_monitors now [] st t = ([], False, st, t)"
| "collect_monitors now (m # ms) st t =
     (if mon_counters m \<noteq> [] then
        (let (ss, st', t') = collect_counters now (mon_counters m) st t;
             (rest, add, st'', t'') = collect_monitors now ms st' t'
         in (Some \<lparr>ms_name = mon_name m, ms_counters = map Some ss\<rparr> # rest,
             ss \<noteq> [] \<or> add, st'', t''))
      else collect_monitors now ms st t)"

definition collectEvents :: "(nat \<Rightarrow> int64) \<Rightarrow> 'ev monitorService \<Rightarrow> 'ev monitorService" where
  "collectEvents now ms =
     (let (snaps, addPayload, st, t) = collect_monitors now (monitors ms) (counters ms) (clock ms)
      in ms\<lparr>counters := st, clock := t,
            eventPayloads := (if addPayload then eventPayloads ms @ [\<lparr>ep_monitors = snaps\<rparr>]
                              else eventPayloads ms)\<rparr>)"

subsection \<open>Posting\<close>

text \<open>The synchronous part of \<open>postEvents\<close>: the queue moves into a new goroutine.\<close>

definition postEvents :: "'ev monitorService \<Rightarrow> 'ev monitorService" where
  "postEvents ms = ms\<lparr>eventPayloads := [], jobs := jobs ms @ [Spawned (eventPayloads ms)]\<rparr>"

definition collect_tick :: "(nat \<Rightarrow> int64) \<Rightarrow> 'ev monitorService \<Rightarrow> int64 \<times> 'ev monitorService" where
  "collect_tick now ms =
     (let ms1 = collectEvents now ms in
      (collectInterval ms1,
       if sendCountdown ms1 = 0
       then (postEvents ms1)\<lparr>sendCountdown := collectCount ms1\<rparr>
       else ms1\<lparr>sendCountdown := sendCountdown ms1 - 1\<rparr>))"

definition networkMetricEventType :: string where
  "networkMetricEventType = ''io.appbricks.mycs.network.metric''"

text \<open>
  The goroutine builds one event per payload; the identifier and the time are supplied
  by the environment. An error of \<open>SetData\<close> is logged and the event kept.
\<close>

definition build_event ::
    "'ev ce_api \<Rightarrow> string \<Rightarrow> int64 \<Rightarrow> counter list \<Rightarrow> eventPayload \<Rightarrow> 'ev" where
  "build_event api uuid tm st p =
     (let e = NewEvent api; e = SetID api uuid e; e = SetType api networkMetricEventType e;
          e = SetSource api ''urn:mycs'' e; e = SetSubject api ''Application Monitor Snapshot'' e;
          e = SetDataContentType api ''application/json'' e; e = SetTime api tm e
      in snd (SetData api ''application/json'' (encode_eventPayload st p) e))"

definition build_events ::
    "'ev ce_api \<Rightarrow> (nat \<Rightarrow> string) \<Rightarrow> (nat \<Rightarrow> int64) \<Rightarrow> counter list \<Rightarrow> eventPayload list \<Rightarrow> 'ev list"
where
  "build_events api uuid tm st ps =
     map (\<lambda>(i, p). build_event api (uuid i) (tm i) st p) (enumerate 0 ps)"

text \<open>
  Building the events: with nothing to send the goroutine ends, otherwise it calls the
  sender.
\<close>

definition start_post ::
    "'ev ce_api \<Rightarrow> (nat \<Rightarrow> string) \<Rightarrow> (nat \<Rightarrow> int64) \<Rightarrow> nat \<Rightarrow> 'ev monitorService \<Rightarrow> 'ev monitorService"
where
  "start_post api uuid tm i ms = (case jobs ms ! i of
      Posting _ _ \<Rightarrow> ms
    | Spawned ps \<Rightarrow>
        (let evs = build_events api uuid tm (counters ms) ps in
         if evs = [] then ms\<lparr>jobs := take i (jobs ms) @ drop (Suc i) (jobs ms)\<rparr>
         else ms\<lparr>jobs := (jobs ms)[i := Posting ps evs]\<rparr>))"

text \<open>What the sender returns: an error, or the events it could not post.\<close>

datatype 'ev send_result = SendFailed string | Sent "'ev CloudEventError list"

text \<open>An event that failed is decoded again; an event that cannot be decoded is dropped.\<close>

fun repost_list :: "'ev ce_api \<Rightarrow> 'ev CloudEventError list \<Rightarrow> eventPayload list" where
  "repost_list api [] = []"
| "repost_list api (e # es) = (case EventData api (cee_event e) of
      None \<Rightarrow> repost_list api es
    | Some j \<Rightarrow> (case decode_eventPayload j of
          Inl _ \<Rightarrow> repost_list api es
        | Inr p \<Rightarrow> p # repost_list api es))"

definition finish_post ::
    "'ev ce_api \<Rightarrow> nat \<Rightarrow> 'ev send_result \<Rightarrow> 'ev monitorService \<Rightarrow> 'ev monitorService"
where
  "finish_post api i res ms = (case jobs ms ! i of
      Spawned _ \<Rightarrow> ms
    | Posting ps evs \<Rightarrow>
        ms\<lparr>jobs := take i (jobs ms) @ drop (Suc i) (jobs ms),
           eventPayloads := (case res of
              SendFailed _ \<Rightarrow> ps @ eventPayloads ms
            | Sent errs \<Rightarrow> if errs \<noteq> [] then repost_list api errs @ eventPayloads ms
                           else eventPayloads ms)\<rparr>)"

subsection \<open>Start and stop\<close>

definition Start :: "'ev monitorService \<Rightarrow> 'ev monitorService" where
  "Start ms = ms\<lparr>snapshotTimer := True\<rparr>"

text \<open>
  \<open>sendWG.Wait\<close>: the goroutines end one after the other, in some order. One entry of the
  schedule runs one goroutine to its end: its position, its identifiers and times, and
  what the sender answers. Waiting returns once no goroutine is left.
\<close>

type_synonym 'ev completion = "nat \<times> (nat \<Rightarrow> string) \<times> (nat \<Rightarrow> int64) \<times> ('ev list \<Rightarrow> 'ev send_result)"

definition posted_events :: "'ev monitorService \<Rightarrow> nat \<Rightarrow> 'ev list" where
  "posted_events ms i = (case jobs ms ! i of Posting _ evs \<Rightarrow> evs | Spawned _ \<Rightarrow> [])"

definition run_job :: "'ev ce_api \<Rightarrow> 'ev completion \<Rightarrow> 'ev monitorService \<Rightarrow> 'ev monitorService" where
  "run_job api = (\<lambda>(i, uuid, tm, sender) ms.
     let ms1 = start_post api uuid tm i ms in
     if length (jobs ms1) < length (jobs ms) then ms1
     else finish_post api i (sender (posted_events ms1 i)) ms1)"

fun sendWG_Wait :: "'ev ce_api \<Rightarrow> 'ev completion list \<Rightarrow> 'ev monitorService \<Rightarrow> 'ev monitorService option"
where
  "sendWG_Wait api [] ms = (if jobs ms = [] then Some ms else None)"
| "sendWG_Wait api (c # cs) ms =
     (if fst c < length (jobs ms) then sendWG_Wait api cs (run_job api c ms) else None)"

definition Stop ::
    "'ev ce_api \<Rightarrow> (nat \<Rightarrow> int64) \<Rightarrow> 'ev completion list \<Rightarrow> 'ev completion list \<Rightarrow>
     'ev monitorService \<Rightarrow> 'ev monitorService option"
where
  "Stop api now cs1 cs2 ms =
     (case sendWG_Wait api cs1 (ms\<lparr>snapshotTimer := False\<rparr>) of
        None \<Rightarrow> None
      | Some ms1 \<Rightarrow> sendWG_Wait api cs2 (postEvents (collectEvents now ms1)))"

end
