(* ===== verification/Monitor_Props.thy ===== *)
theory Monitor_Props
  imports Monitor
begin

text \<open>
  Correctness of the monitor service: the JSON form of a payload loses no measurement,
  collecting and posting conserve every cumulative counter's total under every
  interleaving of the service with its background posts, the countdown posts at the
  configured rate, and the exact behaviour of \<open>DeleteCounter\<close>.
\<close>

section \<open>Measurements of a payload\<close>

definition snaps_of :: "eventPayload \<Rightarrow> counterSnapshot list" where
  "snaps_of p = concat (map (\<lambda>m. case m of None \<Rightarrow> []
      | Some m \<Rightarrow> List.map_filter id (ms_counters m)) (ep_monitors p))"

definition measurement :: "counterSnapshot \<Rightarrow> string option \<times> int64 \<times> int64" where
  "measurement s = (snap_name s, snap_timestamp s, snap_value s)"

definition measurements :: "eventPayload \<Rightarrow> (string option \<times> int64 \<times> int64) list" where
  "measurements p = map measurement (snaps_of p)"

definition value_of :: "string \<Rightarrow> string option \<times> int64 \<times> int64 \<Rightarrow> int64" where
  "value_of n = (\<lambda>(nm, _, v). if nm = Some n then v else 0)"

definition payload_value :: "string \<Rightarrow> eventPayload \<Rightarrow> int64" where
  "payload_value n p = sum_list (map (value_of n) (measurements p))"

definition event_payload :: "'ev ce_api \<Rightarrow> 'ev \<Rightarrow> eventPayload option" where
  "event_payload api e = (case EventData api e of None \<Rightarrow> None
     | Some j \<Rightarrow> (case decode_eventPayload j of Inl _ \<Rightarrow> None | Inr p \<Rightarrow> Some p))"

definition event_value :: "'ev ce_api \<Rightarrow> string \<Rightarrow> 'ev \<Rightarrow> int64" where
  "event_value api n e = (case event_payload api e of None \<Rightarrow> 0 | Some p \<Rightarrow> payload_value n p)"

section \<open>The JSON codec of payloads\<close>

text \<open>
  The contract of the codec between \<open>postEvents\<close> and a later repost: decoding what was
  encoded gives the payload back, with its pointers resolved, and resolving keeps the
  measurements.
\<close>

locale payload_codec =
  fixes encode :: "'st \<Rightarrow> 'p \<Rightarrow> 'j"
    and decode :: "'j \<Rightarrow> 'e + 'p"
    and resolve :: "'st \<Rightarrow> 'p \<Rightarrow> 'p"
    and content :: "'p \<Rightarrow> 'm"
  assumes decode_encode: "decode (encode st p) = Inr (resolve st p)"
    and content_resolve: "content (resolve st p) = content p"
begin

lemma decode_encode_content: "\<exists>p'. decode (encode st p) = Inr p' \<and> content p' = content p"
  by (simp add: decode_encode content_resolve)

lemma encode_content_inject:
  "encode st p = encode st' p' \<Longrightarrow> content p = content p'"
  by (metis content_resolve decode_encode sum.inject(2))

end

definition resolve_attribs :: "counter list \<Rightarrow> attribs_ptr \<Rightarrow> attribs_ptr" where
  "resolve_attribs st p = (case p of
      NilAttribs \<Rightarrow> NilAttribs
    | AttribsOf r \<Rightarrow> (case ctr_attribs (st ! r) of None \<Rightarrow> NilAttribs
        | Some m \<Rightarrow> OwnAttribs (build_attribs (sorted_attribs m)))
    | OwnAttribs m \<Rightarrow> OwnAttribs (build_attribs (sorted_attribs m)))"

definition resolve_snapshot :: "counter list \<Rightarrow> counterSnapshot \<Rightarrow> counterSnapshot" where
  "resolve_snapshot st s = s\<lparr>snap_attribs := resolve_attribs st (snap_attribs s)\<rparr>"

definition resolve_monitor :: "counter list \<Rightarrow> monitorSnapshot \<Rightarrow> monitorSnapshot" where
  "resolve_monitor st m = m\<lparr>ms_counters := map (map_option (resolve_snapshot st)) (ms_counters m)\<rparr>"

definition resolve_payload :: "counter list \<Rightarrow> eventPayload \<Rightarrow> eventPayload" where
  "resolve_payload st p = p\<lparr>ep_monitors := map (map_option (resolve_monitor st)) (ep_monitors p)\<rparr>"

lemma decode_attribs_encode [simp]:
  "decode_attribs (encode_attribs m) = Inr (build_attribs (sorted_attribs m))"
proof -
  have "decode_all (\<lambda>(k, v). map_sum id (Pair k) (decode_string v)) (map (\<lambda>(k, v). (k, JStr v)) kvs)
      = Inr kvs" for kvs :: attribs
    using decode_all_map [of kvs "\<lambda>(k, v). map_sum id (Pair k) (decode_string v)"
        "\<lambda>(k, v). (k, JStr v)" id] by auto
  then show ?thesis by (simp add: decode_attribs_def encode_attribs_def)
qed

lemma encode_attribs_not_null [simp]: "encode_attribs m \<noteq> JNull"
  by (simp add: encode_attribs_def)

lemma decode_name [simp]: "decode_ptr decode_string (encode_ptr JStr n) = Inr n"
  using decode_ptr_encode [of n JStr decode_string id] by (simp add: option.map_id)

lemma decode_counterSnapshot_encode:
  "decode_counterSnapshot (encode_counterSnapshot st s) = Inr (resolve_snapshot st s)"
  by (cases "snap_attribs s")
    (auto simp: decode_counterSnapshot_def encode_counterSnapshot_def decode_object_def
      attribs_field_def resolve_snapshot_def resolve_attribs_def json_defs decode_ptr_def [of decode_attribs]
      split: option.split)

lemma decode_monitorSnapshot_encode:
  "decode_monitorSnapshot (encode_monitorSnapshot st m) = Inr (resolve_monitor st m)"
proof -
  have "decode_slice (decode_ptr decode_counterSnapshot)
      (encode_slice (encode_ptr (encode_counterSnapshot st)) (ms_counters m)) =
      Inr (map (map_option (resolve_snapshot st)) (ms_counters m))"
    by (intro decode_slice_encode decode_ptr_encode)
      (simp add: decode_counterSnapshot_encode, simp add: encode_counterSnapshot_def)
  then show ?thesis
    by (simp add: decode_monitorSnapshot_def encode_monitorSnapshot_def decode_object_def
        resolve_monitor_def json_defs)
qed

lemma decode_eventPayload_encode:
  "decode_eventPayload (encode_eventPayload st p) = Inr (resolve_payload st p)"
proof -
  have "decode_slice (decode_ptr decode_monitorSnapshot)
      (encode_slice (encode_ptr (encode_monitorSnapshot st)) (ep_monitors p)) =
      Inr (map (map_option (resolve_monitor st)) (ep_monitors p))"
    by (intro decode_slice_encode decode_ptr_encode)
      (simp add: decode_monitorSnapshot_encode, simp add: encode_monitorSnapshot_def)
  then show ?thesis
    by (simp add: decode_eventPayload_def encode_eventPayload_def decode_object_def
        resolve_payload_def json_defs)
qed

lemma map_filter_map_option:
  "List.map_filter id (map (map_option f) xs) = map f (List.map_filter id xs)"
  by (induction xs) (auto simp: List.map_filter_simps split: option.split)

lemma measurements_resolve: "measurements (resolve_payload st p) = measurements p"
proof -
  have "map measurement (case map_option (resolve_monitor st) m of None \<Rightarrow> []
        | Some m \<Rightarrow> List.map_filter id (ms_counters m)) =
      map measurement (case m of None \<Rightarrow> [] | Some m \<Rightarrow> List.map_filter id (ms_counters m))" for m
    by (cases m) (simp_all add: resolve_monitor_def map_filter_map_option measurement_def
        resolve_snapshot_def)
  then show ?thesis
    by (simp add: measurements_def snaps_of_def resolve_payload_def map_concat comp_def)
qed

interpretation json: payload_codec
  encode_eventPayload decode_eventPayload resolve_payload measurements
  by unfold_locales (simp_all add: decode_eventPayload_encode measurements_resolve)

section \<open>Collecting conserves totals\<close>

text \<open>What the counters of a given name have reported so far.\<close>

definition reported_total :: "string \<Rightarrow> counter list \<Rightarrow> int64" where
  "reported_total n st = sum_list (map (\<lambda>c. if ctr_name c = n then cumalativeValue c else 0) st)"

definition reading_total :: "string \<Rightarrow> counter list \<Rightarrow> int64" where
  "reading_total n st = sum_list (map (\<lambda>c. if ctr_name c = n then Get c else 0) st)"

definition all_cumalative :: "string \<Rightarrow> counter list \<Rightarrow> bool" where
  "all_cumalative n st \<longleftrightarrow> list_all (\<lambda>c. ctr_name c = n \<longrightarrow> cumalative c) st"

definition snapshots_value :: "string \<Rightarrow> counterSnapshot list \<Rightarrow> int64" where
  "snapshots_value n ss = sum_list (map (value_of n \<circ> measurement) ss)"

text \<open>What a pass over the store keeps: every field but the two accumulators, and every reading.\<close>

definition same_counters :: "counter list \<Rightarrow> counter list \<Rightarrow> bool" where
  "same_counters st st' \<longleftrightarrow> map ctr_name st' = map ctr_name st \<and>
     map cumalative st' = map cumalative st \<and> map Get st' = map Get st"

lemma same_counters_refl [simp]: "same_counters st st"
  by (simp add: same_counters_def)

lemma same_counters_trans: "same_counters a b \<Longrightarrow> same_counters b c \<Longrightarrow> same_counters a c"
  by (simp add: same_counters_def)

lemma same_counters_length: "same_counters st st' \<Longrightarrow> length st' = length st"
  unfolding same_counters_def by (metis length_map)

lemma same_counters_nth:
  assumes "same_counters st st'" and "r < length st"
  shows "ctr_name (st' ! r) = ctr_name (st ! r)" "cumalative (st' ! r) = cumalative (st ! r)"
    "Get (st' ! r) = Get (st ! r)"
  using assms same_counters_length [OF assms(1)] unfolding same_counters_def
  by (metis nth_map)+

lemma same_counters_update:
  "same_counters st (st[r := snd (collect t r (st ! r))])"
  by (simp add: same_counters_def map_list_update_same)

lemma same_counters_all_cumalative:
  assumes "same_counters st st'"
  shows "all_cumalative n st' = all_cumalative n st"
  using same_counters_nth [OF assms] same_counters_length [OF assms]
  by (simp add: all_cumalative_def list_all_length)

lemma same_counters_reading_total:
  assumes "same_counters st st'"
  shows "reading_total n st' = reading_total n st"
  unfolding reading_total_def
  by (rule arg_cong [where f = sum_list], rule nth_equalityI)
    (simp_all add: same_counters_nth [OF assms] same_counters_length [OF assms])

text \<open>One collection: the reported total grows by what the snapshot reports.\<close>

lemma reported_total_collect:
  assumes "r < length st" and "all_cumalative n st"
  shows "reported_total n (st[r := snd (collect t r (st ! r))]) =
    reported_total n st + (case fst (collect t r (st ! r)) of None \<Rightarrow> 0 | Some s \<Rightarrow> value_of n (measurement s))"
proof (cases "ctr_name (st ! r) = n")
  case True
  with assms have "cumalative (st ! r)" by (auto simp: all_cumalative_def list_all_length)
  from collect_amount [OF this, of t r] True show ?thesis
    by (auto simp: reported_total_def sum_list_update [OF assms(1)] value_of_def measurement_def
        collect_def)
next
  case False
  then show ?thesis
    by (auto simp: reported_total_def sum_list_update [OF assms(1)] value_of_def measurement_def
        collect_def)
qed

lemma collect_counters_conserves:
  assumes "\<forall>r \<in> set rs. r < length st" and "collect_counters now rs st t = (ss, st', t')"
  shows "same_counters st st' \<and>
    (all_cumalative n st \<longrightarrow> reported_total n st' = reported_total n st + snapshots_value n ss)"
  using assms
proof (induction rs arbitrary: st t ss t')
  case Nil
  then show ?case by (simp add: snapshots_value_def)
next
  case (Cons r rs)
  let ?s = "fst (collect (now t) r (st ! r))" and ?st = "st[r := snd (collect (now t) r (st ! r))]"
  let ?t = "if ?s = None then t else Suc t"
  obtain ss1 t1 where rec: "collect_counters now rs ?st ?t = (ss1, st', t1)"
    and ss: "ss = (case ?s of None \<Rightarrow> ss1 | Some s \<Rightarrow> s # ss1)"
    using Cons.prems by (auto simp: Let_def case_prod_beta prod_eq_iff)
  have same: "same_counters st ?st" by (rule same_counters_update)
  have valid: "\<forall>r \<in> set rs. r < length ?st" using Cons.prems by simp
  from Cons.IH [OF valid rec] reported_total_collect [of r st n "now t"] Cons.prems
    same_counters_all_cumalative [OF same] same_counters_trans [OF same]
  show ?case by (auto simp: ss snapshots_value_def split: option.split)
qed

lemma collect_monitors_conserves:
  assumes "\<forall>m \<in> set ms. \<forall>r \<in> set (mon_counters m). r < length st"
    and "collect_monitors now ms st t = (snaps, add, st', t')"
  shows "same_counters st st' \<and>
    (all_cumalative n st \<longrightarrow>
       reported_total n st' = reported_total n st + payload_value n \<lparr>ep_monitors = snaps\<rparr>) \<and>
    (\<not> add \<longrightarrow> payload_value n \<lparr>ep_monitors = snaps\<rparr> = 0)"
  using assms
proof (induction ms arbitrary: st t snaps add t')
  case Nil
  then show ?case by (simp add: payload_value_def measurements_def snaps_of_def)
next
  case (Cons m ms)
  show ?case
  proof (cases "mon_counters m = []")
    case True
    with Cons show ?thesis by simp
  next
    case False
    obtain ss st1 t1 where c: "collect_counters now (mon_counters m) st t = (ss, st1, t1)"
      by (metis prod_cases3)
    obtain rest add1 t2 where rec: "collect_monitors now ms st1 t1 = (rest, add1, st', t2)"
      and out: "snaps = Some \<lparr>ms_name = mon_name m, ms_counters = map Some ss\<rparr> # rest"
        "add = (ss \<noteq> [] \<or> add1)"
      using Cons.prems(2) False c by (auto simp: Let_def case_prod_beta prod_eq_iff)
    have same: "same_counters st st1"
      and conserve: "all_cumalative n st \<longrightarrow>
        reported_total n st1 = reported_total n st + snapshots_value n ss"
      using collect_counters_conserves [OF _ c, of n] Cons.prems(1) by auto
    have "\<forall>m \<in> set ms. \<forall>r \<in> set (mon_counters m). r < length st1"
      using Cons.prems(1) same_counters_length [OF same] by simp
    note IH = Cons.IH [OF this rec]
    have "List.map_filter id (map Some ss) = ss"
      by (simp add: List.map_filter_def comp_def)
    then have "payload_value n \<lparr>ep_monitors = snaps\<rparr> =
        snapshots_value n ss + payload_value n \<lparr>ep_monitors = rest\<rparr>"
      by (simp add: out payload_value_def measurements_def snaps_of_def snapshots_value_def)
    with IH conserve same_counters_all_cumalative [OF same] same_counters_trans [OF same]
    show ?thesis by (auto simp: out snapshots_value_def)
  qed
qed

section \<open>The service as a transition system\<close>

text \<open>
  A state is the service together with the events its sender has accepted. Clients
  create monitors and counters and update them at any time; the timer collects; each
  goroutine builds its events and later gets the sender's answer, at any time after.
  The events a sender reports as failed are among those it was given, each once.
\<close>

inductive service_step ::
    "'ev ce_api \<Rightarrow> (nat \<Rightarrow> int64) \<Rightarrow> 'ev monitorService \<times> 'ev list \<Rightarrow> 'ev monitorService \<times> 'ev list \<Rightarrow> bool"
  for api now
where
  new_monitor: "service_step api now (ms, d) (snd (NewMonitor name ms), d)"
| new_counter: "service_step api now (ms, d)
     (snd (alloc_counter (NewCounterWithAttribs name cum z attrs) ms), d)"
| add_counter: "m < length (monitors ms) \<Longrightarrow> r < length (counters ms) \<Longrightarrow>
     service_step api now (ms, d) (AddCounter m r ms, d)"
| delete_counter: "m < length (monitors ms) \<Longrightarrow> DeleteCounter m r ms = Ret ms' \<Longrightarrow>
     service_step api now (ms, d) (ms', d)"
| update: "r < length (counters ms) \<Longrightarrow> service_step api now (ms, d) (update_counter u r ms, d)"
| timer: "service_step api now (ms, d) (ms\<lparr>snapshotTimer := b\<rparr>, d)"
| tick: "service_step api now (ms, d) (snd (collect_tick now ms), d)"
| flush: "service_step api now (ms, d) (postEvents (collectEvents now ms), d)"
| start: "i < length (jobs ms) \<Longrightarrow> service_step api now (ms, d) (start_post api uuid tm i ms, d)"
| send_failed: "i < length (jobs ms) \<Longrightarrow>
     service_step api now (ms, d) (finish_post api i (SendFailed err) ms, d)"
| sent: "i < length (jobs ms) \<Longrightarrow> jobs ms ! i = Posting ps evs \<Longrightarrow>
     distinct fails \<Longrightarrow> set fails \<subseteq> {..<length evs} \<Longrightarrow>
     service_step api now (ms, d)
       (finish_post api i (Sent (map (\<lambda>k. \<lparr>cee_event = evs ! k, cee_error = err k\<rparr>) fails)) ms,
        d @ map (\<lambda>k. evs ! k) (filter (\<lambda>k. k \<notin> set fails) [0..<length evs]))"

inductive_cases service_stepE: "service_step api now (ms, d) (ms', d')"

definition service_initial :: "'ev monitorService \<times> 'ev list \<Rightarrow> bool" where
  "service_initial s \<longleftrightarrow> (\<exists>cnt intv. NewMonitorService cnt intv = Ret (fst s)) \<and> snd s = []"

text \<open>
  The invariant: counter references are valid, every event being posted carries the
  measurements of its payload, and what the cumulative counters of a name have reported
  is exactly what was accepted, is queued or is on its way.
\<close>

fun job_payloads :: "'ev job \<Rightarrow> eventPayload list" where
  "job_payloads (Spawned ps) = ps"
| "job_payloads (Posting ps _) = ps"

definition carries :: "'ev ce_api \<Rightarrow> eventPayload \<Rightarrow> 'ev \<Rightarrow> bool" where
  "carries api p e \<longleftrightarrow> (\<exists>p'. event_payload api e = Some p' \<and> measurements p' = measurements p)"

fun job_ok :: "'ev ce_api \<Rightarrow> 'ev job \<Rightarrow> bool" where
  "job_ok api (Spawned ps) = True"
| "job_ok api (Posting ps evs) = list_all2 (carries api) ps evs"

definition refs_ok :: "'ev monitorService \<Rightarrow> bool" where
  "refs_ok ms \<longleftrightarrow> (\<forall>m \<in> set (monitors ms). \<forall>r \<in> set (mon_counters m). r < length (counters ms))"

definition pending_value :: "string \<Rightarrow> 'ev monitorService \<Rightarrow> int64" where
  "pending_value n ms = sum_list (map (payload_value n) (eventPayloads ms)) +
     sum_list (map (\<lambda>j. sum_list (map (payload_value n) (job_payloads j))) (jobs ms))"

definition conserved :: "'ev ce_api \<Rightarrow> string \<Rightarrow> 'ev monitorService \<times> 'ev list \<Rightarrow> bool" where
  "conserved api n s \<longleftrightarrow> (all_cumalative n (counters (fst s)) \<longrightarrow>
     reported_total n (counters (fst s)) =
       sum_list (map (event_value api n) (snd s)) + pending_value n (fst s))"

definition service_inv :: "'ev ce_api \<Rightarrow> 'ev monitorService \<times> 'ev list \<Rightarrow> bool" where
  "service_inv api s \<longleftrightarrow> refs_ok (fst s) \<and> (\<forall>j \<in> set (jobs (fst s)). job_ok api j) \<and>
     (\<forall>n. conserved api n s)"

lemma service_initial_inv: "service_initial s \<Longrightarrow> service_inv api s"
  by (cases s) (auto simp: service_initial_def NewMonitorService_def service_inv_def refs_ok_def
      conserved_def pending_value_def reported_total_def split: if_splits)

subsection \<open>Collecting and posting keep the invariant\<close>

lemma collectEvents_frame [simp]:
  "monitors (collectEvents now ms) = monitors ms" "jobs (collectEvents now ms) = jobs ms"
  "sendCountdown (collectEvents now ms) = sendCountdown ms"
  "collectCount (collectEvents now ms) = collectCount ms"
  "collectInterval (collectEvents now ms) = collectInterval ms"
  by (simp_all add: collectEvents_def Let_def case_prod_beta)

lemma collectEvents_conserves:
  assumes "refs_ok ms"
  shows "same_counters (counters ms) (counters (collectEvents now ms)) \<and>
    (all_cumalative n (counters ms) \<longrightarrow>
      reported_total n (counters (collectEvents now ms)) - pending_value n (collectEvents now ms) =
      reported_total n (counters ms) - pending_value n ms)"
proof -
  obtain snaps add st t where c:
    "collect_monitors now (monitors ms) (counters ms) (clock ms) = (snaps, add, st, t)"
    by (metis prod_cases4)
  from collect_monitors_conserves [OF _ c, of n] assms show ?thesis
    by (cases add) (auto simp: refs_ok_def collectEvents_def c pending_value_def)
qed

lemma collectEvents_inv:
  assumes "service_inv api (ms, d)"
  shows "service_inv api (collectEvents now ms, d)"
proof -
  have refs: "refs_ok ms" using assms by (simp add: service_inv_def)
  have same: "same_counters (counters ms) (counters (collectEvents now ms))"
    using collectEvents_conserves [OF refs] by blast
  have "conserved api n (collectEvents now ms, d)" for n
    using assms collectEvents_conserves [OF refs, of now n] same_counters_all_cumalative [OF same, of n]
    by (auto simp: service_inv_def conserved_def algebra_simps)
  then show ?thesis
    using assms same_counters_length [OF same] by (auto simp: service_inv_def refs_ok_def)
qed

lemma postEvents_inv: "service_inv api (ms, d) \<Longrightarrow> service_inv api (postEvents ms, d)"
  by (auto simp: service_inv_def postEvents_def refs_ok_def conserved_def pending_value_def
      algebra_simps)

lemma countdown_inv: "service_inv api (ms\<lparr>sendCountdown := k\<rparr>, d) = service_inv api (ms, d)"
  by (simp add: service_inv_def refs_ok_def conserved_def pending_value_def)

lemma collect_tick_inv: "service_inv api (ms, d) \<Longrightarrow> service_inv api (snd (collect_tick now ms), d)"
  by (simp add: collect_tick_def Let_def countdown_inv collectEvents_inv postEvents_inv)

subsection \<open>Deleting a counter\<close>

text \<open>
  The position the scan of \<open>DeleteCounter\<close> removes: the last occurrence, or the last
  element when the counter does not occur.
\<close>

lemma delete_scan_prefix:
  "r \<notin> set ys \<Longrightarrow> k \<le> length ys \<Longrightarrow>
     delete_scan (xs @ ys) r (length xs + k) = delete_scan (xs @ ys) r (length xs)"
proof (induction k)
  case (Suc k)
  then have "(xs @ ys) ! (length xs + k) \<noteq> r" by (auto simp: nth_append)
  with Suc show ?case by simp
qed simp

lemma delete_cref_found:
  assumes "r \<notin> set ys"
  shows "delete_cref r (xs @ r # ys) = Ret (xs @ ys)"
proof -
  have "delete_scan (xs @ r # ys) r (length (xs @ r # ys)) =
      delete_scan (xs @ r # ys) r (Suc (length xs))"
    using delete_scan_prefix [of r ys "length ys" "xs @ [r]"] assms by simp
  also have "\<dots> = xs @ go_copy (drop (length xs) (xs @ r # ys)) (drop (Suc (length xs)) (xs @ r # ys))"
    by simp
  also have "\<dots> = xs @ ys @ [last (xs @ r # ys)]"
    by (subst go_copy_shift) simp_all
  finally show ?thesis by (simp add: delete_cref_def)
qed

lemma delete_cref_absent:
  assumes "r \<notin> set cs"
  shows "delete_cref r cs = (if cs = [] then Panic ''slice bounds out of range [:-1]'' else Ret (butlast cs))"
  using delete_scan_prefix [of r cs "length cs" "[]"] assms
  by (simp add: delete_cref_def butlast_conv_take)

lemma delete_cref_subset:
  assumes "delete_cref r cs = Ret cs'"
  shows "set cs' \<subseteq> set cs"
proof (cases "r \<in> set cs")
  case True
  then obtain xs ys where "cs = xs @ r # ys" "r \<notin> set ys" by (metis split_list_last)
  with assms delete_cref_found [of r ys xs] show ?thesis by auto
next
  case False
  with assms show ?thesis
    by (auto simp: delete_cref_absent split: if_splits dest: in_set_butlastD)
qed

subsection \<open>Background posts keep the invariant\<close>

lemma event_payload_build:
  assumes "ce_laws api"
  shows "event_payload api (build_event api uuid tm st p) = Some (resolve_payload st p)"
  using ce_lawsD(2) [OF assms]
  by (simp add: event_payload_def build_event_def Let_def json.decode_encode)

lemma build_events_carry:
  assumes "ce_laws api"
  shows "list_all2 (carries api) ps (build_events api uuid tm st ps)"
  by (auto simp: list_all2_conv_all_nth build_events_def nth_enumerate_eq carries_def
      event_payload_build [OF assms] json.content_resolve)

lemma carries_value: "carries api p e \<Longrightarrow> event_value api n e = payload_value n p"
  by (auto simp: carries_def event_value_def payload_value_def)

lemma repost_list_value:
  assumes "\<forall>x \<in> set errs. \<exists>p. carries api p (cee_event x)"
  shows "sum_list (map (payload_value n) (repost_list api errs)) =
    sum_list (map (\<lambda>x. event_value api n (cee_event x)) errs)"
  using assms
  by (induction errs rule: repost_list.induct)
    (auto simp: carries_def event_payload_def event_value_def split: option.splits sum.splits)

lemma build_events_Nil [simp]: "build_events api uuid tm st ps = [] \<longleftrightarrow> ps = []"
  by (simp add: build_events_def enumerate_eq_zip)

lemma start_post_inv:
  assumes "ce_laws api" and "service_inv api (ms, d)" and "i < length (jobs ms)"
  shows "service_inv api (start_post api uuid tm i ms, d)"
proof (cases "jobs ms ! i")
  case (Posting ps evs)
  with assms show ?thesis by (simp add: start_post_def)
next
  case (Spawned ps)
  have rest: "j \<in> set (take i (jobs ms) @ drop (Suc i) (jobs ms)) \<Longrightarrow> j \<in> set (jobs ms)" for j
    by (auto dest: in_set_takeD in_set_dropD)
  show ?thesis
    using assms(2,3) Spawned build_events_carry [OF assms(1), of ps uuid tm "counters ms"] rest
      sum_list_map_remove_index [OF assms(3),
        of "\<lambda>j. sum_list (map (payload_value n) (job_payloads j))" for n]
    by (auto simp: service_inv_def start_post_def Let_def refs_ok_def conserved_def pending_value_def
        sum_list_update dest: set_update_subset_insert [THEN subsetD])
qed

text \<open>The end of a post: its payloads are accepted, requeued, or both in part.\<close>

lemma finish_post_inv:
  assumes inv: "service_inv api (ms, d)" and i: "i < length (jobs ms)"
    and job: "jobs ms ! i = Posting ps evs"
    and vals: "\<And>n. sum_list (map (event_value api n) acc) +
        sum_list (map (payload_value n) (case res of SendFailed _ \<Rightarrow> ps | Sent errs \<Rightarrow> repost_list api errs)) =
        sum_list (map (payload_value n) ps)"
  shows "service_inv api (finish_post api i res ms, d @ acc)"
proof -
  have rest: "j \<in> set (take i (jobs ms) @ drop (Suc i) (jobs ms)) \<Longrightarrow> j \<in> set (jobs ms)" for j
    by (auto dest: in_set_takeD in_set_dropD)
  have jobs_value: "sum_list (map (\<lambda>j. sum_list (map (payload_value n) (job_payloads j)))
      (take i (jobs ms) @ drop (Suc i) (jobs ms))) =
      sum_list (map (\<lambda>j. sum_list (map (payload_value n) (job_payloads j))) (jobs ms)) -
      sum_list (map (payload_value n) ps)" for n
    using sum_list_map_remove_index [OF i,
        of "\<lambda>j. sum_list (map (payload_value n) (job_payloads j))"] job by simp
  have pending: "pending_value n (finish_post api i res ms) =
      sum_list (map (payload_value n) (case res of SendFailed _ \<Rightarrow> ps | Sent errs \<Rightarrow> repost_list api errs))
      + pending_value n ms - sum_list (map (payload_value n) ps)" for n
    using jobs_value [of n]
    by (cases res) (auto simp: finish_post_def job pending_value_def algebra_simps)
  have "counters (finish_post api i res ms) = counters ms"
    by (simp add: finish_post_def job)
  then have "conserved api n (finish_post api i res ms, d @ acc)" for n
    using inv by (simp add: service_inv_def conserved_def pending vals [symmetric] algebra_simps)
  then show ?thesis
    using inv rest by (auto simp: service_inv_def finish_post_def job refs_ok_def)
qed

lemma sent_value:
  assumes "list_all2 (carries api) ps evs" and "distinct fails" and "set fails \<subseteq> {..<length evs}"
  shows "sum_list (map (event_value api n) (map (\<lambda>k. evs ! k) (filter (\<lambda>k. k \<notin> set fails) [0..<length evs]))) +
    sum_list (map (payload_value n) (repost_list api (map (\<lambda>k. \<lparr>cee_event = evs ! k, cee_error = err k\<rparr>) fails))) =
    sum_list (map (payload_value n) ps)"
proof -
  have carried: "k < length evs \<Longrightarrow> carries api (ps ! k) (evs ! k)" for k
    using assms(1) by (auto simp: list_all2_conv_all_nth)
  have "sum_list (map (payload_value n) ps) = sum_list (map (event_value api n) evs)"
    using assms(1) by (induction rule: list_all2_induct) (simp_all add: carries_value)
  moreover have "sum_list (map (payload_value n) (repost_list api (map (\<lambda>k. \<lparr>cee_event = evs ! k, cee_error = err k\<rparr>) fails))) =
      sum_list (map (\<lambda>k. event_value api n (evs ! k)) fails)"
    using assms(3) carried by (subst repost_list_value) (auto simp: comp_def)
  ultimately show ?thesis
    using sum_list_partition_indices [OF assms(2,3), of "event_value api n"]
    by (simp add: comp_def add.commute)
qed

lemma finish_spawned [simp]: "jobs ms ! i = Spawned ps \<Longrightarrow> finish_post api i res ms = ms"
  by (simp add: finish_post_def)

lemma reported_total_update:
  "reported_total n (st[r := apply_op u (st ! r)]) = reported_total n st"
  unfolding reported_total_def by (rule arg_cong [where f = sum_list], rule map_list_update_same) simp

lemma all_cumalative_update: "all_cumalative n (st[r := apply_op u (st ! r)]) = all_cumalative n st"
  by (cases "r < length st")
    (auto simp: all_cumalative_def list_all_length nth_list_update list_update_beyond)

text \<open>Replacing a monitor's counters by valid references keeps the invariant.\<close>

lemma set_monitor_inv:
  assumes "service_inv api (ms, d)" and "\<forall>r \<in> set cs. r < length (counters ms)"
  shows "service_inv api (ms\<lparr>monitors := (monitors ms)[m := (monitors ms ! m)\<lparr>mon_counters := cs\<rparr>]\<rparr>, d)"
  using assms set_update_subset_insert [of "monitors ms" m "(monitors ms ! m)\<lparr>mon_counters := cs\<rparr>"]
  by (auto simp: service_inv_def refs_ok_def conserved_def pending_value_def)

lemma service_step_inv:
  assumes "ce_laws api" and "service_inv api s" and "service_step api now s s'"
  shows "service_inv api s'"
  using assms(3,2)
proof (induction rule: service_step.induct)
  case (new_monitor ms d name)
  then show ?case
    by (auto simp: service_inv_def NewMonitor_def refs_ok_def conserved_def pending_value_def)
next
  case (new_counter ms d name cum z attrs)
  then show ?case
    by (auto simp: service_inv_def alloc_counter_def refs_ok_def conserved_def pending_value_def
        all_cumalative_def reported_total_def NewCounterWithAttribs_def less_SucI)
next
  case (add_counter m ms r d)
  then have "\<forall>r' \<in> set (mon_counters (monitors ms ! m) @ [r]). r' < length (counters ms)"
    by (auto simp: service_inv_def refs_ok_def)
  with add_counter.prems show ?case unfolding AddCounter_def by (rule set_monitor_inv)
next
  case (delete_counter m ms r ms' d)
  from delete_counter.hyps(2) obtain cs where
      cs: "delete_cref r (mon_counters (monitors ms ! m)) = Ret cs"
    and ms': "ms' = ms\<lparr>monitors := (monitors ms)[m := (monitors ms ! m)\<lparr>mon_counters := cs\<rparr>]\<rparr>"
    by (auto simp: DeleteCounter_def split: outcome.splits)
  from delete_cref_subset [OF cs] delete_counter.prems nth_mem [OF delete_counter.hyps(1)]
  have "\<forall>r \<in> set cs. r < length (counters ms)"
    by (auto simp: service_inv_def refs_ok_def)
  with delete_counter.prems show ?case unfolding ms' by (rule set_monitor_inv)
next
  case (update r ms d u)
  then show ?case
    by (auto simp: service_inv_def update_counter_def refs_ok_def conserved_def pending_value_def
        reported_total_update all_cumalative_update)
next
  case (timer ms d b)
  then show ?case by (simp add: service_inv_def refs_ok_def conserved_def pending_value_def)
next
  case (tick ms d)
  then show ?case by (rule collect_tick_inv)
next
  case (flush ms d)
  then show ?case by (intro postEvents_inv collectEvents_inv)
next
  case (start i ms d uuid tm)
  then show ?case by (intro start_post_inv assms(1))
next
  case (send_failed i ms d err)
  show ?case
  proof (cases "jobs ms ! i")
    case (Posting ps evs)
    from finish_post_inv [OF send_failed(2,1) this, of "[]" "SendFailed err"] show ?thesis by simp
  qed (use send_failed in simp)
next
  case (sent i ms ps evs fails d err)
  have "job_ok api (jobs ms ! i)"
    using sent.prems sent.hyps(1) by (simp add: service_inv_def)
  then have "list_all2 (carries api) ps evs" using sent.hyps(2) by simp
  from finish_post_inv [OF sent.prems sent.hyps(1,2)] sent_value [OF this sent.hyps(3,4)]
  show ?case by simp
qed

definition lawful_step ::
    "'ev ce_api \<Rightarrow> (nat \<Rightarrow> int64) \<Rightarrow> 'ev monitorService \<times> 'ev list \<Rightarrow> 'ev monitorService \<times> 'ev list \<Rightarrow> bool"
where
  "lawful_step api now s t \<longleftrightarrow> ce_laws api \<and> service_step api now s t"

interpretation svc: transition_system service_initial "lawful_step api now" "service_inv api" for api now
  by unfold_locales (auto simp: lawful_step_def intro: service_initial_inv service_step_inv)

lemma lawful_step_eq: "ce_laws api \<Longrightarrow> lawful_step api now = service_step api now"
  by (intro ext) (simp add: lawful_step_def)

lemma service_run_inv:
  assumes "ce_laws api" and "service_initial s" and "(service_step api now)\<^sup>*\<^sup>* s t"
  shows "service_inv api t"
  using svc.reachable_invariant [OF assms(2), of api now t] assms(1,3) by (simp add: lawful_step_eq)

section \<open>Stopping the service\<close>

text \<open>A sender that answers with an error or with some of the events it was given.\<close>

definition honest_sender :: "('ev list \<Rightarrow> 'ev send_result) \<Rightarrow> bool" where
  "honest_sender sender \<longleftrightarrow> (\<forall>evs. (\<exists>e. sender evs = SendFailed e) \<or>
     (\<exists>fails err. distinct fails \<and> set fails \<subseteq> {..<length evs} \<and>
        sender evs = Sent (map (\<lambda>k. \<lparr>cee_event = evs ! k, cee_error = err k\<rparr>) fails)))"

lemma honest_accept_all [simp]: "honest_sender (\<lambda>_. Sent [])"
  unfolding honest_sender_def by (metis distinct.simps(1) empty_set empty_subsetI list.simps(8))

lemma start_post_cases:
  assumes "i < length (jobs ms)" and "ms1 = start_post api uuid tm i ms"
  obtains "length (jobs ms1) < length (jobs ms)"
  | ps evs where "length (jobs ms1) = length (jobs ms)" "jobs ms1 ! i = Posting ps evs"
  using assms by (cases "jobs ms ! i") (auto simp: start_post_def Let_def split: if_splits)

lemma run_job_steps:
  assumes "fst c < length (jobs ms)" and "honest_sender (snd (snd (snd c)))"
  shows "\<exists>d'. (service_step api now)\<^sup>*\<^sup>* (ms, d) (run_job api c ms, d @ d')"
proof -
  obtain i uuid tm sender where c: "c = (i, uuid, tm, sender)" by (metis prod_cases4)
  have i: "i < length (jobs ms)" and honest: "honest_sender sender" using assms c by auto
  let ?ms1 = "start_post api uuid tm i ms"
  have first: "service_step api now (ms, d) (?ms1, d)" by (rule service_step.start [OF i])
  show ?thesis
  proof (rule start_post_cases [OF i refl, of api uuid tm])
    assume "length (jobs ?ms1) < length (jobs ms)"
    then have "run_job api c ms = ?ms1" by (simp add: run_job_def c Let_def)
    then show ?thesis using first by (intro exI [of _ "[]"]) auto
  next
    fix ps evs assume job: "length (jobs ?ms1) = length (jobs ms)" "jobs ?ms1 ! i = Posting ps evs"
    then have i1: "i < length (jobs ?ms1)"
      and run: "run_job api c ms = finish_post api i (sender evs) ?ms1"
      using i by (simp_all add: run_job_def c Let_def posted_events_def)
    from honest consider e where "sender evs = SendFailed e" |
      fails err where "distinct fails" "set fails \<subseteq> {..<length evs}"
        "sender evs = Sent (map (\<lambda>k. \<lparr>cee_event = evs ! k, cee_error = err k\<rparr>) fails)"
      unfolding honest_sender_def by blast
    then have "\<exists>d'. service_step api now (?ms1, d) (run_job api c ms, d @ d')"
    proof cases
      case 1
      then show ?thesis using service_step.send_failed [OF i1, of api now d e]
        by (intro exI [of _ "[]"]) (simp add: run)
    next
      case 2
      then show ?thesis using service_step.sent [OF i1 job(2) 2(1,2), of api now d err]
        by (auto simp: run)
    qed
    with first show ?thesis by (meson converse_rtranclp_into_rtranclp r_into_rtranclp)
  qed
qed

lemma sendWG_Wait_steps:
  assumes "sendWG_Wait api cs ms = Some ms'" and "\<forall>c \<in> set cs. honest_sender (snd (snd (snd c)))"
  shows "jobs ms' = [] \<and> (\<exists>d'. (service_step api now)\<^sup>*\<^sup>* (ms, d) (ms', d @ d'))"
  using assms
proof (induction cs arbitrary: ms d)
  case Nil
  then have "ms' = ms" "jobs ms = []" by (auto split: if_splits)
  then show ?case by (auto intro!: exI [of _ "[]"])
next
  case (Cons c cs)
  then have c: "fst c < length (jobs ms)" and rec: "sendWG_Wait api cs (run_job api c ms) = Some ms'"
    by (auto split: if_splits)
  from run_job_steps [OF c, of api now d] Cons.prems(2)
  obtain d1 where "(service_step api now)\<^sup>*\<^sup>* (ms, d) (run_job api c ms, d @ d1)" by auto
  moreover from Cons.IH [OF rec, of "d @ d1"] Cons.prems(2) obtain d2 where
    "(service_step api now)\<^sup>*\<^sup>* (run_job api c ms, d @ d1) (ms', (d @ d1) @ d2)" and "jobs ms' = []"
    by auto
  ultimately show ?case by (metis append_assoc rtranclp_trans)
qed

lemma collect_flushed:
  "cumalative c \<Longrightarrow> ctr_value (snd (collect t r c)) = 0"
  by (auto simp: collect_def)

lemma collect_counters_flushed:
  assumes "\<forall>r \<in> set rs. r < length st" and "collect_counters now rs st t = (ss, st', t')"
    and "k < length st" and "cumalative (st ! k)" and "k \<in> set rs \<or> ctr_value (st ! k) = 0"
  shows "ctr_value (st' ! k) = 0"
  using assms
proof (induction rs arbitrary: st t ss t')
  case (Cons r rs)
  let ?s = "fst (collect (now t) r (st ! r))" and ?st = "st[r := snd (collect (now t) r (st ! r))]"
  obtain ss1 t1 where rec: "collect_counters now rs ?st (if ?s = None then t else Suc t) = (ss1, st', t1)"
    using Cons.prems by (auto simp: Let_def case_prod_beta prod_eq_iff)
  have "cumalative (?st ! k)" "k \<in> set rs \<or> ctr_value (?st ! k) = 0"
    using Cons.prems by (auto simp: nth_list_update collect_flushed)
  then show ?case using Cons.IH [OF _ rec] Cons.prems by simp
qed simp

lemma collect_monitors_flushed:
  assumes "\<forall>m \<in> set ms. \<forall>r \<in> set (mon_counters m). r < length st"
    and "collect_monitors now ms st t = (snaps, add, st', t')"
    and "k < length st" and "cumalative (st ! k)"
    and "(\<exists>m \<in> set ms. k \<in> set (mon_counters m)) \<or> ctr_value (st ! k) = 0"
  shows "ctr_value (st' ! k) = 0"
  using assms
proof (induction ms arbitrary: st t snaps add t')
  case (Cons m ms)
  show ?case
  proof (cases "mon_counters m = []")
    case False
    obtain ss st1 t1 where c: "collect_counters now (mon_counters m) st t = (ss, st1, t1)"
      by (metis prod_cases3)
    obtain rest add1 t2 where rec: "collect_monitors now ms st1 t1 = (rest, add1, st', t2)"
      using Cons.prems(2) False c by (auto simp: Let_def case_prod_beta prod_eq_iff)
    have valid: "\<forall>r \<in> set (mon_counters m). r < length st" using Cons.prems(1) by simp
    have same: "same_counters st st1" using collect_counters_conserves [OF valid c] by blast
    note flushed = collect_counters_flushed [OF valid c Cons.prems(3,4)]
    show ?thesis
      using Cons.IH [OF _ rec] flushed Cons.prems same_counters_length [OF same]
        same_counters_nth [OF same Cons.prems(3)] by auto
  qed (use Cons in auto)
qed simp

definition registered :: "string \<Rightarrow> 'ev monitorService \<Rightarrow> bool" where
  "registered n ms \<longleftrightarrow> (\<forall>r < length (counters ms). ctr_name (counters ms ! r) = n \<longrightarrow>
     (\<exists>m \<in> set (monitors ms). r \<in> set (mon_counters m)))"

lemma collectEvents_flushes:
  assumes "refs_ok ms" and "all_cumalative n (counters ms)" and "registered n ms"
  shows "reported_total n (counters (collectEvents now ms)) = reading_total n (counters ms)"
proof -
  let ?st' = "counters (collectEvents now ms)"
  obtain snaps add st t where c:
    "collect_monitors now (monitors ms) (counters ms) (clock ms) = (snaps, add, st, t)"
    by (metis prod_cases4)
  have st: "?st' = st" by (simp add: collectEvents_def c)
  have same: "same_counters (counters ms) st"
    using collectEvents_conserves [OF assms(1), of now n] st by simp
  have "ctr_value (st ! k) = 0" if "k < length (counters ms)" "ctr_name (counters ms ! k) = n" for k
    using collect_monitors_flushed [OF _ c that(1)] assms that
    by (auto simp: refs_ok_def all_cumalative_def list_all_length registered_def)
  then have "reported_total n st = reading_total n st"
    unfolding reported_total_def reading_total_def
    using same_counters_nth [OF same] same_counters_length [OF same]
    by (intro arg_cong [where f = sum_list] nth_equalityI) (auto simp: Get_def)
  then show ?thesis using same_counters_reading_total [OF same] st by simp
qed

lemma run_job_frame [simp]:
  "counters (run_job api c ms) = counters ms" "monitors (run_job api c ms) = monitors ms"
proof -
  have start: "counters (start_post api u t i ms) = counters ms" "monitors (start_post api u t i ms) = monitors ms"
    for u t i ms by (auto simp: start_post_def Let_def split: job.split)
  have fin: "counters (finish_post api i r ms) = counters ms" "monitors (finish_post api i r ms) = monitors ms"
    for i r ms by (auto simp: finish_post_def split: job.split)
  show "counters (run_job api c ms) = counters ms" "monitors (run_job api c ms) = monitors ms"
    by (auto simp: run_job_def Let_def case_prod_beta start fin)
qed

lemma sendWG_Wait_frame:
  "sendWG_Wait api cs ms = Some ms' \<Longrightarrow> counters ms' = counters ms \<and> monitors ms' = monitors ms"
  by (induction cs arbitrary: ms) (auto split: if_splits)

lemma accept_last_post:
  assumes "jobs ms = []" and "sendWG_Wait api [(0, uuid, tm, \<lambda>_. Sent [])] (postEvents ms) = Some ms'"
  shows "eventPayloads ms' = []"
  using assms
  by (auto simp: run_job_def postEvents_def start_post_def finish_post_def Let_def split: if_splits)

section \<open>Properties\<close>

definition uncollected_total :: "string \<Rightarrow> counter list \<Rightarrow> int64" where
  "uncollected_total n st = sum_list (map (\<lambda>c. if ctr_name c = n then ctr_value c else 0) st)"

lemma reading_split: "reading_total n st = reported_total n st + uncollected_total n st"
  by (induction st) (auto simp: reading_total_def reported_total_def uncollected_total_def Get_def algebra_simps)

text \<open>A short run for the witnesses: one cumulative counter, one collection, one post.\<close>

definition demo_new :: "sample_event monitorService" where
  "demo_new = (case NewMonitorService 1 1000 of Ret ms \<Rightarrow> ms)"

definition demo_counted :: "sample_event monitorService" where
  "demo_counted = update_counter (OpSet 7) 0 (AddCounter 0 0
     (snd (alloc_counter (NewCounterWithAttribs ''sent'' True True None) (snd (NewMonitor ''space-vpn'' demo_new)))))"

definition demo_posted :: "sample_event monitorService" where
  "demo_posted = update_counter (OpSet 9) 0 (snd (collect_tick (\<lambda>_. 5000000) demo_counted))"

lemma demo_new_Ret: "NewMonitorService 1 1000 = Ret demo_new"
  and demo_new_eq: "demo_new = \<lparr>collectInterval = 1000, collectCount = 0, sendCountdown = 0,
    monitors = [], eventPayloads = [], snapshotTimer = False, counters = [], clock = 0, jobs = []\<rparr>"
  by (simp_all add: demo_new_def NewMonitorService_def word_sless_alt)

lemma demo_initial: "service_initial (demo_new, [])"
  unfolding service_initial_def using demo_new_Ret by auto

lemma demo_counted_eq: "demo_counted = \<lparr>collectInterval = 1000, collectCount = 0, sendCountdown = 0,
    monitors = [\<lparr>mon_name = ''space-vpn'', mon_counters = [0]\<rparr>], eventPayloads = [],
    snapshotTimer = False,
    counters = [\<lparr>ctr_name = ''sent'', ctr_attribs = None, cumalative = True,
      ignoreZeroSnapshots = True, incBy = 1, ctr_value = 7, cumalativeValue = 0\<rparr>],
    clock = 0, jobs = []\<rparr>"
  by (simp add: demo_counted_def demo_new_eq NewMonitor_def alloc_counter_def AddCounter_def
      update_counter_def counter_defs)

lemma demo_posted_counters: "counters demo_posted =
    [\<lparr>ctr_name = ''sent'', ctr_attribs = None, cumalative = True, ignoreZeroSnapshots = True,
      incBy = 1, ctr_value = 2, cumalativeValue = 7\<rparr>]"
  by (simp add: demo_posted_def demo_counted_eq collect_tick_def collectEvents_def postEvents_def
      update_counter_def counter_defs)

lemma demo_counted_reachable: "(service_step sample_api (\<lambda>_. 5000000))\<^sup>*\<^sup>* (demo_new, []) (demo_counted, [])"
proof -
  let ?step = "service_step sample_api (\<lambda>_. 5000000)"
  let ?m1 = "snd (NewMonitor ''space-vpn'' demo_new)"
  let ?m2 = "snd (alloc_counter (NewCounterWithAttribs ''sent'' True True None) ?m1)"
  have "?step (demo_new, []) (?m1, [])" by (rule service_step.new_monitor)
  moreover have "?step (?m1, []) (?m2, [])" by (rule service_step.new_counter)
  moreover have "?step (?m2, []) (AddCounter 0 0 ?m2, [])"
    by (rule service_step.add_counter) (simp_all add: NewMonitor_def alloc_counter_def)
  moreover have "?step (AddCounter 0 0 ?m2, []) (demo_counted, [])"
    unfolding demo_counted_def
    by (rule service_step.update) (simp add: NewMonitor_def alloc_counter_def AddCounter_def)
  ultimately show ?thesis by (meson converse_rtranclp_into_rtranclp rtranclp.rtrancl_refl)
qed

lemma demo_posted_reachable: "(service_step sample_api (\<lambda>_. 5000000))\<^sup>*\<^sup>* (demo_new, []) (demo_posted, [])"
proof -
  let ?step = "service_step sample_api (\<lambda>_. 5000000)"
  have "?step (demo_counted, []) (snd (collect_tick (\<lambda>_. 5000000) demo_counted), [])"
    by (rule service_step.tick)
  moreover have "?step (snd (collect_tick (\<lambda>_. 5000000) demo_counted), []) (demo_posted, [])"
    unfolding demo_posted_def
    by (rule service_step.update)
      (simp add: demo_counted_eq collect_tick_def collectEvents_def postEvents_def counter_defs)
  ultimately show ?thesis using demo_counted_reachable by (meson rtranclp.rtrancl_into_rtrancl)
qed

text \<open>
  C1: No measurement is lost or counted twice, whatever the interleaving. In every
  reachable state of the service, with any number of posts in flight and any mixture of
  failed, partly failed and successful posts, the readings of the cumulative counters of
  a name are exactly the values in the events the sender accepted, plus those queued or
  being posted, plus those not collected yet.
\<close>

theorem measurements_conserved:
  assumes "ce_laws api" and "service_initial s" and "(service_step api now)\<^sup>*\<^sup>* s (ms, d)"
    and "all_cumalative n (counters ms)"
  shows "reading_total n (counters ms) =
    sum_list (map (event_value api n) d) + pending_value n ms + uncollected_total n (counters ms)"
  using service_run_inv [OF assms(1-3)] assms(4)
  by (simp add: service_inv_def conserved_def reading_split)

theorem measurements_conserved_witness:
  "reading_total ''sent'' (counters demo_posted) = 9 \<and> pending_value ''sent'' demo_posted = 7 \<and>
   uncollected_total ''sent'' (counters demo_posted) = 2 \<and>
   reading_total ''sent'' (counters demo_posted) =
     sum_list (map (event_value sample_api ''sent'') []) + pending_value ''sent'' demo_posted +
     uncollected_total ''sent'' (counters demo_posted)"
proof -
  have cum: "all_cumalative ''sent'' (counters demo_posted)"
    by (simp add: demo_posted_counters all_cumalative_def)
  have vals: "uncollected_total ''sent'' (counters demo_posted) = 2"
    "reading_total ''sent'' (counters demo_posted) = 9"
    by (simp_all add: demo_posted_counters uncollected_total_def reading_total_def Get_def)
  show ?thesis
    using measurements_conserved [OF sample_api_laws demo_initial demo_posted_reachable cum] vals
    by (simp add: algebra_simps)
qed

text \<open>What \<open>Stop\<close> does, as a run of the transition system.\<close>

lemma Stop_runs:
  assumes stop: "Stop api now cs [(0, uuid, tm, \<lambda>_. Sent [])] ms = Some ms'"
    and honest: "\<forall>c \<in> set cs. honest_sender (snd (snd (snd c)))"
  obtains ms1 d1 d2 where
    "(service_step api now)\<^sup>*\<^sup>* (ms, d) (ms1, d @ d1)" "counters ms1 = counters ms" "monitors ms1 = monitors ms"
    "(service_step api now)\<^sup>*\<^sup>* (ms, d) (ms', d @ d2)" "counters ms' = counters (collectEvents now ms1)"
    "eventPayloads ms' = []" "jobs ms' = []"
proof -
  let ?ms0 = "ms\<lparr>snapshotTimer := False\<rparr>"
  from stop obtain ms1 where wait1: "sendWG_Wait api cs ?ms0 = Some ms1"
    and wait2: "sendWG_Wait api [(0, uuid, tm, \<lambda>_. Sent [])] (postEvents (collectEvents now ms1)) = Some ms'"
    by (auto simp: Stop_def split: option.splits)
  have stop0: "service_step api now (ms, d) (?ms0, d)" by (rule service_step.timer)
  from sendWG_Wait_steps [OF wait1 honest, of now d] obtain d1
    where run1: "(service_step api now)\<^sup>*\<^sup>* (?ms0, d) (ms1, d @ d1)" and idle: "jobs ms1 = []" by blast
  have until1: "(service_step api now)\<^sup>*\<^sup>* (ms, d) (ms1, d @ d1)"
    using stop0 run1 by (rule converse_rtranclp_into_rtranclp)
  from sendWG_Wait_steps [OF wait2, of now "d @ d1"] obtain d2
    where run2: "(service_step api now)\<^sup>*\<^sup>* (postEvents (collectEvents now ms1), d @ d1) (ms', (d @ d1) @ d2)"
      and idle': "jobs ms' = []" by auto
  have "service_step api now (ms1, d @ d1) (postEvents (collectEvents now ms1), d @ d1)"
    by (rule service_step.flush)
  with until1 run2 have "(service_step api now)\<^sup>*\<^sup>* (ms, d) (ms', d @ (d1 @ d2))"
    by (metis append_assoc rtranclp.rtrancl_into_rtrancl rtranclp_trans)
  moreover have "eventPayloads ms' = []"
    using accept_last_post [of "collectEvents now ms1", OF _ wait2] idle by simp
  ultimately show thesis
    using that [OF until1] sendWG_Wait_frame [OF wait1] sendWG_Wait_frame [OF wait2] idle'
    by (simp add: postEvents_def)
qed

text \<open>
  C6: \<open>Stop\<close> delivers everything. When it returns and its last post was accepted, the
  accepted events hold the complete readings of every registered cumulative counter,
  nothing is left in the queue and no post is running; earlier posts may have failed in
  any way, since their payloads were put back.
\<close>

theorem Stop_delivers_everything:
  assumes laws: "ce_laws api" and init: "service_initial s"
    and run: "(service_step api now)\<^sup>*\<^sup>* s (ms, d)"
    and stop: "Stop api now cs [(0, uuid, tm, \<lambda>_. Sent [])] ms = Some ms'"
    and honest: "\<forall>c \<in> set cs. honest_sender (snd (snd (snd c)))"
    and n: "all_cumalative n (counters ms)" "registered n ms"
  shows "\<exists>d'. (service_step api now)\<^sup>*\<^sup>* (ms, d) (ms', d @ d') \<and>
    sum_list (map (event_value api n) (d @ d')) = reading_total n (counters ms) \<and>
    eventPayloads ms' = [] \<and> jobs ms' = []"
proof -
  from Stop_runs [OF stop honest, of d] obtain ms1 d1 d2 where
    run1: "(service_step api now)\<^sup>*\<^sup>* (ms, d) (ms1, d @ d1)"
    and same1: "counters ms1 = counters ms" "monitors ms1 = monitors ms"
    and run2: "(service_step api now)\<^sup>*\<^sup>* (ms, d) (ms', d @ d2)"
    and same2: "counters ms' = counters (collectEvents now ms1)"
    and idle: "eventPayloads ms' = []" "jobs ms' = []" by metis
  have inv1: "service_inv api (ms1, d @ d1)" and inv2: "service_inv api (ms', d @ d2)"
    using service_run_inv [OF laws init] rtranclp_trans [OF run] run1 run2 by blast+
  have refs1: "refs_ok ms1" using inv1 by (simp add: service_inv_def)
  have cum1: "all_cumalative n (counters ms1)" "registered n ms1"
    using n same1 by (simp_all add: registered_def)
  have "all_cumalative n (counters ms')"
    using same_counters_all_cumalative [OF collectEvents_conserves [OF refs1, THEN conjunct1]] cum1(1)
    by (simp add: same2)
  with inv2 have "reported_total n (counters ms') = sum_list (map (event_value api n) (d @ d2))"
    by (simp add: service_inv_def conserved_def pending_value_def idle)
  moreover have "reported_total n (counters ms') = reading_total n (counters ms)"
    unfolding same2 using collectEvents_flushes [OF refs1 cum1, of now] same1 by simp
  ultimately show ?thesis using run2 idle by (intro exI [of _ d2]) simp
qed

theorem Stop_delivers_everything_witness:
  "\<exists>ms' d'. Stop sample_api (\<lambda>_. 5000000) [] [(0, \<lambda>_. ''id'', \<lambda>_. 0, \<lambda>_. Sent [])] demo_counted = Some ms' \<and>
     sum_list (map (event_value sample_api ''sent'') d') = 7 \<and> eventPayloads ms' = [] \<and> jobs ms' = []"
proof -
  have "\<exists>ms'. Stop sample_api (\<lambda>_. 5000000) [] [(0, \<lambda>_. ''id'', \<lambda>_. 0, \<lambda>_. Sent [])] demo_counted = Some ms'"
    by (simp add: Stop_def demo_counted_eq collectEvents_def postEvents_def run_job_def start_post_def
        finish_post_def Let_def counter_defs)
  then obtain ms' where stop:
    "Stop sample_api (\<lambda>_. 5000000) [] [(0, \<lambda>_. ''id'', \<lambda>_. 0, \<lambda>_. Sent [])] demo_counted = Some ms'" by blast
  have n: "all_cumalative ''sent'' (counters demo_counted)" "registered ''sent'' demo_counted"
    by (simp_all add: demo_counted_eq all_cumalative_def registered_def)
  have reading: "reading_total ''sent'' (counters demo_counted) = 7"
    by (simp add: demo_counted_eq reading_total_def Get_def)
  from Stop_delivers_everything [OF sample_api_laws demo_initial demo_counted_reachable stop _ n]
  obtain d' where "sum_list (map (event_value sample_api ''sent'') d') = 7"
    "eventPayloads ms' = []" "jobs ms' = []"
    by (auto simp: reading)
  with stop show ?thesis by blast
qed

definition ticks :: "(nat \<Rightarrow> int64) \<Rightarrow> nat \<Rightarrow> 'ev monitorService \<Rightarrow> 'ev monitorService" where
  "ticks now k ms = ((\<lambda>ms. snd (collect_tick now ms)) ^^ k) ms"

lemma countdown_zero:
  assumes "0 < c" and "c < 2 ^ 63"
  shows "(of_nat (c - 1 - k mod c) :: int64) = 0 \<longleftrightarrow> Suc (k mod c) = c"
proof -
  have "k mod c < c" using assms(1) by simp
  then have "c - 1 - k mod c < 2 ^ 64" using assms(2) by simp
  then have "(of_nat (c - 1 - k mod c) :: int64) = 0 \<longleftrightarrow> c - 1 - k mod c = 0"
    by (simp add: word_of_nat_eq_0_iff nat_dvd_not_less dvd_imp_le linorder_not_less
        order.strict_implies_order) (use nat_dvd_not_less in force)
  then show ?thesis using \<open>k mod c < c\<close> by auto
qed

lemma ticks_countdown:
  assumes c: "0 < c" "c < 2 ^ 63" and "collectCount ms = of_nat (c - 1)" "sendCountdown ms = of_nat (c - 1)"
  shows "length (jobs (ticks now k ms)) = length (jobs ms) + k div c \<and>
    sendCountdown (ticks now k ms) = of_nat (c - 1 - k mod c) \<and>
    collectCount (ticks now k ms) = of_nat (c - 1)"
proof (induction k)
  case 0
  then show ?case using assms by (simp add: ticks_def)
next
  case (Suc k)
  have step: "ticks now (Suc k) ms = snd (collect_tick now (ticks now k ms))"
    by (simp add: ticks_def)
  show ?case
  proof (cases "Suc (k mod c) = c")
    case True
    then show ?thesis using Suc c
      by (simp add: step collect_tick_def Let_def countdown_zero postEvents_def mod_Suc div_Suc)
  next
    case False
    then have "(of_nat (c - 1 - k mod c) :: int64) - 1 = of_nat (c - 1 - Suc (k mod c))"
      using mod_less_divisor [OF c(1), of k] by (simp add: of_nat_diff)
    then show ?thesis using Suc c False countdown_zero [OF c, of k]
      by (simp add: step collect_tick_def Let_def mod_Suc div_Suc)
  qed
qed

text \<open>
  C23: The service posts after every \<open>collectCount\<close> collections: of \<open>k\<close> timer ticks,
  exactly \<open>k div c\<close> start a post, whatever monitors and counters exist.
\<close>

theorem posts_every_collectCount:
  assumes "NewMonitorService (of_nat c) intv = Ret ms0" and "0 < c" and "c < 2 ^ 63"
    and "collectCount ms = collectCount ms0" and "sendCountdown ms = sendCountdown ms0"
  shows "length (jobs (ticks now k ms)) = length (jobs ms) + k div c"
proof -
  have "collectCount ms = of_nat (c - 1)" "sendCountdown ms = of_nat (c - 1)"
    using assms by (auto simp: NewMonitorService_def of_nat_diff split: if_splits)
  from ticks_countdown [OF assms(2,3) this] show ?thesis by blast
qed

theorem posts_every_collectCount_witness:
  "length (jobs (ticks (\<lambda>_. 0) 10 demo_counted)) = 10"
  using posts_every_collectCount [of 1 1000 demo_new demo_counted "\<lambda>_. 0" 10] demo_new_Ret
  by (simp add: demo_new_eq demo_counted_eq)

text \<open>
  C26: \<open>DeleteCounter\<close> removes the last registration of a counter and keeps the order of
  the others. If the counter is not registered it removes the monitor's last counter
  instead, and it panics exactly on a monitor without counters. No other monitor changes.
\<close>

theorem DeleteCounter_behaviour:
  assumes "m < length (monitors ms)" and "cs = mon_counters (monitors ms ! m)"
  shows "case DeleteCounter m r ms of
      Panic _ \<Rightarrow> cs = []
    | Ret ms' \<Rightarrow> cs \<noteq> [] \<and>
        (if r \<in> set cs
         then \<exists>xs ys. cs = xs @ r # ys \<and> r \<notin> set ys \<and> mon_counters (monitors ms' ! m) = xs @ ys
         else mon_counters (monitors ms' ! m) = butlast cs) \<and>
        (\<forall>k. k \<noteq> m \<longrightarrow> monitors ms' ! k = monitors ms ! k)"
proof (cases "delete_cref r cs")
  case (Panic w)
  then have "cs = []" by (simp add: delete_cref_def split: if_splits)
  with Panic assms show ?thesis by (simp add: DeleteCounter_def)
next
  case (Ret cs')
  then have "cs \<noteq> []" by (auto simp: delete_cref_def)
  moreover have "if r \<in> set cs then \<exists>xs ys. cs = xs @ r # ys \<and> r \<notin> set ys \<and> cs' = xs @ ys
      else cs' = butlast cs"
  proof (cases "r \<in> set cs")
    case True
    then obtain xs ys where "cs = xs @ r # ys" "r \<notin> set ys" by (metis split_list_last)
    moreover from this have "cs' = xs @ ys" using delete_cref_found [of r ys xs] Ret by simp
    ultimately show ?thesis using True by auto
  next
    case False
    then show ?thesis using delete_cref_absent [OF False] Ret by (simp split: if_splits)
  qed
  ultimately show ?thesis
    using Ret assms(1) by (simp add: DeleteCounter_def assms(2) [symmetric])
qed

theorem DeleteCounter_behaviour_witness:
  "(0::mref) < length (monitors demo_counted) \<and>
   (\<exists>ms'. DeleteCounter 0 5 demo_counted = Ret ms' \<and> mon_counters (monitors ms' ! 0) = [])"
proof -
  have m: "(0::mref) < length (monitors demo_counted)" "[0] = mon_counters (monitors demo_counted ! 0)"
    by (simp_all add: demo_counted_eq)
  obtain ms' where "DeleteCounter 0 5 demo_counted = Ret ms'"
    by (simp add: demo_counted_eq DeleteCounter_def delete_cref_absent)
  with DeleteCounter_behaviour [OF m, of 5] m(1) show ?thesis by simp
qed

text \<open>
  C24: The JSON form of a payload loses no measurement: an event that failed to post and
  is decoded again for reposting gives a payload with the same measurements, names and
  timestamps included, whatever has happened to the counters since.
\<close>

theorem payload_json_roundtrip:
  "\<exists>p'. decode_eventPayload (encode_eventPayload st p) = Inr p' \<and> measurements p' = measurements p"
  by (rule json.decode_encode_content)

end
