(* ===== verification/Go_Encoding.thy ===== *)
theory Go_Encoding
  imports Mycs_Prelude
begin

text \<open>
  The parts of Go's \<^verbatim>\<open>encoding/base64\<close> and \<^verbatim>\<open>encoding/hex\<close> the sources use, on byte
  strings (a \<open>char\<close> is a byte).
\<close>

section \<open>Base64, standard alphabet with padding\<close>

definition b64_alphabet :: string where
  "b64_alphabet = ''ABCDEFGHIJKLMNOPQRSTUVWXYZabcdefghijklmnopqrstuvwxyz0123456789+/''"

definition b64_char :: "nat \<Rightarrow> char" where
  "b64_char i = b64_alphabet ! i"

definition byte :: "char \<Rightarrow> nat" where
  "byte c = of_char c"

text \<open>\<open>StdEncoding.EncodeToString\<close>: three bytes become four characters.\<close>

fun b64_encode :: "string \<Rightarrow> string" where
  "b64_encode [] = []"
| "b64_encode [a] =
     [b64_char (byte a div 4), b64_char (byte a mod 4 * 16), CHR ''='', CHR ''='']"
| "b64_encode [a, b] =
     [b64_char (byte a div 4), b64_char (byte a mod 4 * 16 + byte b div 16),
      b64_char (byte b mod 16 * 4), CHR ''='']"
| "b64_encode (a # b # c # rest) =
     b64_char (byte a div 4) # b64_char (byte a mod 4 * 16 + byte b div 16) #
     b64_char (byte b mod 16 * 4 + byte c div 64) # b64_char (byte c mod 64) # b64_encode rest"

fun index_of :: "char \<Rightarrow> string \<Rightarrow> nat option" where
  "index_of c [] = None"
| "index_of c (d # ds) = (if c = d then Some 0 else map_option Suc (index_of c ds))"

definition b64_index :: "char \<Rightarrow> nat option" where
  "b64_index c = index_of c b64_alphabet"

text \<open>Decoding of padded text without line breaks; anything else is rejected.\<close>

fun b64_decode :: "string \<Rightarrow> string option" where
  "b64_decode [] = Some []"
| "b64_decode (w # x # y # z # rest) =
     (case (b64_index w, b64_index x) of
        (Some i, Some j) \<Rightarrow>
          (if y = CHR ''='' \<and> z = CHR ''='' \<and> rest = [] then Some [char_of (i * 4 + j div 16)]
           else (case b64_index y of
               None \<Rightarrow> None
             | Some k \<Rightarrow>
                 if z = CHR ''='' \<and> rest = []
                 then Some [char_of (i * 4 + j div 16), char_of (j mod 16 * 16 + k div 4)]
                 else (case (b64_index z, b64_decode rest) of
                     (Some l, Some bs) \<Rightarrow> Some (char_of (i * 4 + j div 16) #
                        char_of (j mod 16 * 16 + k div 4) # char_of (k mod 4 * 64 + l) # bs)
                   | _ \<Rightarrow> None)))
      | _ \<Rightarrow> None)"
| "b64_decode _ = None"

lemma index_of_nth: "distinct xs \<Longrightarrow> i < length xs \<Longrightarrow> index_of (xs ! i) xs = Some i"
proof (induction xs arbitrary: i)
  case (Cons d ds)
  then show ?case by (cases i) auto
qed simp

lemma b64_index_char [simp]: "i < 64 \<Longrightarrow> b64_index (b64_char i) = Some i"
  unfolding b64_index_def b64_char_def
  by (rule index_of_nth) (simp_all add: b64_alphabet_def)

lemma b64_index_pad [simp]: "b64_index CHR ''='' = None"
  by code_simp

lemma b64_char_not_pad [simp]: "i < 64 \<Longrightarrow> b64_char i \<noteq> CHR ''=''"
  by (metis b64_index_char b64_index_pad option.distinct(1))

lemma byte_less: "byte c < 256"
  by (simp add: byte_def nat_of_char_less_256)

lemma char_of_byte [simp]: "char_of (byte c) = c"
  by (simp add: byte_def)

lemma byte_div [simp]: "byte b div 4 < 64" "byte b div 16 < 16" "byte b div 64 < 4"
  using byte_less [of b] by simp_all

lemma mod_bounds [simp]: "(n::nat) mod 4 * 16 < 64" "n mod 16 * 4 < 64"
proof -
  have "n mod 4 < 4" "n mod 16 < 16" by simp_all
  then show "n mod 4 * 16 < 64" "n mod 16 * 4 < 64" by linarith+
qed

lemma byte_parts [simp]:
  "byte a mod 4 * 16 + byte b div 16 < 64" "byte b mod 16 * 4 + byte c div 64 < 64"
proof -
  have "byte a mod 4 < 4" "byte b mod 16 < 16" by simp_all
  then show "byte a mod 4 * 16 + byte b div 16 < 64" "byte b mod 16 * 4 + byte c div 64 < 64"
    using byte_div(2) [of b] byte_div(3) [of c] by linarith+
qed

theorem b64_roundtrip: "b64_decode (b64_encode bs) = Some bs"
  by (induction bs rule: b64_encode.induct) simp_all

section \<open>Hexadecimal\<close>

definition hex_value :: "char \<Rightarrow> nat option" where
  "hex_value c = (let n = byte c in
     if 48 \<le> n \<and> n \<le> 57 then Some (n - 48)
     else if 97 \<le> n \<and> n \<le> 102 then Some (n - 87)
     else if 65 \<le> n \<and> n \<le> 70 then Some (n - 55)
     else None)"

text \<open>\<open>hex.DecodeString\<close>: an odd length or a character that is no hex digit is an error.\<close>

fun hex_decode :: "string \<Rightarrow> string option" where
  "hex_decode [] = Some []"
| "hex_decode [_] = None"
| "hex_decode (c # d # rest) = (case (hex_value c, hex_value d, hex_decode rest) of
      (Some h, Some l, Some bs) \<Rightarrow> Some (char_of (h * 16 + l) # bs)
    | _ \<Rightarrow> None)"

definition hex_char :: "nat \<Rightarrow> char" where
  "hex_char n = ''0123456789abcdef'' ! n"

definition hex_encode :: "string \<Rightarrow> string" where
  "hex_encode bs = concat (map (\<lambda>b. [hex_char (byte b div 16), hex_char (byte b mod 16)]) bs)"

lemma hex_value_char [simp]: "n < 16 \<Longrightarrow> hex_value (hex_char n) = Some n"
proof -
  have "\<forall>n \<in> set [0..<16]. hex_value (hex_char n) = Some n" by code_simp
  then show "n < 16 \<Longrightarrow> hex_value (hex_char n) = Some n" by simp
qed

lemma hex_roundtrip: "hex_decode (hex_encode bs) = Some bs"
proof (induction bs)
  case (Cons b bs)
  have "byte b div 16 < 16" using byte_less [of b] by simp
  with Cons show ?case by (simp add: hex_encode_def)
qed (simp add: hex_encode_def)

lemma hex_decode_length: "hex_decode s = Some bs \<Longrightarrow> length s = 2 * length bs"
  by (induction s arbitrary: bs rule: hex_decode.induct) (auto split: option.splits)

end
