(* ===== verification/Events.thy ===== *)
theory Events
  imports Cloud_Events Go_Encoding
begin

text \<open>
  Model of \<^verbatim>\<open>events/events.go\<close>: turning cloud events into the entries that are
  published, and mapping the publisher's results back to events. Marshalling an event
  belongs to the CloudEvents SDK and compression to \<^verbatim>\<open>compress/zlib\<close>; both are
  parameters. Compression is any function \<open>compress\<close> from bytes to bytes or an error.
\<close>

section \<open>Data\<close>

record PublishDataInput =
  pd_type :: string
  pd_compressed :: bool
  pd_payload :: string

record PublishEventResult =
  pr_success :: bool
  pr_error :: string

section \<open>Operations\<close>

definition NewPublishDataInput ::
    "'ev ce_api \<Rightarrow> (string \<Rightarrow> string + string) \<Rightarrow> 'ev \<Rightarrow> string + PublishDataInput" where
  "NewPublishDataInput api compress event = (case MarshalJSON api event of
      Inl err \<Rightarrow> Inl err
    | Inr eventPayload \<Rightarrow> (case compress eventPayload of
          Inl err \<Rightarrow> Inl err
        | Inr compressedPayload \<Rightarrow>
            Inr \<lparr>pd_type = ''event'', pd_compressed = True,
                 pd_payload = b64_encode compressedPayload\<rparr>))"

text \<open>
  The events are passed by pointer and their source is set in place, so the updated
  events are part of the result. An event that cannot be prepared is skipped.
\<close>

fun CreatePublishEventList ::
    "'ev ce_api \<Rightarrow> (string \<Rightarrow> string + string) \<Rightarrow> string \<Rightarrow> 'ev list \<Rightarrow> PublishDataInput list \<times> 'ev list"
where
  "CreatePublishEventList api compress eventSource [] = ([], [])"
| "CreatePublishEventList api compress eventSource (event # cloudEvents) =
     (let event' = SetSource api eventSource event;
          (dataPayloads, events') = CreatePublishEventList api compress eventSource cloudEvents
      in (case NewPublishDataInput api compress event' of
            Inl _ \<Rightarrow> dataPayloads
          | Inr dataPayload \<Rightarrow> dataPayload # dataPayloads, event' # events'))"

fun MapCloudEventsToPublishDataInputs ::
    "'ev ce_api \<Rightarrow> (string \<Rightarrow> string + string) \<Rightarrow> 'ev list \<Rightarrow> PublishDataInput list"
where
  "MapCloudEventsToPublishDataInputs api compress [] = []"
| "MapCloudEventsToPublishDataInputs api compress (event # cloudEvents) =
     (case NewPublishDataInput api compress event of
        Inl _ \<Rightarrow> MapCloudEventsToPublishDataInputs api compress cloudEvents
      | Inr dataPayload \<Rightarrow> dataPayload # MapCloudEventsToPublishDataInputs api compress cloudEvents)"

text \<open>
  The loops over the results index the list of events; an index beyond its end panics.
  \<open>CreateCloudEventErrorList\<close> indexes at a failed result only, the other function at
  every result.
\<close>

fun error_loop ::
    "nat \<Rightarrow> PublishEventResult list \<Rightarrow> 'ev list \<Rightarrow> 'ev CloudEventError list outcome" where
  "error_loop i [] cloudEvents = Ret []"
| "error_loop i (result # results) cloudEvents =
     (if \<not> pr_success result then
        (if i < length cloudEvents then
           (case error_loop (Suc i) results cloudEvents of
              Panic w \<Rightarrow> Panic w
            | Ret errs \<Rightarrow> Ret (\<lparr>cee_event = cloudEvents ! i, cee_error = pr_error result\<rparr> # errs))
         else Panic ''index out of range'')
      else error_loop (Suc i) results cloudEvents)"

definition CreateCloudEventErrorList ::
    "PublishEventResult list \<Rightarrow> 'ev list \<Rightarrow> 'ev CloudEventError list outcome" where
  "CreateCloudEventErrorList publishEventErrorList cloudEvents =
     error_loop 0 publishEventErrorList cloudEvents"

fun filter_loop :: "nat \<Rightarrow> PublishEventResult list \<Rightarrow> 'ev list \<Rightarrow> 'ev list outcome" where
  "filter_loop i [] cloudEvents = Ret []"
| "filter_loop i (result # results) cloudEvents =
     (if i < length cloudEvents then
        (case filter_loop (Suc i) results cloudEvents of
           Panic w \<Rightarrow> Panic w
         | Ret es \<Rightarrow> Ret (if \<not> pr_success result then cloudEvents ! i # es else es))
      else Panic ''index out of range'')"

definition FilterCloudEventsWithErrors :: "PublishEventResult list \<Rightarrow> 'ev list \<Rightarrow> 'ev list outcome" where
  "FilterCloudEventsWithErrors publishEventResults cloudEvents =
     filter_loop 0 publishEventResults cloudEvents"

section \<open>Publishing\<close>

text \<open>What a receiver does with a published entry: decode the text, then decompress.\<close>

definition receive :: "(string \<Rightarrow> string option) \<Rightarrow> PublishDataInput \<Rightarrow> string option" where
  "receive decompress p = Option.bind (b64_decode (pd_payload p)) decompress"

text \<open>The behaviour of zlib the sources rely on: compression inverts and does not fail.\<close>

definition zlib_laws :: "(string \<Rightarrow> string + string) \<Rightarrow> (string \<Rightarrow> string option) \<Rightarrow> bool" where
  "zlib_laws compress decompress \<longleftrightarrow> (\<forall>b. \<exists>z. compress b = Inr z \<and> decompress z = Some b)"

definition marshalled :: "'ev ce_api \<Rightarrow> 'ev list \<Rightarrow> string list" where
  "marshalled api es = List.map_filter (\<lambda>e. case MarshalJSON api e of Inl _ \<Rightarrow> None | Inr b \<Rightarrow> Some b) es"

lemma NewPublishDataInput_cases:
  assumes "zlib_laws compress decompress"
  shows "case MarshalJSON api e of
      Inl err \<Rightarrow> NewPublishDataInput api compress e = Inl err
    | Inr b \<Rightarrow> \<exists>p. NewPublishDataInput api compress e = Inr p \<and> pd_type p = ''event'' \<and>
        pd_compressed p \<and> receive decompress p = Some b"
proof (cases "MarshalJSON api e")
  case (Inr b)
  moreover obtain z where "compress b = Inr z" "decompress z = Some b"
    using assms by (auto simp: zlib_laws_def)
  ultimately show ?thesis by (simp add: NewPublishDataInput_def receive_def b64_roundtrip)
qed (simp add: NewPublishDataInput_def)

lemma CreatePublishEventList_eq:
  "CreatePublishEventList api compress src es =
     (MapCloudEventsToPublishDataInputs api compress (map (SetSource api src) es), map (SetSource api src) es)"
  by (induction es) (auto simp: Let_def split: sum.split)

lemma receive_MapCloudEvents:
  assumes "zlib_laws compress decompress"
  shows "map (receive decompress) (MapCloudEventsToPublishDataInputs api compress es) =
    map Some (marshalled api es)"
proof (induction es)
  case (Cons e es)
  then show ?case
    using NewPublishDataInput_cases [OF assms, of api e]
    by (auto simp: marshalled_def List.map_filter_simps split: sum.splits)
qed (simp add: marshalled_def List.map_filter_simps)

lemma error_loop_eq:
  assumes "length results + i \<le> length es"
  shows "error_loop i results es =
    Ret (map (\<lambda>(r, e). \<lparr>cee_event = e, cee_error = pr_error r\<rparr>)
      (filter (\<lambda>(r, e). \<not> pr_success r) (zip results (drop i es))))"
  using assms
proof (induction results arbitrary: i)
  case (Cons r rs)
  then have "drop i es = es ! i # drop (Suc i) es" by (simp add: Cons_nth_drop_Suc)
  with Cons show ?case by simp
qed simp

lemma filter_loop_eq:
  assumes "length results + i \<le> length es"
  shows "filter_loop i results es =
    Ret (map snd (filter (\<lambda>(r, e). \<not> pr_success r) (zip results (drop i es))))"
  using assms
proof (induction results arbitrary: i)
  case (Cons r rs)
  then have "drop i es = es ! i # drop (Suc i) es" by (simp add: Cons_nth_drop_Suc)
  with Cons show ?case by simp
qed simp

lemma filter_loop_panics:
  "length es < length results + i \<Longrightarrow> results \<noteq> [] \<Longrightarrow> filter_loop i results es = Panic ''index out of range''"
proof (induction results arbitrary: i)
  case (Cons r rs)
  then show ?case by (cases "rs = []") auto
qed simp

section \<open>Properties\<close>

definition sample_zlib :: "string \<Rightarrow> string + string" where
  "sample_zlib b = Inr (CHR ''x'' # b)"

definition sample_unzlib :: "string \<Rightarrow> string option" where
  "sample_unzlib z = (case z of [] \<Rightarrow> None | c # b \<Rightarrow> Some b)"

lemma sample_zlib_laws: "zlib_laws sample_zlib sample_unzlib"
  by (simp add: zlib_laws_def sample_zlib_def sample_unzlib_def)

text \<open>
  C16: Publishing round trip. A receiver that decodes and decompresses the published
  entries gets back, in order, exactly the JSON of the events that could be marshalled,
  each with the requested source set on it.
\<close>

theorem publish_roundtrip:
  assumes "zlib_laws compress decompress"
  shows "map (receive decompress) (fst (CreatePublishEventList api compress src es)) =
    map Some (marshalled api (map (SetSource api src) es))"
  using receive_MapCloudEvents [OF assms] by (simp add: CreatePublishEventList_eq)

theorem publish_roundtrip_witness:
  "zlib_laws sample_zlib sample_unzlib \<and>
   map (receive sample_unzlib)
     (fst (CreatePublishEventList sample_api sample_zlib ''urn:mycs''
        [SetID sample_api ''a1'' (NewEvent sample_api), NewEvent sample_api])) = [Some ''a1'']"
  using publish_roundtrip [OF sample_zlib_laws, of sample_api "''urn:mycs''"
      "[SetID sample_api ''a1'' (NewEvent sample_api), NewEvent sample_api]"]
    sample_zlib_laws
  by (simp add: marshalled_def List.map_filter_simps sample_api_def)

text \<open>
  C25: Both result mappings return the events whose result is a failure, in order,
  paired with the publisher's message, when there is a result for at most each event.
  \<open>FilterCloudEventsWithErrors\<close> panics whenever there are more results than events.
\<close>

theorem failed_results_map_to_events:
  "(length results \<le> length es \<longrightarrow>
      CreateCloudEventErrorList results es =
        Ret (map (\<lambda>(r, e). \<lparr>cee_event = e, cee_error = pr_error r\<rparr>)
          (filter (\<lambda>(r, e). \<not> pr_success r) (zip results es))) \<and>
      FilterCloudEventsWithErrors results es =
        Ret (map snd (filter (\<lambda>(r, e). \<not> pr_success r) (zip results es)))) \<and>
   (length es < length results \<longrightarrow>
      FilterCloudEventsWithErrors results es = Panic ''index out of range'')"
  by (auto simp: CreateCloudEventErrorList_def FilterCloudEventsWithErrors_def error_loop_eq
      filter_loop_eq intro!: filter_loop_panics)

theorem failed_results_map_to_events_witness:
  "FilterCloudEventsWithErrors
     [\<lparr>pr_success = True, pr_error = []\<rparr>, \<lparr>pr_success = False, pr_error = ''throttled''\<rparr>]
     [''e1'', ''e2'', ''e3''] = Ret [''e2'']"
  using failed_results_map_to_events
      [of "[\<lparr>pr_success = True, pr_error = []\<rparr>, \<lparr>pr_success = False, pr_error = ''throttled''\<rparr>]"
        "[''e1'', ''e2'', ''e3'']"]
  by simp

lemma publish_list_complete:
  assumes "zlib_laws compress decompress"
    and "\<forall>e \<in> set es. \<exists>b. MarshalJSON api (SetSource api src e) = Inr b"
  shows "length (fst (CreatePublishEventList api compress src es)) = length es"
proof -
  have "\<forall>e \<in> set (map (SetSource api src) es). \<exists>p. NewPublishDataInput api compress e = Inr p"
    using assms(2) NewPublishDataInput_cases [OF assms(1), of api] by (fastforce split: sum.splits)
  then have "length (MapCloudEventsToPublishDataInputs api compress (map (SetSource api src) es)) =
      length (map (SetSource api src) es)"
    by (induction "map (SetSource api src) es" arbitrary: es)
      (auto simp: Cons_eq_map_conv split: sum.splits)
  then show ?thesis by (simp add: CreatePublishEventList_eq)
qed

text \<open>
  An event that cannot be marshalled is skipped when publishing, and every later
  failure is then attributed to the wrong event: here the publisher rejects the only
  entry it was sent, that of the second event, and the error list names the first.
\<close>

theorem skipped_event_shifts_errors:
  assumes "zlib_laws compress decompress"
    and "MarshalJSON api (SetSource api src e1) = Inl err"
    and "MarshalJSON api (SetSource api src e2) = Inr b"
  shows "\<exists>p es'. CreatePublishEventList api compress src [e1, e2] = ([p], es') \<and>
    receive decompress p = Some b \<and>
    CreateCloudEventErrorList [\<lparr>pr_success = False, pr_error = msg\<rparr>] es' =
      Ret [\<lparr>cee_event = SetSource api src e1, cee_error = msg\<rparr>]"
  using NewPublishDataInput_cases [OF assms(1), of api "SetSource api src e1"]
    NewPublishDataInput_cases [OF assms(1), of api "SetSource api src e2"] assms(2,3)
  by (auto simp: CreatePublishEventList_eq CreateCloudEventErrorList_def)

theorem skipped_event_shifts_errors_witness:
  "\<exists>p es'. CreatePublishEventList sample_api sample_zlib ''urn:mycs''
      [NewEvent sample_api, SetID sample_api ''a2'' (NewEvent sample_api)] = ([p], es') \<and>
    receive sample_unzlib p = Some ''a2'' \<and>
    CreateCloudEventErrorList [\<lparr>pr_success = False, pr_error = ''throttled''\<rparr>] es' =
      Ret [\<lparr>cee_event = SetSource sample_api ''urn:mycs'' (NewEvent sample_api), cee_error = ''throttled''\<rparr>]"
  by (rule skipped_event_shifts_errors [OF sample_zlib_laws,
        of _ _ _ "''id: MUST be a non-empty string''"]) (simp_all add: sample_api_def)

end
