(* ===== verification/Go_Strings.thy ===== *)
theory Go_Strings
  imports Go_Encoding
begin

text \<open>
  What the sources use of Go's \<^verbatim>\<open>strconv\<close>, \<^verbatim>\<open>strings\<close> and \<^verbatim>\<open>bufio\<close>: decimal integers,
  splitting and joining, and the line scanner with its limit on the length of a line.
\<close>

section \<open>Decimal integers\<close>

datatype num_error = ErrSyntax | ErrRange

definition is_digit :: "char \<Rightarrow> bool" where
  "is_digit c \<longleftrightarrow> 48 \<le> byte c \<and> byte c \<le> 57"

definition digit_value :: "char \<Rightarrow> nat" where
  "digit_value c = byte c - 48"

definition digit_char :: "nat \<Rightarrow> char" where
  "digit_char d = char_of (48 + d)"

fun digits_value :: "nat \<Rightarrow> string \<Rightarrow> nat" where
  "digits_value acc [] = acc"
| "digits_value acc (c # cs) = digits_value (10 * acc + digit_value c) cs"

text \<open>An unsigned decimal: one or more digits.\<close>

definition parse_digits :: "string \<Rightarrow> nat option" where
  "parse_digits s = (if s \<noteq> [] \<and> list_all is_digit s then Some (digits_value 0 s) else None)"

text \<open>
  \<open>strconv.ParseInt(s, 10, 64)\<close>: an optional sign and digits; a value outside the
  64 bit range is a range error. \<open>strconv.Atoi\<close> returns the same values and errors on a
  64 bit platform.
\<close>

definition ParseInt :: "string \<Rightarrow> num_error + int64" where
  "ParseInt s =
     (let neg = (s \<noteq> [] \<and> hd s = CHR ''-'');
          t = (if s \<noteq> [] \<and> (hd s = CHR ''-'' \<or> hd s = CHR ''+'') then tl s else s)
      in (case parse_digits t of
            None \<Rightarrow> Inl ErrSyntax
          | Some n \<Rightarrow>
              if \<not> neg \<and> n \<ge> 2 ^ 63 \<or> neg \<and> n > 2 ^ 63 then Inl ErrRange
              else Inr (word_of_int (if neg then - int n else int n))))"

definition Atoi :: "string \<Rightarrow> num_error + int64" where
  "Atoi s = ParseInt s"

text \<open>The verb \<^verbatim>\<open>%d\<close>.\<close>

fun show_nat :: "nat \<Rightarrow> string" where
  "show_nat n = (if n < 10 then [digit_char n] else show_nat (n div 10) @ [digit_char (n mod 10)])"

declare show_nat.simps [simp del]

definition show_int :: "int \<Rightarrow> string" where
  "show_int i = (if i < 0 then CHR ''-'' # show_nat (nat (- i)) else show_nat (nat i))"

definition show_int64 :: "int64 \<Rightarrow> string" where
  "show_int64 w = show_int (sint w)"

lemma byte_char_of: "n < 256 \<Longrightarrow> byte (char_of n) = n"
  by (simp add: byte_def)

lemma digit_char_facts [simp]:
  "d < 10 \<Longrightarrow> is_digit (digit_char d)" "d < 10 \<Longrightarrow> digit_value (digit_char d) = d"
  by (simp_all add: is_digit_def digit_value_def digit_char_def byte_char_of)

lemma digits_value_append: "digits_value acc (s @ t) = digits_value (digits_value acc s) t"
  by (induction acc s rule: digits_value.induct) auto

lemma show_nat_digits: "show_nat n \<noteq> [] \<and> list_all is_digit (show_nat n)"
proof (induction n rule: show_nat.induct)
  case (1 n)
  then show ?case by (cases "n < 10") (simp_all add: show_nat.simps [of n])
qed

lemma digits_value_show_nat: "digits_value 0 (show_nat n) = n"
proof (induction n rule: show_nat.induct)
  case (1 n)
  then show ?case
    by (cases "n < 10") (simp_all add: show_nat.simps [of n] digits_value_append)
qed

lemma parse_digits_show_nat [simp]: "parse_digits (show_nat n) = Some n"
  using show_nat_digits [of n] by (simp add: parse_digits_def digits_value_show_nat)

lemma show_nat_not_sign: "hd (show_nat n) \<noteq> CHR ''-'' \<and> hd (show_nat n) \<noteq> CHR ''+''"
proof -
  have "is_digit (hd (show_nat n))"
    using show_nat_digits [of n] by (cases "show_nat n") auto
  then show ?thesis by (auto simp: is_digit_def byte_def)
qed

lemma show_nat_length: "n < 10 ^ Suc k \<Longrightarrow> length (show_nat n) \<le> Suc k"
proof (induction k arbitrary: n)
  case (Suc k)
  then have "n div 10 < 10 ^ Suc k" by (auto simp: less_mult_imp_div_less)
  with Suc show ?case by (cases "n < 10") (simp_all add: show_nat.simps [of n])
qed (simp add: show_nat.simps)

lemma show_int64_length: "length (show_int64 w) \<le> 20"
proof -
  have "nat \<bar>sint w\<bar> < 10 ^ Suc 18" using sint64_bounds [of w] by simp
  then have "length (show_nat (nat \<bar>sint w\<bar>)) \<le> 19" using show_nat_length [of _ 18] by simp
  then show ?thesis by (auto simp: show_int64_def show_int_def abs_if split: if_splits)
qed

lemma ParseInt_show_int64: "ParseInt (show_int64 w) = Inr w"
proof (cases "sint w < 0")
  case True
  have "nat (- sint w) \<le> 2 ^ 63" using sint64_bounds [of w] by simp
  with True show ?thesis
    by (simp add: ParseInt_def show_int64_def show_int_def Let_def)
next
  case False
  have "nat (sint w) < 2 ^ 63" using sint64_bounds [of w] by simp
  with False show ?thesis
    using show_nat_not_sign [of "nat (sint w)"] show_nat_digits [of "nat (sint w)"]
    by (simp add: ParseInt_def show_int64_def show_int_def Let_def)
qed

section \<open>Splitting and joining\<close>

text \<open>\<open>strings.Split\<close> and \<open>bytes.Split\<close> with a one-byte separator.\<close>

fun split_on :: "char \<Rightarrow> string \<Rightarrow> string list" where
  "split_on sep [] = [[]]"
| "split_on sep (c # cs) =
     (if c = sep then [] # split_on sep cs
      else (case split_on sep cs of [] \<Rightarrow> [[c]] | w # ws \<Rightarrow> (c # w) # ws))"

fun join :: "string \<Rightarrow> string list \<Rightarrow> string" where
  "join sep [] = []"
| "join sep [w] = w"
| "join sep (w # ws) = w @ sep @ join sep ws"

lemma split_on_not_Nil [simp]: "split_on sep s \<noteq> []"
  by (induction s) (auto split: list.split)

lemma split_on_no_sep: "sep \<notin> set s \<Longrightarrow> split_on sep s = [s]"
  by (induction s) auto

lemma split_on_append:
  "sep \<notin> set w \<Longrightarrow> split_on sep (w @ sep # s) = w # split_on sep s"
  by (induction w) auto

lemma split_on_join:
  "ws \<noteq> [] \<Longrightarrow> \<forall>w \<in> set ws. sep \<notin> set w \<Longrightarrow> split_on sep (join [sep] ws) = ws"
  by (induction "[sep]" ws rule: join.induct) (auto simp: split_on_no_sep split_on_append)

lemma join_Cons_char: "join sep ((c # w) # ws) = c # join sep (w # ws)"
  by (cases ws) simp_all

lemma join_split_on: "join [sep] (split_on sep s) = s"
proof (induction s)
  case (Cons c cs)
  then show ?case by (cases "split_on sep cs") (auto simp: join_Cons_char split: list.splits)
qed simp

lemma split_on_parts: "w \<in> set (split_on sep s) \<Longrightarrow> sep \<notin> set w"
  by (induction s arbitrary: w) (auto split: if_splits list.splits)

section \<open>The line scanner\<close>

text \<open>
  \<open>bufio.Scanner\<close> with \<open>ScanLines\<close>: lines end at a newline or at the end of the input, a
  carriage return before the newline is dropped, and a final empty line is not
  returned. The buffer holds \<open>MaxScanTokenSize\<close> bytes: a line that does not end within
  them stops the scan with an error.
\<close>

definition MaxScanTokenSize :: nat where
  "MaxScanTokenSize = 65536"

definition drop_cr :: "string \<Rightarrow> string" where
  "drop_cr l = (if l \<noteq> [] \<and> last l = CHR 0x0D then butlast l else l)"

definition newline :: char where
  "newline = CHR 0x0A"

definition raw_lines :: "string \<Rightarrow> string list" where
  "raw_lines s = (let ls = split_on newline s in if last ls = [] then butlast ls else ls)"

text \<open>The lines returned, and whether the scan ended with \<open>ErrTooLong\<close>.\<close>

fun scan_lines :: "string list \<Rightarrow> string list \<times> bool" where
  "scan_lines [] = ([], False)"
| "scan_lines (l # ls) =
     (if length l < MaxScanTokenSize
      then (let (rest, err) = scan_lines ls in (drop_cr l # rest, err))
      else ([], True))"

definition scan_text :: "string \<Rightarrow> string list \<times> bool" where
  "scan_text s = scan_lines (raw_lines s)"

definition unlines :: "string list \<Rightarrow> string" where
  "unlines ls = concat (map (\<lambda>l. l @ [newline]) ls)"

lemma unlines_simps [simp]:
  "unlines [] = []" "unlines (l # ls) = l @ newline # unlines ls"
  "unlines (ls @ ms) = unlines ls @ unlines ms"
  by (simp_all add: unlines_def)

lemma raw_lines_unlines:
  assumes "\<forall>l \<in> set ls. newline \<notin> set l"
  shows "raw_lines (unlines ls) = ls"
proof -
  have "split_on newline (unlines ls) = ls @ [[]]"
    using assms by (induction ls) (simp_all add: split_on_append)
  then show ?thesis by (simp add: raw_lines_def Let_def)
qed

definition plain_line :: "string \<Rightarrow> bool" where
  "plain_line l \<longleftrightarrow> newline \<notin> set l \<and> CHR 0x0D \<notin> set l \<and> length l < MaxScanTokenSize"

lemma drop_cr_plain: "plain_line l \<Longrightarrow> drop_cr l = l"
  by (auto simp: plain_line_def drop_cr_def dest: last_in_set)

lemma scan_lines_plain: "\<forall>l \<in> set ls. plain_line l \<Longrightarrow> scan_lines ls = (ls, False)"
  by (induction ls) (auto simp: drop_cr_plain plain_line_def)

lemma scan_text_unlines:
  "\<forall>l \<in> set ls. plain_line l \<Longrightarrow> scan_text (unlines ls) = (ls, False)"
  by (simp add: scan_text_def raw_lines_unlines scan_lines_plain plain_line_def)

lemma scan_lines_length: "length (fst (scan_lines ls)) \<le> length ls"
  by (induction ls) (auto simp: Let_def case_prod_beta)

end
