(* ===== verification/Api_Client.thy ===== *)
theory Api_Client
  imports Go_Json Go_Strings
begin

text \<open>
  Model of \<^verbatim>\<open>mycsnode/api_client.go\<close> and the message types of
  \<^verbatim>\<open>mycsnode/auth.go\<close>: the client of a space node, its key exchange with the node and
  the waiting loop. Cryptography, the node object and the REST client are third-party
  code and parameters of the model; so are the clock and what the node answers. Plain
  texts are JSON documents, at the level of trees; a cipher text is an opaque value
  \<open>'ct\<close>.
\<close>

section \<open>Parameters\<close>

record ('ecdh, 'pub, 'rsa, 'ct, 'crypt) crypto =
  NewPublicKeyFromPEM :: "string \<Rightarrow> string + 'pub"
  NewRSAKeyFromPEM :: "string \<Rightarrow> string + 'rsa"
  ECDHPublicKey :: "'ecdh \<Rightarrow> string + string"
  EncryptBase64 :: "'pub \<Rightarrow> json \<Rightarrow> string + 'ct"
  DecryptBase64 :: "'rsa \<Rightarrow> 'ct \<Rightarrow> string + json option"
  SharedSecret :: "'ecdh \<Rightarrow> string \<Rightarrow> string + string"
  NewCrypt :: "string \<Rightarrow> string + 'crypt"

record ('node, 'rest) node_ops =
  GetPublicKey :: "'node \<Rightarrow> string"
  NodeRestApiClient :: "'node \<Rightarrow> string + 'rest"
  GetStatus :: "'node \<Rightarrow> string"
  WithAuthCrypt :: "'rest \<Rightarrow> 'rest"

section \<open>Messages\<close>

record 'ct AuthRequest =
  AuthReqIDKey :: string
  AuthReqKeyText :: 'ct

record AuthReqKey =
  req_RefID :: string
  req_ECDHKey :: string
  req_Nonce :: int64

record 'ct AuthResponse =
  AuthRespIDKey :: string
  AuthRespKeyText :: 'ct

record AuthRespKey =
  resp_NodeECDHKey :: string
  resp_Nonce :: int64
  resp_TimeoutAt :: int64
  resp_RefName :: string

record ErrorResponse =
  ErrorCode :: int64
  ErrorMessage :: string

definition encode_AuthReqKey :: "AuthReqKey \<Rightarrow> json" where
  "encode_AuthReqKey k =
     JObj [(''refID'', JStr (req_RefID k)), (''ecdhKey'', JStr (req_ECDHKey k)),
           (''nonce'', encode_int64 (req_Nonce k))]"

definition decode_AuthReqKey :: "json \<Rightarrow> json_error + AuthReqKey" where
  "decode_AuthReqKey = decode_object (\<lambda>kvs.
     case decode_string (json_field ''refID'' kvs) of Inl e \<Rightarrow> Inl e | Inr r \<Rightarrow>
     (case decode_string (json_field ''ecdhKey'' kvs) of Inl e \<Rightarrow> Inl e | Inr k \<Rightarrow>
     (case decode_int64 (json_field ''nonce'' kvs) of Inl e \<Rightarrow> Inl e | Inr n \<Rightarrow>
        Inr \<lparr>req_RefID = r, req_ECDHKey = k, req_Nonce = n\<rparr>)))"

definition encode_AuthRespKey :: "AuthRespKey \<Rightarrow> json" where
  "encode_AuthRespKey k =
     JObj [(''nodeECDHKey'', JStr (resp_NodeECDHKey k)), (''nonce'', encode_int64 (resp_Nonce k)),
           (''timeoutAt'', encode_int64 (resp_TimeoutAt k)), (''refName'', JStr (resp_RefName k))]"

definition decode_AuthRespKey :: "json \<Rightarrow> json_error + AuthRespKey" where
  "decode_AuthRespKey = decode_object (\<lambda>kvs.
     case decode_string (json_field ''nodeECDHKey'' kvs) of Inl e \<Rightarrow> Inl e | Inr k \<Rightarrow>
     (case decode_int64 (json_field ''nonce'' kvs) of Inl e \<Rightarrow> Inl e | Inr n \<Rightarrow>
     (case decode_int64 (json_field ''timeoutAt'' kvs) of Inl e \<Rightarrow> Inl e | Inr t \<Rightarrow>
     (case decode_string (json_field ''refName'' kvs) of Inl e \<Rightarrow> Inl e | Inr r \<Rightarrow>
        Inr \<lparr>resp_NodeECDHKey = k, resp_Nonce = n, resp_TimeoutAt = t, resp_RefName = r\<rparr>))))"

section \<open>The client\<close>

record ('node, 'pub, 'rsa, 'crypt, 'rest) ApiClient =
  refName :: string
  refID :: string
  clientIDKey :: string
  clientRSAKey :: "'rsa option"
  Node :: "'node option"
  nodePublicKey :: "'pub option"
  authPath :: string
  keyTimeoutAt :: int64
  crypt :: "'crypt option"
  restAuthClient :: "'rest option"
  authExecTimer :: "bool option"
  AuthIDKey :: string
  RestApiClient :: "'rest option"
  isAuthenticated :: bool
  authTimeout :: int64

text \<open>
  \<open>ErrText\<close> is an error passed through, \<open>Errorf\<close> one formatted from a text,
  \<open>ErrJSON\<close> an unmarshalling error.
\<close>

datatype api_error = ErrText string | Errorf string | ErrJSON json_error

subsection \<open>Timeouts\<close>

record timeouts =
  authTimeoutVar :: int64
  authRetryTime :: int64

definition default_timeouts :: timeouts where
  "default_timeouts =
     \<lparr>authTimeoutVar = go_div (10 * second) millisecond,
      authRetryTime = go_div (2 * second) millisecond\<rparr>"

definition env_override :: "string \<Rightarrow> int64 \<Rightarrow> int64" where
  "env_override v old = (if v \<noteq> [] then (case Atoi v of Inl _ \<Rightarrow> old | Inr t \<Rightarrow> t) else old)"

definition init_timeouts :: "(string \<Rightarrow> string) \<Rightarrow> timeouts" where
  "init_timeouts getenv =
     \<lparr>authTimeoutVar = env_override (getenv ''CBS_NODE_AUTH_TIMEOUT'') (authTimeoutVar default_timeouts),
      authRetryTime = env_override (getenv ''CBS_NODE_AUTH_RETRY_TIMEOUT'') (authRetryTime default_timeouts)\<rparr>"

subsection \<open>Construction\<close>

definition blank_client ::
    "timeouts \<Rightarrow> string \<Rightarrow> string \<Rightarrow> string \<Rightarrow> ('node, 'pub, 'rsa, 'crypt, 'rest) ApiClient" where
  "blank_client tmo rName rID path =
     \<lparr>refName = rName, refID = rID, clientIDKey = [], clientRSAKey = None, Node = None,
      nodePublicKey = None, authPath = path, keyTimeoutAt = 0, crypt = None, restAuthClient = None,
      authExecTimer = None, AuthIDKey = [], RestApiClient = None, isAuthenticated = False,
      authTimeout = authTimeoutVar tmo\<rparr>"

definition NewApiClient ::
    "('ecdh, 'pub, 'rsa, 'ct, 'crypt) crypto \<Rightarrow> ('node, 'rest) node_ops \<Rightarrow> timeouts \<Rightarrow>
     string \<Rightarrow> string \<Rightarrow> string \<Rightarrow> string \<Rightarrow> 'node \<Rightarrow> string \<Rightarrow>
     api_error + ('node, 'pub, 'rsa, 'crypt, 'rest) ApiClient"
where
  "NewApiClient cr ops tmo rName rID idKey rsaPEM node path =
     (let a = (blank_client tmo rName rID path)\<lparr>clientIDKey := idKey, Node := Some node\<rparr> in
      case NewPublicKeyFromPEM cr (GetPublicKey ops node) of Inl e \<Rightarrow> Inl (ErrText e) | Inr pub \<Rightarrow>
      (case NewRSAKeyFromPEM cr rsaPEM of Inl e \<Rightarrow> Inl (ErrText e) | Inr rsa \<Rightarrow>
      (case NodeRestApiClient ops node of Inl e \<Rightarrow> Inl (ErrText e) | Inr r1 \<Rightarrow>
      (case NodeRestApiClient ops node of Inl e \<Rightarrow> Inl (ErrText e) | Inr r2 \<Rightarrow>
         Inr (a\<lparr>nodePublicKey := Some pub, clientRSAKey := Some rsa, restAuthClient := Some r1,
                RestApiClient := Some (WithAuthCrypt ops r2)\<rparr>)))))"

definition NewUninitializedApiClient ::
    "timeouts \<Rightarrow> string \<Rightarrow> string \<Rightarrow> string \<Rightarrow> ('node, 'pub, 'rsa, 'crypt, 'rest) ApiClient" where
  "NewUninitializedApiClient tmo rName rID path = blank_client tmo rName rID path"

text \<open>
  \<open>Initialize\<close> stores as it goes: an error leaves the fields set so far, and nil in the
  one being set.
\<close>

definition Initialize ::
    "('ecdh, 'pub, 'rsa, 'ct, 'crypt) crypto \<Rightarrow> ('node, 'rest) node_ops \<Rightarrow>
     string \<Rightarrow> 'rsa \<Rightarrow> 'node \<Rightarrow> ('node, 'pub, 'rsa, 'crypt, 'rest) ApiClient \<Rightarrow>
     api_error option \<times> ('node, 'pub, 'rsa, 'crypt, 'rest) ApiClient"
where
  "Initialize cr ops idKey rsa node a =
     (let a = a\<lparr>clientIDKey := idKey, clientRSAKey := Some rsa, Node := Some node\<rparr> in
      case NewPublicKeyFromPEM cr (GetPublicKey ops node) of
        Inl e \<Rightarrow> (Some (ErrText e), a\<lparr>nodePublicKey := None\<rparr>)
      | Inr pub \<Rightarrow>
        (let a = a\<lparr>nodePublicKey := Some pub\<rparr> in
         case NodeRestApiClient ops node of
           Inl e \<Rightarrow> (Some (ErrText e), a\<lparr>restAuthClient := None\<rparr>)
         | Inr r1 \<Rightarrow>
           (let a = a\<lparr>restAuthClient := Some r1\<rparr> in
            case NodeRestApiClient ops node of
              Inl e \<Rightarrow> (Some (ErrText e), a\<lparr>RestApiClient := None\<rparr>)
            | Inr r2 \<Rightarrow> (None, a\<lparr>RestApiClient := Some (WithAuthCrypt ops r2)\<rparr>))))"

definition GetNode :: "('node, 'pub, 'rsa, 'crypt, 'rest) ApiClient \<Rightarrow> 'node option" where
  "GetNode a = Node a"

text \<open>A method call on a nil interface panics.\<close>

definition IsRunning ::
    "('node, 'rest) node_ops \<Rightarrow> ('node, 'pub, 'rsa, 'crypt, 'rest) ApiClient \<Rightarrow> bool outcome" where
  "IsRunning ops a = (case Node a of
      None \<Rightarrow> Panic ''nil pointer dereference''
    | Some n \<Rightarrow> Ret (GetStatus ops n = ''running''))"

text \<open>
  The timer is nil (\<open>None\<close>) or an execution timer that is running or not; whether it
  could be started or stopped is up to the timer package. An error of its \<open>Stop\<close> is
  logged only.
\<close>

definition StartClient ::
    "string option \<Rightarrow> ('node, 'pub, 'rsa, 'crypt, 'rest) ApiClient \<Rightarrow>
     string option \<times> ('node, 'pub, 'rsa, 'crypt, 'rest) ApiClient" where
  "StartClient timerErr a = (timerErr, a\<lparr>authExecTimer := Some (timerErr = None)\<rparr>)"

definition StopClient ::
    "('node, 'pub, 'rsa, 'crypt, 'rest) ApiClient \<Rightarrow> ('node, 'pub, 'rsa, 'crypt, 'rest) ApiClient" where
  "StopClient a = (case authExecTimer a of None \<Rightarrow> a | Some _ \<Rightarrow> a\<lparr>authExecTimer := Some False\<rparr>)"

subsection \<open>Authentication\<close>

text \<open>What the environment supplies to one authentication.\<close>

datatype 'ct post_result = PostOK "'ct AuthResponse" | PostErr string ErrorResponse

record ('ecdh, 'ct) auth_env =
  env_NewECDHKey :: "string + 'ecdh"
  env_now :: int64
  env_DoPost :: "string \<Rightarrow> 'ct AuthRequest \<Rightarrow> 'ct post_result"

text \<open>The part of \<open>Authenticate\<close> after the node has answered.\<close>

definition accept_response ::
    "('ecdh, 'pub, 'rsa, 'ct, 'crypt) crypto \<Rightarrow> 'ecdh \<Rightarrow> int64 \<Rightarrow> 'rsa \<Rightarrow> 'ct AuthResponse \<Rightarrow>
     ('node, 'pub, 'rsa, 'crypt, 'rest) ApiClient \<Rightarrow>
     (bool \<times> api_error option) \<times> ('node, 'pub, 'rsa, 'crypt, 'rest) ApiClient"
where
  "accept_response cr ecdhKey nonce rsa resp a =
     (case DecryptBase64 cr rsa (AuthRespKeyText resp) of
        Inl e \<Rightarrow> ((False, Some (ErrText e)), a)
      | Inr None \<Rightarrow> ((False, Some (ErrJSON (SyntaxError ''invalid character''))), a)
      | Inr (Some j) \<Rightarrow> (case decode_AuthRespKey j of
          Inl e \<Rightarrow> ((False, Some (ErrJSON e)), a)
        | Inr k \<Rightarrow>
          if resp_RefName k \<noteq> refName a \<or> resp_Nonce k \<noteq> nonce
          then ((False, Some (Errorf ''invalid auth response'')), a)
          else (case SharedSecret cr ecdhKey (resp_NodeECDHKey k) of
              Inl e \<Rightarrow> ((False, Some (ErrText e)), a)
            | Inr encryptionKey \<Rightarrow> (case NewCrypt cr encryptionKey of
                Inl e \<Rightarrow> ((False, Some (ErrText e)), a\<lparr>crypt := None\<rparr>)
              | Inr c \<Rightarrow>
                ((True, None),
                 a\<lparr>crypt := Some c, keyTimeoutAt := resp_TimeoutAt k,
                   AuthIDKey := AuthRespIDKey resp, isAuthenticated := True\<rparr>)))))"

definition Authenticate ::
    "('ecdh, 'pub, 'rsa, 'ct, 'crypt) crypto \<Rightarrow> ('ecdh, 'ct) auth_env \<Rightarrow>
     ('node, 'pub, 'rsa, 'crypt, 'rest) ApiClient \<Rightarrow>
     ((bool \<times> api_error option) \<times> ('node, 'pub, 'rsa, 'crypt, 'rest) ApiClient) outcome"
where
  "Authenticate cr env a =
     (let a = a\<lparr>isAuthenticated := False\<rparr> in
      case env_NewECDHKey env of
        Inl e \<Rightarrow> Ret ((False, Some (ErrText e)), a)
      | Inr ecdhKey \<Rightarrow> (case ECDHPublicKey cr ecdhKey of
          Inl e \<Rightarrow> Ret ((False, Some (ErrText e)), a)
        | Inr pk \<Rightarrow>
          (let authReqKey = \<lparr>req_RefID = refID a, req_ECDHKey = pk, req_Nonce = env_now env\<rparr> in
           case nodePublicKey a of
             None \<Rightarrow> Panic ''nil pointer dereference''
           | Some npk \<Rightarrow> (case EncryptBase64 cr npk (encode_AuthReqKey authReqKey) of
               Inl e \<Rightarrow> Ret ((False, Some (ErrText e)), a)
             | Inr enc \<Rightarrow> (case restAuthClient a of
                 None \<Rightarrow> Panic ''nil pointer dereference''
               | Some _ \<Rightarrow> (case env_DoPost env (authPath a)
                       \<lparr>AuthReqIDKey = clientIDKey a, AuthReqKeyText = enc\<rparr> of
                   PostErr err errorResponse \<Rightarrow>
                     if length (ErrorMessage errorResponse) > 0
                     then Ret ((False, Some (Errorf (ErrorMessage errorResponse))), a)
                     else Ret ((False, Some (ErrText err)), a)
                 | PostOK resp \<Rightarrow> (case clientRSAKey a of
                     None \<Rightarrow> Panic ''nil pointer dereference''
                   | Some rsa \<Rightarrow> Ret (accept_response cr ecdhKey (env_now env) rsa resp a))))))))"

text \<open>
  \<open>AuthCallback\<close> reads the clock again (\<open>now2\<close>, in milliseconds) and returns the delay
  until the next authentication.
\<close>

definition AuthCallback ::
    "('ecdh, 'pub, 'rsa, 'ct, 'crypt) crypto \<Rightarrow> timeouts \<Rightarrow> ('ecdh, 'ct) auth_env \<Rightarrow> int64 \<Rightarrow>
     ('node, 'pub, 'rsa, 'crypt, 'rest) ApiClient \<Rightarrow>
     (int64 \<times> ('node, 'pub, 'rsa, 'crypt, 'rest) ApiClient) outcome"
where
  "AuthCallback cr tmo env now2 a = (case Authenticate cr env a of
      Panic w \<Rightarrow> Panic w
    | Ret ((ok, err), a') \<Rightarrow>
        Ret (if \<not> ok then authRetryTime tmo else keyTimeoutAt a' - now2 - 50, a'))"

definition Reset ::
    "('node, 'pub, 'rsa, 'crypt, 'rest) ApiClient \<Rightarrow> ('node, 'pub, 'rsa, 'crypt, 'rest) ApiClient" where
  "Reset a = a\<lparr>isAuthenticated := False\<rparr>"

definition IsAuthenticated :: "int64 \<Rightarrow> ('node, 'pub, 'rsa, 'crypt, 'rest) ApiClient \<Rightarrow> bool" where
  "IsAuthenticated nowNano a \<longleftrightarrow> isAuthenticated a \<and> go_div nowNano millisecond <s keyTimeoutAt a"

definition AuthTokenKey :: "('node, 'pub, 'rsa, 'crypt, 'rest) ApiClient \<Rightarrow> string" where
  "AuthTokenKey a = refName a"

definition Crypt :: "('node, 'pub, 'rsa, 'crypt, 'rest) ApiClient \<Rightarrow> 'crypt option" where
  "Crypt a = crypt a"

subsection \<open>Waiting\<close>

text \<open>
  One turn of the waiting loop: an interrupt, or a tick. Other goroutines may have
  changed the client since the last turn, so a tick carries the client as it is then,
  the clock reading of its check and the reading after it. The loop has not returned
  (\<open>None\<close>) when its turns so far do not end it.
\<close>

datatype 'a wait_event = Interrupt | Tick 'a int64 int64

fun wait_loop ::
    "int64 \<Rightarrow> ('node, 'pub, 'rsa, 'crypt, 'rest) ApiClient wait_event list \<Rightarrow> bool option" where
  "wait_loop timeoutAt [] = None"
| "wait_loop timeoutAt (Interrupt # es) = Some False"
| "wait_loop timeoutAt (Tick a checkNow afterNow # es) =
     (if IsAuthenticated checkNow a then Some True
      else if timeoutAt <s afterNow then Some False
      else wait_loop timeoutAt es)"

definition WaitForAuth ::
    "int64 \<Rightarrow> int64 \<Rightarrow> ('node, 'pub, 'rsa, 'crypt, 'rest) ApiClient \<Rightarrow>
     ('node, 'pub, 'rsa, 'crypt, 'rest) ApiClient wait_event list \<Rightarrow> bool option" where
  "WaitForAuth checkNow startNow a es =
     (if \<not> IsAuthenticated checkNow a then wait_loop (startNow + authTimeout a) es else Some True)"

end
