(* ===== verification/Api_Client_Props.thy ===== *)
theory Api_Client_Props
  imports Api_Client
begin

text \<open>
  Correctness of the node API client: what a successful authentication guarantees, that
  a failed one leaves the client unauthenticated, the agreement of client and node on
  the session key, when the next authentication is scheduled, and how the waiting loop
  ends. The node's side of the exchange is the handler of
  \<^verbatim>\<open>test/mocks/node.go\<close>.
\<close>

section \<open>Messages\<close>

lemma decode_AuthReqKey_encode [simp]: "decode_AuthReqKey (encode_AuthReqKey k) = Inr k"
  by (simp add: decode_AuthReqKey_def encode_AuthReqKey_def decode_object_def json_defs)

lemma decode_AuthRespKey_encode [simp]: "decode_AuthRespKey (encode_AuthRespKey k) = Inr k"
  by (simp add: decode_AuthRespKey_def encode_AuthRespKey_def decode_object_def json_defs)

section \<open>Authentication outcomes\<close>

lemmas auth_splits = sum.splits option.splits outcome.splits post_result.splits if_splits

lemma accept_response_ok:
  assumes "accept_response cr ek nonce rsa resp a = ((True, err), a')"
  obtains j k s c where
    "DecryptBase64 cr rsa (AuthRespKeyText resp) = Inr (Some j)" "decode_AuthRespKey j = Inr k"
    "resp_RefName k = refName a" "resp_Nonce k = nonce"
    "SharedSecret cr ek (resp_NodeECDHKey k) = Inr s" "NewCrypt cr s = Inr c" "err = None"
    "a' = a\<lparr>crypt := Some c, keyTimeoutAt := resp_TimeoutAt k, AuthIDKey := AuthRespIDKey resp,
            isAuthenticated := True\<rparr>"
  using assms unfolding accept_response_def by (auto split: auth_splits)

lemma accept_response_flag:
  assumes "accept_response cr ek nonce rsa resp a = ((ok, err), a')" and "\<not> isAuthenticated a"
  shows "isAuthenticated a' = ok" "ok = (err = None)" "ok \<longrightarrow> crypt a' \<noteq> None"
    "\<not> ok \<longrightarrow> keyTimeoutAt a' = keyTimeoutAt a \<and> AuthIDKey a' = AuthIDKey a"
  using assms unfolding accept_response_def by (auto split: auth_splits)

text \<open>
  Either the node answered and its response was processed, or the call ended earlier
  with an error, or the client was not initialised.
\<close>

lemma Authenticate_cases:
  assumes "Authenticate cr env a = Ret ((ok, err), a')"
  obtains
    (failed) "\<not> ok" "err \<noteq> None" "a' = a\<lparr>isAuthenticated := False\<rparr>"
  | (answered) ek pk npk enc resp rsa where
      "env_NewECDHKey env = Inr ek" "ECDHPublicKey cr ek = Inr pk" "nodePublicKey a = Some npk"
      "EncryptBase64 cr npk (encode_AuthReqKey
         \<lparr>req_RefID = refID a, req_ECDHKey = pk, req_Nonce = env_now env\<rparr>) = Inr enc"
      "env_DoPost env (authPath a) \<lparr>AuthReqIDKey = clientIDKey a, AuthReqKeyText = enc\<rparr> = PostOK resp"
      "clientRSAKey a = Some rsa"
      "accept_response cr ek (env_now env) rsa resp (a\<lparr>isAuthenticated := False\<rparr>) = ((ok, err), a')"
  using assms unfolding Authenticate_def Let_def by (auto split: auth_splits)

lemma Authenticate_flag:
  assumes "Authenticate cr env a = Ret ((ok, err), a')"
  shows "isAuthenticated a' = ok \<and> ok = (err = None) \<and> (ok \<longrightarrow> crypt a' \<noteq> None)"
  using assms
proof (cases rule: Authenticate_cases)
  case failed
  then show ?thesis by simp
next
  case answered
  from accept_response_flag [OF answered(7)] show ?thesis by simp
qed

section \<open>The session invariant\<close>

text \<open>An authenticated client has a session cipher.\<close>

definition session_ok :: "('node, 'pub, 'rsa, 'crypt, 'rest) ApiClient \<Rightarrow> bool" where
  "session_ok a \<longleftrightarrow> (isAuthenticated a \<longrightarrow> crypt a \<noteq> None)"

inductive client_step ::
    "('ecdh, 'pub, 'rsa, 'ct, 'crypt) crypto \<Rightarrow> ('node, 'rest) node_ops \<Rightarrow>
     ('node, 'pub, 'rsa, 'crypt, 'rest) ApiClient \<Rightarrow> ('node, 'pub, 'rsa, 'crypt, 'rest) ApiClient \<Rightarrow> bool"
  for cr ops
where
  authenticate: "Authenticate cr env a = Ret (r, a') \<Longrightarrow> client_step cr ops a a'"
| callback: "AuthCallback cr tmo env now2 a = Ret (d, a') \<Longrightarrow> client_step cr ops a a'"
| reset: "client_step cr ops a (Reset a)"
| initialize: "Initialize cr ops idKey rsa node a = (err, a') \<Longrightarrow> client_step cr ops a a'"
| start: "client_step cr ops a (snd (StartClient terr a))"
| stop: "client_step cr ops a (StopClient a)"

inductive_cases client_stepE: "client_step cr ops a a'"

definition client_initial ::
    "('ecdh, 'pub, 'rsa, 'ct, 'crypt) crypto \<Rightarrow> ('node, 'rest) node_ops \<Rightarrow>
     ('node, 'pub, 'rsa, 'crypt, 'rest) ApiClient \<Rightarrow> bool" where
  "client_initial cr ops a \<longleftrightarrow>
     (\<exists>tmo n i p. a = NewUninitializedApiClient tmo n i p) \<or>
     (\<exists>tmo n i k pem nd p. NewApiClient cr ops tmo n i k pem nd p = Inr a)"

lemma NewApiClient_unauthenticated:
  "NewApiClient cr ops tmo n i k pem nd p = Inr a \<Longrightarrow> \<not> isAuthenticated a"
  by (cases "NewPublicKeyFromPEM cr (GetPublicKey ops nd)"; cases "NewRSAKeyFromPEM cr pem";
      cases "NodeRestApiClient ops nd") (auto simp: NewApiClient_def blank_client_def Let_def)

lemma client_initial_ok: "client_initial cr ops a \<Longrightarrow> session_ok a"
  by (auto simp: client_initial_def session_ok_def NewUninitializedApiClient_def blank_client_def
      dest: NewApiClient_unauthenticated)

lemma Initialize_frame:
  "Initialize cr ops idKey rsa node a = (err, a') \<Longrightarrow>
     isAuthenticated a' = isAuthenticated a \<and> crypt a' = crypt a"
  by (auto simp: Initialize_def Let_def split: sum.splits)

lemma client_step_ok:
  assumes "client_step cr ops a a'" and "session_ok a"
  shows "session_ok a'"
  using assms(1)
proof cases
  case (authenticate env r)
  then show ?thesis using Authenticate_flag [of cr env a "fst r" "snd r" a']
    by (simp add: session_ok_def)
next
  case (callback tmo env now2 d)
  then obtain ok err where "Authenticate cr env a = Ret ((ok, err), a')"
    by (auto simp: AuthCallback_def split: outcome.splits)
  then show ?thesis using Authenticate_flag [of cr env a ok err a'] by (auto simp: session_ok_def)
qed (use assms(2) in \<open>auto simp: session_ok_def Reset_def StartClient_def StopClient_def
    dest: Initialize_frame split: option.splits\<close>)

interpretation client: transition_system "client_initial cr ops" "client_step cr ops" session_ok for cr ops
  by unfold_locales (auto intro: client_initial_ok client_step_ok)

section \<open>The node's side\<close>

text \<open>
  The handler of the mock node: it checks the identification, decrypts the request key,
  derives the shared secret and answers with its own public key and the client's nonce.
  The identifying key it returns is a ciphertext the client only stores
  (\<open>h_encryptID\<close>).
  A failed expectation of the test is \<open>None\<close>.
\<close>

record ('pub, 'rsa) node_handler =
  h_rsaKey :: 'rsa
  h_devicePublicKey :: 'pub
  h_deviceIDKey :: string
  h_loggedInUserID :: string
  h_deviceName :: string
  h_encryptID :: "string \<Rightarrow> string"
  h_deviceID :: string

definition response_timeout :: "int64 \<Rightarrow> int64" where
  "response_timeout nonce = go_div (nonce * millisecond + 2 * second) millisecond"

definition SendAuthResponse ::
    "('ecdh, 'pub, 'rsa, 'ct, 'crypt) crypto \<Rightarrow> ('pub, 'rsa) node_handler \<Rightarrow> 'ecdh \<Rightarrow>
     'ct AuthRequest \<Rightarrow> (string \<times> 'ct AuthResponse) option"
where
  "SendAuthResponse cr h ecdhKey authRequest =
     (if AuthReqIDKey authRequest \<noteq> h_deviceIDKey h then None
      else (case DecryptBase64 cr (h_rsaKey h) (AuthReqKeyText authRequest) of
          Inr (Some j) \<Rightarrow> (case decode_AuthReqKey j of
              Inl _ \<Rightarrow> None
            | Inr authReqKey \<Rightarrow>
                if req_RefID authReqKey \<noteq> h_loggedInUserID h \<or> \<not> 0 <s req_Nonce authReqKey then None
                else (case (SharedSecret cr ecdhKey (req_ECDHKey authReqKey), ECDHPublicKey cr ecdhKey) of
                    (Inr encryptionKey, Inr ecdhPublicKey) \<Rightarrow>
                      (case EncryptBase64 cr (h_devicePublicKey h) (encode_AuthRespKey
                             \<lparr>resp_NodeECDHKey = ecdhPublicKey, resp_Nonce = req_Nonce authReqKey,
                              resp_TimeoutAt = response_timeout (req_Nonce authReqKey),
                              resp_RefName = h_deviceName h\<rparr>) of
                         Inl _ \<Rightarrow> None
                       | Inr enc \<Rightarrow> Some (encryptionKey,
                           \<lparr>AuthRespIDKey = h_encryptID h (req_RefID authReqKey @ ''|'' @ h_deviceID h), AuthRespKeyText = enc\<rparr>))
                  | _ \<Rightarrow> None))
        | _ \<Rightarrow> None))"

text \<open>
  What the parties need of the crypto package: decryption with the matching key inverts
  encryption, two ECDH keys derive the same secret from each other's public key, and a
  cipher can be made from such a secret.
\<close>

definition key_pair :: "('ecdh, 'pub, 'rsa, 'ct, 'crypt) crypto \<Rightarrow> 'pub \<Rightarrow> 'rsa \<Rightarrow> bool" where
  "key_pair cr pub rsa \<longleftrightarrow>
     (\<forall>j. \<exists>c. EncryptBase64 cr pub j = Inr c \<and> DecryptBase64 cr rsa c = Inr (Some j))"

definition ecdh_laws :: "('ecdh, 'pub, 'rsa, 'ct, 'crypt) crypto \<Rightarrow> bool" where
  "ecdh_laws cr \<longleftrightarrow> (\<forall>x y. \<exists>px py s c.
     ECDHPublicKey cr x = Inr px \<and> ECDHPublicKey cr y = Inr py \<and>
     SharedSecret cr x py = Inr s \<and> SharedSecret cr y px = Inr s \<and> NewCrypt cr s = Inr c)"

text \<open>A client set up for the node the handler serves.\<close>

definition paired ::
    "('ecdh, 'pub, 'rsa, 'ct, 'crypt) crypto \<Rightarrow> ('pub, 'rsa) node_handler \<Rightarrow>
     ('node, 'pub, 'rsa, 'crypt, 'rest) ApiClient \<Rightarrow> bool"
where
  "paired cr h a \<longleftrightarrow> clientIDKey a = h_deviceIDKey h \<and> refID a = h_loggedInUserID h \<and>
     refName a = h_deviceName h \<and> restAuthClient a \<noteq> None \<and>
     (\<exists>pub rsa. nodePublicKey a = Some pub \<and> key_pair cr pub (h_rsaKey h) \<and>
        clientRSAKey a = Some rsa \<and> key_pair cr (h_devicePublicKey h) rsa)"

section \<open>Properties\<close>

text \<open>
  C3: when \<open>Authenticate\<close> succeeds, the node's response decrypted with the client's private
  key carried the client's name and the nonce of this very request, the session cipher is
  the one of the secret shared by this request's ECDH key and the node's, the expiry and
  the identification key are the response's, the client is marked authenticated, and
  nothing else of it changed.
\<close>

theorem Authenticate_success:
  assumes "Authenticate cr env a = Ret ((True, err), a')"
  shows "\<exists>ek pk npk rsa enc resp j k s c.
     err = None \<and> env_NewECDHKey env = Inr ek \<and> ECDHPublicKey cr ek = Inr pk \<and>
     nodePublicKey a = Some npk \<and> clientRSAKey a = Some rsa \<and>
     EncryptBase64 cr npk (encode_AuthReqKey
       \<lparr>req_RefID = refID a, req_ECDHKey = pk, req_Nonce = env_now env\<rparr>) = Inr enc \<and>
     env_DoPost env (authPath a) \<lparr>AuthReqIDKey = clientIDKey a, AuthReqKeyText = enc\<rparr> = PostOK resp \<and>
     DecryptBase64 cr rsa (AuthRespKeyText resp) = Inr (Some j) \<and> decode_AuthRespKey j = Inr k \<and>
     resp_RefName k = refName a \<and> resp_Nonce k = env_now env \<and>
     SharedSecret cr ek (resp_NodeECDHKey k) = Inr s \<and> NewCrypt cr s = Inr c \<and>
     a' = a\<lparr>crypt := Some c, keyTimeoutAt := resp_TimeoutAt k, AuthIDKey := AuthRespIDKey resp,
            isAuthenticated := True\<rparr>"
  using assms
proof (cases rule: Authenticate_cases)
  case (answered ek pk npk enc resp rsa)
  show ?thesis
    by (rule accept_response_ok [OF answered(7)]) (use answered in fastforce)
qed simp

text \<open>
  A concrete crypto package and node for the examples: ciphertexts are the plain trees, a
  key exchange multiplies exponents.
\<close>

definition toy_crypto :: "(nat, unit, unit, json, string) crypto" where
  "toy_crypto = \<lparr>NewPublicKeyFromPEM = (\<lambda>_. Inr ()), NewRSAKeyFromPEM = (\<lambda>_. Inr ()),
     ECDHPublicKey = (\<lambda>n. Inr (replicate n CHR ''g'')),
     EncryptBase64 = (\<lambda>_ j. Inr j), DecryptBase64 = (\<lambda>_ j. Inr (Some j)),
     SharedSecret = (\<lambda>n pk. Inr (replicate (n * length pk) CHR ''g'')), NewCrypt = Inr\<rparr>"

definition toy_handler :: "(unit, unit) node_handler" where
  "toy_handler = \<lparr>h_rsaKey = (), h_devicePublicKey = (), h_deviceIDKey = ''idkey'',
     h_loggedInUserID = ''user'', h_deviceName = ''device'', h_encryptID = (\<lambda>x. x),
     h_deviceID = ''dev1''\<rparr>"

definition node_post ::
    "('ecdh, 'pub, 'rsa, 'ct, 'crypt) crypto \<Rightarrow> ('pub, 'rsa) node_handler \<Rightarrow> 'ecdh \<Rightarrow>
     string \<Rightarrow> 'ct AuthRequest \<Rightarrow> 'ct post_result" where
  "node_post cr h ek path req = (case SendAuthResponse cr h ek req of
      None \<Rightarrow> PostErr ''request refused'' \<lparr>ErrorCode = 0, ErrorMessage = []\<rparr>
    | Some (_, resp) \<Rightarrow> PostOK resp)"

definition toy_env :: "(nat, json) auth_env" where
  "toy_env = \<lparr>env_NewECDHKey = Inr 2, env_now = 1000, env_DoPost = node_post toy_crypto toy_handler 3\<rparr>"

definition toy_client :: "(unit, unit, unit, string, unit) ApiClient" where
  "toy_client = (blank_client default_timeouts ''device'' ''user'' ''/auth'')
     \<lparr>clientIDKey := ''idkey'', clientRSAKey := Some (), Node := Some (), nodePublicKey := Some (),
      restAuthClient := Some (), RestApiClient := Some ()\<rparr>"

definition toy_session :: "(unit, unit, unit, string, unit) ApiClient" where
  "toy_session = toy_client\<lparr>crypt := Some (replicate 6 CHR ''g''), keyTimeoutAt := 3000,
      AuthIDKey := ''user|dev1'', isAuthenticated := True\<rparr>"

lemmas toy_defs = toy_crypto_def toy_handler_def toy_env_def toy_client_def toy_session_def
  node_post_def SendAuthResponse_def response_timeout_def blank_client_def

lemma toy_authenticates:
  "Authenticate toy_crypto toy_env toy_client = Ret ((True, None), toy_session)"
  by (simp add: Authenticate_def accept_response_def toy_defs Let_def word_sless_alt go_div_def
      duration_simps)

theorem Authenticate_success_witness:
  "\<exists>s c. SharedSecret toy_crypto 2 (replicate 3 CHR ''g'') = Inr s \<and> NewCrypt toy_crypto s = Inr c \<and>
     crypt toy_session = Some c"
  using Authenticate_success [OF toy_authenticates] by (simp add: toy_defs)

text \<open>
  C27: the client is authenticated after \<open>Authenticate\<close> exactly when it reports success,
  which is exactly when it reports no error; a failed attempt keeps the expiry and the
  identification key of the previous session but marks the client unauthenticated.
\<close>

theorem Authenticate_outcome:
  assumes "Authenticate cr env a = Ret ((ok, err), a')"
  shows "(isAuthenticated a' \<longleftrightarrow> ok) \<and> (ok \<longleftrightarrow> err = None) \<and>
     (\<not> ok \<longrightarrow> keyTimeoutAt a' = keyTimeoutAt a \<and> AuthIDKey a' = AuthIDKey a \<and>
        (\<forall>now. \<not> IsAuthenticated now a'))"
  using assms
proof (cases rule: Authenticate_cases)
  case failed
  then show ?thesis by (simp add: IsAuthenticated_def)
next
  case answered
  from accept_response_flag [OF answered(7)] show ?thesis by (simp add: IsAuthenticated_def)
qed

theorem Authenticate_outcome_witness:
  "isAuthenticated toy_session \<and>
   (\<exists>a'. Authenticate toy_crypto (toy_env\<lparr>env_NewECDHKey := Inl ''no entropy''\<rparr>) toy_session =
       Ret ((False, Some (ErrText ''no entropy'')), a') \<and> \<not> isAuthenticated a' \<and> keyTimeoutAt a' = 3000)"
proof -
  have *: "Authenticate toy_crypto (toy_env\<lparr>env_NewECDHKey := Inl ''no entropy''\<rparr>) toy_session =
       Ret ((False, Some (ErrText ''no entropy'')), toy_session\<lparr>isAuthenticated := False\<rparr>)"
    by (simp add: Authenticate_def)
  show ?thesis
    using Authenticate_outcome [OF toy_authenticates] Authenticate_outcome [OF *] *
    by (simp add: toy_session_def)
qed

text \<open>
  An answer for another request is refused: when the decrypted response carries a
  nonce other than this request's, or another client's name, \<open>Authenticate\<close> reports an
  invalid response and takes nothing from it.
\<close>

theorem foreign_response_refused:
  assumes "env_NewECDHKey env = Inr ek" "ECDHPublicKey cr ek = Inr pk" "nodePublicKey a = Some npk"
    "EncryptBase64 cr npk (encode_AuthReqKey
       \<lparr>req_RefID = refID a, req_ECDHKey = pk, req_Nonce = env_now env\<rparr>) = Inr enc"
    "restAuthClient a \<noteq> None" "clientRSAKey a = Some rsa"
    "env_DoPost env (authPath a) \<lparr>AuthReqIDKey = clientIDKey a, AuthReqKeyText = enc\<rparr> = PostOK resp"
    "DecryptBase64 cr rsa (AuthRespKeyText resp) = Inr (Some j)" "decode_AuthRespKey j = Inr k"
    and "resp_Nonce k \<noteq> env_now env \<or> resp_RefName k \<noteq> refName a"
  shows "Authenticate cr env a =
    Ret ((False, Some (Errorf ''invalid auth response'')), a\<lparr>isAuthenticated := False\<rparr>)"
  using assms by (auto simp: Authenticate_def accept_response_def Let_def)

definition replayed :: "json AuthResponse" where
  "replayed = \<lparr>AuthRespIDKey = ''user|dev1'', AuthRespKeyText = encode_AuthRespKey
     \<lparr>resp_NodeECDHKey = ''g'', resp_Nonce = 999, resp_TimeoutAt = 3000, resp_RefName = ''device''\<rparr>\<rparr>"

theorem foreign_response_refused_witness:
  "Authenticate toy_crypto (toy_env\<lparr>env_DoPost := \<lambda>_ _. PostOK replayed\<rparr>) toy_session =
     Ret ((False, Some (Errorf ''invalid auth response'')), toy_session\<lparr>isAuthenticated := False\<rparr>)"
  by (rule foreign_response_refused [where ek = 2 and resp = replayed and
        j = "AuthRespKeyText replayed" and rsa = "()" and pk = "replicate 2 CHR ''g''" and npk = "()" and
        enc = "encode_AuthReqKey \<lparr>req_RefID = ''user'', req_ECDHKey = replicate 2 CHR ''g'', req_Nonce = 1000\<rparr>" and
        k = "\<lparr>resp_NodeECDHKey = ''g'', resp_Nonce = 999, resp_TimeoutAt = 3000, resp_RefName = ''device''\<rparr>"])
    (simp_all add: toy_defs replayed_def)

text \<open>
  C13: a client and the node it is set up for complete the exchange: the client is
  authenticated, its session cipher is the one of the secret the node derived, and its
  key expires when the node said.
\<close>

theorem handshake_agrees:
  assumes "ecdh_laws cr" and "paired cr h a"
    and "env_NewECDHKey env = Inr ek" and "env_DoPost env = node_post cr h nk"
    and "0 <s env_now env"
  shows "\<exists>pub pk req secret resp c a'.
     nodePublicKey a = Some pub \<and> ECDHPublicKey cr ek = Inr pk \<and> AuthReqIDKey req = clientIDKey a \<and>
     EncryptBase64 cr pub (encode_AuthReqKey
       \<lparr>req_RefID = refID a, req_ECDHKey = pk, req_Nonce = env_now env\<rparr>) = Inr (AuthReqKeyText req) \<and>
     SendAuthResponse cr h nk req = Some (secret, resp) \<and> NewCrypt cr secret = Inr c \<and>
     Authenticate cr env a = Ret ((True, None), a') \<and> crypt a' = Some c \<and>
     keyTimeoutAt a' = response_timeout (env_now env) \<and> AuthIDKey a' = AuthRespIDKey resp"
proof -
  obtain px py s c where ecdh: "ECDHPublicKey cr ek = Inr px" "ECDHPublicKey cr nk = Inr py"
      "SharedSecret cr ek py = Inr s" "SharedSecret cr nk px = Inr s" "NewCrypt cr s = Inr c"
    using assms(1) unfolding ecdh_laws_def by blast
  obtain pub rsa where keys: "nodePublicKey a = Some pub" "key_pair cr pub (h_rsaKey h)"
      "clientRSAKey a = Some rsa" "key_pair cr (h_devicePublicKey h) rsa"
    using assms(2) unfolding paired_def by blast
  obtain enc where enc: "EncryptBase64 cr pub (encode_AuthReqKey
        \<lparr>req_RefID = refID a, req_ECDHKey = px, req_Nonce = env_now env\<rparr>) = Inr enc"
      "DecryptBase64 cr (h_rsaKey h) enc = Inr (Some (encode_AuthReqKey
        \<lparr>req_RefID = refID a, req_ECDHKey = px, req_Nonce = env_now env\<rparr>))"
    using keys(2) unfolding key_pair_def by blast
  obtain enc' where enc': "EncryptBase64 cr (h_devicePublicKey h) (encode_AuthRespKey
        \<lparr>resp_NodeECDHKey = py, resp_Nonce = env_now env,
         resp_TimeoutAt = response_timeout (env_now env), resp_RefName = h_deviceName h\<rparr>) = Inr enc'"
      "DecryptBase64 cr rsa enc' = Inr (Some (encode_AuthRespKey
        \<lparr>resp_NodeECDHKey = py, resp_Nonce = env_now env,
         resp_TimeoutAt = response_timeout (env_now env), resp_RefName = h_deviceName h\<rparr>))"
    using keys(4) unfolding key_pair_def by blast
  define req where "req = \<lparr>AuthReqIDKey = clientIDKey a, AuthReqKeyText = enc\<rparr>"
  define resp where "resp =
    \<lparr>AuthRespIDKey = h_encryptID h (refID a @ ''|'' @ h_deviceID h), AuthRespKeyText = enc'\<rparr>"
  define a' where "a' = a\<lparr>crypt := Some c, keyTimeoutAt := response_timeout (env_now env),
       AuthIDKey := AuthRespIDKey resp, isAuthenticated := True\<rparr>"
  have node: "SendAuthResponse cr h nk req = Some (s, resp)"
    using assms(2,5) ecdh enc enc' by (simp add: SendAuthResponse_def req_def resp_def paired_def)
  then have "Authenticate cr env a = Ret ((True, None), a')"
    using assms(2-4) keys ecdh enc enc'
    by (auto simp: Authenticate_def accept_response_def node_post_def req_def resp_def a'_def
        paired_def Let_def)
  with node ecdh(1,5) keys(1) enc(1) show ?thesis
    by - (rule exI [of _ pub], rule exI [of _ px], rule exI [of _ req], rule exI [of _ s],
        rule exI [of _ resp], rule exI [of _ c], rule exI [of _ a'], simp add: req_def a'_def)
qed

theorem handshake_agrees_witness:
  "\<exists>c a'. Authenticate toy_crypto toy_env toy_client = Ret ((True, None), a') \<and> crypt a' = Some c \<and>
     keyTimeoutAt a' = 3000"
proof -
  have "ecdh_laws toy_crypto" "paired toy_crypto toy_handler toy_client"
    by (auto simp: ecdh_laws_def paired_def key_pair_def toy_defs mult.commute)
  moreover have "env_NewECDHKey toy_env = Inr 2" "env_DoPost toy_env = node_post toy_crypto toy_handler 3"
      "0 <s env_now toy_env" "response_timeout (env_now toy_env) = 3000"
    by (simp_all add: toy_env_def word_sless_alt response_timeout_def go_div_def duration_simps)
  ultimately show ?thesis
    using handshake_agrees [of toy_crypto toy_handler toy_client toy_env 2 3] by auto
qed

text \<open>
  C14: in every state the client can reach, however authentications, callbacks, resets,
  re-initialisations, starts and stops are ordered, a client that is authenticated has a
  session cipher.
\<close>

theorem authenticated_has_cipher:
  assumes "client_initial cr ops a" and "(client_step cr ops)\<^sup>*\<^sup>* a a'" and "IsAuthenticated now a'"
  shows "Crypt a' \<noteq> None"
  using client.reachable_invariant [OF assms(1,2)] assms(3)
  by (simp add: session_ok_def IsAuthenticated_def Crypt_def)

definition toy_ops :: "(unit, unit) node_ops" where
  "toy_ops = \<lparr>GetPublicKey = (\<lambda>_. ''pem''), NodeRestApiClient = (\<lambda>_. Inr ()),
     GetStatus = (\<lambda>_. ''running''), WithAuthCrypt = (\<lambda>r. r)\<rparr>"

theorem authenticated_has_cipher_witness:
  "Crypt toy_session \<noteq> None"
proof (rule authenticated_has_cipher)
  have "NewApiClient toy_crypto toy_ops default_timeouts ''device'' ''user'' ''idkey'' ''rsa'' () ''/auth''
      = Inr toy_client"
    by (simp add: NewApiClient_def toy_defs toy_ops_def Let_def)
  then show "client_initial toy_crypto toy_ops toy_client"
    by (auto simp: client_initial_def)
  show "(client_step toy_crypto toy_ops)\<^sup>*\<^sup>* toy_client toy_session"
    by (rule r_into_rtranclp, rule client_step.authenticate, rule toy_authenticates)
  show "IsAuthenticated 0 toy_session"
    by (simp add: IsAuthenticated_def toy_session_def go_div_def word_sless_alt)
qed

text \<open>
  C28: the callback schedules the next authentication in time: after a success the client
  still counts as authenticated at every clock reading up to the scheduled moment, 50
  milliseconds before its key expires; after a failure the retry delay is returned.
\<close>

theorem AuthCallback_renews_in_time:
  assumes "AuthCallback cr tmo env now2 a = Ret (d, a')" and "0 \<le> sint (keyTimeoutAt a')"
  shows "if isAuthenticated a'
     then now2 + d = keyTimeoutAt a' - 50 \<and>
       (\<forall>nowNano. go_div nowNano millisecond \<le>s now2 + d \<longrightarrow> IsAuthenticated nowNano a')
     else d = authRetryTime tmo \<and> (\<forall>nowNano. \<not> IsAuthenticated nowNano a')"
proof -
  from assms(1) obtain ok err where au: "Authenticate cr env a = Ret ((ok, err), a')"
      and d: "d = (if \<not> ok then authRetryTime tmo else keyTimeoutAt a' - now2 - 50)"
    by (auto simp: AuthCallback_def split: outcome.splits)
  from Authenticate_flag [OF au] have flag: "isAuthenticated a' = ok" by simp
  have "sint (keyTimeoutAt a' - 50) = sint (keyTimeoutAt a') - 50"
    using assms(2) sint64_bounds [of "keyTimeoutAt a'"]
    by (simp add: sint_word_ariths signed_take_bit_int_eq_self_iff)
  then show ?thesis
    using d flag by (auto simp: IsAuthenticated_def word_sless_alt word_sle_eq)
qed

theorem AuthCallback_renews_in_time_witness:
  "AuthCallback toy_crypto default_timeouts toy_env 1020 toy_client = Ret (1930, toy_session) \<and>
   IsAuthenticated (2949 * millisecond) toy_session"
proof -
  have *: "AuthCallback toy_crypto default_timeouts toy_env 1020 toy_client = Ret (1930, toy_session)"
    by (simp add: AuthCallback_def toy_authenticates) (simp add: toy_session_def)
  show ?thesis using AuthCallback_renews_in_time [OF *] *
    by (simp add: toy_session_def word_sle_eq go_div_def duration_simps)
qed

lemma wait_loop_true:
  "wait_loop dl es = Some True \<Longrightarrow> \<exists>b n t. Tick b n t \<in> set es \<and> IsAuthenticated n b"
proof (induction dl es rule: wait_loop.induct)
  case (3 dl a checkNow afterNow es)
  then show ?case
    by (cases "IsAuthenticated checkNow a"; cases "dl <s afterNow") (simp_all del: ex_simps, blast+)
qed simp_all

lemma wait_loop_false:
  "wait_loop dl es = Some False \<Longrightarrow>
     Interrupt \<in> set es \<or> (\<exists>b n t. Tick b n t \<in> set es \<and> dl <s t \<and> \<not> IsAuthenticated n b)"
proof (induction dl es rule: wait_loop.induct)
  case (3 dl a checkNow afterNow es)
  then show ?case
    by (cases "IsAuthenticated checkNow a"; cases "dl <s afterNow") (simp_all del: ex_simps, blast+)
qed simp_all

lemma wait_loop_ends:
  "Interrupt \<in> set es \<or> (\<exists>b n t. Tick b n t \<in> set es \<and> dl <s t) \<Longrightarrow> wait_loop dl es \<noteq> None"
  by (induction dl es rule: wait_loop.induct) auto

text \<open>
  C29: the waiting loop answers soundly and ends: it returns true only if the client was
  authenticated when checked, false only after an interrupt or past the deadline, and it
  has returned once an interrupt or a tick past the deadline is among its events.
\<close>

theorem WaitForAuth_correct:
  "(WaitForAuth checkNow startNow a es = Some True \<longrightarrow>
      IsAuthenticated checkNow a \<or> (\<exists>b n t. Tick b n t \<in> set es \<and> IsAuthenticated n b)) \<and>
   (WaitForAuth checkNow startNow a es = Some False \<longrightarrow>
      \<not> IsAuthenticated checkNow a \<and>
      (Interrupt \<in> set es \<or>
       (\<exists>b n t. Tick b n t \<in> set es \<and> startNow + authTimeout a <s t \<and> \<not> IsAuthenticated n b))) \<and>
   (Interrupt \<in> set es \<or> (\<exists>b n t. Tick b n t \<in> set es \<and> startNow + authTimeout a <s t) \<longrightarrow>
      WaitForAuth checkNow startNow a es \<noteq> None)"
  using wait_loop_true [of "startNow + authTimeout a" es] wait_loop_false [of "startNow + authTimeout a" es]
    wait_loop_ends [of es "startNow + authTimeout a"]
  by (cases "IsAuthenticated checkNow a") (simp_all only: WaitForAuth_def if_True if_False not_True_eq_False
      not_False_eq_True option.inject option.distinct simp_thms, iprover)

theorem WaitForAuth_correct_witness:
  "WaitForAuth 0 0 toy_client [Tick toy_client 5 5, Tick toy_session 7 7] = Some True \<and>
   (\<exists>b n t. Tick b n t \<in> set [Tick toy_client 5 5, Tick toy_session 7 7] \<and> IsAuthenticated n b)"
proof -
  let ?es = "[Tick toy_client 5 5, Tick toy_session 7 7]"
  have ret: "WaitForAuth 0 0 toy_client ?es = Some True" and unauth: "\<not> IsAuthenticated 0 toy_client"
    by (simp_all add: WaitForAuth_def IsAuthenticated_def toy_session_def toy_client_def blank_client_def
        default_timeouts_def go_div_def word_sless_alt duration_simps)
  have "\<exists>b n t. Tick b n t \<in> set ?es \<and> IsAuthenticated n b"
    using WaitForAuth_correct [THEN conjunct1, THEN mp, OF ret] unauth by (simp only: simp_thms)
  with ret show ?thesis by (simp only: simp_thms)
qed

text \<open>
  With the default settings the wait does not last ten seconds: the default is ten
  thousand, read as nanoseconds, so an unauthenticated client is given up at the first
  tick, ten milliseconds after the start.
\<close>

theorem default_wait_ends_at_first_tick:
  assumes "authTimeout a = authTimeoutVar default_timeouts" and "\<not> IsAuthenticated n0 a"
    and "\<not> IsAuthenticated n1 b" and "0 \<le> sint startNow" and "sint startNow < 2 ^ 62"
  shows "WaitForAuth n0 startNow a (Tick b n1 (startNow + 10 * millisecond) # es) = Some False"
proof -
  have "authTimeout a = 10000"
    by (simp add: assms(1) default_timeouts_def go_div_def duration_simps)
  moreover have "sint (startNow + 10000) = sint startNow + 10000"
      "sint (startNow + 10000000) = sint startNow + 10000000"
    using assms(4,5) by (simp_all add: sint_word_ariths signed_take_bit_int_eq_self_iff)
  ultimately show ?thesis
    using assms(2,3) by (simp add: WaitForAuth_def word_sless_alt duration_simps)
qed

theorem default_wait_ends_at_first_tick_witness:
  "WaitForAuth 0 0 toy_client [Tick toy_client 1 (0 + 10 * millisecond), Tick toy_session 2 2] = Some False"
  by (rule default_wait_ends_at_first_tick)
    (simp_all add: toy_client_def blank_client_def IsAuthenticated_def)

end
