(* ===== verification/Go_Net.thy ===== *)
theory Go_Net
  imports Go_Strings
begin

text \<open>
  The parts of Go's \<^verbatim>\<open>net\<close> and \<^verbatim>\<open>net/netip\<close> the sources use: addresses and networks,
  their textual form, \<open>ParseCIDR\<close>, \<open>IPNet.String\<close>, \<open>netip.ParseAddr\<close> and
  \<open>Addr.String\<close>. An address is the list of its bytes; nil is the empty list.
\<close>

unbundle bit_operations_syntax

type_synonym ip = "8 word list"

record ipnet =
  net_IP :: ip
  net_Mask :: "8 word list"

section \<open>Reading addresses\<close>

text \<open>
  \<open>dtoi\<close> and \<open>xtoi\<close> read a number at the start of the text and return it with the
  count of characters read; a number that reaches \<open>0xFFFFFF\<close> is refused.
\<close>

fun dtoi_loop :: "nat \<Rightarrow> nat \<Rightarrow> string \<Rightarrow> (nat \<times> nat) option" where
  "dtoi_loop n i [] = Some (n, i)"
| "dtoi_loop n i (c # cs) =
     (if is_digit c
      then (let n' = n * 10 + digit_value c in if 0xFFFFFF \<le> n' then None else dtoi_loop n' (Suc i) cs)
      else Some (n, i))"

definition dtoi :: "string \<Rightarrow> (nat \<times> nat) option" where
  "dtoi s = (case dtoi_loop 0 0 s of
      None \<Rightarrow> None
    | Some (n, i) \<Rightarrow> if i = 0 then None else Some (n, i))"

fun xtoi_loop :: "nat \<Rightarrow> nat \<Rightarrow> string \<Rightarrow> (nat \<times> nat) option" where
  "xtoi_loop n i [] = Some (n, i)"
| "xtoi_loop n i (c # cs) = (case hex_value c of
      Some d \<Rightarrow> (let n' = n * 16 + d in if 0xFFFFFF \<le> n' then None else xtoi_loop n' (Suc i) cs)
    | None \<Rightarrow> Some (n, i))"

definition xtoi :: "string \<Rightarrow> (nat \<times> nat) option" where
  "xtoi s = (case xtoi_loop 0 0 s of
      None \<Rightarrow> None
    | Some (n, i) \<Rightarrow> if i = 0 then None else Some (n, i))"

text \<open>
  \<open>parseIPv4\<close>: four decimal fields of at most 255, without leading zeros. The number of
  fields still to read is the first argument.
\<close>

fun v4_loop :: "nat \<Rightarrow> bool \<Rightarrow> string \<Rightarrow> ip \<Rightarrow> ip option" where
  "v4_loop 0 first s p = (if s = [] then Some p else None)"
| "v4_loop (Suc k) first s p =
     (if s = [] \<or> \<not> first \<and> hd s \<noteq> CHR ''.'' then None
      else (let t = (if first then s else tl s) in
        case dtoi t of
          None \<Rightarrow> None
        | Some (n, c) \<Rightarrow>
            if 255 < n \<or> 1 < c \<and> hd t = CHR ''0'' then None
            else v4_loop k False (drop c t) (p @ [of_nat n])))"

definition v4InV6Prefix :: ip where
  "v4InV6Prefix = [0, 0, 0, 0, 0, 0, 0, 0, 0, 0, 0xFF, 0xFF]"

definition parseIPv4 :: "string \<Rightarrow> ip option" where
  "parseIPv4 s = map_option (\<lambda>p. v4InV6Prefix @ p) (v4_loop 4 True s [])"

text \<open>
  \<open>parseIPv6\<close>: the loop reads at most eight groups; the position of an ellipsis is
  \<open>ell\<close>, the bytes read so far are \<open>bs\<close>. It ends with the text left.
\<close>

fun v6_loop :: "nat \<Rightarrow> string \<Rightarrow> nat option \<Rightarrow> ip \<Rightarrow> (string \<times> nat option \<times> ip) option" where
  "v6_loop 0 s ell bs = Some (s, ell, bs)"
| "v6_loop (Suc k) s ell bs = (case xtoi s of
      None \<Rightarrow> None
    | Some (n, c) \<Rightarrow>
        if 0xFFFF < n then None
        else if c < length s \<and> s ! c = CHR ''.'' then
          (if ell = None \<and> length bs \<noteq> 12 then None
           else if 16 < length bs + 4 then None
           else (case parseIPv4 s of None \<Rightarrow> None | Some ip4 \<Rightarrow> Some ([], ell, bs @ drop 12 ip4)))
        else
          (let bs = bs @ [of_nat (n div 256), of_nat n]; s = drop c s in
           if s = [] then Some ([], ell, bs)
           else if hd s \<noteq> CHR '':'' \<or> length s = 1 then None
           else (let s = tl s in
             if hd s = CHR '':'' then
               (if ell \<noteq> None then None
                else if tl s = [] then Some ([], Some (length bs), bs)
                else v6_loop k (tl s) (Some (length bs)) bs)
             else v6_loop k s ell bs)))"

definition v6_finish :: "string \<Rightarrow> nat option \<Rightarrow> ip \<Rightarrow> ip option" where
  "v6_finish s ell bs =
     (if s \<noteq> [] then None
      else if length bs < 16 then
        (case ell of
           None \<Rightarrow> None
         | Some e \<Rightarrow> Some (take e bs @ replicate (16 - length bs) 0 @ drop e bs))
      else if ell \<noteq> None then None
      else Some bs)"

definition parseIPv6 :: "string \<Rightarrow> ip option" where
  "parseIPv6 s =
     (let lead = (2 \<le> length s \<and> take 2 s = ''::'');
          t = (if lead then drop 2 s else s) in
      if lead \<and> t = [] then Some (replicate 16 0)
      else (case v6_loop 8 t (if lead then Some 0 else None) [] of
          None \<Rightarrow> None
        | Some (rest, ell, bs) \<Rightarrow> v6_finish rest ell bs))"

section \<open>Masks and networks\<close>

text \<open>\<open>CIDRMask\<close> of \<open>l\<close> bytes.\<close>

primrec CIDRMask :: "nat \<Rightarrow> nat \<Rightarrow> 8 word list" where
  "CIDRMask n 0 = []"
| "CIDRMask n (Suc l) =
     (if 8 \<le> n then 0xFF # CIDRMask (n - 8) l else NOT (drop_bit n 0xFF) # CIDRMask 0 l)"

definition Mask :: "ip \<Rightarrow> 8 word list \<Rightarrow> ip" where
  "Mask ip msk =
     (let msk = (if length msk = 16 \<and> length ip = 4 \<and> list_all (\<lambda>b. b = 0xFF) (take 12 msk)
                  then drop 12 msk else msk);
          ip = (if length msk = 4 \<and> length ip = 16 \<and> take 12 ip = v4InV6Prefix then drop 12 ip else ip)
      in if length ip \<noteq> length msk then [] else map2 (AND) ip msk)"

definition index_byte :: "char \<Rightarrow> string \<Rightarrow> nat option" where
  "index_byte c s = (if c \<in> set s then Some (length (takeWhile (\<lambda>d. d \<noteq> c) s)) else None)"

definition ParseCIDR :: "string \<Rightarrow> ipnet option" where
  "ParseCIDR s = (case index_byte CHR ''/'' s of
      None \<Rightarrow> None
    | Some i \<Rightarrow>
        (let addr = take i s; msk = drop (Suc i) s;
             (iplen, ip) = (case parseIPv4 addr of Some ip \<Rightarrow> (4, Some ip) | None \<Rightarrow> (16, parseIPv6 addr)) in
         case (ip, dtoi msk) of
           (Some ip, Some (n, j)) \<Rightarrow>
             if j \<noteq> length msk \<or> 8 * iplen < n then None
             else Some \<lparr>net_IP = Mask ip (CIDRMask n iplen), net_Mask = CIDRMask n iplen\<rparr>
         | _ \<Rightarrow> None))"

section \<open>Writing addresses\<close>

definition To4 :: "ip \<Rightarrow> ip option" where
  "To4 ip = (if length ip = 4 then Some ip
     else if length ip = 16 \<and> take 12 ip = v4InV6Prefix then Some (drop 12 ip) else None)"

definition string4 :: "ip \<Rightarrow> string" where
  "string4 p = join ''.'' (map (\<lambda>b. show_nat (unat b)) p)"

fun show_hex :: "nat \<Rightarrow> string" where
  "show_hex n = (if n < 16 then [hex_char n] else show_hex (n div 16) @ [hex_char (n mod 16)])"

declare show_hex.simps [simp del]

fun groups_of :: "ip \<Rightarrow> nat list" where
  "groups_of (a # b # bs) = (unat a * 256 + unat b) # groups_of bs"
| "groups_of _ = []"

text \<open>The longest run of zero groups, the first of them on a tie, when it has two or more.\<close>

definition zero_run :: "nat list \<Rightarrow> nat \<Rightarrow> nat" where
  "zero_run gs i = length (takeWhile (\<lambda>g. g = 0) (drop i gs))"

definition longest_run :: "nat list \<Rightarrow> nat \<times> nat" where
  "longest_run gs = fold (\<lambda>i (e, l). if l < zero_run gs i then (i, zero_run gs i) else (e, l))
     [0..<length gs] (0, 0)"

definition string6 :: "ip \<Rightarrow> string" where
  "string6 p =
     (let gs = groups_of p; (e, l) = longest_run gs; hex = (\<lambda>gs. join '':'' (map show_hex gs)) in
      if l < 2 then hex gs
      else hex (take e gs) @ ''::'' @ hex (drop (e + l) gs))"

definition IP_String :: "ip \<Rightarrow> string" where
  "IP_String ip =
     (if ip = [] then ''<nil>''
      else (case To4 ip of
          Some p4 \<Rightarrow> string4 p4
        | None \<Rightarrow> if length ip = 16 then string6 ip else ''?'' @ hex_encode (map (\<lambda>b. char_of (unat b)) ip)))"

fun leading_ones :: "nat \<Rightarrow> 8 word \<Rightarrow> nat \<times> 8 word" where
  "leading_ones 0 v = (0, v)"
| "leading_ones (Suc k) v =
     (if v AND 0x80 \<noteq> 0 then (let (n, w) = leading_ones k (push_bit 1 v) in (Suc n, w)) else (0, v))"

fun simpleMaskLength :: "8 word list \<Rightarrow> nat option" where
  "simpleMaskLength [] = Some 0"
| "simpleMaskLength (v # m) =
     (if v = 0xFF then map_option (\<lambda>n. n + 8) (simpleMaskLength m)
      else (let (n, w) = leading_ones 8 v in
        if w \<noteq> 0 \<or> \<not> list_all (\<lambda>b. b = 0) m then None else Some n))"

definition IPNet_String :: "ipnet \<Rightarrow> string" where
  "IPNet_String nt =
     (let ip = (case To4 (net_IP nt) of Some p \<Rightarrow> p | None \<Rightarrow> net_IP nt);
          m = (if length (net_Mask nt) = 16 \<and> length ip = 4 then drop 12 (net_Mask nt) else net_Mask nt) in
      if length ip \<noteq> 4 \<and> length ip \<noteq> 16 \<or> length m \<noteq> length ip then ''<nil>''
      else (case simpleMaskLength m of
          None \<Rightarrow> IP_String ip @ ''/'' @ hex_encode (map (\<lambda>b. char_of (unat b)) m)
        | Some l \<Rightarrow> IP_String ip @ ''/'' @ show_nat l))"

section \<open>netip addresses\<close>

datatype netip_addr = AddrZero | Addr4 ip | Addr6 ip string

definition netip_parseIPv6 :: "string \<Rightarrow> netip_addr option" where
  "netip_parseIPv6 inp =
     (let (s, zone) = (case index_byte CHR ''%'' inp of
          None \<Rightarrow> (inp, Some []) | Some i \<Rightarrow> (take i inp, if drop (Suc i) inp = [] then None else Some (drop (Suc i) inp)))
      in case zone of
        None \<Rightarrow> None
      | Some z \<Rightarrow>
          if list_ex (\<lambda>g. 4 < length g \<and> CHR ''.'' \<notin> set g) (split_on CHR '':'' s) then None
          else map_option (\<lambda>p. Addr6 p z) (parseIPv6 s))"

definition ParseAddr :: "string \<Rightarrow> netip_addr option" where
  "ParseAddr s = (case dropWhile (\<lambda>c. c \<notin> {CHR ''.'', CHR '':'', CHR ''%''}) s of
      [] \<Rightarrow> None
    | c # _ \<Rightarrow>
        if c = CHR ''.'' then map_option (\<lambda>p. Addr4 (drop 12 p)) (parseIPv4 s)
        else if c = CHR '':'' then netip_parseIPv6 s
        else None)"

definition MustParseAddr :: "string \<Rightarrow> netip_addr outcome" where
  "MustParseAddr s = (case ParseAddr s of Some a \<Rightarrow> Ret a | None \<Rightarrow> Panic ''ParseAddr'')"

fun Addr_String :: "netip_addr \<Rightarrow> string" where
  "Addr_String AddrZero = ''invalid IP''"
| "Addr_String (Addr4 p) = string4 p"
| "Addr_String (Addr6 p zone) =
     (if take 12 p = v4InV6Prefix then ''::ffff:'' @ string4 (drop 12 p) else string6 p) @
     (if zone = [] then [] else ''%'' @ zone)"

end
