(* ===== verification/Go_Net_Props.thy ===== *)
theory Go_Net_Props
  imports Go_Net
begin

text \<open>
  Round trips of addresses and networks: what \<open>IPNet.String\<close> writes for a network in
  canonical form, \<open>ParseCIDR\<close> reads back, for both address families.
\<close>

section \<open>Numbers at the start of a text\<close>

lemma digits_value_ge: "acc \<le> digits_value acc ds"
proof (induction acc ds rule: digits_value.induct)
  case (2 acc c cs)
  then show ?case by simp
qed simp

lemma dtoi_loop_digits:
  "list_all is_digit ds \<Longrightarrow> digits_value n ds < 0xFFFFFF \<Longrightarrow>
     dtoi_loop n i (ds @ rest) = dtoi_loop (digits_value n ds) (i + length ds) rest"
proof (induction ds arbitrary: n i)
  case (Cons c ds)
  have "n * 10 + digit_value c < 0xFFFFFF"
    using Cons.prems(2) digits_value_ge [of "10 * n + digit_value c" ds] by (simp add: mult.commute)
  with Cons show ?case by (simp add: mult.commute)
qed simp

definition stops :: "(char \<Rightarrow> bool) \<Rightarrow> string \<Rightarrow> bool" where
  "stops P rest \<longleftrightarrow> (case rest of [] \<Rightarrow> True | c # _ \<Rightarrow> \<not> P c)"

lemma dtoi_show_nat:
  assumes "n < 0xFFFFFF" and "stops is_digit rest"
  shows "dtoi (show_nat n @ rest) = Some (n, length (show_nat n))"
proof -
  have "dtoi_loop n (length (show_nat n)) rest = Some (n, length (show_nat n))"
    using assms(2) by (cases rest) (auto simp: stops_def)
  then show ?thesis
    using assms(1) show_nat_digits [of n] dtoi_loop_digits [of "show_nat n" 0 0 rest]
    by (simp add: dtoi_def digits_value_show_nat)
qed

lemma show_nat_nonempty [simp]: "show_nat n \<noteq> []"
  using show_nat_digits by blast

lemma show_nat_hd: "0 < n \<Longrightarrow> hd (show_nat n) \<noteq> CHR ''0''"
proof (induction n rule: show_nat.induct)
  case (1 n)
  show ?case
  proof (cases "n < 10")
    case True
    then have "n \<in> set [1..<10]" using 1 by auto
    moreover have "\<forall>n \<in> set [1..<10]. digit_char n \<noteq> CHR ''0''" by code_simp
    ultimately show ?thesis using True by (simp add: show_nat.simps [of n])
  next
    case False
    then show ?thesis using 1 by (simp add: show_nat.simps [of n])
  qed
qed

lemma show_nat_no_leading_zero: "\<not> (1 < length (show_nat n) \<and> hd (show_nat n) = CHR ''0'')"
  using show_nat_hd [of n] by (cases "n = 0") (simp_all add: show_nat.simps [of 0])

lemma hex_value_less: "hex_value c = Some d \<Longrightarrow> d < 16"
  by (auto simp: hex_value_def Let_def split: if_splits)

primrec hex_digits :: "nat \<Rightarrow> string \<Rightarrow> nat option" where
  "hex_digits acc [] = Some acc"
| "hex_digits acc (c # cs) = (case hex_value c of None \<Rightarrow> None | Some d \<Rightarrow> hex_digits (acc * 16 + d) cs)"

lemma hex_digits_append:
  "hex_digits acc (s @ t) = (case hex_digits acc s of None \<Rightarrow> None | Some n \<Rightarrow> hex_digits n t)"
  by (induction s arbitrary: acc) (auto split: option.split)

lemma hex_digits_ge: "hex_digits acc s = Some n \<Longrightarrow> acc \<le> n"
  by (induction s arbitrary: acc) (force split: option.splits)+

lemma show_hex_digits: "hex_digits 0 (show_hex n) = Some n"
proof (induction n rule: show_hex.induct)
  case (1 n)
  then show ?case by (cases "n < 16") (simp_all add: show_hex.simps [of n] hex_digits_append)
qed

lemma xtoi_loop_digits:
  "hex_digits n ds = Some m \<Longrightarrow> m < 0xFFFFFF \<Longrightarrow>
     xtoi_loop n i (ds @ rest) = xtoi_loop m (i + length ds) rest"
proof (induction ds arbitrary: n i)
  case (Cons c ds)
  then obtain d where d: "hex_value c = Some d" "hex_digits (n * 16 + d) ds = Some m"
    by (auto split: option.splits)
  then have "n * 16 + d < 0xFFFFFF" using Cons.prems(2) hex_digits_ge [OF d(2)] by simp
  with Cons d show ?case by simp
qed simp

lemma show_hex_nonempty [simp]: "show_hex n \<noteq> []"
  by (cases "n < 16") (simp_all add: show_hex.simps [of n])

lemma xtoi_show_hex:
  assumes "n < 0xFFFFFF" and "stops (\<lambda>c. hex_value c \<noteq> None) rest"
  shows "xtoi (show_hex n @ rest) = Some (n, length (show_hex n))"
proof -
  have "xtoi_loop n (length (show_hex n)) rest = Some (n, length (show_hex n))"
    using assms(2) by (cases rest) (auto simp: stops_def split: option.split)
  then show ?thesis
    using assms(1) xtoi_loop_digits [OF show_hex_digits, of n 0 rest] by (simp add: xtoi_def)
qed

lemma byte_word_less: "unat (b :: 8 word) < 256"
proof -
  have "unat b < 2 ^ LENGTH(8)" by (rule unsigned_less)
  then show ?thesis by simp
qed

section \<open>IPv4\<close>

primrec dot_tail :: "ip \<Rightarrow> string" where
  "dot_tail [] = []"
| "dot_tail (b # bs) = CHR ''.'' # show_nat (unat b) @ dot_tail bs"

lemma string4_Cons: "string4 (b # bs) = show_nat (unat b) @ dot_tail bs"
  by (induction bs arbitrary: b) (simp_all add: string4_def)

lemma dot_not_digit: "\<not> is_digit CHR ''.''"
  by (simp add: is_digit_def byte_def)

lemma stops_dot_tail: "stops is_digit (dot_tail bs)"
  by (cases bs) (simp_all add: stops_def dot_not_digit)

lemma v4_field:
  "v4_loop (Suc k) first ((if first then [] else ''.'') @ show_nat (unat b) @ dot_tail bs) p =
     v4_loop k False (dot_tail bs) (p @ [b])"
proof -
  have b: "unat b < 256" by (rule byte_word_less)
  then have "dtoi (show_nat (unat b) @ dot_tail bs) = Some (unat b, length (show_nat (unat b)))"
    using dtoi_show_nat stops_dot_tail by simp
  then show ?thesis using b show_nat_no_leading_zero [of "unat b"] by (auto simp: Let_def)
qed

lemma v4_loop_tail: "v4_loop (length bs) False (dot_tail bs) p = Some (p @ bs)"
proof (induction bs arbitrary: p)
  case (Cons b bs)
  then show ?case using v4_field [of "length bs" False b bs p] by simp
qed simp

lemma v4_loop_string4: "length p = 4 \<Longrightarrow> v4_loop 4 True (string4 p) [] = Some p"
proof (cases p)
  case (Cons b bs)
  assume "length p = 4"
  with Cons show ?thesis
    using v4_field [of "length bs" True b bs "[]"] v4_loop_tail [of bs "[b]"]
    by (simp add: string4_Cons numeral_eq_Suc del: v4_loop.simps)
qed simp

lemma parseIPv4_string4: "length p = 4 \<Longrightarrow> parseIPv4 (string4 p) = Some (v4InV6Prefix @ p)"
  by (simp add: parseIPv4_def v4_loop_string4)

lemma parseIPv4_no_dot:
  assumes "CHR ''.'' \<notin> set s"
  shows "parseIPv4 s = None"
proof -
  have "v4_loop (Suc k) False (drop c s) p = None" for k c p
  proof (cases "drop c s")
    case (Cons d t)
    then have "d \<in> set s" using set_drop_subset [of c s] by auto
    with Cons assms show ?thesis by auto
  qed simp
  then show ?thesis by (auto simp: parseIPv4_def numeral_eq_Suc Let_def split: option.split)
qed

section \<open>IPv6\<close>

primrec colon_tail :: "nat list \<Rightarrow> string" where
  "colon_tail [] = []"
| "colon_tail (g # gs) = CHR '':'' # show_hex g @ colon_tail gs"

definition hextets :: "nat list \<Rightarrow> string" where
  "hextets gs = join '':'' (map show_hex gs)"

definition group_bytes :: "nat list \<Rightarrow> ip" where
  "group_bytes gs = concat (map (\<lambda>g. [of_nat (g div 256), of_nat g]) gs)"

lemma hextets_Cons: "hextets (g # gs) = show_hex g @ colon_tail gs"
  by (induction gs arbitrary: g) (simp_all add: hextets_def)

lemma hextets_Nil [simp]: "hextets [] = []"
  by (simp add: hextets_def)

lemma group_bytes_simps [simp]:
  "group_bytes [] = []" "group_bytes (g # gs) = of_nat (g div 256) # of_nat g # group_bytes gs"
  "group_bytes (gs @ hs) = group_bytes gs @ group_bytes hs" "length (group_bytes gs) = 2 * length gs"
  by (simp_all add: group_bytes_def length_concat comp_def sum_list_triv)

lemma group_bytes_zeros: "group_bytes (replicate l 0) = replicate (2 * l) 0"
  by (induction l) simp_all

lemma group_bytes_groups_of: "even (length p) \<Longrightarrow> group_bytes (groups_of p) = p"
proof (induction p rule: groups_of.induct)
  case (1 a b bs)
  have zero: "(256 :: 8 word) = 0" by simp
  have "a * 256 = 0" by (simp only: zero mult_zero_right)
  moreover have "(unat a * 256 + unat b) div 256 = unat a" using byte_word_less [of b] by simp
  ultimately show ?case using 1 by simp
qed auto

lemma groups_of_bound: "g \<in> set (groups_of p) \<Longrightarrow> g \<le> 0xFFFF"
proof (induction p rule: groups_of.induct)
  case (1 a b bs)
  then show ?case using byte_word_less [of a] byte_word_less [of b] by auto
qed auto

lemma groups_of_length: "length (groups_of p) = length p div 2"
  by (induction p rule: groups_of.induct) auto

lemma colon_not_hex: "hex_value CHR '':'' = None"
  by (simp add: hex_value_def byte_def)

lemma xtoi_group:
  "g \<le> 0xFFFF \<Longrightarrow> rest = [] \<or> hd rest = CHR '':'' \<Longrightarrow>
     xtoi (show_hex g @ rest) = Some (g, length (show_hex g))"
  using xtoi_show_hex [of g rest] by (cases rest) (auto simp: stops_def colon_not_hex)

lemma v6_loop_last:
  "g \<le> 0xFFFF \<Longrightarrow> v6_loop (Suc k) (show_hex g) ell bs = Some ([], ell, bs @ group_bytes [g])"
  using xtoi_group [of g "[]"] by simp

lemma v6_loop_next:
  assumes "g \<le> 0xFFFF" and "rest \<noteq> []" and "hd rest \<noteq> CHR '':''"
  shows "v6_loop (Suc k) (show_hex g @ CHR '':'' # rest) ell bs = v6_loop k rest ell (bs @ group_bytes [g])"
  using assms xtoi_group [of g "CHR '':'' # rest"] by (simp add: nth_append)

lemma v6_loop_ellipsis:
  assumes "g \<le> 0xFFFF"
  shows "v6_loop (Suc k) (show_hex g @ ''::'' @ rest) None bs =
     (let bs = bs @ group_bytes [g] in
      if rest = [] then Some ([], Some (length bs), bs) else v6_loop k rest (Some (length bs)) bs)"
  using assms xtoi_group [of g "''::'' @ rest"] by (simp add: nth_append Let_def)

lemma show_hex_hd: "hex_value (hd (show_hex n)) \<noteq> None"
proof -
  obtain c cs where "show_hex n = c # cs" by (cases "show_hex n") auto
  then show ?thesis using show_hex_digits [of n] by (auto split: option.splits)
qed

lemma show_hex_hd_not_colon: "hd (show_hex n @ rest) \<noteq> CHR '':''"
  using show_hex_hd [of n] colon_not_hex by (cases "show_hex n") auto

lemma v6_loop_step:
  "g \<le> 0xFFFF \<Longrightarrow> v6_loop (Suc k) (show_hex g @ CHR '':'' # show_hex h @ rest) ell bs =
     v6_loop k (show_hex h @ rest) ell (bs @ group_bytes [g])"
  using v6_loop_next [of g "show_hex h @ rest" k ell bs] show_hex_hd_not_colon [of h rest]
  by (simp del: v6_loop.simps)

lemma v6_loop_groups:
  "\<forall>g \<in> set (g # gs). g \<le> 0xFFFF \<Longrightarrow> length gs \<le> k \<Longrightarrow>
     v6_loop (Suc k) (hextets (g # gs)) ell bs = Some ([], ell, bs @ group_bytes (g # gs))"
proof (induction gs arbitrary: g k bs)
  case Nil
  then show ?case using v6_loop_last by (simp add: hextets_Cons del: v6_loop.simps)
next
  case (Cons h hs)
  then obtain k' where k: "k = Suc k'" "length hs \<le> k'" by (cases k) auto
  have "v6_loop (Suc k) (hextets (g # h # hs)) ell bs =
      v6_loop (Suc k') (hextets (h # hs)) ell (bs @ group_bytes [g])"
    using v6_loop_step [of g k h "colon_tail hs" ell bs] Cons.prems k(1) by (simp add: hextets_Cons del: v6_loop.simps)
  also have "\<dots> = Some ([], ell, (bs @ group_bytes [g]) @ group_bytes (h # hs))"
    using Cons.prems k(2) by (intro Cons.IH) simp_all
  finally show ?case by simp
qed

lemma v6_loop_groups_ellipsis:
  "\<forall>g \<in> set (g # gs). g \<le> 0xFFFF \<Longrightarrow> length gs \<le> k \<Longrightarrow>
     v6_loop (Suc k) (hextets (g # gs) @ ''::'' @ rest) None bs =
     (let bs = bs @ group_bytes (g # gs) in
      if rest = [] then Some ([], Some (length bs), bs)
      else v6_loop (k - length gs) rest (Some (length bs)) bs)"
proof (induction gs arbitrary: g k bs)
  case Nil
  then show ?case using v6_loop_ellipsis [of g k rest bs] by (simp add: hextets_Cons Let_def del: v6_loop.simps)
next
  case (Cons h hs)
  then obtain k' where k: "k = Suc k'" "length hs \<le> k'" by (cases k) auto
  have "v6_loop (Suc k) (hextets (g # h # hs) @ ''::'' @ rest) None bs =
      v6_loop (Suc k') (hextets (h # hs) @ ''::'' @ rest) None (bs @ group_bytes [g])"
    using v6_loop_step [of g k h "colon_tail hs @ ''::'' @ rest" None bs] Cons.prems k(1)
    by (simp add: hextets_Cons del: v6_loop.simps)
  also have "\<dots> = (let bs = (bs @ group_bytes [g]) @ group_bytes (h # hs) in
      if rest = [] then Some ([], Some (length bs), bs)
      else v6_loop (k' - length hs) rest (Some (length bs)) bs)"
    using Cons.prems k(2) by (intro Cons.IH) simp_all
  finally show ?case by (simp add: Let_def k(1) del: v6_loop.simps)
qed

lemma take2_show_hex: "take 2 (show_hex g @ rest) \<noteq> ''::''"
  using show_hex_hd_not_colon [of g "[]"] by (cases "show_hex g") auto

lemma parseIPv6_full:
  assumes "length gs = 8" and "\<forall>g \<in> set gs. g \<le> 0xFFFF"
  shows "parseIPv6 (hextets gs) = Some (group_bytes gs)"
proof -
  obtain g hs where gs: "gs = g # hs" using assms(1) by (cases gs) auto
  have "v6_loop 8 (hextets gs) None [] = Some ([], None, group_bytes gs)"
    using v6_loop_groups [of g hs 7 None "[]"] assms gs by (simp del: v6_loop.simps)
  moreover have "take 2 (hextets gs) \<noteq> ''::''"
    using take2_show_hex [of g "colon_tail hs"] gs by (simp add: hextets_Cons)
  ultimately show ?thesis using assms(1) by (simp add: parseIPv6_def v6_finish_def Let_def)
qed

lemma parseIPv6_ellipsis:
  assumes "length gs + length hs < 8" and "\<forall>g \<in> set (gs @ hs). g \<le> 0xFFFF"
  shows "parseIPv6 (hextets gs @ ''::'' @ hextets hs) =
     Some (group_bytes gs @ replicate (16 - 2 * (length gs + length hs)) 0 @ group_bytes hs)"
proof -
  have hs: "hextets hs = [] \<longleftrightarrow> hs = []" for hs
    by (cases hs) (simp_all add: hextets_Cons)
  have tail: "v6_loop (Suc k) (hextets hs) ell bs = Some ([], ell, bs @ group_bytes hs)"
    if "hs \<noteq> []" "length hs \<le> Suc k" for k ell bs
    using that assms(2) v6_loop_groups [of "hd hs" "tl hs" k ell bs] by (cases hs) (auto simp del: v6_loop.simps)
  show ?thesis
  proof (cases gs)
    case Nil
    then show ?thesis
      using assms(1) tail [of 7 "Some 0" "[]"] hs [of hs]
      by (cases "hs = []") (simp_all add: parseIPv6_def v6_finish_def Let_def numeral_eq_Suc del: v6_loop.simps)
  next
    case (Cons g gs')
    obtain k where k: "7 - length gs' = Suc k" "length hs \<le> Suc k"
      using assms(1) Cons by (cases "7 - length gs'") auto
    have "v6_loop 8 (hextets gs @ ''::'' @ hextets hs) None [] =
        Some ([], Some (2 * length gs), group_bytes gs @ group_bytes hs)"
      using v6_loop_groups_ellipsis [of g gs' 7 "hextets hs" "[]"] assms Cons
        tail [of k "Some (2 * length gs)" "group_bytes gs"] hs [of hs] k
      by (cases "hs = []") (simp_all add: Let_def del: v6_loop.simps)
    moreover have "take 2 (hextets gs @ ''::'' @ hextets hs) \<noteq> ''::''"
      using take2_show_hex [of g "colon_tail gs' @ ''::'' @ hextets hs"] Cons by (simp add: hextets_Cons)
    ultimately show ?thesis using assms(1) by (simp add: parseIPv6_def v6_finish_def Let_def)
  qed
qed

lemma longest_run_zeros:
  assumes "longest_run gs = (e, l)"
  shows "e + l \<le> length gs \<and> take l (drop e gs) = replicate l 0"
proof -
  have run: "zero_run gs i \<le> length gs - i" "take (zero_run gs i) (drop i gs) = replicate (zero_run gs i) 0"
    for i
  proof -
    show "zero_run gs i \<le> length gs - i"
      unfolding zero_run_def by (metis length_drop length_takeWhile_le)
    have "take (zero_run gs i) (drop i gs) = takeWhile (\<lambda>g. g = 0) (drop i gs)"
      unfolding zero_run_def by (rule takeWhile_eq_take [symmetric])
    then show "take (zero_run gs i) (drop i gs) = replicate (zero_run gs i) 0"
      by (simp add: zero_run_def replicate_eqI) (metis (full_types) replicate_eqI set_takeWhileD)
  qed
  have "e + l \<le> length gs \<and> take l (drop e gs) = replicate l 0"
    if "fold (\<lambda>i (e, l). if l < zero_run gs i then (i, zero_run gs i) else (e, l)) is s = (e, l)"
      "\<forall>i \<in> set is. i < length gs" "fst s + snd s \<le> length gs"
      "take (snd s) (drop (fst s) gs) = replicate (snd s) 0" for "is" s
    using that
  proof (induction "is" arbitrary: s)
    case (Cons i "is")
    then show ?case using run [of i] by (cases s) (auto split: if_splits)
  qed auto
  then show ?thesis using assms by (simp add: longest_run_def)
qed

lemma parseIPv6_string6:
  assumes "length p = 16"
  shows "parseIPv6 (string6 p) = Some p"
proof -
  define gs where "gs = groups_of p"
  obtain e l where run: "longest_run gs = (e, l)" by (cases "longest_run gs")
  have len: "length gs = 8" and bound: "\<forall>g \<in> set gs. g \<le> 0xFFFF" and bytes: "group_bytes gs = p"
    using assms groups_of_bound by (auto simp: gs_def groups_of_length group_bytes_groups_of)
  have s6: "string6 p = (if l < 2 then hextets gs else hextets (take e gs) @ ''::'' @ hextets (drop (e + l) gs))"
    using run by (simp add: string6_def hextets_def gs_def Let_def)
  show ?thesis
  proof (cases "l < 2")
    case True
    then show ?thesis using s6 parseIPv6_full [OF len bound] bytes by simp
  next
    case False
    from longest_run_zeros [OF run] len
    have el: "e + l \<le> 8" and z: "take l (drop e gs) = replicate l 0" by auto
    have "gs = take e gs @ take l (drop e gs) @ drop (e + l) gs"
      by (metis append_take_drop_id drop_drop add.commute)
    then have "p = group_bytes (take e gs) @ replicate (2 * l) 0 @ group_bytes (drop (e + l) gs)"
      using z bytes group_bytes_zeros by (metis group_bytes_simps(3))
    moreover have "parseIPv6 (string6 p) = Some (group_bytes (take e gs) @
        replicate (16 - 2 * (length (take e gs) + length (drop (e + l) gs))) 0 @ group_bytes (drop (e + l) gs))"
      using s6 False el len bound parseIPv6_ellipsis [of "take e gs" "drop (e + l) gs"]
      by (auto dest: in_set_takeD in_set_dropD)
    moreover have "16 - 2 * (length (take e gs) + length (drop (e + l) gs)) = 2 * l" using el len by simp
    ultimately show ?thesis by simp
  qed
qed

section \<open>Networks\<close>

lemma leading_ones_mask:
  assumes "n < 8"
  shows "(NOT (drop_bit n 0xFF) :: 8 word) \<noteq> 0xFF \<and> leading_ones 8 (NOT (drop_bit n 0xFF)) = (n, 0)"
proof -
  have "\<forall>n \<in> set [0..<8]. (NOT (drop_bit n 0xFF) :: 8 word) \<noteq> 0xFF \<and>
      leading_ones 8 (NOT (drop_bit n 0xFF)) = (n, 0)" by code_simp
  then show ?thesis using assms by simp
qed

lemma CIDRMask_zero: "CIDRMask 0 l = replicate l 0"
  by (induction l) simp_all

lemma length_CIDRMask [simp]: "length (CIDRMask n l) = l"
  by (induction l arbitrary: n) simp_all

lemma simpleMaskLength_CIDRMask: "n \<le> 8 * l \<Longrightarrow> simpleMaskLength (CIDRMask n l) = Some n"
proof (induction l arbitrary: n)
  case (Suc l)
  then show ?case
  proof (cases "8 \<le> n")
    case True
    then show ?thesis using Suc.IH [of "n - 8"] Suc.prems by simp
  next
    case False
    then show ?thesis using leading_ones_mask [of n] by (simp add: CIDRMask_zero list_all_iff del: leading_ones.simps)
  qed
qed simp

text \<open>
  A network in canonical form: an IPv4 network of four bytes or an IPv6 one of sixteen
  that is no mapped IPv4 address, a prefix mask, and no bit set outside the mask.
\<close>

definition canonical_net :: "ipnet \<Rightarrow> bool" where
  "canonical_net nt \<longleftrightarrow>
     (length (net_IP nt) = 4 \<or> length (net_IP nt) = 16 \<and> take 12 (net_IP nt) \<noteq> v4InV6Prefix) \<and>
     map2 (AND) (net_IP nt) (net_Mask nt) = net_IP nt \<and>
     list_ex (\<lambda>n. net_Mask nt = CIDRMask n (length (net_IP nt))) [0..<Suc (8 * length (net_IP nt))]"

lemma length_v4InV6Prefix [simp]: "length v4InV6Prefix = 12"
  by (simp add: v4InV6Prefix_def)

lemma index_byte_append: "c \<notin> set s \<Longrightarrow> index_byte c (s @ c # t) = Some (length s)"
  by (induction s) (auto simp: index_byte_def)

lemma set_join: "set (join sep ws) \<subseteq> set sep \<union> (\<Union>w \<in> set ws. set w)"
  by (induction sep ws rule: join.induct) auto

lemma string4_chars: "c \<in> set (string4 p) \<Longrightarrow> is_digit c \<or> c = CHR ''.''"
  using set_join [of "''.''" "map (\<lambda>b. show_nat (unat b)) p"] show_nat_digits
  by (fastforce simp: string4_def list_all_iff)

lemma hex_digits_chars: "hex_digits n s = Some m \<Longrightarrow> c \<in> set s \<Longrightarrow> hex_value c \<noteq> None"
  by (induction s arbitrary: n) (auto split: option.splits)

lemma hextets_chars: "c \<in> set (hextets gs) \<Longrightarrow> hex_value c \<noteq> None \<or> c = CHR '':''"
  using set_join [of "'':''" "map show_hex gs"] hex_digits_chars [OF show_hex_digits]
  by (fastforce simp: hextets_def)

lemma string6_chars: "c \<in> set (string6 p) \<Longrightarrow> hex_value c \<noteq> None \<or> c = CHR '':''"
  using hextets_chars [of c]
  by (fastforce simp: string6_def hextets_def [symmetric] Let_def split: if_splits prod.splits)

lemma slash_dot_facts: "\<not> is_digit CHR ''/''" "hex_value CHR ''/'' = None" "hex_value CHR ''.'' = None"
  by (simp_all add: is_digit_def hex_value_def byte_def)

lemma string4_no_slash: "CHR ''/'' \<notin> set (string4 p)"
  using string4_chars slash_dot_facts by fastforce

lemma string6_no_slash_dot: "CHR ''/'' \<notin> set (string6 p)" "CHR ''.'' \<notin> set (string6 p)"
  using string6_chars slash_dot_facts by fastforce+

lemma ParseCIDR_text:
  assumes "CHR ''/'' \<notin> set addr" and "n \<le> 128"
    and "parse = (case parseIPv4 addr of Some ip \<Rightarrow> (4, Some ip) | None \<Rightarrow> (16, parseIPv6 addr))"
    and "parse = (iplen, Some ip)" and "n \<le> 8 * iplen"
  shows "ParseCIDR (addr @ ''/'' @ show_nat n) =
     Some \<lparr>net_IP = Mask ip (CIDRMask n iplen), net_Mask = CIDRMask n iplen\<rparr>"
  using assms index_byte_append [of "CHR ''/''" addr "show_nat n"] dtoi_show_nat [of n "[]"]
  by (auto simp: ParseCIDR_def Let_def stops_def eq_commute [of "Some ip"] split: option.splits)

lemma canonical_netI:
  assumes "net_Mask nt = CIDRMask n (length (net_IP nt))" "n \<le> 8 * length (net_IP nt)"
    "map2 (AND) (net_IP nt) (net_Mask nt) = net_IP nt"
    "length (net_IP nt) = 4 \<or> length (net_IP nt) = 16 \<and> take 12 (net_IP nt) \<noteq> v4InV6Prefix"
  shows "canonical_net nt"
  using assms by (auto simp: canonical_net_def list_ex_iff less_Suc_eq_le simp del: upt_Suc)

lemma canonical_netD:
  assumes "canonical_net nt"
  obtains n where "net_Mask nt = CIDRMask n (length (net_IP nt))" "n \<le> 8 * length (net_IP nt)"
    "map2 (AND) (net_IP nt) (net_Mask nt) = net_IP nt"
    "length (net_IP nt) = 4 \<or> length (net_IP nt) = 16 \<and> take 12 (net_IP nt) \<noteq> v4InV6Prefix"
  using assms by (auto simp: canonical_net_def list_ex_iff less_Suc_eq_le simp del: upt_Suc)

text \<open>The text of a canonical network parses to that network.\<close>

theorem ParseCIDR_String:
  assumes "canonical_net nt"
  shows "ParseCIDR (IPNet_String nt) = Some nt"
proof -
  from assms obtain n where m: "net_Mask nt = CIDRMask n (length (net_IP nt))"
      and n: "n \<le> 8 * length (net_IP nt)" and masked: "map2 (AND) (net_IP nt) (net_Mask nt) = net_IP nt"
      and fam: "length (net_IP nt) = 4 \<or> length (net_IP nt) = 16 \<and> take 12 (net_IP nt) \<noteq> v4InV6Prefix"
    by (rule canonical_netD)
  have len: "simpleMaskLength (net_Mask nt) = Some n" using m n simpleMaskLength_CIDRMask by simp
  show ?thesis
  proof (cases "length (net_IP nt) = 4")
    case True
    then have "IPNet_String nt = string4 (net_IP nt) @ ''/'' @ show_nat n"
      using m len by (auto simp: IPNet_String_def To4_def IP_String_def Let_def)
    moreover have "Mask (v4InV6Prefix @ net_IP nt) (CIDRMask n 4) = net_IP nt"
      using True m masked by (simp add: Mask_def Let_def)
    ultimately show ?thesis
      using ParseCIDR_text [of "string4 (net_IP nt)" n _ 4 "v4InV6Prefix @ net_IP nt"] True n m
      by (simp add: parseIPv4_string4 string4_no_slash)
  next
    case False
    then have l: "length (net_IP nt) = 16" "take 12 (net_IP nt) \<noteq> v4InV6Prefix" using fam by auto
    then have "IPNet_String nt = string6 (net_IP nt) @ ''/'' @ show_nat n"
      using m len by (auto simp: IPNet_String_def To4_def IP_String_def Let_def)
    moreover have "Mask (net_IP nt) (CIDRMask n 16) = net_IP nt"
      using l m masked by (simp add: Mask_def Let_def)
    ultimately show ?thesis
      using ParseCIDR_text [of "string6 (net_IP nt)" n _ 16 "net_IP nt"] l n m
      by (simp add: parseIPv6_string6 string6_no_slash_dot parseIPv4_no_dot)
  qed
qed

section \<open>Well-formed networks\<close>

text \<open>
  The shape of a network value: address and mask have the length of one family, the mask
  is a prefix and no bit of the address is outside it.
\<close>

definition net_wf :: "ipnet \<Rightarrow> bool" where
  "net_wf nt \<longleftrightarrow> length (net_IP nt) \<in> {4, 16} \<and> length (net_Mask nt) = length (net_IP nt) \<and>
     (\<exists>n \<le> 8 * length (net_IP nt). net_Mask nt = CIDRMask n (length (net_IP nt))) \<and>
     map2 (AND) (net_IP nt) (net_Mask nt) = net_IP nt"

lemma v4_loop_length: "v4_loop k first s p = Some q \<Longrightarrow> length q = length p + k"
  by (induction k first s p rule: v4_loop.induct) (auto simp: Let_def split: if_splits option.splits)

lemma parseIPv4_length: "parseIPv4 s = Some ip \<Longrightarrow> \<exists>p. ip = v4InV6Prefix @ p \<and> length p = 4"
  by (auto simp: parseIPv4_def dest: v4_loop_length)

lemma v6_loop_length:
  "v6_loop k s ell bs = Some (rest, ell', bs') \<Longrightarrow> length bs + 2 * k \<le> 16 \<Longrightarrow> length bs' \<le> 16"
proof (induction k arbitrary: s ell bs)
  case (Suc k)
  note run = Suc.prems(1) and room = Suc.prems(2)
  obtain n c where x: "xtoi s = Some (n, c)" using run by (cases "xtoi s") auto
  have n: "\<not> 0xFFFF < n" using run by (rule_tac ccontr) (simp add: x)
  show ?case
  proof (cases "c < length s \<and> s ! c = CHR ''.''")
    case True
    then obtain ip4 where "parseIPv4 s = Some ip4" "length bs + 4 \<le> 16" "bs' = bs @ drop 12 ip4"
      using run by (cases "parseIPv4 s") (simp_all add: x n split: if_splits)
    then show ?thesis using parseIPv4_length [of s ip4] by auto
  next
    case False
    let ?bs = "bs @ [of_nat (n div 256), of_nat n]"
    have IH: "v6_loop k t e ?bs = Some (rest, ell', bs') \<Longrightarrow> length bs' \<le> 16" for t e
      using Suc.IH [of t e ?bs] room by simp
    have "bs' = ?bs \<or> (\<exists>t e. v6_loop k t e ?bs = Some (rest, ell', bs'))"
    proof (cases "drop c s = [] \<or> hd (drop c s) \<noteq> CHR '':'' \<or> length (drop c s) = 1")
      case True
      then show ?thesis using run False by (simp add: x n Let_def split: if_splits)
    next
      case colon: False
      then show ?thesis
        using run False by (cases "hd (tl (drop c s)) = CHR '':''") (auto simp: x n Let_def split: if_splits)
    qed
    then show ?thesis using IH room by auto
  qed
qed simp

lemma v6_finish_length: "v6_finish s ell bs = Some ip \<Longrightarrow> length bs \<le> 16 \<Longrightarrow> length ip = 16"
  by (auto simp: v6_finish_def split: if_splits option.splits)

lemma parseIPv6_length: "parseIPv6 s = Some ip \<Longrightarrow> length ip = 16"
  by (auto simp: parseIPv6_def Let_def split: if_splits option.splits dest!: v6_loop_length v6_finish_length)

lemma map2_and_idem: "map2 (AND) (map2 (AND) xs ms) ms = map2 (AND) (xs :: 8 word list) ms"
  by (induction xs ms rule: list_induct2') (simp_all add: and.assoc)

lemma Mask_length:
  "length ip = length m \<Longrightarrow> Mask ip m = map2 (AND) ip m"
  "length p = 4 \<Longrightarrow> length m = 4 \<Longrightarrow> Mask (v4InV6Prefix @ p) m = map2 (AND) p m"
  by (auto simp: Mask_def Let_def)

lemma masked_net_wf:
  "length ip = l \<Longrightarrow> l \<in> {4, 16} \<Longrightarrow> n \<le> 8 * l \<Longrightarrow>
   net_wf \<lparr>net_IP = map2 (AND) ip (CIDRMask n l), net_Mask = CIDRMask n l\<rparr>"
  by (auto simp: net_wf_def map2_and_idem)

lemma ParseCIDR_wf:
  assumes "ParseCIDR s = Some nt"
  shows "net_wf nt"
proof -
  obtain i where i: "index_byte CHR ''/'' s = Some i" using assms by (auto simp: ParseCIDR_def split: option.splits)
  show ?thesis
  proof (cases "parseIPv4 (take i s)")
    case (Some ip)
    then obtain p where p: "ip = v4InV6Prefix @ p" "length p = 4" using parseIPv4_length by blast
    from assms i Some obtain n j where n: "dtoi (drop (Suc i) s) = Some (n, j)" "n \<le> 32"
      by (auto simp: ParseCIDR_def Let_def not_less split: option.splits prod.splits if_splits)
    with assms i Some have "nt = \<lparr>net_IP = Mask ip (CIDRMask n 4), net_Mask = CIDRMask n 4\<rparr>"
      by (simp add: ParseCIDR_def split: if_splits)
    with masked_net_wf [of p 4 n] p n show ?thesis by (simp add: Mask_length)
  next
    case None
    with assms i obtain n j ip where n: "dtoi (drop (Suc i) s) = Some (n, j)" "n \<le> 128" "parseIPv6 (take i s) = Some ip"
      by (auto simp: ParseCIDR_def Let_def not_less split: option.splits prod.splits if_splits)
    with assms i None have "nt = \<lparr>net_IP = Mask ip (CIDRMask n 16), net_Mask = CIDRMask n 16\<rparr>"
      by (simp add: ParseCIDR_def split: if_splits)
    with masked_net_wf [of ip 16 n] parseIPv6_length [OF n(3)] n show ?thesis by (simp add: Mask_length)
  qed
qed

end
