(* ===== verification/Port_Mapper.thy ===== *)
theory Port_Mapper
  imports Go_Net_Props
begin

text \<open>
  The UPnP port mapper (\<^verbatim>\<open>network/port_mapper.go\<close>): connecting to a router, one-off and
  persistent port mappings and their periodic refresh. The gateway clients of the UPnP
  package are a parameter: an operation on a client acts on the state of the network
  (\<open>'w\<close>) and may fail with a text. The execution timer is stopped or running.
\<close>

section \<open>The UPnP clients\<close>

record map_request =
  NewRemoteHost :: string
  NewExternalPort :: uint16
  NewProtocol :: string
  NewInternalPort :: uint16
  NewInternalClient :: string
  NewEnabled :: bool
  NewPortMappingDescription :: string
  NewLeaseDuration :: uint32

datatype 'c upnp_client = WANIPConnection1 'c | WANIPConnection2 'c | WANPPPConnection1 'c

record ('c, 'w) upnpClient =
  AddPortMappingCtx :: "'c upnp_client \<Rightarrow> map_request \<Rightarrow> 'w \<Rightarrow> string option \<times> 'w"
  GetExternalIPAddressCtx :: "'c upnp_client \<Rightarrow> string + string"
  LocalAddr :: "'c upnp_client \<Rightarrow> ip"

datatype mapper_error = ErrMultipleRoutesFound | ErrNoRoutersFound | ErrUpnp string

section \<open>The mapper\<close>

type_synonym Protocol = string

definition ProtocolTCP :: Protocol where
  "ProtocolTCP = ''TCP''"

definition ProtocolUDP :: Protocol where
  "ProtocolUDP = ''UDP''"

record pPortMapping =
  description :: string
  protocol :: Protocol
  externalPort :: uint16
  forwardToPort :: uint16
  forwardToAddr :: netip_addr

record 'c portMapper =
  upnpClient :: "'c upnp_client option"
  externalAddr :: netip_addr
  selfAddr :: netip_addr
  pRefreshTimer :: bool
  pRefreshInterval :: int64
  pPortMappings :: "pPortMapping list"
  pPortMappingTimeout :: int64

definition NewPortMapper :: "int64 \<Rightarrow> 'c portMapper" where
  "NewPortMapper pRefresh =
     \<lparr>upnpClient = None, externalAddr = AddrZero, selfAddr = AddrZero, pRefreshTimer = False,
      pRefreshInterval = pRefresh, pPortMappings = [],
      pPortMappingTimeout = pRefresh * millisecond + minute\<rparr>"

subsection \<open>Connecting\<close>

text \<open>
  The first client's address is the router's; any other client that answers must agree
  with it.
\<close>

fun agree_loop :: "('c upnp_client \<Rightarrow> string + string) \<Rightarrow> string \<Rightarrow> 'c upnp_client list \<Rightarrow> bool" where
  "agree_loop get routerEIP [] = True"
| "agree_loop get routerEIP (c # cs) = (case get c of
      Inr routerEIPn \<Rightarrow> if routerEIPn \<noteq> routerEIP then False else agree_loop get routerEIP cs
    | Inl _ \<Rightarrow> agree_loop get routerEIP cs)"

fun select_router :: "('c upnp_client \<Rightarrow> string + string) \<Rightarrow> 'c upnp_client list \<Rightarrow>
    mapper_error + string \<times> 'c upnp_client" where
  "select_router get [] = Inl ErrNoRoutersFound"
| "select_router get (c # cs) = (case get c of
      Inl e \<Rightarrow> Inl (ErrUpnp e)
    | Inr routerEIP \<Rightarrow>
        if agree_loop get routerEIP cs then Inr (routerEIP, c) else Inl ErrMultipleRoutesFound)"

text \<open>
  \<open>Connect\<close>: the result of the three discoveries run by the error group (its first
  error, or the clients found), and the error of the timer's start, which is dropped.
\<close>

definition Connect ::
    "('c, 'w) upnpClient \<Rightarrow> string + ('c list \<times> 'c list \<times> 'c list) \<Rightarrow> string option \<Rightarrow>
     'c portMapper \<Rightarrow> (mapper_error option \<times> 'c portMapper) outcome"
where
  "Connect u found timerErr p = (case found of
      Inl e \<Rightarrow> Ret (Some (ErrUpnp e), p)
    | Inr (ip1Clients, ip2Clients, ppp1Clients) \<Rightarrow>
        (case (if length ip1Clients > 1
               then select_router (GetExternalIPAddressCtx u) (map WANIPConnection1 ip1Clients)
               else if length ip2Clients > 1
               then select_router (GetExternalIPAddressCtx u) (map WANIPConnection2 ip2Clients)
               else if length ppp1Clients > 1
               then select_router (GetExternalIPAddressCtx u) (map WANPPPConnection1 ppp1Clients)
               else Inl ErrNoRoutersFound) of
           Inl e \<Rightarrow> Ret (Some e, p)
         | Inr (routerEIP, client) \<Rightarrow>
             (case MustParseAddr routerEIP of
                Panic m \<Rightarrow> Panic m
              | Ret ext \<Rightarrow> (case MustParseAddr (IP_String (LocalAddr u client)) of
                  Panic m \<Rightarrow> Panic m
                | Ret self \<Rightarrow>
                    Ret (None, p\<lparr>upnpClient := Some client, externalAddr := ext, selfAddr := self,
                      pRefreshTimer := (timerErr = None)\<rparr>)))))"

definition Close :: "'c portMapper \<Rightarrow> 'c portMapper" where
  "Close p = p\<lparr>pRefreshTimer := False\<rparr>"



subsection \<open>Mappings\<close>

definition AddPortMapping ::
    "('c, 'w) upnpClient \<Rightarrow> string \<Rightarrow> Protocol \<Rightarrow> uint16 \<Rightarrow> uint16 \<Rightarrow> netip_addr \<Rightarrow> int64 \<Rightarrow>
     'c portMapper \<Rightarrow> 'w \<Rightarrow> (string option \<times> 'w) outcome"
where
  "AddPortMapping u desc proto extPort fwdPort fwdAddr timeout p w = (case upnpClient p of
      None \<Rightarrow> Panic ''nil pointer dereference''
    | Some c \<Rightarrow> Ret (AddPortMappingCtx u c
        \<lparr>NewRemoteHost = [], NewExternalPort = extPort, NewProtocol = proto,
         NewInternalPort = fwdPort, NewInternalClient = Addr_String fwdAddr, NewEnabled = True,
         NewPortMappingDescription = desc, NewLeaseDuration = ucast (go_div timeout second)\<rparr> w))"

definition AddPortMappingToSelf ::
    "('c, 'w) upnpClient \<Rightarrow> string \<Rightarrow> Protocol \<Rightarrow> uint16 \<Rightarrow> uint16 \<Rightarrow> int64 \<Rightarrow>
     'c portMapper \<Rightarrow> 'w \<Rightarrow> (string option \<times> 'w) outcome"
where
  "AddPortMappingToSelf u desc proto extPort fwdPort timeout p =
     AddPortMapping u desc proto extPort fwdPort (selfAddr p) timeout p"

definition AddPersistantPortMapping ::
    "('c, 'w) upnpClient \<Rightarrow> string \<Rightarrow> Protocol \<Rightarrow> uint16 \<Rightarrow> uint16 \<Rightarrow> netip_addr \<Rightarrow>
     'c portMapper \<Rightarrow> 'w \<Rightarrow> (string option \<times> 'c portMapper \<times> 'w) outcome"
where
  "AddPersistantPortMapping u desc proto extPort fwdPort fwdAddr p w =
     (case AddPortMapping u desc proto extPort fwdPort fwdAddr (pPortMappingTimeout p) p w of
        Panic m \<Rightarrow> Panic m
      | Ret (Some e, w') \<Rightarrow> Ret (Some e, p, w')
      | Ret (None, w') \<Rightarrow>
          Ret (None,
            p\<lparr>pPortMappings := pPortMappings p @
              [\<lparr>description = desc, protocol = proto, externalPort = extPort,
                forwardToPort = fwdPort, forwardToAddr = fwdAddr\<rparr>]\<rparr>, w'))"

definition AddPersistantPortMappingToSelf ::
    "('c, 'w) upnpClient \<Rightarrow> string \<Rightarrow> Protocol \<Rightarrow> uint16 \<Rightarrow> uint16 \<Rightarrow>
     'c portMapper \<Rightarrow> 'w \<Rightarrow> (string option \<times> 'c portMapper \<times> 'w) outcome"
where
  "AddPersistantPortMappingToSelf u desc proto extPort fwdPort p =
     AddPersistantPortMapping u desc proto extPort fwdPort (selfAddr p) p"

text \<open>A mapping that cannot be refreshed is logged, and the next one is tried.\<close>

fun refresh_loop ::
    "('c, 'w) upnpClient \<Rightarrow> 'c portMapper \<Rightarrow> pPortMapping list \<Rightarrow> 'w \<Rightarrow> 'w outcome" where
  "refresh_loop u p [] w = Ret w"
| "refresh_loop u p (pm # pms) w =
     (case AddPortMapping u (description pm) (protocol pm) (externalPort pm) (forwardToPort pm)
             (forwardToAddr pm) (pPortMappingTimeout p) p w of
        Panic m \<Rightarrow> Panic m
      | Ret (_, w') \<Rightarrow> refresh_loop u p pms w')"

definition refreshPortMappings ::
    "('c, 'w) upnpClient \<Rightarrow> 'c portMapper \<Rightarrow> 'w \<Rightarrow> (int64 \<times> 'w) outcome" where
  "refreshPortMappings u p w = (case refresh_loop u p (pPortMappings p) w of
      Panic m \<Rightarrow> Panic m
    | Ret w' \<Rightarrow> Ret (pRefreshInterval p, w'))"

section \<open>Observing the requests\<close>

text \<open>
  A client that also keeps a log: the requests sent to it and how each was answered. What
  it does to the network is what the client itself does.
\<close>

type_synonym request_log = "(map_request \<times> string option) list"

definition logged :: "('c, 'w) upnpClient \<Rightarrow> ('c, 'w \<times> request_log) upnpClient" where
  "logged u =
     \<lparr>AddPortMappingCtx = (\<lambda>c req (w, l). case AddPortMappingCtx u c req w of (err, w') \<Rightarrow> (err, w', l @ [(req, err)])),
      GetExternalIPAddressCtx = GetExternalIPAddressCtx u, LocalAddr = LocalAddr u\<rparr>"

text \<open>
  What the UPnP service promises of a router's table of mappings, which has one entry for a
  remote host, an external port and a protocol: after a request that succeeds its entry is
  that of the request, and one that is answered with an error changes nothing. Which
  requests succeed is the router's choice in the state it is in; it may refuse a port that
  is mapped to another client of the local network.
\<close>

type_synonym port_table = "string \<times> uint16 \<times> string \<Rightarrow> map_request option"

definition mapping_key :: "map_request \<Rightarrow> string \<times> uint16 \<times> string" where
  "mapping_key req = (NewRemoteHost req, NewExternalPort req, NewProtocol req)"

definition router_laws :: "('c, 'w) upnpClient \<Rightarrow> 'c upnp_client \<Rightarrow> ('w \<Rightarrow> port_table) \<Rightarrow> bool" where
  "router_laws u c table \<longleftrightarrow> (\<forall>req w. case AddPortMappingCtx u c req w of (err, w') \<Rightarrow>
     table w' = (if err = None then (table w)(mapping_key req \<mapsto> req) else table w))"

lemma router_lawsD:
  assumes "router_laws u c table" and "AddPortMappingCtx u c req w = (err, w')"
  shows "table w' = (if err = None then (table w)(mapping_key req \<mapsto> req) else table w)"
  using assms(1) [unfolded router_laws_def, THEN spec [of _ req], THEN spec [of _ w]] by (simp add: assms(2))

definition granted :: "request_log \<Rightarrow> ((string \<times> uint16 \<times> string) \<times> map_request) list" where
  "granted l = map (\<lambda>(req, err). (mapping_key req, req)) (filter (\<lambda>(req, err). err = None) l)"

text \<open>The mapping a request asks for.\<close>

definition asks_for :: "pPortMapping \<Rightarrow> map_request \<Rightarrow> bool" where
  "asks_for pm req \<longleftrightarrow> NewRemoteHost req = [] \<and> NewEnabled req \<and>
     NewProtocol req = protocol pm \<and> NewExternalPort req = externalPort pm \<and>
     NewInternalPort req = forwardToPort pm \<and> NewInternalClient req = Addr_String (forwardToAddr pm) \<and>
     NewPortMappingDescription req = description pm"

lemma AddPortMapping_logged:
  assumes "upnpClient p = Some c"
  obtains req err w' where
    "AddPortMapping u d pr ep fp fa t p w = Ret (err, w')"
    "AddPortMapping (logged u) d pr ep fp fa t p (w, l) = Ret (err, w', l @ [(req, err)])"
    "AddPortMappingCtx u c req w = (err, w')"
    "asks_for \<lparr>description = d, protocol = pr, externalPort = ep, forwardToPort = fp, forwardToAddr = fa\<rparr> req"
    "NewLeaseDuration req = ucast (go_div t second)"
proof -
  let ?req = "\<lparr>NewRemoteHost = [], NewExternalPort = ep, NewProtocol = pr, NewInternalPort = fp,
     NewInternalClient = Addr_String fa, NewEnabled = True, NewPortMappingDescription = d,
     NewLeaseDuration = ucast (go_div t second)\<rparr>"
  obtain err w' where "AddPortMappingCtx u c ?req w = (err, w')" by fastforce
  with assms show thesis
    by (intro that [of err w' ?req]) (simp_all add: AddPortMapping_def logged_def asks_for_def)
qed

lemma refresh_loop_logged:
  assumes "upnpClient p = Some c"
  shows "\<exists>w' m. refresh_loop u p pms w = Ret w' \<and> refresh_loop (logged u) p pms (w, l) = Ret (w', l @ m) \<and>
     list_all2 (\<lambda>pm (req, err). asks_for pm req) pms m \<and>
     (\<forall>(req, err) \<in> set m. NewLeaseDuration req = ucast (go_div (pPortMappingTimeout p) second)) \<and>
     (router_laws u c table \<longrightarrow> table w' = table w ++ map_of (rev (granted m)))"
proof (induction pms arbitrary: w l)
  case Nil
  then show ?case by (simp add: granted_def)
next
  case (Cons pm pms)
  have pm: "\<lparr>description = description pm, protocol = protocol pm, externalPort = externalPort pm,
      forwardToPort = forwardToPort pm, forwardToAddr = forwardToAddr pm\<rparr> = pm" by simp
  obtain req err w1 where step:
    "AddPortMapping u (description pm) (protocol pm) (externalPort pm) (forwardToPort pm) (forwardToAddr pm)
       (pPortMappingTimeout p) p w = Ret (err, w1)"
    "AddPortMapping (logged u) (description pm) (protocol pm) (externalPort pm) (forwardToPort pm) (forwardToAddr pm)
       (pPortMappingTimeout p) p (w, l) = Ret (err, w1, l @ [(req, err)])"
    "AddPortMappingCtx u c req w = (err, w1)" "asks_for pm req"
    "NewLeaseDuration req = ucast (go_div (pPortMappingTimeout p) second)"
    using AddPortMapping_logged [OF assms, of u "description pm" "protocol pm" "externalPort pm"
        "forwardToPort pm" "forwardToAddr pm" "pPortMappingTimeout p" w l] pm by metis
  from Cons.IH [of w1 "l @ [(req, err)]"] obtain w' m where rest:
    "refresh_loop u p pms w1 = Ret w'" "refresh_loop (logged u) p pms (w1, l @ [(req, err)]) = Ret (w', l @ (req, err) # m)"
    "list_all2 (\<lambda>pm (req, err). asks_for pm req) pms m"
    "\<forall>(req, err) \<in> set m. NewLeaseDuration req = ucast (go_div (pPortMappingTimeout p) second)"
    "router_laws u c table \<longrightarrow> table w' = table w1 ++ map_of (rev (granted m))" by auto
  have "table w1 = (if err = None then (table w)(mapping_key req \<mapsto> req) else table w)" if "router_laws u c table"
    using router_lawsD [OF that step(3)] .
  then have "router_laws u c table \<longrightarrow> table w' = table w ++ map_of (rev (granted ((req, err) # m)))"
    using rest(5) by (simp add: granted_def)
  with step rest show ?case by (intro exI [of _ w'] exI [of _ "(req, err) # m"]) simp
qed

section \<open>Properties\<close>

text \<open>
  C20: a refresh never stops early: whatever the router answers, it asks for every
  persistent mapping once, in the order of registration, with the mapping's ports,
  protocol, address and description, and is due again after the refresh interval. On a
  router that keeps a granted request and nothing of a refused one, the table afterwards is
  the table before with exactly the granted requests entered, the last one for a key.
\<close>

theorem refresh_restores_mappings:
  assumes "upnpClient p = Some c" and "router_laws u c table"
  shows "\<exists>w' l. refreshPortMappings u p w = Ret (pRefreshInterval p, w') \<and>
     refreshPortMappings (logged u) p (w, []) = Ret (pRefreshInterval p, w', l) \<and>
     list_all2 (\<lambda>pm (req, err). asks_for pm req) (pPortMappings p) l \<and>
     table w' = table w ++ map_of (rev (granted l))"
proof -
  from refresh_loop_logged [OF assms(1), of u "pPortMappings p" w "[]" table] assms(2)
  obtain w' l where "refresh_loop u p (pPortMappings p) w = Ret w'"
    "refresh_loop (logged u) p (pPortMappings p) (w, []) = Ret (w', l)"
    "list_all2 (\<lambda>pm (req, err). asks_for pm req) (pPortMappings p) l"
    "table w' = table w ++ map_of (rev (granted l))" by auto
  then show ?thesis by (intro exI [of _ w'] exI [of _ l]) (simp add: refreshPortMappings_def)
qed

text \<open>
  A router for the examples: it refuses a port that is mapped to another client of the
  local network.
\<close>

definition sample_router :: "(unit, port_table) upnpClient" where
  "sample_router =
     \<lparr>AddPortMappingCtx = (\<lambda>c req t. case t (mapping_key req) of
          Some old \<Rightarrow> if NewInternalClient old \<noteq> NewInternalClient req then (Some ''ConflictInMappingEntry'', t)
            else (None, t(mapping_key req \<mapsto> req))
        | None \<Rightarrow> (None, t(mapping_key req \<mapsto> req))),
      GetExternalIPAddressCtx = (\<lambda>c. Inr ''203.0.113.7''),
      LocalAddr = (\<lambda>c. [192, 168, 1, 5])\<rparr>"

lemma sample_router_laws: "router_laws sample_router c (\<lambda>t. t)"
  by (simp add: router_laws_def sample_router_def split: option.split)

definition sample_pm :: "uint16 \<Rightarrow> pPortMapping" where
  "sample_pm port = \<lparr>description = ''vpn'', protocol = ProtocolUDP, externalPort = port,
     forwardToPort = 51820, forwardToAddr = Addr4 [192, 168, 1, 5]\<rparr>"

definition sample_mapper :: "unit portMapper" where
  "sample_mapper = (NewPortMapper 300000)\<lparr>upnpClient := Some (WANIPConnection1 ()),
     pPortMappings := [sample_pm 80, sample_pm 4500]\<rparr>"

theorem refresh_restores_mappings_witness:
  "\<exists>w' l. refreshPortMappings sample_router sample_mapper Map.empty = Ret (300000, w') \<and> length l = 2 \<and>
     w' = map_of (rev (granted l))"
proof -
  have "upnpClient sample_mapper = Some (WANIPConnection1 ())" "pRefreshInterval sample_mapper = 300000"
    "length (pPortMappings sample_mapper) = 2"
    by (simp_all add: sample_mapper_def NewPortMapper_def)
  with refresh_restores_mappings [OF _ sample_router_laws, of sample_mapper "WANIPConnection1 ()" Map.empty]
  show ?thesis by (fastforce dest: list_all2_lengthD)
qed

text \<open>The operations that change a mapper.\<close>

inductive mapper_step :: "('c, 'w) upnpClient \<Rightarrow> 'c portMapper \<Rightarrow> 'c portMapper \<Rightarrow> bool" for u where
  connects: "Connect u found timerErr p = Ret (err, p') \<Longrightarrow> mapper_step u p p'"
| closes: "mapper_step u p (Close p)"
| adds: "AddPersistantPortMapping u d pr ep fp fa p w = Ret (err, p', w') \<Longrightarrow> mapper_step u p p'"

definition times_kept :: "int64 \<Rightarrow> 'c portMapper \<Rightarrow> bool" where
  "times_kept pRefresh p \<longleftrightarrow> pRefreshInterval p = pRefresh \<and> pPortMappingTimeout p = pRefresh * millisecond + minute"

lemma mapper_step_times: "mapper_step u p p' \<Longrightarrow> times_kept pRefresh p \<Longrightarrow> times_kept pRefresh p'"
proof (induction rule: mapper_step.induct)
  case (connects found timerErr p err p')
  then show ?case
    by (auto simp: Connect_def times_kept_def split: sum.splits prod.splits outcome.splits if_splits)
next
  case (adds d pr ep fp fa p w err p' w')
  then show ?case
    by (auto simp: AddPersistantPortMapping_def times_kept_def split: outcome.splits prod.splits option.splits)
qed (simp add: Close_def times_kept_def)

interpretation mapper: transition_system "\<lambda>p. p = NewPortMapper pRefresh" "mapper_step u" "times_kept pRefresh"
  for u pRefresh
  by unfold_locales (simp_all add: mapper_step_times, simp add: times_kept_def NewPortMapper_def)

lemma lease_bounds:
  fixes pRefresh :: int64
  assumes "0 \<le> sint pRefresh" and "sint pRefresh < 4294967236000"
  shows "let lease = 1000 * uint (ucast (go_div (pRefresh * millisecond + minute) second) :: uint32) in
     sint pRefresh + 59000 < lease \<and> lease \<le> sint pRefresh + 60000"
proof -
  let ?t = "sint pRefresh * 1000000 + 60000000000"
  have t: "sint (pRefresh * millisecond + minute) = ?t"
  proof -
    have "signed_take_bit 63 (sint pRefresh * 1000000) = sint pRefresh * 1000000"
      "signed_take_bit 63 ?t = ?t"
      by (rule signed_take_bit_int_eq_self; use assms in simp)+
    then show ?thesis by (simp add: duration_simps sint_word_ariths)
  qed
  have q: "0 \<le> ?t div 1000000000" "?t div 1000000000 < 4294967296" using assms by linarith+
  have "sint second = 1000000000" by (simp add: duration_simps)
  then have d: "go_div (pRefresh * millisecond + minute) second = word_of_int (?t div 1000000000)"
    using assms t by (simp add: go_div_def signed_divide_int_def)
  have "uint (ucast (go_div (pRefresh * millisecond + minute) second) :: uint32) = ?t div 1000000000"
    using q unfolding d by (simp add: unsigned_ucast_eq unsigned_of_int take_bit_int_eq_self)
  moreover have "sint pRefresh + 59000 < 1000 * (?t div 1000000000)"
    "1000 * (?t div 1000000000) \<le> sint pRefresh + 60000" by linarith+
  ultimately show ?thesis by simp
qed

text \<open>
  C21: the lease asked for outlives the refresh interval. Whatever was done with a mapper
  made for an interval in milliseconds, up to the largest lease a router can be asked for,
  every request that registering a persistent mapping or a refresh sends asks for a lease
  that covers the interval and between 59 and 60 seconds more, so a mapping that is
  refreshed on time does not lapse.
\<close>

theorem lease_outlives_refresh:
  fixes pRefresh :: int64
  assumes "0 \<le> sint pRefresh" and "sint pRefresh < 4294967236000"
    and "(mapper_step u)\<^sup>*\<^sup>* (NewPortMapper pRefresh) p"
    and "refreshPortMappings (logged u) p (w, []) = Ret (next, w', l) \<or>
      AddPersistantPortMapping (logged u) d pr ep fp fa p (w, []) = Ret (e, p', w', l)"
    and "(req, err) \<in> set l"
  shows "let lease = 1000 * uint (NewLeaseDuration req) in
     sint pRefresh + 59000 < lease \<and> lease \<le> sint pRefresh + 60000"
proof -
  have times: "pPortMappingTimeout p = pRefresh * millisecond + minute"
    using mapper.reachable_invariant [OF refl assms(3)] by (simp add: times_kept_def)
  obtain c where c: "upnpClient p = Some c"
    using assms(4,5)
    by (cases "upnpClient p"; cases "pPortMappings p")
      (auto simp: AddPersistantPortMapping_def AddPortMapping_def refreshPortMappings_def)
  have "NewLeaseDuration req = ucast (go_div (pPortMappingTimeout p) second)"
    using assms(4)
  proof
    assume "refreshPortMappings (logged u) p (w, []) = Ret (next, w', l)"
    with refresh_loop_logged [OF c, of u "pPortMappings p" w "[]" "\<lambda>_. Map.empty"] assms(5) show ?thesis
      by (auto simp: refreshPortMappings_def)
  next
    assume add: "AddPersistantPortMapping (logged u) d pr ep fp fa p (w, []) = Ret (e, p', w', l)"
    show ?thesis
      by (rule AddPortMapping_logged [OF c, of u d pr ep fp fa "pPortMappingTimeout p" w "[]"])
        (use add assms(5) in \<open>auto simp: AddPersistantPortMapping_def split: option.splits\<close>)
  qed
  with lease_bounds [OF assms(1,2)] times show ?thesis by simp
qed

text \<open>
  A persistent mapping is registered for refreshing exactly when the router granted it: a
  granted one is appended and stands in the router's table, a refused one leaves the mapper
  and the table as they were.
\<close>

theorem AddPersistantPortMapping_registers:
  assumes "upnpClient p = Some c" and "router_laws u c table"
    and "pm = \<lparr>description = d, protocol = pr, externalPort = ep, forwardToPort = fp, forwardToAddr = fa\<rparr>"
  shows "\<exists>err p' w' req. AddPersistantPortMapping u d pr ep fp fa p w = Ret (err, p', w') \<and> asks_for pm req \<and>
     (if err = None
      then p' = p\<lparr>pPortMappings := pPortMappings p @ [pm]\<rparr> \<and> table w' = (table w)(([], ep, pr) \<mapsto> req)
      else p' = p \<and> table w' = table w)"
proof -
  obtain req err w' where step: "AddPortMapping u d pr ep fp fa (pPortMappingTimeout p) p w = Ret (err, w')"
    "AddPortMappingCtx u c req w = (err, w')" "asks_for pm req"
    using AddPortMapping_logged [OF assms(1)] assms(3) by metis
  have "table w' = (if err = None then (table w)(mapping_key req \<mapsto> req) else table w)"
    using router_lawsD [OF assms(2) step(2)] .
  with step show ?thesis
    by (cases err) (auto simp: AddPersistantPortMapping_def assms(3) mapping_key_def asks_for_def)
qed

theorem AddPersistantPortMapping_registers_witness:
  "\<exists>err p' w'. AddPersistantPortMapping sample_router ''vpn'' ProtocolUDP 4500 51820
      (Addr4 [192, 168, 1, 5]) sample_mapper Map.empty = Ret (err, p', w') \<and>
    length (pPortMappings p') = (if err = None then 3 else 2)"
proof -
  have "upnpClient sample_mapper = Some (WANIPConnection1 ())" by (simp add: sample_mapper_def)
  from AddPersistantPortMapping_registers [OF this sample_router_laws sample_pm_def, of 4500 Map.empty]
  show ?thesis by (force simp: sample_mapper_def split: if_splits)
qed

lemma netip_v4: "length q = 4 \<Longrightarrow> MustParseAddr (string4 q) = Ret (Addr4 q)"
proof -
  assume len: "length q = 4"
  then obtain b c cs where q: "q = b # c # cs"
    by (auto simp: numeral_eq_Suc length_Suc_conv)
  have "\<forall>x \<in> set (show_nat (unat b)). x \<notin> {CHR ''.'', CHR '':'', CHR ''%''}"
    using show_nat_digits [of "unat b"] by (auto simp: list_all_iff is_digit_def byte_def)
  then have "dropWhile (\<lambda>x. x \<notin> {CHR ''.'', CHR '':'', CHR ''%''}) (string4 q) = dot_tail (c # cs)"
    unfolding q string4_Cons by (subst dropWhile_append2) auto
  then show ?thesis
    using parseIPv4_string4 [OF len] by (simp add: MustParseAddr_def ParseAddr_def)
qed


lemma sample_external: "string4 [203, 0, 113, 7] = ''203.0.113.7''"
  by code_simp

lemma sample_mapper_connects:
  "Connect sample_router (Inr ([(), ()], [], [])) None (NewPortMapper 300000) =
     Ret (None, (NewPortMapper 300000)\<lparr>upnpClient := Some (WANIPConnection1 ()), externalAddr := Addr4 [203, 0, 113, 7],
       selfAddr := Addr4 [192, 168, 1, 5], pRefreshTimer := True\<rparr>)"
  using netip_v4 [of "[203, 0, 113, 7]"] netip_v4 [of "[192, 168, 1, 5]"]
  by (simp add: Connect_def sample_router_def sample_external IP_String_def To4_def)

theorem lease_outlives_refresh_witness:
  "\<exists>p p' w' req. (mapper_step sample_router)\<^sup>*\<^sup>* (NewPortMapper 300000) p \<and>
     AddPersistantPortMapping (logged sample_router) ''vpn'' ProtocolUDP 4500 51820 (Addr4 [192, 168, 1, 5]) p (Map.empty, []) =
       Ret (None, p', w', [(req, None)]) \<and> 300000 + 59000 < 1000 * uint (NewLeaseDuration req)"
proof -
  let ?p = "(NewPortMapper 300000)\<lparr>upnpClient := Some (WANIPConnection1 ()), externalAddr := Addr4 [203, 0, 113, 7],
     selfAddr := Addr4 [192, 168, 1, 5], pRefreshTimer := True\<rparr> :: unit portMapper"
  have run: "(mapper_step sample_router)\<^sup>*\<^sup>* (NewPortMapper 300000) ?p"
    by (rule r_into_rtranclp) (rule mapper_step.connects [OF sample_mapper_connects])
  obtain p' w' req where add: "AddPersistantPortMapping (logged sample_router) ''vpn'' ProtocolUDP 4500 51820
      (Addr4 [192, 168, 1, 5]) ?p (Map.empty, []) = Ret (None, p', w', [(req, None)])"
    by (simp add: AddPersistantPortMapping_def AddPortMapping_def logged_def sample_router_def)
  have "300000 + 59000 < 1000 * uint (NewLeaseDuration req)"
    using lease_outlives_refresh [OF _ _ run disjI2 [OF add], of req None] by simp
  with run add show ?thesis by blast
qed






text \<open>
  A network with exactly one router is reported as having none: unless some kind of
  client is found at least twice, \<open>Connect\<close> fails with \<open>ErrNoRoutersFound\<close>.
\<close>

theorem single_router_not_found:
  assumes "length ip1 \<le> 1" and "length ip2 \<le> 1" and "length ppp1 \<le> 1"
  shows "Connect u (Inr (ip1, ip2, ppp1)) timerErr p = Ret (Some ErrNoRoutersFound, p)"
  using assms by (simp add: Connect_def)

theorem single_router_not_found_witness:
  "Connect sample_router (Inr ([()], [], [])) None (NewPortMapper 300000) =
     Ret (Some ErrNoRoutersFound, NewPortMapper 300000)"
  by (rule single_router_not_found) simp_all

end
