(* ===== verification/Wg_Types.thy ===== *)
theory Wg_Types
  imports Go_Net_Props
begin

text \<open>
  The values of the WireGuard control package (\<^verbatim>\<open>wgtypes\<close>) that the sources read and
  write, as far as they use them. The package itself is not part of the repository: its
  operations on keys are the fields of the parameter record \<open>wgtypes\<close>.
\<close>

text \<open>A key is the list of its bytes. A time is Go's zero time or a normalised Unix time.\<close>

type_synonym wgkey = string

definition zero_key :: wgkey where
  "zero_key = replicate 32 (CHR 0x00)"

datatype go_time = ZeroTime | UnixTime int64 int64

definition time_Unix :: "int64 \<Rightarrow> int64 \<Rightarrow> go_time" where
  "time_Unix sec nsec =
     (if nsec <s 0 \<or> second \<le>s nsec
      then (let n = go_div nsec second; sec = sec + n; nsec = nsec - n * second in
            if nsec <s 0 then UnixTime (sec - 1) (nsec + second) else UnixTime sec nsec)
      else UnixTime sec nsec)"

record wgpeer =
  PublicKey :: wgkey
  PresharedKey :: wgkey
  Endpoint :: "string option"
  PersistentKeepaliveInterval :: int64
  LastHandshakeTime :: go_time
  ReceiveBytes :: int64
  TransmitBytes :: int64
  AllowedIPs :: "ipnet list"
  ProtocolVersion :: int64

record wgdevice =
  DeviceName :: string
  DeviceType :: nat
  DevicePrivateKey :: wgkey
  DevicePublicKey :: wgkey
  ListenPort :: int64
  FirewallMark :: int64
  Peers :: "wgpeer list"

definition zero_peer :: wgpeer where
  "zero_peer = \<lparr>PublicKey = zero_key, PresharedKey = zero_key, Endpoint = None,
     PersistentKeepaliveInterval = 0, LastHandshakeTime = ZeroTime, ReceiveBytes = 0,
     TransmitBytes = 0, AllowedIPs = [], ProtocolVersion = 0\<rparr>"

definition zero_device :: wgdevice where
  "zero_device = \<lparr>DeviceName = [], DeviceType = 0, DevicePrivateKey = zero_key,
     DevicePublicKey = zero_key, ListenPort = 0, FirewallMark = 0, Peers = []\<rparr>"

record wgtypes =
  NewKey :: "string \<Rightarrow> string + wgkey"
  ParseKey :: "string \<Rightarrow> string + wgkey"
  key_PublicKey :: "wgkey \<Rightarrow> wgkey"
  key_String :: "wgkey \<Rightarrow> string"
  type_String :: "nat \<Rightarrow> string"

text \<open>A configuration of a device; nil pointers are \<open>None\<close>. An endpoint is its address and port.\<close>

record udp_addr =
  addr_IP :: ip
  addr_Port :: uint16

record peer_config =
  cfg_PublicKey :: wgkey
  cfg_Endpoint :: "udp_addr option"
  cfg_PersistentKeepaliveInterval :: "int64 option"
  cfg_AllowedIPs :: "ipnet list"

record wg_config =
  cfg_PrivateKey :: "wgkey option"
  cfg_Peers :: "peer_config list"

definition zero_peer_config :: peer_config where
  "zero_peer_config = \<lparr>cfg_PublicKey = zero_key, cfg_Endpoint = None,
     cfg_PersistentKeepaliveInterval = None, cfg_AllowedIPs = []\<rparr>"

text \<open>Keys as documented: 32 bytes, written in base64; used in the examples.\<close>

definition sample_wgtypes :: wgtypes where
  "sample_wgtypes = \<lparr>
     NewKey = (\<lambda>b. if length b = 32 then Inr b else Inl ''incorrect key size''),
     ParseKey = (\<lambda>s. case b64_decode s of
        None \<Rightarrow> Inl ''failed to parse base64-encoded key''
      | Some b \<Rightarrow> if length b = 32 then Inr b else Inl ''incorrect key size''),
     key_PublicKey = rev, key_String = b64_encode, type_String = (\<lambda>_. ''unknown'')\<rparr>"

end
