(* ===== verification/Wg_Device.thy ===== *)
theory Wg_Device
  imports Wg_Types
begin

text \<open>
  The reader of the WireGuard userspace protocol and the status text
  (\<^verbatim>\<open>tailscale/wireguard_device.go\<close>). The device's answer is a text of
  \<open>key=value\<close> lines; a method call on the parser is a function that returns the new
  parser. The key operations of the control package are the parameter \<open>wg\<close>, the local
  time zone's formatting is another.
\<close>

section \<open>Errors\<close>

datatype device_error =
    ErrNoDevice | ErrPair string | ErrTooLong | ErrErrno int64
  | ErrHex | ErrKey string | ErrNumber num_error | ErrCIDR string

section \<open>The parser\<close>

record deviceParser =
  dp_d :: wgdevice
  dp_err :: "device_error option"
  parsePeers :: bool
  peers :: int
  hsSec :: int64
  hsNano :: int64

definition new_parser :: deviceParser where
  "new_parser = \<lparr>dp_d = zero_device, dp_err = None, parsePeers = False, peers = 0, hsSec = 0, hsNano = 0\<rparr>"

subsection \<open>Values\<close>

definition parseKey :: "wgtypes \<Rightarrow> string \<Rightarrow> deviceParser \<Rightarrow> wgkey \<times> deviceParser" where
  "parseKey wg s dp =
     (if dp_err dp \<noteq> None then (zero_key, dp)
      else (case hex_decode s of
          None \<Rightarrow> (zero_key, dp\<lparr>dp_err := Some ErrHex\<rparr>)
        | Some b \<Rightarrow> (case NewKey wg b of
            Inl e \<Rightarrow> (zero_key, dp\<lparr>dp_err := Some (ErrKey e)\<rparr>)
          | Inr key \<Rightarrow> (key, dp))))"

definition parseInt :: "string \<Rightarrow> deviceParser \<Rightarrow> int64 \<times> deviceParser" where
  "parseInt s dp =
     (if dp_err dp \<noteq> None then (0, dp)
      else (case Atoi s of
          Inl e \<Rightarrow> (0, dp\<lparr>dp_err := Some (ErrNumber e)\<rparr>)
        | Inr v \<Rightarrow> (v, dp)))"

definition parseInt64 :: "string \<Rightarrow> deviceParser \<Rightarrow> int64 \<times> deviceParser" where
  "parseInt64 s dp =
     (if dp_err dp \<noteq> None then (0, dp)
      else (case ParseInt s of
          Inl e \<Rightarrow> (0, dp\<lparr>dp_err := Some (ErrNumber e)\<rparr>)
        | Inr v \<Rightarrow> (v, dp)))"

definition parseCIDR :: "string \<Rightarrow> deviceParser \<Rightarrow> ipnet option \<times> deviceParser" where
  "parseCIDR s dp =
     (if dp_err dp \<noteq> None then (None, dp)
      else (case ParseCIDR s of
          None \<Rightarrow> (None, dp\<lparr>dp_err := Some (ErrCIDR s)\<rparr>)
        | Some cidr \<Rightarrow> (Some cidr, dp)))"

subsection \<open>Peers\<close>

text \<open>The position of the current peer; an index out of range panics.\<close>

definition curPeer :: "deviceParser \<Rightarrow> nat outcome" where
  "curPeer dp =
     (if 0 \<le> peers dp - 1 \<and> nat (peers dp - 1) < length (Peers (dp_d dp))
      then Ret (nat (peers dp - 1)) else Panic ''index out of range'')"

definition update_peer :: "nat \<Rightarrow> (wgpeer \<Rightarrow> wgpeer) \<Rightarrow> deviceParser \<Rightarrow> deviceParser" where
  "update_peer i f dp =
     dp\<lparr>dp_d := (dp_d dp)\<lparr>Peers := (Peers (dp_d dp))[i := f (Peers (dp_d dp) ! i)]\<rparr>\<rparr>"

definition set_field :: "wgtypes \<Rightarrow> nat \<Rightarrow> string \<Rightarrow> string \<Rightarrow> deviceParser \<Rightarrow> deviceParser" where
  "set_field wg i key v dp =
     (if key = ''preshared_key'' then
        (let (k, dp) = parseKey wg v dp in update_peer i (\<lambda>p. p\<lparr>PresharedKey := k\<rparr>) dp)
      else if key = ''endpoint'' then dp
      else if key = ''last_handshake_time_sec'' then
        (let (n, dp) = parseInt v dp in dp\<lparr>hsSec := n\<rparr>)
      else if key = ''last_handshake_time_nsec'' then
        (let (n, dp) = parseInt v dp; dp = dp\<lparr>hsNano := n\<rparr> in
         if 0 <s hsSec dp \<and> 0 <s hsNano dp
         then update_peer i (\<lambda>p. p\<lparr>LastHandshakeTime := time_Unix (hsSec dp) (hsNano dp)\<rparr>) dp
         else dp)
      else if key = ''tx_bytes'' then
        (let (n, dp) = parseInt64 v dp in update_peer i (\<lambda>p. p\<lparr>TransmitBytes := n\<rparr>) dp)
      else if key = ''rx_bytes'' then
        (let (n, dp) = parseInt64 v dp in update_peer i (\<lambda>p. p\<lparr>ReceiveBytes := n\<rparr>) dp)
      else if key = ''persistent_keepalive_interval'' then
        (let (n, dp) = parseInt v dp in
         update_peer i (\<lambda>p. p\<lparr>PersistentKeepaliveInterval := n * second\<rparr>) dp)
      else if key = ''allowed_ip'' then
        (case parseCIDR v dp of
           (None, dp) \<Rightarrow> dp
         | (Some cidr, dp) \<Rightarrow> update_peer i (\<lambda>p. p\<lparr>AllowedIPs := AllowedIPs p @ [cidr]\<rparr>) dp)
      else if key = ''protocol_version'' then
        (let (n, dp) = parseInt v dp in update_peer i (\<lambda>p. p\<lparr>ProtocolVersion := n\<rparr>) dp)
      else dp)"

definition peerParse :: "wgtypes \<Rightarrow> string \<Rightarrow> string \<Rightarrow> deviceParser \<Rightarrow> deviceParser outcome" where
  "peerParse wg key v dp = (case curPeer dp of
      Panic m \<Rightarrow> Panic m
    | Ret i \<Rightarrow> Ret (set_field wg i key v dp))"

subsection \<open>Lines\<close>

definition device_field :: "wgtypes \<Rightarrow> string \<Rightarrow> string \<Rightarrow> deviceParser \<Rightarrow> deviceParser" where
  "device_field wg key v dp =
     (if key = ''private_key'' then
        (let (k, dp) = parseKey wg v dp in dp\<lparr>dp_d := (dp_d dp)\<lparr>DevicePrivateKey := k\<rparr>\<rparr>)
      else if key = ''listen_port'' then
        (let (n, dp) = parseInt v dp in dp\<lparr>dp_d := (dp_d dp)\<lparr>ListenPort := n\<rparr>\<rparr>)
      else if key = ''fwmark'' then
        (let (n, dp) = parseInt v dp in dp\<lparr>dp_d := (dp_d dp)\<lparr>FirewallMark := n\<rparr>\<rparr>)
      else dp)"

definition new_peer :: "wgtypes \<Rightarrow> string \<Rightarrow> deviceParser \<Rightarrow> deviceParser" where
  "new_peer wg v dp =
     (let dp = dp\<lparr>parsePeers := True, peers := peers dp + 1\<rparr>;
          (k, dp) = parseKey wg v dp in
      dp\<lparr>dp_d := (dp_d dp)\<lparr>Peers := Peers (dp_d dp) @ [zero_peer\<lparr>PublicKey := k\<rparr>]\<rparr>\<rparr>)"

definition parse_field :: "wgtypes \<Rightarrow> string \<Rightarrow> string \<Rightarrow> deviceParser \<Rightarrow> deviceParser outcome" where
  "parse_field wg key v dp = (if parsePeers dp then peerParse wg key v dp else Ret (device_field wg key v dp))"

definition Parse :: "wgtypes \<Rightarrow> string \<Rightarrow> string \<Rightarrow> deviceParser \<Rightarrow> deviceParser outcome" where
  "Parse wg key v dp =
     (if key = ''errno'' then
        (let (errno, dp) = parseInt v dp in
         if errno \<noteq> 0 then Ret (dp\<lparr>dp_err := Some (ErrErrno errno)\<rparr>) else parse_field wg key v dp)
      else if key = ''public_key'' then Ret (new_peer wg v dp)
      else parse_field wg key v dp)"

definition Device :: "wgtypes \<Rightarrow> deviceParser \<Rightarrow> device_error + wgdevice" where
  "Device wg dp = (case dp_err dp of
      Some e \<Rightarrow> Inl e
    | None \<Rightarrow> Inr ((dp_d dp)\<lparr>DevicePublicKey := key_PublicKey wg (DevicePrivateKey (dp_d dp))\<rparr>))"

text \<open>
  The loop of \<open>parseDevice\<close> over the lines scanned; \<open>tooLong\<close> says that the scanner
  stopped at a line beyond its buffer.
\<close>

fun parse_lines ::
    "wgtypes \<Rightarrow> bool \<Rightarrow> string list \<Rightarrow> deviceParser \<Rightarrow> (device_error + wgdevice) outcome" where
  "parse_lines wg tooLong [] dp = Ret (if tooLong then Inl ErrTooLong else Device wg dp)"
| "parse_lines wg tooLong (b # bs) dp =
     (if b = [] then Ret (Device wg dp)
      else (case split_on CHR ''='' b of
          [k, v] \<Rightarrow> (case Parse wg k v dp of
              Panic m \<Rightarrow> Panic m
            | Ret dp' \<Rightarrow> parse_lines wg tooLong bs dp')
        | _ \<Rightarrow> Ret (Inl (ErrPair b))))"

definition parseDevice :: "wgtypes \<Rightarrow> string \<Rightarrow> (device_error + wgdevice) outcome" where
  "parseDevice wg text = (let (lines, tooLong) = scan_text text in parse_lines wg tooLong lines new_parser)"

section \<open>The daemon's queries\<close>

text \<open>
  The daemon holds a device once its engine has made one; \<open>ipc\<close> is the text
  \<open>IpcGetOperation\<close> writes.
\<close>

definition WireguardDevice ::
    "wgtypes \<Rightarrow> ('dev \<Rightarrow> string) \<Rightarrow> 'dev option \<Rightarrow> (device_error + wgdevice) outcome" where
  "WireguardDevice wg ipc wgDevice = (case wgDevice of
      None \<Rightarrow> Ret (Inl ErrNoDevice)
    | Some dev \<Rightarrow> parseDevice wg (ipc dev))"

definition printDevice :: "wgtypes \<Rightarrow> wgdevice \<Rightarrow> string" where
  "printDevice wg d =
     ''interface: '' @ DeviceName d @ '' ('' @ type_String wg (DeviceType d) @ '')'' @ [newline] @
     ''  public key: '' @ key_String wg (DevicePublicKey d) @ [newline] @
     ''  private key: (hidden)'' @ [newline] @
     ''  listening port: '' @ show_int64 (ListenPort d) @ [newline] @ [newline]"

definition ipsString :: "ipnet list \<Rightarrow> string" where
  "ipsString ipns = join '', '' (map IPNet_String ipns)"

text \<open>A nil address prints as \<^verbatim>\<open><nil>\<close>.\<close>

definition printPeer :: "wgtypes \<Rightarrow> (go_time \<Rightarrow> string) \<Rightarrow> wgpeer \<Rightarrow> string" where
  "printPeer wg timeString p =
     ''peer: '' @ key_String wg (PublicKey p) @ [newline] @
     ''  endpoint: '' @ (case Endpoint p of None \<Rightarrow> ''<nil>'' | Some e \<Rightarrow> e) @ [newline] @
     ''  allowed ips: '' @ ipsString (AllowedIPs p) @ [newline] @
     ''  latest handshake: '' @ timeString (LastHandshakeTime p) @ [newline] @
     ''  transfer: '' @ show_int64 (ReceiveBytes p) @ '' B received, '' @
       show_int64 (TransmitBytes p) @ '' B sent'' @ [newline] @ [newline]"

definition WireguardStatusText ::
    "wgtypes \<Rightarrow> (go_time \<Rightarrow> string) \<Rightarrow> ('dev \<Rightarrow> string) \<Rightarrow> 'dev option \<Rightarrow>
     (device_error + string) outcome"
where
  "WireguardStatusText wg timeString ipc wgDevice =
     (case WireguardDevice wg ipc wgDevice of
        Panic m \<Rightarrow> Panic m
      | Ret (Inl e) \<Rightarrow> Ret (Inl e)
      | Ret (Inr d) \<Rightarrow> Ret (Inr (printDevice wg d @ concat (map (printPeer wg timeString) (Peers d)))))"

end
