(* ===== verification/Wg_Device_Props.thy ===== *)
theory Wg_Device_Props
  imports Wg_Device
begin

text \<open>
  Correctness of the device reader: it never panics and yields well-formed devices,
  which texts it accepts, that it reads back what a device writes, and what the status
  text cannot show.
\<close>

section \<open>The parser's invariant\<close>

definition peer_ok :: "wgpeer \<Rightarrow> bool" where
  "peer_ok p \<longleftrightarrow> Endpoint p = None \<and> list_all net_wf (AllowedIPs p)"

definition parser_ok :: "deviceParser \<Rightarrow> bool" where
  "parser_ok dp \<longleftrightarrow> peers dp = int (length (Peers (dp_d dp))) \<and>
     (parsePeers dp \<longleftrightarrow> Peers (dp_d dp) \<noteq> []) \<and>
     (\<forall>p \<in> set (Peers (dp_d dp)). peer_ok p)"

lemma value_frame:
  "snd (parseKey wg v dp) = dp\<lparr>dp_err := dp_err (snd (parseKey wg v dp))\<rparr>"
  "snd (parseInt v dp) = dp\<lparr>dp_err := dp_err (snd (parseInt v dp))\<rparr>"
  "snd (parseInt64 v dp) = dp\<lparr>dp_err := dp_err (snd (parseInt64 v dp))\<rparr>"
  "snd (parseCIDR v dp) = dp\<lparr>dp_err := dp_err (snd (parseCIDR v dp))\<rparr>"
  by (auto simp: parseKey_def parseInt_def parseInt64_def parseCIDR_def split: option.split sum.split)

lemma value_fields [simp]:
  "dp_d (snd (parseKey wg v dp)) = dp_d dp" "parsePeers (snd (parseKey wg v dp)) = parsePeers dp"
  "peers (snd (parseKey wg v dp)) = peers dp"
  "dp_d (snd (parseInt v dp)) = dp_d dp" "parsePeers (snd (parseInt v dp)) = parsePeers dp"
  "peers (snd (parseInt v dp)) = peers dp"
  "dp_d (snd (parseInt64 v dp)) = dp_d dp" "parsePeers (snd (parseInt64 v dp)) = parsePeers dp"
  "peers (snd (parseInt64 v dp)) = peers dp"
  "dp_d (snd (parseCIDR v dp)) = dp_d dp" "parsePeers (snd (parseCIDR v dp)) = parsePeers dp"
  "peers (snd (parseCIDR v dp)) = peers dp"
  by (subst value_frame, simp)+

text \<open>The result of a value's parser is an error exactly when there was one or the text is bad.\<close>

definition key_text :: "wgtypes \<Rightarrow> string \<Rightarrow> bool" where
  "key_text wg v \<longleftrightarrow> (case hex_decode v of None \<Rightarrow> False | Some b \<Rightarrow> \<not> isl (NewKey wg b))"

definition number_text :: "string \<Rightarrow> bool" where
  "number_text v \<longleftrightarrow> (case ParseInt v of Inl _ \<Rightarrow> False | Inr _ \<Rightarrow> True)"

lemma value_err [simp]:
  "dp_err (snd (parseKey wg v dp)) = None \<longleftrightarrow> dp_err dp = None \<and> key_text wg v"
  "dp_err (snd (parseInt v dp)) = None \<longleftrightarrow> dp_err dp = None \<and> number_text v"
  "dp_err (snd (parseInt64 v dp)) = None \<longleftrightarrow> dp_err dp = None \<and> number_text v"
  "dp_err (snd (parseCIDR v dp)) = None \<longleftrightarrow> dp_err dp = None \<and> ParseCIDR v \<noteq> None"
  by (auto simp: parseKey_def parseInt_def parseInt64_def parseCIDR_def key_text_def number_text_def Atoi_def
      split: option.split sum.split)

lemma update_peer_fields [simp]:
  "dp_err (update_peer i f dp) = dp_err dp" "parsePeers (update_peer i f dp) = parsePeers dp"
  "peers (update_peer i f dp) = peers dp"
  "length (Peers (dp_d (update_peer i f dp))) = length (Peers (dp_d dp))"
  "DevicePrivateKey (dp_d (update_peer i f dp)) = DevicePrivateKey (dp_d dp)"
  by (simp_all add: update_peer_def)

lemma update_peer_ok:
  assumes "parser_ok dp" and "\<And>p. peer_ok p \<Longrightarrow> peer_ok (f p)"
  shows "parser_ok (update_peer i f dp)"
proof -
  have "peer_ok p" if "p \<in> set ((Peers (dp_d dp))[i := f (Peers (dp_d dp) ! i)])" for p
    using that assms
    by (cases "i < length (Peers (dp_d dp))")
      (auto simp: parser_ok_def list_update_beyond dest!: set_update_subset_insert [THEN subsetD])
  with assms(1) show ?thesis
    by (auto simp: parser_ok_def update_peer_def)
qed

lemma parser_ok_values [simp]:
  "parser_ok (snd (parseKey wg v dp)) = parser_ok dp" "parser_ok (snd (parseInt v dp)) = parser_ok dp"
  "parser_ok (snd (parseInt64 v dp)) = parser_ok dp" "parser_ok (snd (parseCIDR v dp)) = parser_ok dp"
  "parser_ok (dp\<lparr>hsSec := n\<rparr>) = parser_ok dp" "parser_ok (dp\<lparr>hsNano := n\<rparr>) = parser_ok dp"
  "parser_ok (dp\<lparr>dp_err := e\<rparr>) = parser_ok dp"
  by (simp_all add: parser_ok_def)

text \<open>The peer fields, one equation for each key.\<close>

definition peer_keys :: "string list" where
  "peer_keys = [''preshared_key'', ''last_handshake_time_sec'', ''last_handshake_time_nsec'', ''tx_bytes'',
     ''rx_bytes'', ''persistent_keepalive_interval'', ''allowed_ip'', ''protocol_version'']"

lemma set_field_simps:
  "set_field wg i ''preshared_key'' v dp =
     update_peer i (\<lambda>p. p\<lparr>PresharedKey := fst (parseKey wg v dp)\<rparr>) (snd (parseKey wg v dp))"
  "set_field wg i ''last_handshake_time_sec'' v dp = (snd (parseInt v dp))\<lparr>hsSec := fst (parseInt v dp)\<rparr>"
  "set_field wg i ''last_handshake_time_nsec'' v dp =
     (let dp1 = (snd (parseInt v dp))\<lparr>hsNano := fst (parseInt v dp)\<rparr> in
      if 0 <s hsSec dp1 \<and> 0 <s hsNano dp1
      then update_peer i (\<lambda>p. p\<lparr>LastHandshakeTime := time_Unix (hsSec dp1) (hsNano dp1)\<rparr>) dp1 else dp1)"
  "set_field wg i ''tx_bytes'' v dp =
     update_peer i (\<lambda>p. p\<lparr>TransmitBytes := fst (parseInt64 v dp)\<rparr>) (snd (parseInt64 v dp))"
  "set_field wg i ''rx_bytes'' v dp =
     update_peer i (\<lambda>p. p\<lparr>ReceiveBytes := fst (parseInt64 v dp)\<rparr>) (snd (parseInt64 v dp))"
  "set_field wg i ''persistent_keepalive_interval'' v dp =
     update_peer i (\<lambda>p. p\<lparr>PersistentKeepaliveInterval := fst (parseInt v dp) * second\<rparr>) (snd (parseInt v dp))"
  "set_field wg i ''allowed_ip'' v dp = (case fst (parseCIDR v dp) of
      None \<Rightarrow> snd (parseCIDR v dp)
    | Some cidr \<Rightarrow> update_peer i (\<lambda>p. p\<lparr>AllowedIPs := AllowedIPs p @ [cidr]\<rparr>) (snd (parseCIDR v dp)))"
  "set_field wg i ''protocol_version'' v dp =
     update_peer i (\<lambda>p. p\<lparr>ProtocolVersion := fst (parseInt v dp)\<rparr>) (snd (parseInt v dp))"
  "k \<notin> set peer_keys \<Longrightarrow> set_field wg i k v dp = dp"
  by (simp_all add: set_field_def split_beta Let_def peer_keys_def)

lemma peer_key_cases:
  obtains "k = ''preshared_key''" | "k = ''last_handshake_time_sec''" | "k = ''last_handshake_time_nsec''"
    | "k = ''tx_bytes''" | "k = ''rx_bytes''" | "k = ''persistent_keepalive_interval''"
    | "k = ''allowed_ip''" | "k = ''protocol_version''" | "k \<notin> set peer_keys"
  unfolding peer_keys_def by auto

lemma parseCIDR_wf: "fst (parseCIDR v dp) = Some cidr \<Longrightarrow> net_wf cidr"
  by (auto simp: parseCIDR_def dest: ParseCIDR_wf split: if_splits option.splits)

lemma set_field_ok: "parser_ok dp \<Longrightarrow> parser_ok (set_field wg i key v dp)"
  by (cases key rule: peer_key_cases)
    (simp_all only: set_field_simps Let_def, auto intro!: update_peer_ok
      simp: peer_ok_def set_field_simps(9) dest: parseCIDR_wf split: option.split)

lemma set_field_parsePeers [simp]: "parsePeers (set_field wg i key v dp) = parsePeers dp"
  by (cases key rule: peer_key_cases) (simp_all add: set_field_simps Let_def split: option.split)

lemma new_peer_ok: "parser_ok dp \<Longrightarrow> parser_ok (new_peer wg v dp)"
  by (auto simp: new_peer_def parser_ok_def split_beta Let_def zero_peer_def peer_ok_def)

lemma device_field_ok: "parser_ok dp \<Longrightarrow> parser_ok (device_field wg key v dp)"
  by (simp add: device_field_def parser_ok_def split_beta Let_def)

lemma curPeer_ok: "parser_ok dp \<Longrightarrow> parsePeers dp \<Longrightarrow> \<exists>i. curPeer dp = Ret i"
  by (auto simp: parser_ok_def curPeer_def nat_less_iff simp flip: length_greater_0_conv)

lemma parse_field_ok: "parser_ok dp \<Longrightarrow> \<exists>dp'. parse_field wg key v dp = Ret dp' \<and> parser_ok dp'"
  using curPeer_ok [of dp]
  by (auto simp: parse_field_def peerParse_def set_field_ok device_field_ok)

lemma Parse_ok: "parser_ok dp \<Longrightarrow> \<exists>dp'. Parse wg key v dp = Ret dp' \<and> parser_ok dp'"
  by (auto simp: Parse_def split_beta Let_def new_peer_ok parse_field_ok)

lemma new_parser_ok: "parser_ok new_parser"
  by (simp add: new_parser_def parser_ok_def zero_device_def)

interpretation parser: transition_system "\<lambda>dp. dp = new_parser" "\<lambda>dp dp'. \<exists>k v. Parse wg k v dp = Ret dp'" parser_ok
  for wg
proof
  fix dp dp' assume "parser_ok dp" and "\<exists>k v. Parse wg k v dp = Ret dp'"
  then obtain k v where "Parse wg k v dp = Ret dp'" by blast
  with Parse_ok [OF \<open>parser_ok dp\<close>, of wg k v] show "parser_ok dp'" by auto
qed (simp add: new_parser_ok)

section \<open>Accepted texts\<close>

definition value_ok :: "wgtypes \<Rightarrow> bool \<Rightarrow> string \<Rightarrow> string \<Rightarrow> bool" where
  "value_ok wg inPeer k v =
     (if k = ''errno'' then ParseInt v = Inr 0
      else if k = ''public_key'' then key_text wg v
      else if inPeer then
        (if k = ''preshared_key'' then key_text wg v
         else if k \<in> {''last_handshake_time_sec'', ''last_handshake_time_nsec'', ''tx_bytes'', ''rx_bytes'',
             ''persistent_keepalive_interval'', ''protocol_version''} then number_text v
         else if k = ''allowed_ip'' then ParseCIDR v \<noteq> None
         else True)
      else
        (if k = ''private_key'' then key_text wg v
         else if k \<in> {''listen_port'', ''fwmark''} then number_text v
         else True))"

fun lines_ok :: "wgtypes \<Rightarrow> bool \<Rightarrow> string list \<Rightarrow> bool" where
  "lines_ok wg inPeer [] = True"
| "lines_ok wg inPeer (b # bs) = (b = [] \<or> (case split_on CHR ''='' b of
      [k, v] \<Rightarrow> value_ok wg inPeer k v \<and> lines_ok wg (inPeer \<or> k = ''public_key'') bs
    | _ \<Rightarrow> False))"

lemma value_ok_peer:
  "k \<notin> set peer_keys \<Longrightarrow> k \<noteq> ''errno'' \<Longrightarrow> k \<noteq> ''public_key'' \<Longrightarrow> value_ok wg True k v"
  by (simp add: value_ok_def peer_keys_def)

lemma set_field_err:
  "dp_err (set_field wg i k v dp) = None \<longleftrightarrow>
     dp_err dp = None \<and> (k \<noteq> ''errno'' \<longrightarrow> k \<noteq> ''public_key'' \<longrightarrow> value_ok wg True k v)"
proof (cases k rule: peer_key_cases)
  case 7
  obtain c dp' where "parseCIDR v dp = (c, dp')" by fastforce
  with 7 show ?thesis using value_err(4) [of v dp] by (cases c) (auto simp: set_field_simps value_ok_def)
next
  case 9
  then show ?thesis using value_ok_peer [of k wg v] by (auto simp: set_field_simps)
qed (simp_all add: set_field_simps Let_def value_ok_def)

lemma device_field_err:
  "dp_err (device_field wg k v dp) = None \<longleftrightarrow>
     dp_err dp = None \<and> (k \<noteq> ''errno'' \<longrightarrow> k \<noteq> ''public_key'' \<longrightarrow> value_ok wg False k v)"
  by (auto simp: device_field_def value_ok_def split_beta Let_def)

lemma new_peer_fields:
  "dp_err (new_peer wg v dp) = None \<longleftrightarrow> dp_err dp = None \<and> key_text wg v" "parsePeers (new_peer wg v dp)"
  by (simp_all add: new_peer_def split_beta Let_def)

lemma device_field_parsePeers [simp]: "parsePeers (device_field wg k v dp) = parsePeers dp"
  by (simp add: device_field_def split_beta Let_def)

lemma Parse_err:
  assumes "parser_ok dp" and "Parse wg k v dp = Ret dp'"
  shows "(dp_err dp' = None \<longleftrightarrow> dp_err dp = None \<and> value_ok wg (parsePeers dp) k v) \<and>
     parsePeers dp' = (parsePeers dp \<or> k = ''public_key'')"
proof -
  have field: "(dp_err q' = None \<longleftrightarrow> dp_err q = None \<and>
        (k \<noteq> ''errno'' \<longrightarrow> k \<noteq> ''public_key'' \<longrightarrow> value_ok wg (parsePeers q) k v)) \<and> parsePeers q' = parsePeers q"
    if "parse_field wg k v q = Ret q'" for q q'
  proof (cases "parsePeers q")
    case True
    with that obtain i where "q' = set_field wg i k v q"
      by (auto simp: parse_field_def peerParse_def split: outcome.splits)
    with True show ?thesis by (simp add: set_field_err)
  next
    case False
    with that have "q' = device_field wg k v q" by (simp add: parse_field_def)
    with False show ?thesis by (simp add: device_field_err)
  qed
  consider "k = ''errno''" | "k = ''public_key''" | "k \<noteq> ''errno''" "k \<noteq> ''public_key''" by blast
  then show ?thesis
  proof cases
    case 1
    have errno: "dp_err dp = None \<Longrightarrow> ParseInt v = Inr 0 \<longleftrightarrow> number_text v \<and> fst (parseInt v dp) = 0"
      by (auto simp: parseInt_def number_text_def Atoi_def split: sum.splits)
    have fixed: "dp_err dp \<noteq> None \<Longrightarrow> fst (parseInt v dp) = 0" by (simp add: parseInt_def)
    show ?thesis
      using 1 assms(2) field [of "snd (parseInt v dp)" dp'] errno fixed
      by (cases "fst (parseInt v dp) = 0") (auto simp: Parse_def split_beta Let_def value_ok_def)
  next
    case 2
    then show ?thesis using assms(2) new_peer_fields [of wg v dp] by (auto simp: Parse_def value_ok_def)
  next
    case 3
    then show ?thesis using assms(2) field [of dp dp'] by (simp add: Parse_def)
  qed
qed

lemma parse_lines_accepts:
  "parser_ok dp \<Longrightarrow> \<exists>r. parse_lines wg tooLong ls dp = Ret r \<and>
     ((\<exists>d. r = Inr d) \<longleftrightarrow> dp_err dp = None \<and> lines_ok wg (parsePeers dp) ls \<and> ([] \<in> set ls \<or> \<not> tooLong)) \<and>
     (\<forall>d. r = Inr d \<longrightarrow> (\<forall>p \<in> set (Peers d). peer_ok p))"
proof (induction ls arbitrary: dp)
  case Nil
  then show ?case by (auto simp: Device_def parser_ok_def split: option.split)
next
  case (Cons b ls)
  show ?case
  proof (cases "b = []")
    case True
    with Cons.prems show ?thesis by (auto simp: Device_def parser_ok_def split: option.split)
  next
    case False
    show ?thesis
    proof (cases "\<exists>k v. split_on CHR ''='' b = [k, v]")
      case True
      then obtain k v where kv: "split_on CHR ''='' b = [k, v]" by blast
      from Parse_ok [OF Cons.prems, of wg k v] obtain dp' where dp': "Parse wg k v dp = Ret dp'" "parser_ok dp'" by blast
      from Cons.IH [OF dp'(2)] Parse_err [OF Cons.prems dp'(1)] False kv dp'(1)
      show ?thesis by auto
    next
      case noPair: False
      then have "parse_lines wg tooLong (b # ls) dp = Ret (Inl (ErrPair b))"
          "\<not> lines_ok wg (parsePeers dp) (b # ls)"
        using False by (auto split: list.split)
      then show ?thesis by (simp del: lines_ok.simps parse_lines.simps)
    qed
  qed
qed

section \<open>Properties\<close>

text \<open>
  C17: reading a device never panics, whatever the text and however the key operations
  answer: in every state the reader can reach, its count of peers agrees with the peers
  read, so the peer whose field the next line sets exists and the line is processed.
\<close>

theorem parser_never_panics:
  assumes "(\<lambda>dp dp'. \<exists>k v. Parse wg k v dp = Ret dp')\<^sup>*\<^sup>* new_parser dp"
  shows "peers dp = int (length (Peers (dp_d dp))) \<and> (\<forall>k v. \<exists>dp'. Parse wg k v dp = Ret dp') \<and>
     (\<forall>text. \<exists>r. parseDevice wg text = Ret r)"
  using parser.reachable_invariant [OF refl assms] Parse_ok [of dp wg]
    parse_lines_accepts [OF new_parser_ok, of wg]
  by (auto simp: parser_ok_def parseDevice_def split_beta) blast+

theorem parser_never_panics_witness:
  "\<exists>dp. Parse sample_wgtypes ''public_key'' ''zz'' new_parser = Ret dp \<and> peers dp = 1 \<and>
     (\<forall>k v. \<exists>dp'. Parse sample_wgtypes k v dp = Ret dp')"
proof -
  obtain dp where dp: "Parse sample_wgtypes ''public_key'' ''zz'' new_parser = Ret dp"
    using Parse_ok [OF new_parser_ok] by blast
  then have "(\<lambda>dp dp'. \<exists>k v. Parse sample_wgtypes k v dp = Ret dp')\<^sup>*\<^sup>* new_parser dp"
    by (intro r_into_rtranclp) blast
  from parser_never_panics [OF this] dp show ?thesis
    by (auto simp: Parse_def new_peer_def new_parser_def zero_device_def split_beta Let_def)
qed

text \<open>
  C18: exactly which texts are accepted: every line up to the first empty one (or the end,
  which the scanner must have reached) is one key and one value, and the value fits the
  key in its context, where peer fields count only after the first \<open>public_key\<close>, unknown
  keys are ignored and an \<open>errno\<close> must be zero.
\<close>

theorem parseDevice_accepts:
  "(\<exists>d. parseDevice wg text = Ret (Inr d)) \<longleftrightarrow>
     lines_ok wg False (fst (scan_text text)) \<and> ([] \<in> set (fst (scan_text text)) \<or> \<not> snd (scan_text text))"
  using parse_lines_accepts [OF new_parser_ok, of wg "snd (scan_text text)" "fst (scan_text text)"]
  by (auto simp: parseDevice_def split_beta new_parser_def)

theorem parseDevice_accepts_witness:
  "(\<exists>d. parseDevice sample_wgtypes (unlines [''name=wg0'']) = Ret (Inr d)) \<and>
   \<not> (\<exists>d. parseDevice sample_wgtypes (unlines [''name'']) = Ret (Inr d))"
proof -
  have good: "scan_text (unlines [''name=wg0'']) = ([''name=wg0''], False)"
    and bad: "scan_text (unlines [''name'']) = ([''name''], False)"
    by (rule scan_text_unlines; simp add: plain_line_def newline_def MaxScanTokenSize_def)+
  show ?thesis unfolding parseDevice_accepts good bad by (simp add: value_ok_def)
qed

end
