(* ===== verification/Wg_Device_Roundtrip.thy ===== *)
theory Wg_Device_Roundtrip
  imports Wg_Device_Props
begin

text \<open>
  The reader against the userspace protocol: what it makes of the lines the protocol
  prescribes for a device. The reader drops the endpoints and the handshakes on a whole
  second; everything else is read back unchanged.
\<close>

text \<open>A key is 32 bytes, and the control package makes it of them.\<close>

definition key_wf :: "wgtypes \<Rightarrow> wgkey \<Rightarrow> bool" where
  "key_wf wg k \<longleftrightarrow> length k = 32 \<and> NewKey wg k = Inr k"

section \<open>Plain lines\<close>

text \<open>Characters and lengths of the values, so that the scanner returns every line whole.\<close>

definition value_text :: "string \<Rightarrow> bool" where
  "value_text v \<longleftrightarrow> newline \<notin> set v \<and> CHR 0x0D \<notin> set v \<and> CHR ''='' \<notin> set v \<and> length v \<le> 100"

lemma show_hex_length: "n < 16 ^ Suc k \<Longrightarrow> length (show_hex n) \<le> Suc k"
proof (induction k arbitrary: n)
  case (Suc k)
  then have "n div 16 < 16 ^ Suc k" by (auto simp: less_mult_imp_div_less)
  with Suc show ?case by (cases "n < 16") (simp_all add: show_hex.simps [of n])
qed (simp add: show_hex.simps)

lemma join_length: "\<forall>w \<in> set ws. length w \<le> n \<Longrightarrow> length (join sep ws) \<le> length ws * (n + length sep)"
  by (induction sep ws rule: join.induct) (auto simp: algebra_simps)

lemma digit_plain: "is_digit c \<Longrightarrow> c \<noteq> newline \<and> c \<noteq> CHR 0x0D \<and> c \<noteq> CHR ''=''"
  by (auto simp: is_digit_def byte_def newline_def)

lemma hex_plain: "hex_value c \<noteq> None \<Longrightarrow> c \<noteq> newline \<and> c \<noteq> CHR 0x0D \<and> c \<noteq> CHR ''=''"
  by (auto simp: hex_value_def byte_def newline_def)

lemma value_text_int64: "value_text (show_int64 w)"
proof -
  have "\<forall>c \<in> set (show_nat n). c \<noteq> newline \<and> c \<noteq> CHR 0x0D \<and> c \<noteq> CHR ''=''" for n
    using show_nat_digits [of n] digit_plain by (auto simp: list_all_iff)
  then show ?thesis
    using show_int64_length [of w]
    by (auto simp: value_text_def show_int64_def show_int_def newline_def split: if_splits)
qed

lemma hex_encode_facts: "length (hex_encode k) = 2 * length k" "c \<in> set (hex_encode k) \<Longrightarrow> hex_value c \<noteq> None"
proof -
  show "length (hex_encode k) = 2 * length k" by (induction k) (simp_all add: hex_encode_def)
  have "hex_value (hex_char n) \<noteq> None" if "n < 16" for n using that by simp
  then show "c \<in> set (hex_encode k) \<Longrightarrow> hex_value c \<noteq> None"
    using byte_div(2) by (auto simp: hex_encode_def)
qed

lemma value_text_key: "key_wf wg k \<Longrightarrow> value_text (hex_encode k)"
  using hex_encode_facts(1) [of k] hex_encode_facts(2) [of _ k] hex_plain by (fastforce simp: value_text_def key_wf_def)

lemma string4_length:
  assumes "length p = 4"
  shows "length (string4 p) \<le> 16"
proof -
  have "length (show_nat (unat (b :: 8 word))) \<le> 3" for b
    using show_nat_length [of "unat b" 2] byte_word_less [of b] by simp
  then have "length (string4 p) \<le> length p * (3 + 1)"
    unfolding string4_def using join_length [of "map (\<lambda>b. show_nat (unat b)) p" 3 "''.''"] by simp
  with assms show ?thesis by simp
qed

lemma hextets_length:
  assumes "\<forall>g \<in> set gs. g \<le> 0xFFFF"
  shows "length (hextets gs) \<le> 5 * length gs"
proof -
  have "\<forall>w \<in> set (map show_hex gs). length w \<le> 4"
  proof
    fix w assume "w \<in> set (map show_hex gs)"
    then obtain g where "w = show_hex g" "g \<le> 0xFFFF" using assms by auto
    then show "length w \<le> 4" using show_hex_length [of g 3] by simp
  qed
  from join_length [OF this, of "'':''"] show ?thesis by (simp add: hextets_def)
qed

lemma string6_length:
  assumes "length p = 16"
  shows "length (string6 p) \<le> 82"
proof -
  define gs where "gs = groups_of p"
  obtain e l where run: "longest_run gs = (e, l)" by fastforce
  have len: "length gs = 8" and bound: "\<forall>g \<in> set gs. g \<le> 0xFFFF"
    using assms groups_of_bound by (auto simp: gs_def groups_of_length)
  have "length (hextets (take e gs)) \<le> 40" "length (hextets (drop (e + l) gs)) \<le> 40" "length (hextets gs) \<le> 40"
    using hextets_length [of "take e gs"] hextets_length [of "drop (e + l) gs"] hextets_length [OF bound] bound len
      set_take_subset [of e gs] set_drop_subset [of "e + l" gs] by fastforce+
  then show ?thesis
    using run by (simp add: string6_def hextets_def gs_def Let_def)
qed

lemma IPNet_String_text:
  assumes "canonical_net nt"
  obtains n where "n \<le> 128" "IPNet_String nt =
    (if length (net_IP nt) = 4 then string4 (net_IP nt) else string6 (net_IP nt)) @ ''/'' @ show_nat n"
    "length (net_IP nt) = 4 \<or> length (net_IP nt) = 16"
proof -
  from assms obtain n where m: "net_Mask nt = CIDRMask n (length (net_IP nt))"
      and n: "n \<le> 8 * length (net_IP nt)"
      and fam: "length (net_IP nt) = 4 \<or> length (net_IP nt) = 16 \<and> take 12 (net_IP nt) \<noteq> v4InV6Prefix"
    by (rule canonical_netD)
  show ?thesis
    by (rule that [of n]) (use fam m n simpleMaskLength_CIDRMask [of n "length (net_IP nt)"] in
      \<open>auto simp: IPNet_String_def To4_def IP_String_def Let_def\<close>)
qed

lemma value_text_net:
  assumes "canonical_net nt"
  shows "value_text (IPNet_String nt)"
proof -
  from assms obtain n where n: "n \<le> 128" and str: "IPNet_String nt =
      (if length (net_IP nt) = 4 then string4 (net_IP nt) else string6 (net_IP nt)) @ ''/'' @ show_nat n"
      and fam: "length (net_IP nt) = 4 \<or> length (net_IP nt) = 16"
    by (rule IPNet_String_text)
  have "c \<noteq> newline \<and> c \<noteq> CHR 0x0D \<and> c \<noteq> CHR ''=''" if "c \<in> set (IPNet_String nt)" for c
  proof -
    from that have "is_digit c \<or> hex_value c \<noteq> None \<or> c \<in> {CHR ''.'', CHR '':'', CHR ''/''}"
      using string4_chars [of c "net_IP nt"] string6_chars [of c "net_IP nt"] show_nat_digits [of n]
      unfolding str by (auto simp: list_all_iff split: if_splits)
    then show ?thesis using digit_plain hex_plain by (auto simp: newline_def)
  qed
  moreover have "length (IPNet_String nt) \<le> 100"
    using fam n show_nat_length [of n 2] string4_length [of "net_IP nt"] string6_length [of "net_IP nt"]
    unfolding str by auto
  ultimately show ?thesis by (auto simp: value_text_def)
qed

section \<open>The lines of the protocol\<close>

text \<open>
  The answer of a device in the cross-platform userspace protocol: the interface's fields,
  of which a zero one is left out, and for every peer its public key followed by its other
  fields, the endpoint only if it is known, the handshake as seconds and nanoseconds, the
  keepalive in seconds and one line for each network.
\<close>

definition line :: "string \<Rightarrow> string \<Rightarrow> string" where
  "line k v = k @ ''='' @ v"

primrec time_lines :: "go_time \<Rightarrow> string list" where
  "time_lines ZeroTime = [line ''last_handshake_time_sec'' (show_int64 0), line ''last_handshake_time_nsec'' (show_int64 0)]"
| "time_lines (UnixTime s n) =
     [line ''last_handshake_time_sec'' (show_int64 s), line ''last_handshake_time_nsec'' (show_int64 n)]"

definition peer_lines :: "wgpeer \<Rightarrow> string list" where
  "peer_lines p =
     [line ''public_key'' (hex_encode (PublicKey p)), line ''preshared_key'' (hex_encode (PresharedKey p)),
      line ''protocol_version'' (show_int64 (ProtocolVersion p))] @
     (case Endpoint p of None \<Rightarrow> [] | Some e \<Rightarrow> [line ''endpoint'' e]) @
     time_lines (LastHandshakeTime p) @
     [line ''tx_bytes'' (show_int64 (TransmitBytes p)), line ''rx_bytes'' (show_int64 (ReceiveBytes p)),
      line ''persistent_keepalive_interval'' (show_int64 (go_div (PersistentKeepaliveInterval p) second))] @
     map (\<lambda>nt. line ''allowed_ip'' (IPNet_String nt)) (AllowedIPs p)"

definition device_lines :: "wgdevice \<Rightarrow> string list" where
  "device_lines d =
     (if DevicePrivateKey d = zero_key then [] else [line ''private_key'' (hex_encode (DevicePrivateKey d))]) @
     (if ListenPort d = 0 then [] else [line ''listen_port'' (show_int64 (ListenPort d))]) @
     (if FirewallMark d = 0 then [] else [line ''fwmark'' (show_int64 (FirewallMark d))]) @
     concat (map peer_lines (Peers d))"

text \<open>
  The devices the protocol can express: 32 byte keys, canonical networks, a keepalive of
  whole seconds, endpoints that are short texts of one line without an equals sign, and a
  last handshake that is unset or a time after 1970.
\<close>

primrec time_wf :: "go_time \<Rightarrow> bool" where
  "time_wf ZeroTime \<longleftrightarrow> True"
| "time_wf (UnixTime s n) \<longleftrightarrow> 0 \<le>s s \<and> 0 \<le>s n \<and> n <s second"

definition peer_wf :: "wgtypes \<Rightarrow> wgpeer \<Rightarrow> bool" where
  "peer_wf wg p \<longleftrightarrow> (case Endpoint p of None \<Rightarrow> True | Some e \<Rightarrow> value_text e) \<and>
     key_wf wg (PublicKey p) \<and> key_wf wg (PresharedKey p) \<and>
     go_div (PersistentKeepaliveInterval p) second * second = PersistentKeepaliveInterval p \<and>
     time_wf (LastHandshakeTime p) \<and> list_all canonical_net (AllowedIPs p)"

definition device_wf :: "wgtypes \<Rightarrow> wgdevice \<Rightarrow> bool" where
  "device_wf wg d \<longleftrightarrow> key_wf wg (DevicePrivateKey d) \<and> list_all (peer_wf wg) (Peers d)"

text \<open>
  What the reader keeps of a device: not its name and type, which the protocol does not
  have, not the endpoints, and a handshake only if neither its seconds nor its nanoseconds
  are zero.
\<close>

primrec time_kept :: "go_time \<Rightarrow> go_time" where
  "time_kept ZeroTime = ZeroTime"
| "time_kept (UnixTime s n) = (if s = 0 \<or> n = 0 then ZeroTime else UnixTime s n)"

definition peer_kept :: "wgpeer \<Rightarrow> wgpeer" where
  "peer_kept p = p\<lparr>Endpoint := None, LastHandshakeTime := time_kept (LastHandshakeTime p)\<rparr>"

definition device_kept :: "wgtypes \<Rightarrow> wgdevice \<Rightarrow> wgdevice" where
  "device_kept wg d = d\<lparr>DeviceName := [], DeviceType := 0,
     DevicePublicKey := key_PublicKey wg (DevicePrivateKey d), Peers := map peer_kept (Peers d)\<rparr>"

text \<open>The parser while it reads the fields of the peer after \<open>ps\<close>.\<close>

definition in_peer :: "wgdevice \<Rightarrow> wgpeer list \<Rightarrow> wgpeer \<Rightarrow> int64 \<Rightarrow> int64 \<Rightarrow> deviceParser" where
  "in_peer d ps p hs hn = \<lparr>dp_d = d\<lparr>Peers := ps @ [p]\<rparr>, dp_err = None, parsePeers = True,
     peers = int (length ps) + 1, hsSec = hs, hsNano = hn\<rparr>"

lemma split_line: "CHR ''='' \<notin> set k \<Longrightarrow> value_text v \<Longrightarrow> split_on CHR ''='' (line k v) = [k, v]"
  by (simp add: line_def split_on_append split_on_no_sep value_text_def)

lemma parse_line:
  assumes "CHR ''='' \<notin> set k" "value_text v" "Parse wg k v dp = Ret dp'"
  shows "parse_lines wg long (line k v # ls) dp = parse_lines wg long ls dp'"
  using assms(3) split_line [OF assms(1,2)] by (simp add: line_def)

lemma update_in_peer:
  "update_peer (length ps) f (in_peer d ps p hs hn) = in_peer d ps (f p) hs hn"
  by (simp add: update_peer_def in_peer_def)

lemma Parse_peer_field:
  assumes "k \<noteq> ''errno''" and "k \<noteq> ''public_key''"
  shows "Parse wg k v (in_peer d ps p hs hn) = Ret (set_field wg (length ps) k v (in_peer d ps p hs hn))"
  using assms by (simp add: Parse_def parse_field_def peerParse_def curPeer_def in_peer_def)

lemma value_results:
  "dp_err dp = None \<Longrightarrow> parseInt (show_int64 n) dp = (n, dp)"
  "dp_err dp = None \<Longrightarrow> parseInt64 (show_int64 n) dp = (n, dp)"
  "dp_err dp = None \<Longrightarrow> key_wf wg k \<Longrightarrow> parseKey wg (hex_encode k) dp = (k, dp)"
  "dp_err dp = None \<Longrightarrow> canonical_net nt \<Longrightarrow> parseCIDR (IPNet_String nt) dp = (Some nt, dp)"
  by (simp_all add: parseInt_def parseInt64_def parseKey_def parseCIDR_def Atoi_def ParseInt_show_int64
      hex_roundtrip ParseCIDR_String key_wf_def)

lemma in_peer_err [simp]: "dp_err (in_peer d ps p hs hn) = None"
  by (simp add: in_peer_def)

lemma in_peer_hs:
  "(in_peer d ps p hs hn)\<lparr>hsSec := n\<rparr> = in_peer d ps p n hn" "hsSec (in_peer d ps p hs hn) = hs"
  "(in_peer d ps p hs hn)\<lparr>hsNano := n\<rparr> = in_peer d ps p hs n" "hsNano (in_peer d ps p hs hn) = hn"
  by (simp_all add: in_peer_def)

lemma peer_line:
  assumes "k \<noteq> ''errno''" "k \<noteq> ''public_key''" "CHR ''='' \<notin> set k" "value_text v"
    and "set_field wg (length ps) k v (in_peer d ps p hs hn) = dp'"
  shows "parse_lines wg long (line k v # ls) (in_peer d ps p hs hn) = parse_lines wg long ls dp'"
  using parse_line [OF assms(3,4) Parse_peer_field [OF assms(1,2)]] assms(5) by simp

lemmas field_results = set_field_simps value_results update_in_peer in_peer_hs

lemma read_numbers:
  "parse_lines wg long (line ''protocol_version'' (show_int64 n) # ls) (in_peer d ps p hs hn) =
     parse_lines wg long ls (in_peer d ps (p\<lparr>ProtocolVersion := n\<rparr>) hs hn)"
  "parse_lines wg long (line ''tx_bytes'' (show_int64 n) # ls) (in_peer d ps p hs hn) =
     parse_lines wg long ls (in_peer d ps (p\<lparr>TransmitBytes := n\<rparr>) hs hn)"
  "parse_lines wg long (line ''rx_bytes'' (show_int64 n) # ls) (in_peer d ps p hs hn) =
     parse_lines wg long ls (in_peer d ps (p\<lparr>ReceiveBytes := n\<rparr>) hs hn)"
  "parse_lines wg long (line ''persistent_keepalive_interval'' (show_int64 n) # ls) (in_peer d ps p hs hn) =
     parse_lines wg long ls (in_peer d ps (p\<lparr>PersistentKeepaliveInterval := n * second\<rparr>) hs hn)"
  by (rule peer_line; simp add: value_text_int64 field_results)+

lemma read_psk:
  "key_wf wg k \<Longrightarrow> parse_lines wg long (line ''preshared_key'' (hex_encode k) # ls) (in_peer d ps p hs hn) =
     parse_lines wg long ls (in_peer d ps (p\<lparr>PresharedKey := k\<rparr>) hs hn)"
  by (rule peer_line; simp add: value_text_key field_results)

lemma read_time:
  assumes "time_wf t" and "LastHandshakeTime p = ZeroTime"
  shows "\<exists>hs hn. parse_lines wg long (time_lines t @ ls) (in_peer d ps p hs0 hn0) =
     parse_lines wg long ls (in_peer d ps (p\<lparr>LastHandshakeTime := time_kept t\<rparr>) hs hn)"
proof -
  let ?pl = "parse_lines wg long"
  have read: "?pl (line ''last_handshake_time_sec'' (show_int64 s) # line ''last_handshake_time_nsec'' (show_int64 n) # ls)
      (in_peer d ps p hs0 hn0) =
    ?pl ls (if 0 <s s \<and> 0 <s n then in_peer d ps (p\<lparr>LastHandshakeTime := time_Unix s n\<rparr>) s n else in_peer d ps p s n)"
    for s n
  proof -
    have "?pl (line ''last_handshake_time_sec'' (show_int64 s) # ls') (in_peer d ps p hs0 hn0) =
        ?pl ls' (in_peer d ps p s hn0)" for ls'
      by (rule peer_line; simp add: value_text_int64 field_results)
    moreover have "?pl (line ''last_handshake_time_nsec'' (show_int64 n) # ls) (in_peer d ps p s hn0) =
        ?pl ls (if 0 <s s \<and> 0 <s n then in_peer d ps (p\<lparr>LastHandshakeTime := time_Unix s n\<rparr>) s n else in_peer d ps p s n)"
      by (rule peer_line; simp add: value_text_int64 field_results Let_def)
    ultimately show ?thesis by simp
  qed
  have unset: "p\<lparr>LastHandshakeTime := ZeroTime\<rparr> = p" using assms(2) by simp
  show ?thesis
  proof (cases t)
    case ZeroTime
    then show ?thesis using read [of 0 0] unset by (intro exI [of _ 0]) simp
  next
    case (UnixTime s n)
    then have "time_Unix s n = UnixTime s n" "0 <s s \<longleftrightarrow> s \<noteq> 0" "0 <s n \<longleftrightarrow> n \<noteq> 0"
      using assms(1) by (auto simp: time_Unix_def word_sless_alt word_sle_eq signed_eq_0_iff less_le)
    then show ?thesis using read [of s n] UnixTime unset by (intro exI [of _ s] exI [of _ n]) simp
  qed
qed

lemma read_endpoint:
  "value_text e \<Longrightarrow> parse_lines wg long (line ''endpoint'' e # ls) (in_peer d ps p hs hn) =
     parse_lines wg long ls (in_peer d ps p hs hn)"
  by (rule peer_line) (simp_all add: set_field_def)

lemma read_ips:
  "list_all canonical_net nts \<Longrightarrow>
   parse_lines wg long (map (\<lambda>nt. line ''allowed_ip'' (IPNet_String nt)) nts @ ls) (in_peer d ps p hs hn) =
     parse_lines wg long ls (in_peer d ps (p\<lparr>AllowedIPs := AllowedIPs p @ nts\<rparr>) hs hn)"
proof (induction nts arbitrary: p)
  case (Cons nt nts)
  have "parse_lines wg long (line ''allowed_ip'' (IPNet_String nt) # ls') (in_peer d ps p hs hn) =
      parse_lines wg long ls' (in_peer d ps (p\<lparr>AllowedIPs := AllowedIPs p @ [nt]\<rparr>) hs hn)" for ls'
    by (rule peer_line) (use Cons.prems in \<open>simp_all add: value_text_net field_results\<close>)
  with Cons show ?case by simp
qed simp

definition after_peers :: "wgdevice \<Rightarrow> wgpeer list \<Rightarrow> int64 \<Rightarrow> int64 \<Rightarrow> deviceParser" where
  "after_peers d ps hs hn = \<lparr>dp_d = d\<lparr>Peers := ps\<rparr>, dp_err = None, parsePeers = (ps \<noteq> []),
     peers = int (length ps), hsSec = hs, hsNano = hn\<rparr>"

lemma in_peer_after: "in_peer d ps p hs hn = after_peers d (ps @ [p]) hs hn"
  by (simp add: in_peer_def after_peers_def)

lemma read_public_key:
  assumes "key_wf wg k"
  shows "parse_lines wg long (line ''public_key'' (hex_encode k) # ls) (after_peers d ps hs hn) =
     parse_lines wg long ls (in_peer d ps (zero_peer\<lparr>PublicKey := k\<rparr>) hs hn)"
proof (rule parse_line)
  show "Parse wg ''public_key'' (hex_encode k) (after_peers d ps hs hn) =
      Ret (in_peer d ps (zero_peer\<lparr>PublicKey := k\<rparr>) hs hn)"
    using assms by (simp add: Parse_def new_peer_def value_results after_peers_def in_peer_def)
qed (simp_all add: value_text_key [OF assms])

lemma read_peer:
  assumes "peer_wf wg p"
  shows "\<exists>hs hn. parse_lines wg long (peer_lines p @ ls) (after_peers d ps hs0 hn0) =
     parse_lines wg long ls (after_peers d (ps @ [peer_kept p]) hs hn)"
proof -
  let ?p = "zero_peer\<lparr>PublicKey := PublicKey p, PresharedKey := PresharedKey p, ProtocolVersion := ProtocolVersion p\<rparr>"
  let ?rest = "[line ''tx_bytes'' (show_int64 (TransmitBytes p)), line ''rx_bytes'' (show_int64 (ReceiveBytes p)),
      line ''persistent_keepalive_interval'' (show_int64 (go_div (PersistentKeepaliveInterval p) second))] @
     map (\<lambda>nt. line ''allowed_ip'' (IPNet_String nt)) (AllowedIPs p) @ ls"
  have wf: "time_wf (LastHandshakeTime p)" "LastHandshakeTime ?p = ZeroTime" "list_all canonical_net (AllowedIPs p)"
    "key_wf wg (PublicKey p)" "key_wf wg (PresharedKey p)"
    using assms by (simp_all add: peer_wf_def zero_peer_def)
  let ?t = "time_kept (LastHandshakeTime p)"
  obtain hs hn where t: "parse_lines wg long (time_lines (LastHandshakeTime p) @ ?rest) (in_peer d ps ?p hs0 hn0) =
      parse_lines wg long ?rest (in_peer d ps (?p\<lparr>LastHandshakeTime := ?t\<rparr>) hs hn)"
    using read_time [OF wf(1,2)] by blast
  have p: "?p\<lparr>LastHandshakeTime := ?t, TransmitBytes := TransmitBytes p, ReceiveBytes := ReceiveBytes p,
      PersistentKeepaliveInterval := go_div (PersistentKeepaliveInterval p) second * second,
      AllowedIPs := AllowedIPs p\<rparr> = peer_kept p"
    using assms by (cases p) (simp add: peer_wf_def zero_peer_def peer_kept_def)
  have "parse_lines wg long (peer_lines p @ ls) (after_peers d ps hs0 hn0) =
      parse_lines wg long (time_lines (LastHandshakeTime p) @ ?rest) (in_peer d ps ?p hs0 hn0)"
    using wf assms
    by (cases "Endpoint p")
      (simp_all add: peer_lines_def peer_wf_def read_public_key read_psk read_numbers read_endpoint del: parse_lines.simps)
  also note t
  also have "parse_lines wg long ?rest (in_peer d ps (?p\<lparr>LastHandshakeTime := ?t\<rparr>) hs hn) =
      parse_lines wg long ls (in_peer d ps (peer_kept p) hs hn)"
    using wf(3) p by (simp add: read_numbers read_ips zero_peer_def del: parse_lines.simps)
  finally show ?thesis by (auto simp: in_peer_after)
qed

lemma read_peers:
  "list_all (peer_wf wg) qs \<Longrightarrow> \<exists>hs hn. parse_lines wg long (concat (map peer_lines qs) @ ls) (after_peers d ps hs0 hn0) =
     parse_lines wg long ls (after_peers d (ps @ map peer_kept qs) hs hn)"
proof (induction qs arbitrary: ps hs0 hn0)
  case (Cons q qs)
  from Cons.prems read_peer [of wg q long "concat (map peer_lines qs) @ ls" d ps hs0 hn0]
  obtain hs hn where "parse_lines wg long (peer_lines q @ concat (map peer_lines qs) @ ls) (after_peers d ps hs0 hn0) =
      parse_lines wg long (concat (map peer_lines qs) @ ls) (after_peers d (ps @ [peer_kept q]) hs hn)" by auto
  with Cons.IH [of "ps @ [peer_kept q]" hs hn] Cons.prems show ?case by simp
qed auto

lemma read_device_field:
  assumes "k \<noteq> ''errno''" "k \<noteq> ''public_key''" "CHR ''='' \<notin> set k" "value_text v"
    and "device_field wg k v (after_peers d [] 0 0) = after_peers d' [] 0 0"
  shows "parse_lines wg long (line k v # ls) (after_peers d [] 0 0) = parse_lines wg long ls (after_peers d' [] 0 0)"
  by (rule parse_line) (use assms in \<open>simp_all add: Parse_def parse_field_def after_peers_def\<close>)

lemma read_device_fields:
  "key_wf wg k \<Longrightarrow> parse_lines wg long (line ''private_key'' (hex_encode k) # ls) (after_peers d [] 0 0) =
     parse_lines wg long ls (after_peers (d\<lparr>DevicePrivateKey := k\<rparr>) [] 0 0)"
  "parse_lines wg long (line ''listen_port'' (show_int64 n) # ls) (after_peers d [] 0 0) =
     parse_lines wg long ls (after_peers (d\<lparr>ListenPort := n\<rparr>) [] 0 0)"
  "parse_lines wg long (line ''fwmark'' (show_int64 n) # ls) (after_peers d [] 0 0) =
     parse_lines wg long ls (after_peers (d\<lparr>FirewallMark := n\<rparr>) [] 0 0)"
  by (rule read_device_field; simp add: value_text_int64 value_text_key device_field_def value_results after_peers_def)+

text \<open>Every line the writer produces is returned whole by the scanner.\<close>

lemma plain_line_line:
  "newline \<notin> set k \<Longrightarrow> CHR 0x0D \<notin> set k \<Longrightarrow> length k < 100 \<Longrightarrow> value_text v \<Longrightarrow> plain_line (line k v)"
  by (auto simp: plain_line_def line_def value_text_def newline_def MaxScanTokenSize_def)

lemma time_lines_plain: "l \<in> set (time_lines t) \<Longrightarrow> plain_line l"
  by (cases t) (auto intro!: plain_line_line simp: value_text_int64 newline_def)

lemma peer_lines_plain: "peer_wf wg p \<Longrightarrow> l \<in> set (peer_lines p) \<Longrightarrow> plain_line l"
  by (auto simp: peer_lines_def peer_wf_def list_all_iff value_text_int64 value_text_key value_text_net newline_def
      intro!: plain_line_line dest: time_lines_plain split: option.splits)

lemma device_lines_plain: "device_wf wg d \<Longrightarrow> \<forall>l \<in> set (device_lines d). plain_line l"
  by (auto simp: device_lines_def device_wf_def list_all_iff value_text_int64 value_text_key newline_def
      intro!: plain_line_line dest: peer_lines_plain split: if_splits)

lemma parse_device_lines:
  assumes "device_wf wg d"
  shows "parseDevice wg (unlines (device_lines d)) = Ret (Inr (device_kept wg d))"
proof -
  let ?d = "zero_device\<lparr>DevicePrivateKey := DevicePrivateKey d, ListenPort := ListenPort d, FirewallMark := FirewallMark d\<rparr>"
  obtain hs hn where ps: "parse_lines wg False (concat (map peer_lines (Peers d)) @ []) (after_peers ?d [] 0 0) =
      parse_lines wg False [] (after_peers ?d ([] @ map peer_kept (Peers d)) hs hn)"
    using assms read_peers unfolding device_wf_def by blast
  have new: "new_parser = after_peers zero_device [] 0 0"
    by (simp add: new_parser_def after_peers_def zero_device_def)
  have "scan_text (unlines (device_lines d)) = (device_lines d, False)"
    by (rule scan_text_unlines) (rule device_lines_plain [OF assms])
  then have "parseDevice wg (unlines (device_lines d)) = parse_lines wg False (device_lines d) new_parser"
    by (simp add: parseDevice_def)
  also have "\<dots> = parse_lines wg False (concat (map peer_lines (Peers d)) @ []) (after_peers ?d [] 0 0)"
    using assms
    by (cases "DevicePrivateKey d = zero_key"; cases "ListenPort d = 0"; cases "FirewallMark d = 0")
      (simp_all add: device_lines_def new read_device_fields device_wf_def zero_device_def del: parse_lines.simps)
  also note ps
  also have "parse_lines wg False [] (after_peers ?d ([] @ map peer_kept (Peers d)) hs hn) = Ret (Inr (device_kept wg d))"
    using assms by (cases d) (simp add: Device_def after_peers_def zero_device_def device_wf_def device_kept_def)
  finally show ?thesis .
qed

section \<open>Properties\<close>

text \<open>
  C4: what is read of a device's answer. If the device answers with the lines the userspace
  protocol has for a device whose keys have 32 bytes, whose networks are canonical, whose
  keepalives are whole seconds, whose endpoints are short texts without an equals sign and
  whose handshakes are not before 1970, the reader returns that device, without a name and
  type, which the protocol does not have: private key, port and mark, and its peers in order with their keys, version,
  transfer counts, keepalive and allowed networks of both address families, and the public
  key derived from the private one. It drops the endpoint of every peer, and the handshake of
  a peer if its seconds or its nanoseconds are zero; any other handshake is kept.
\<close>

theorem device_roundtrip:
  assumes "ipc dev = unlines (device_lines d)" and "device_wf wg d"
  shows "WireguardDevice wg ipc (Some dev) = Ret (Inr (d\<lparr>DeviceName := [], DeviceType := 0,
     DevicePublicKey := key_PublicKey wg (DevicePrivateKey d),
     Peers := map (\<lambda>p. p\<lparr>Endpoint := None, LastHandshakeTime := time_kept (LastHandshakeTime p)\<rparr>) (Peers d)\<rparr>))"
  using parse_device_lines [OF assms(2)] assms(1) by (simp add: WireguardDevice_def device_kept_def peer_kept_def)

definition sample_peer :: wgpeer where
  "sample_peer = \<lparr>PublicKey = replicate 32 CHR ''k'', PresharedKey = replicate 32 CHR ''p'', Endpoint = Some ''192.0.2.7:51820'',
     PersistentKeepaliveInterval = 25 * second, LastHandshakeTime = UnixTime 1700000000 42,
     ReceiveBytes = 1024, TransmitBytes = 2048,
     AllowedIPs = [\<lparr>net_IP = [10, 1, 0, 0], net_Mask = [255, 255, 0, 0]\<rparr>,
       \<lparr>net_IP = 0xFD # replicate 15 0, net_Mask = 0xFF # replicate 15 0\<rparr>], ProtocolVersion = 1\<rparr>"

definition sample_device :: wgdevice where
  "sample_device = zero_device\<lparr>DevicePrivateKey := replicate 32 CHR ''s'', ListenPort := 51820,
     Peers := [sample_peer]\<rparr>"

lemma sample_device_wf: "device_wf sample_wgtypes sample_device"
proof -
  have "canonical_net \<lparr>net_IP = [10, 1, 0, 0], net_Mask = [255, 255, 0, 0]\<rparr>"
  proof (rule canonical_netI [of _ 16])
    have "CIDRMask 16 4 = [255, 255, 0, 0]" by code_simp
    then show "net_Mask \<lparr>net_IP = [10, 1, 0, 0], net_Mask = [255, 255, 0, 0]\<rparr> =
        CIDRMask 16 (length (net_IP \<lparr>net_IP = [10, 1, 0, 0], net_Mask = [255, 255, 0, 0]\<rparr>))" by simp
  qed simp_all
  moreover have "canonical_net \<lparr>net_IP = 0xFD # replicate 15 0, net_Mask = 0xFF # replicate 15 0\<rparr>"
  proof (rule canonical_netI [of _ 8])
    show "net_Mask \<lparr>net_IP = 0xFD # replicate 15 0, net_Mask = 0xFF # replicate 15 0\<rparr> =
        CIDRMask 8 (length (net_IP \<lparr>net_IP = 0xFD # replicate 15 0, net_Mask = 0xFF # replicate 15 0\<rparr>))"
      using CIDRMask_zero [of 15] CIDRMask.simps(2) [of 8 15] by simp
  qed (simp_all add: v4InV6Prefix_def zip_replicate)
  moreover have "go_div (25 * second) second * second = 25 * second"
    by (simp add: go_div_def duration_simps)
  ultimately show ?thesis
    by (simp add: device_wf_def sample_device_def zero_device_def sample_peer_def peer_wf_def key_wf_def value_text_def
        sample_wgtypes_def newline_def word_sless_alt word_sle_eq duration_simps)
qed

theorem device_roundtrip_witness:
  "\<exists>d. WireguardDevice sample_wgtypes (\<lambda>dev. unlines (device_lines dev)) (Some sample_device) = Ret (Inr d) \<and>
     ListenPort d = 51820 \<and> map LastHandshakeTime (Peers d) = [UnixTime 1700000000 42] \<and>
     map Endpoint (Peers sample_device) = [Some ''192.0.2.7:51820''] \<and> map Endpoint (Peers d) = [None]"
  using device_roundtrip [of "\<lambda>dev. unlines (device_lines dev)" sample_device sample_device, OF refl sample_device_wf]
  by (simp add: sample_device_def sample_peer_def)

text \<open>
  The status text never shows an endpoint: the reader skips the \<open>endpoint\<close> lines, so
  every peer of a device it returns prints the nil address.
\<close>

theorem status_has_no_endpoints:
  assumes "WireguardDevice wg ipc wgDevice = Ret (Inr d)" and "p \<in> set (Peers d)"
  shows "Endpoint p = None \<and>
    (\<exists>rest. printPeer wg timeString p = ''peer: '' @ key_String wg (PublicKey p) @ [newline] @ ''  endpoint: <nil>'' @ rest)"
proof -
  from assms(1) obtain dev where "parseDevice wg (ipc dev) = Ret (Inr d)"
    by (auto simp: WireguardDevice_def split: option.splits)
  with parse_lines_accepts [OF new_parser_ok, of wg "snd (scan_text (ipc dev))" "fst (scan_text (ipc dev))"]
  have "Endpoint p = None" using assms(2) by (auto simp: parseDevice_def split_beta peer_ok_def)
  then show ?thesis by (simp add: printPeer_def)
qed

theorem status_has_no_endpoints_witness:
  "\<exists>rest. printPeer sample_wgtypes (\<lambda>_. []) (peer_kept sample_peer) =
     ''peer: '' @ b64_encode (replicate 32 CHR ''k'') @ [newline] @ ''  endpoint: <nil>'' @ rest"
proof -
  have "WireguardDevice sample_wgtypes (\<lambda>dev. unlines (device_lines dev)) (Some sample_device) =
      Ret (Inr (device_kept sample_wgtypes sample_device))"
    using parse_device_lines [OF sample_device_wf] by (simp add: WireguardDevice_def)
  from status_has_no_endpoints [OF this, of "peer_kept sample_peer" "\<lambda>_. []"] show ?thesis
    by (simp add: sample_device_def device_kept_def) (simp add: peer_kept_def sample_peer_def sample_wgtypes_def)
qed

text \<open>
  A handshake that falls on a whole second is lost: a nanosecond field of zero never
  sets a peer's last handshake, whatever the seconds before it were, although only both
  fields being zero means that there was none.
\<close>

theorem whole_second_handshake_lost:
  assumes "parser_ok dp" and "Parse wg ''last_handshake_time_nsec'' ''0'' dp = Ret dp'"
  shows "map LastHandshakeTime (Peers (dp_d dp')) = map LastHandshakeTime (Peers (dp_d dp))"
proof -
  have zero: "fst (parseInt ''0'' dp) = 0"
  proof -
    have "show_int64 0 = ''0''" 
      by (simp add: show_int64_def show_int_def show_nat.simps digit_char_def char_of_def bit_0)
    then have "ParseInt ''0'' = Inr 0" using ParseInt_show_int64 [of 0] by simp
    then show ?thesis by (simp add: parseInt_def Atoi_def)
  qed
  show ?thesis
  proof (cases "parsePeers dp")
    case True
    with assms obtain i where "curPeer dp = Ret i" using curPeer_ok by blast
    with True assms(2) have "dp' = set_field wg i ''last_handshake_time_nsec'' ''0'' dp"
      by (simp add: Parse_def parse_field_def peerParse_def)
    then show ?thesis by (simp add: set_field_simps zero Let_def)
  next
    case False
    with assms(2) show ?thesis by (auto simp: Parse_def parse_field_def device_field_def)
  qed
qed

theorem whole_second_handshake_lost_witness:
  "\<exists>dp'. Parse sample_wgtypes ''last_handshake_time_nsec'' ''0'' (in_peer zero_device [] zero_peer 1700000000 0) = Ret dp' \<and>
     map LastHandshakeTime (Peers (dp_d dp')) = [ZeroTime]"
proof -
  let ?dp = "in_peer zero_device [] zero_peer 1700000000 0"
  have ok: "parser_ok ?dp" by (simp add: parser_ok_def in_peer_def zero_peer_def zero_device_def peer_ok_def)
  then obtain dp' where dp': "Parse sample_wgtypes ''last_handshake_time_nsec'' ''0'' ?dp = Ret dp'" using Parse_ok by blast
  from whole_second_handshake_lost [OF ok dp'] dp' show ?thesis
    by (auto simp: in_peer_def zero_peer_def)
qed

end
