(* ===== verification/Vpn_Config_Data.thy ===== *)
theory Vpn_Config_Data
  imports Go_Json Go_Strings
begin

text \<open>
  Where a VPN configuration comes from (\<^verbatim>\<open>vpn/service.go\<close>, \<^verbatim>\<open>vpn/wireguard_config_data.go\<close>,
  \<^verbatim>\<open>vpn/static_config_data.go\<close>): the dynamic configuration a service hands out, rendered
  as a WireGuard file, and the static one downloaded from a bastion. The service, the
  cloud target with its instances and the HTTP client are parameters; JSON documents are
  trees, \<open>None\<close> being bytes that are no JSON.
\<close>

section \<open>Errors\<close>

datatype vpn_error =
    ErrService string | ErrConfigJSON json_error | ErrUnknownVPNType string
  | ErrNotOwnedTarget | ErrNoDeployedBastion string
  | ErrNotBastion string | ErrTargetNotRunning | ErrNoBastionInstance | ErrInstance string
  | ErrBastionNotRunning | ErrNoOutput string | ErrOutputNotString string
  | ErrHTTP string | ErrHTTPStatus string

section \<open>WireGuard configuration data\<close>

record wireguardConfigData =
  wgd_name :: string
  privateKey :: string
  Address :: string
  DNS :: string
  PeerEndpoint :: string
  PeerPublicKey :: string
  AllowedSubnets :: "string list"
  KeepAlivePing :: int64

text \<open>Decoding keeps the unexported fields.\<close>

definition decode_wireguardConfigData :: "wireguardConfigData \<Rightarrow> json \<Rightarrow> json_error + wireguardConfigData" where
  "decode_wireguardConfigData c = decode_object (\<lambda>kvs.
     case decode_string (json_field ''client_addr'' kvs) of Inl e \<Rightarrow> Inl e | Inr addr \<Rightarrow>
     (case decode_string (json_field ''dns'' kvs) of Inl e \<Rightarrow> Inl e | Inr dns \<Rightarrow>
     (case decode_string (json_field ''peer_endpoint'' kvs) of Inl e \<Rightarrow> Inl e | Inr ep \<Rightarrow>
     (case decode_string (json_field ''peer_public_key'' kvs) of Inl e \<Rightarrow> Inl e | Inr pk \<Rightarrow>
     (case decode_slice decode_string (json_field ''allowed_subnets'' kvs) of Inl e \<Rightarrow> Inl e | Inr nets \<Rightarrow>
     (case decode_int64 (json_field ''keep_alive_ping'' kvs) of Inl e \<Rightarrow> Inl e | Inr ping \<Rightarrow>
       Inr (c\<lparr>Address := addr, DNS := dns, PeerEndpoint := ep, PeerPublicKey := pk,
              AllowedSubnets := nets, KeepAlivePing := ping\<rparr>)))))))"

definition wgd_Name :: "wireguardConfigData \<Rightarrow> string" where
  "wgd_Name c = wgd_name c"

definition wgd_VPNType :: "wireguardConfigData \<Rightarrow> string" where
  "wgd_VPNType c = ''wireguard''"

definition wgd_Data :: "wireguardConfigData \<Rightarrow> string" where
  "wgd_Data c =
     ''[Interface]'' @ [newline] @
     ''PrivateKey = '' @ privateKey c @ [newline] @
     ''Address = '' @ Address c @ ''/32'' @ [newline] @
     (if length (DNS c) > 0 then ''DNS = '' @ DNS c @ [newline] else []) @
     [newline] @
     ''[Peer]'' @ [newline] @
     ''PublicKey = '' @ PeerPublicKey c @ [newline] @
     ''Endpoint = '' @ PeerEndpoint c @ [newline] @
     ''PersistentKeepalive = '' @ show_int64 (KeepAlivePing c) @ [newline] @
     (if length (AllowedSubnets c) > 0
      then ''AllowedIPs = '' @ join '','' (AllowedSubnets c) @ [newline] else [])"

text \<open>\<open>Delete\<close> disconnects from the service.\<close>

definition wgd_Delete :: "(unit \<Rightarrow> string option) \<Rightarrow> wireguardConfigData \<Rightarrow> string option" where
  "wgd_Delete service_Disconnect c = service_Disconnect ()"

section \<open>Static configuration data\<close>

record staticConfigData =
  scd_name :: string
  scd_vpnType :: string
  scd_data :: string

datatype target_status = Running | NotRunning
datatype instance_state = StateRunning | StateOther
datatype output_value = StringValue string | OtherValue

record http_request =
  req_url :: string
  req_user :: string
  req_password :: string

record http_response =
  StatusCode :: int64
  Status :: string
  Body :: "string + string"

text \<open>
  The target of the cloud builder, its managed instances and their HTTPS client. The
  outputs are a pointer to a map; nil is \<open>None\<close>.
\<close>

record ('node, 't, 'i, 'h) target_api =
  as_target :: "'node \<Rightarrow> 't option"
  t_Key :: "'t \<Rightarrow> string"
  t_IsBastion :: "'t \<Rightarrow> bool"
  t_Status :: "'t \<Rightarrow> target_status"
  t_ManagedInstance :: "'t \<Rightarrow> string \<Rightarrow> 'i option"
  t_Output :: "'t \<Rightarrow> (string \<rightharpoonup> output_value) option"
  i_State :: "'i \<Rightarrow> string + instance_state"
  i_HttpsClient :: "'i \<Rightarrow> string + 'h \<times> string"
  i_RootUser :: "'i \<Rightarrow> string"
  i_RootPassword :: "'i \<Rightarrow> string"
  i_NonRootUser :: "'i \<Rightarrow> string"
  i_NonRootPassword :: "'i \<Rightarrow> string"
  http_NewRequest :: "string \<Rightarrow> string option"
  http_Do :: "'h \<Rightarrow> http_request \<Rightarrow> string + http_response"

definition output_string :: "(string \<rightharpoonup> output_value) option \<Rightarrow> string \<Rightarrow> (vpn_error + string) outcome" where
  "output_string out key = (case out of
      None \<Rightarrow> Panic ''nil pointer dereference''
    | Some kvs \<Rightarrow> Ret (case kvs key of
        None \<Rightarrow> Inl (ErrNoOutput key)
      | Some OtherValue \<Rightarrow> Inl (ErrOutputNotString key)
      | Some (StringValue s) \<Rightarrow> Inr s))"

definition download ::
    "('node, 't, 'i, 'h) target_api \<Rightarrow> 'h \<Rightarrow> string \<Rightarrow> string \<Rightarrow> string \<Rightarrow> vpn_error + string" where
  "download api client url user passwd = (case http_NewRequest api url of
      Some e \<Rightarrow> Inl (ErrHTTP e)
    | None \<Rightarrow> (case http_Do api client \<lparr>req_url = url, req_user = user, req_password = passwd\<rparr> of
        Inl e \<Rightarrow> Inl (ErrHTTP e)
      | Inr resp \<Rightarrow>
          if StatusCode resp \<noteq> 200 then Inl (ErrHTTPStatus (Status resp))
          else (case Body resp of Inl e \<Rightarrow> Inl (ErrHTTP e) | Inr resBody \<Rightarrow> Inr resBody)))"

definition static_url :: "string \<Rightarrow> string \<Rightarrow> string \<Rightarrow> string" where
  "static_url url user name = url @ ''/static/~'' @ user @ ''/'' @ name @ ''.conf''"

definition newStaticConfigData ::
    "('node, 't, 'i, 'h) target_api \<Rightarrow> 't \<Rightarrow> string \<Rightarrow> string \<Rightarrow> (vpn_error + staticConfigData) outcome"
where
  "newStaticConfigData api tgt user passwd =
     (if \<not> t_IsBastion api tgt then Ret (Inl (ErrNotBastion (t_Key api tgt)))
      else if t_Status api tgt \<noteq> Running then Ret (Inl ErrTargetNotRunning)
      else (case t_ManagedInstance api tgt ''bastion'' of
        None \<Rightarrow> Ret (Inl ErrNoBastionInstance)
      | Some inst \<Rightarrow> (case i_State api inst of
          Inl e \<Rightarrow> Ret (Inl (ErrInstance e))
        | Inr state \<Rightarrow>
          if state \<noteq> StateRunning then Ret (Inl ErrBastionNotRunning)
          else (case i_HttpsClient api inst of
            Inl e \<Rightarrow> Ret (Inl (ErrInstance e))
          | Inr (client, url) \<Rightarrow> (case output_string (t_Output api tgt) ''cb_vpc_name'' of
              Panic m \<Rightarrow> Panic m
            | Ret (Inl e) \<Rightarrow> Ret (Inl e)
            | Ret (Inr vpcName) \<Rightarrow> (case output_string (t_Output api tgt) ''cb_vpn_type'' of
                Panic m \<Rightarrow> Panic m
              | Ret (Inl e) \<Rightarrow> Ret (Inl e)
              | Ret (Inr vpnType) \<Rightarrow>
                  Ret (case download api client (static_url url user vpcName) user passwd of
                     Inl e \<Rightarrow> Inl e
                   | Inr resBody \<Rightarrow>
                       Inr \<lparr>scd_name = vpcName, scd_vpnType = vpnType, scd_data = resBody\<rparr>)))))))"

section \<open>The configuration data interface\<close>

datatype ConfigData = WireguardData wireguardConfigData | StaticData staticConfigData

fun cd_Name :: "ConfigData \<Rightarrow> string" where
  "cd_Name (WireguardData c) = wgd_Name c"
| "cd_Name (StaticData c) = scd_name c"

fun cd_VPNType :: "ConfigData \<Rightarrow> string" where
  "cd_VPNType (WireguardData c) = wgd_VPNType c"
| "cd_VPNType (StaticData c) = scd_vpnType c"

fun cd_Data :: "ConfigData \<Rightarrow> string" where
  "cd_Data (WireguardData c) = wgd_Data c"
| "cd_Data (StaticData c) = scd_data c"

fun cd_Delete :: "(unit \<Rightarrow> string option) \<Rightarrow> ConfigData \<Rightarrow> string option" where
  "cd_Delete disconnect (WireguardData c) = wgd_Delete disconnect c"
| "cd_Delete disconnect (StaticData c) = None"

section \<open>Retrieving the configuration\<close>

record ServiceConfig =
  svc_PrivateKey :: string
  svc_PublicKey :: string
  svc_IsAdminUser :: bool
  svc_Name :: string
  svc_VPNType :: string
  svc_RawConfig :: "json option option"

record 'node service =
  service_Connect :: "string + ServiceConfig"
  service_GetSpaceNode :: 'node

definition NewVPNConfigData ::
    "('node, 't, 'i, 'h) target_api \<Rightarrow> 'node service \<Rightarrow> (vpn_error + ConfigData) outcome"
where
  "NewVPNConfigData api service = (case service_Connect service of
      Inl e \<Rightarrow> Ret (Inl (ErrService e))
    | Inr cfg \<Rightarrow> (case svc_RawConfig cfg of
        Some raw \<Rightarrow>
          if svc_VPNType cfg = ''wireguard'' then
            (case raw of
               None \<Rightarrow> Ret (Inl (ErrConfigJSON (SyntaxError ''invalid character'')))
             | Some j \<Rightarrow> (case decode_wireguardConfigData
                   \<lparr>wgd_name = svc_Name cfg, privateKey = svc_PrivateKey cfg, Address = [], DNS = [], PeerEndpoint = [],
                    PeerPublicKey = [], AllowedSubnets = [], KeepAlivePing = 0\<rparr> j of
                 Inl e \<Rightarrow> Ret (Inl (ErrConfigJSON e))
               | Inr c \<Rightarrow> Ret (Inr (WireguardData c))))
          else Ret (Inl (ErrUnknownVPNType (svc_VPNType cfg)))
      | None \<Rightarrow> (case as_target api (service_GetSpaceNode service) of
          None \<Rightarrow> Ret (Inl ErrNotOwnedTarget)
        | Some tgt \<Rightarrow> (case t_ManagedInstance api tgt ''bastion'' of
            None \<Rightarrow> Ret (Inl (ErrNoDeployedBastion (t_Key api tgt)))
          | Some inst \<Rightarrow>
              (let (userName, password) =
                 (if svc_IsAdminUser cfg then (i_RootUser api inst, i_RootPassword api inst)
                  else (i_NonRootUser api inst, i_NonRootPassword api inst)) in
               case newStaticConfigData api tgt userName password of
                 Panic m \<Rightarrow> Panic m
               | Ret (Inl e) \<Rightarrow> Ret (Inl e)
               | Ret (Inr c) \<Rightarrow> Ret (Inr (StaticData c)))))))"

section \<open>Properties\<close>

text \<open>
  C32: a static configuration is only ever the body of a successful answer of the running
  bastion of an owned target, asked for with the root credentials when the service says
  the user is an administrator and with the other ones otherwise.
\<close>

theorem static_config_origin:
  assumes "NewVPNConfigData api service = Ret (Inr (StaticData c))"
  shows "\<exists>cfg tgt inst client url resp.
     service_Connect service = Inr cfg \<and> svc_RawConfig cfg = None \<and>
     as_target api (service_GetSpaceNode service) = Some tgt \<and> t_IsBastion api tgt \<and> t_Status api tgt = Running \<and>
     t_ManagedInstance api tgt ''bastion'' = Some inst \<and> i_State api inst = Inr StateRunning \<and>
     i_HttpsClient api inst = Inr (client, url) \<and>
     (let user = (if svc_IsAdminUser cfg then i_RootUser api inst else i_NonRootUser api inst);
          passwd = (if svc_IsAdminUser cfg then i_RootPassword api inst else i_NonRootPassword api inst) in
      http_Do api client \<lparr>req_url = static_url url user (scd_name c), req_user = user, req_password = passwd\<rparr> = Inr resp) \<and>
     StatusCode resp = 200 \<and> Body resp = Inr (scd_data c)"
proof -
  have dl: "\<exists>resp. http_Do api client \<lparr>req_url = url, req_user = user, req_password = passwd\<rparr> = Inr resp \<and>
      StatusCode resp = 200 \<and> Body resp = Inr b" if "download api client url user passwd = Inr b" for client url user passwd b
    using that by (auto simp: download_def split: option.splits sum.splits if_splits)
  have static: "\<exists>inst client url. t_IsBastion api tgt \<and> t_Status api tgt = Running \<and>
      t_ManagedInstance api tgt ''bastion'' = Some inst \<and> i_State api inst = Inr StateRunning \<and>
      i_HttpsClient api inst = Inr (client, url) \<and>
      download api client (static_url url user (scd_name c)) user passwd = Inr (scd_data c)"
    if "newStaticConfigData api tgt user passwd = Ret (Inr c)" for tgt user passwd
    using that unfolding newStaticConfigData_def
    by (auto split: if_split_asm option.split_asm sum.split_asm outcome.split_asm prod.split_asm)
  from assms obtain cfg tgt inst where cfg: "service_Connect service = Inr cfg" "svc_RawConfig cfg = None"
      "as_target api (service_GetSpaceNode service) = Some tgt" "t_ManagedInstance api tgt ''bastion'' = Some inst"
      "newStaticConfigData api tgt (if svc_IsAdminUser cfg then i_RootUser api inst else i_NonRootUser api inst)
         (if svc_IsAdminUser cfg then i_RootPassword api inst else i_NonRootPassword api inst) = Ret (Inr c)"
    unfolding NewVPNConfigData_def
    by (auto split: if_split_asm option.split_asm sum.split_asm outcome.split_asm simp: Let_def)
  from static [OF cfg(5)] cfg(1-4) dl show ?thesis
    by (auto simp: Let_def)
qed

definition sample_target_api :: "(unit, unit, unit, unit) target_api" where
  "sample_target_api = \<lparr>as_target = Some, t_Key = (\<lambda>_. ''tgt''), t_IsBastion = (\<lambda>_. True),
     t_Status = (\<lambda>_. Running), t_ManagedInstance = (\<lambda>_ _. Some ()),
     t_Output = (\<lambda>_. Some [''cb_vpc_name'' \<mapsto> StringValue ''space'', ''cb_vpn_type'' \<mapsto> StringValue ''wireguard'']),
     i_State = (\<lambda>_. Inr StateRunning), i_HttpsClient = (\<lambda>_. Inr ((), ''https://host'')),
     i_RootUser = (\<lambda>_. ''root''), i_RootPassword = (\<lambda>_. ''rootpw''),
     i_NonRootUser = (\<lambda>_. ''guest''), i_NonRootPassword = (\<lambda>_. ''guestpw''),
     http_NewRequest = (\<lambda>_. None),
     http_Do = (\<lambda>_ r. if req_user r = ''guest'' \<and> req_password r = ''guestpw''
       then Inr \<lparr>StatusCode = 200, Status = ''200 OK'', Body = Inr ''[Interface]''\<rparr>
       else Inr \<lparr>StatusCode = 401, Status = ''401 Unauthorized'', Body = Inr []\<rparr>)\<rparr>"

definition sample_service :: "bool \<Rightarrow> unit service" where
  "sample_service admin = \<lparr>service_Connect = Inr \<lparr>svc_PrivateKey = ''priv'', svc_PublicKey = ''pub'',
       svc_IsAdminUser = admin, svc_Name = ''space'', svc_VPNType = ''wireguard'', svc_RawConfig = None\<rparr>,
     service_GetSpaceNode = ()\<rparr>"

theorem static_config_origin_witness:
  "NewVPNConfigData sample_target_api (sample_service False) =
     Ret (Inr (StaticData \<lparr>scd_name = ''space'', scd_vpnType = ''wireguard'', scd_data = ''[Interface]''\<rparr>)) \<and>
   http_Do sample_target_api () \<lparr>req_url = ''https://host/static/~guest/space.conf'', req_user = ''guest'',
     req_password = ''guestpw''\<rparr> = Inr \<lparr>StatusCode = 200, Status = ''200 OK'', Body = Inr ''[Interface]''\<rparr>"
proof -
  have run: "NewVPNConfigData sample_target_api (sample_service False) =
     Ret (Inr (StaticData \<lparr>scd_name = ''space'', scd_vpnType = ''wireguard'', scd_data = ''[Interface]''\<rparr>))"
    by (simp add: NewVPNConfigData_def newStaticConfigData_def download_def output_string_def
        sample_target_api_def sample_service_def)
  from static_config_origin [OF run] show ?thesis
    using run by (auto simp: sample_target_api_def sample_service_def static_url_def)
qed

end
