(* ===== verification/Wg_Config.thy ===== *)
theory Wg_Config
  imports Wg_Types Vpn_Config_Data
begin

text \<open>
  The WireGuard configuration reader and the configuration interface
  (\<^verbatim>\<open>vpn/wireguard_config.go\<close>, \<^verbatim>\<open>vpn/openvpn_config.go\<close>, \<^verbatim>\<open>vpn/openvpn_client.go\<close> and
  \<open>NewConfigFromTarget\<close> of \<^verbatim>\<open>vpn/service.go\<close>). The two regular expressions are the functions
  \<open>section_match\<close> and \<open>attrib_match\<close>; the key operations are the parameter \<open>wg\<close>, name
  resolution is the parameter \<open>resolve\<close>.
\<close>

section \<open>The regular expressions\<close>

text \<open>
  \<^verbatim>\<open>\[(.*)\]\<close> anywhere in the line: the leftmost bracket that is closed, the group
  extending greedily to the last closing bracket.
\<close>

definition upto_last :: "char \<Rightarrow> string \<Rightarrow> string option" where
  "upto_last c s = (if c \<in> set s then Some (rev (tl (dropWhile (\<lambda>d. d \<noteq> c) (rev s)))) else None)"

definition section_match :: "string \<Rightarrow> string option" where
  "section_match line = (case dropWhile (\<lambda>c. c \<noteq> CHR ''['') line of
      [] \<Rightarrow> None
    | _ # rest \<Rightarrow> upto_last CHR '']'' rest)"

text \<open>
  \<^verbatim>\<open>(^[a-zA-Z0-9\-\_]*)\s*=\s*(.*)\<close>: key characters from the start of the line, blanks, an
  equals sign, blanks, and the rest.
\<close>

definition key_char :: "char \<Rightarrow> bool" where
  "key_char c \<longleftrightarrow> (let n = byte c in
     97 \<le> n \<and> n \<le> 122 \<or> 65 \<le> n \<and> n \<le> 90 \<or> 48 \<le> n \<and> n \<le> 57 \<or> c = CHR ''-'' \<or> c = CHR ''_'')"

definition is_blank :: "char \<Rightarrow> bool" where
  "is_blank c \<longleftrightarrow> c \<in> {CHR 0x09, CHR 0x0A, CHR 0x0C, CHR 0x0D, CHR '' ''}"

definition attrib_match :: "string \<Rightarrow> (string \<times> string) option" where
  "attrib_match line = (case dropWhile is_blank (dropWhile key_char line) of
      [] \<Rightarrow> None
    | c # rest \<Rightarrow> if c = CHR ''='' then Some (takeWhile key_char line, dropWhile is_blank rest) else None)"

section \<open>The reader\<close>

record wireguardConfig =
  configFileName :: string
  configData :: string
  tunAddress :: string
  tunDNS :: string
  peerAddresses :: "string list"
  isDefaultRoute :: bool
  wgconfig :: wg_config

datatype config_error =
    ErrKeyText string | ErrUnsupportedKey string string | ErrAllowedIP string
  | ErrEndpoint string | ErrKeepalive num_error | ErrUnsupportedType string | ErrOpenVPN

record reader =
  rd_c :: wireguardConfig
  isInterface :: bool
  isPeer :: bool
  peerConfig :: peer_config

text \<open>The allowed networks of one line; the first that does not parse is the error.\<close>

fun allowed_loop :: "string list \<Rightarrow> reader \<Rightarrow> config_error + reader" where
  "allowed_loop [] r = Inr r"
| "allowed_loop (ip # ips) r =
     (let c = rd_c r;
          c = (if \<not> isDefaultRoute c \<and> ip = ''0.0.0.0/0'' then c\<lparr>isDefaultRoute := True\<rparr> else c) in
      case ParseCIDR ip of
        None \<Rightarrow> Inl (ErrAllowedIP ip)
      | Some ipNet \<Rightarrow> allowed_loop ips
          (r\<lparr>rd_c := c, peerConfig := (peerConfig r)\<lparr>cfg_AllowedIPs := cfg_AllowedIPs (peerConfig r) @ [ipNet]\<rparr>\<rparr>))"

definition interface_key :: "wgtypes \<Rightarrow> string \<Rightarrow> string \<Rightarrow> reader \<Rightarrow> config_error + reader" where
  "interface_key wg key v r =
     (if key = ''PrivateKey'' then
        (case ParseKey wg v of
           Inl e \<Rightarrow> Inl (ErrKeyText e)
         | Inr wgKey \<Rightarrow>
             Inr (r\<lparr>rd_c := (rd_c r)\<lparr>wgconfig := (wgconfig (rd_c r))\<lparr>cfg_PrivateKey := Some wgKey\<rparr>\<rparr>\<rparr>))
      else if key = ''Address'' then Inr (r\<lparr>rd_c := (rd_c r)\<lparr>tunAddress := v\<rparr>\<rparr>)
      else if key = ''DNS'' then Inr (r\<lparr>rd_c := (rd_c r)\<lparr>tunDNS := v\<rparr>\<rparr>)
      else Inl (ErrUnsupportedKey ''Interface'' key))"

definition peer_key :: "wgtypes \<Rightarrow> (string \<Rightarrow> string + udp_addr) \<Rightarrow> string \<Rightarrow> string \<Rightarrow> reader \<Rightarrow> config_error + reader" where
  "peer_key wg resolve key v r =
     (if key = ''PublicKey'' then
        (case ParseKey wg v of
           Inl e \<Rightarrow> Inl (ErrKeyText e)
         | Inr wgKey \<Rightarrow> Inr (r\<lparr>peerConfig := (peerConfig r)\<lparr>cfg_PublicKey := wgKey\<rparr>\<rparr>))
      else if key = ''AllowedIPs'' then allowed_loop (split_on CHR '','' v) r
      else if key = ''Endpoint'' then
        (case resolve v of
           Inl e \<Rightarrow> Inl (ErrEndpoint e)
         | Inr addr \<Rightarrow> Inr (r\<lparr>peerConfig := (peerConfig r)\<lparr>cfg_Endpoint := Some addr\<rparr>,
             rd_c := (rd_c r)\<lparr>peerAddresses := peerAddresses (rd_c r) @ [IP_String (addr_IP addr)]\<rparr>\<rparr>))
      else if key = ''PersistentKeepalive'' then
        (case ParseInt v of
           Inl e \<Rightarrow> Inl (ErrKeepalive e)
         | Inr n \<Rightarrow> Inr (r\<lparr>peerConfig := (peerConfig r)\<lparr>cfg_PersistentKeepaliveInterval := Some n\<rparr>\<rparr>))
      else Inl (ErrUnsupportedKey ''Peer'' key))"

text \<open>A finished peer is appended to the configuration.\<close>

definition finish_peer :: "reader \<Rightarrow> reader" where
  "finish_peer r =
     (if isPeer r
      then r\<lparr>rd_c := (rd_c r)\<lparr>wgconfig := (wgconfig (rd_c r))
          \<lparr>cfg_Peers := cfg_Peers (wgconfig (rd_c r)) @ [peerConfig r]\<rparr>\<rparr>, peerConfig := zero_peer_config\<rparr>
      else r)"

definition read_line ::
    "wgtypes \<Rightarrow> (string \<Rightarrow> string + udp_addr) \<Rightarrow> string \<Rightarrow> reader \<Rightarrow> config_error + reader" where
  "read_line wg resolve line r = (case section_match line of
      Some name \<Rightarrow>
        Inr ((finish_peer r)\<lparr>isInterface := (name = ''Interface''), isPeer := (name = ''Peer'')\<rparr>)
    | None \<Rightarrow> (case attrib_match line of
        None \<Rightarrow> Inr r
      | Some (key, v) \<Rightarrow>
          if length key > 0
          then (if isInterface r then interface_key wg key v r
                else if isPeer r then peer_key wg resolve key v r
                else Inr r)
          else Inr r))"

fun read_lines ::
    "wgtypes \<Rightarrow> (string \<Rightarrow> string + udp_addr) \<Rightarrow> string list \<Rightarrow> reader \<Rightarrow> config_error + reader" where
  "read_lines wg resolve [] r = Inr r"
| "read_lines wg resolve (l # ls) r = (case read_line wg resolve l r of
      Inl e \<Rightarrow> Inl e
    | Inr r' \<Rightarrow> read_lines wg resolve ls r')"

definition new_reader :: "string \<Rightarrow> string \<Rightarrow> reader" where
  "new_reader fileName d =
     \<lparr>rd_c = \<lparr>configFileName = fileName, configData = d, tunAddress = [], tunDNS = [], peerAddresses = [],
        isDefaultRoute = False, wgconfig = \<lparr>cfg_PrivateKey = None, cfg_Peers = []\<rparr>\<rparr>,
      isInterface = False, isPeer = False, peerConfig = zero_peer_config\<rparr>"

definition newWireguardConfigFromTarget ::
    "wgtypes \<Rightarrow> (string \<Rightarrow> string + udp_addr) \<Rightarrow> ConfigData \<Rightarrow> config_error + wireguardConfig" where
  "newWireguardConfigFromTarget wg resolve cd =
     (case read_lines wg resolve (fst (scan_text (cd_Data cd))) (new_reader (cd_Name cd @ ''.conf'') (cd_Data cd)) of
        Inl e \<Rightarrow> Inl e
      | Inr r \<Rightarrow> Inr (rd_c (finish_peer r)))"

definition Config :: "wireguardConfig \<Rightarrow> string" where
  "Config c = configData c"

text \<open>
  \<open>Save\<close> writes the file and answers with a text that shows its path and the QR code;
  \<open>writeFile\<close> and the QR package are parameters.
\<close>

definition Save ::
    "(string \<Rightarrow> string \<Rightarrow> string) \<Rightarrow> (string \<Rightarrow> string \<Rightarrow> string option) \<Rightarrow> (string \<Rightarrow> string + string) \<Rightarrow>
     string \<Rightarrow> string \<Rightarrow> wireguardConfig \<Rightarrow> string + string"
where
  "Save join_path writeFile qr path prefix c =
     (let downloadFilePath = join_path path (prefix @ configFileName c) in
      case writeFile downloadFilePath (configData c) of
        Some e \<Rightarrow> Inl e
      | None \<Rightarrow> (case qr (configData c) of
          Inl e \<Rightarrow> Inl e
        | Inr code \<Rightarrow> Inr (
            ''The VPN configuration has been downloaded to the file shown below.'' @ [newline] @
            ''You need import it to the wireguard vpn client via the option \"Import'' @ [newline] @
            ''Tunnels from file...\".'' @ [newline] @ [newline] @
            downloadFilePath @ [newline] @ [newline] @
            ''Scan the following QR code with the mobile client to configure the'' @ [newline] @
            ''VPN on you mobile device.'' @ [newline] @ [newline] @ code)))"

section \<open>The configuration of a target\<close>

text \<open>OpenVPN is not supported: making its configuration is always an error.\<close>

definition newOpenVPNConfigFromTarget :: "ConfigData \<Rightarrow> config_error + unit" where
  "newOpenVPNConfigFromTarget cd = Inl ErrOpenVPN"

text \<open>Its configuration and client are placeholders.\<close>

definition ovpn_NewClient :: "unit \<Rightarrow> string + unit" where
  "ovpn_NewClient c = Inr ()"

definition ovpn_Config :: "unit \<Rightarrow> string" where
  "ovpn_Config c = []"

definition ovpn_Save :: "string \<Rightarrow> string \<Rightarrow> unit \<Rightarrow> string + string" where
  "ovpn_Save path prefix c = Inr []"

definition ovpn_Connect :: "unit \<Rightarrow> string option" where
  "ovpn_Connect c = None"

definition ovpn_Disconnect :: "unit \<Rightarrow> string option" where
  "ovpn_Disconnect c = None"

definition ovpn_StatusText :: "unit \<Rightarrow> string + string" where
  "ovpn_StatusText c = Inr []"

definition ovpn_BytesTransmitted :: "unit \<Rightarrow> int64 \<times> int64 \<times> string option" where
  "ovpn_BytesTransmitted c = (0, 0, None)"

definition NewConfigFromTarget ::
    "wgtypes \<Rightarrow> (string \<Rightarrow> string + udp_addr) \<Rightarrow> ConfigData \<Rightarrow> config_error + (wireguardConfig + unit)" where
  "NewConfigFromTarget wg resolve cd =
     (if cd_VPNType cd = ''wireguard'' then map_sum id Inl (newWireguardConfigFromTarget wg resolve cd)
      else if cd_VPNType cd = ''openvpn'' then map_sum id Inr (newOpenVPNConfigFromTarget cd)
      else Inl (ErrUnsupportedType (cd_VPNType cd)))"

end
