(* ===== verification/Wg_Config_Props.thy ===== *)
theory Wg_Config_Props
  imports Wg_Config
begin

text \<open>
  Correctness of the WireGuard configuration reader: it reads back what
  \<open>wireguardConfigData.Data\<close> writes, makes one peer of every peer section, and what it
  does with bracketed endpoints, keepalive units and over-long lines.
\<close>

section \<open>Lines of a configuration file\<close>

definition attr :: "string \<Rightarrow> string \<Rightarrow> string" where
  "attr k v = k @ '' = '' @ v"

definition attr_value :: "string \<Rightarrow> bool" where
  "attr_value v \<longleftrightarrow> CHR ''['' \<notin> set v \<and> newline \<notin> set v \<and> CHR 0x0D \<notin> set v \<and>
     (v \<noteq> [] \<longrightarrow> \<not> is_blank (hd v)) \<and> length v < 65000"

lemma blank_facts:
  "\<not> key_char CHR '' ''" "is_blank CHR '' ''" "\<not> is_blank CHR ''=''" "\<not> is_blank CHR ''[''"
  by (simp_all add: key_char_def is_blank_def byte_def)

lemma attrib_match_attr:
  assumes "list_all key_char k" and "v \<noteq> [] \<longrightarrow> \<not> is_blank (hd v)"
  shows "attrib_match (attr k v) = Some (k, v)"
proof -
  have "dropWhile key_char (attr k v) = '' = '' @ v" "takeWhile key_char (attr k v) = k"
    using assms(1) by (simp_all add: attr_def blank_facts list_all_iff takeWhile_append2 dropWhile_append2)
  moreover have "dropWhile is_blank v = v" using assms(2) by (cases v) auto
  ultimately show ?thesis by (simp add: attrib_match_def blank_facts)
qed

lemma section_match_none: "CHR ''['' \<notin> set l \<Longrightarrow> section_match l = None"
proof -
  assume "CHR ''['' \<notin> set l"
  then have "dropWhile (\<lambda>c. c \<noteq> CHR ''['') l = []" by (subst dropWhile_eq_Nil_conv) auto
  then show ?thesis by (simp only: section_match_def list.case)
qed

lemma upto_last_append: "c \<notin> set t \<Longrightarrow> upto_last c (s @ c # t) = Some s"
  proof -
  assume "c \<notin> set t"
  then have "dropWhile (\<lambda>d. d \<noteq> c) (rev t @ c # rev s) = c # rev s" by (subst dropWhile_append2) auto
  then show ?thesis by (simp add: upto_last_def)
qed

lemma section_match_brackets:
  assumes "CHR ''['' \<notin> set pre" and "CHR '']'' \<notin> set post"
  shows "section_match (pre @ ''['' @ a @ '']'' @ post) = Some a"
proof -
  have "dropWhile (\<lambda>c. c \<noteq> CHR ''['') (pre @ ''['' @ a @ '']'' @ post) = ''['' @ a @ '']'' @ post"
    using assms(1) by (subst dropWhile_append2) auto
  then show ?thesis using upto_last_append [OF assms(2)] by (simp add: section_match_def)
qed

lemma read_attr:
  assumes "list_all key_char k" "k \<noteq> []" "CHR ''['' \<notin> set k" "attr_value v"
  shows "read_line wg resolve (attr k v) r =
     (if isInterface r then interface_key wg k v r else if isPeer r then peer_key wg resolve k v r else Inr r)"
proof -
  have "section_match (attr k v) = None"
    using assms(3,4) by (intro section_match_none) (auto simp: attr_def attr_value_def)
  then show ?thesis
    using assms attrib_match_attr [of k v] by (simp add: read_line_def attr_value_def)
qed

lemma read_section:
  "read_line wg resolve (''['' @ name @ '']'') r =
     Inr ((finish_peer r)\<lparr>isInterface := (name = ''Interface''), isPeer := (name = ''Peer'')\<rparr>)"
  using section_match_brackets [of "[]" "[]" name] by (simp add: read_line_def)

lemma read_empty: "read_line wg resolve [] r = Inr r"
  by (simp add: read_line_def section_match_def attrib_match_def)

lemma read_sections:
  "read_line wg resolve ''[Interface]'' r = Inr ((finish_peer r)\<lparr>isInterface := True, isPeer := False\<rparr>)"
  "read_line wg resolve ''[Peer]'' r = Inr ((finish_peer r)\<lparr>isInterface := False, isPeer := True\<rparr>)"
  using read_section [of wg resolve "''Interface''" r] read_section [of wg resolve "''Peer''" r] by simp_all

lemma read_interface_keys:
  assumes "attr_value v" "isInterface r"
  shows "read_line wg resolve (attr ''PrivateKey'' v) r = interface_key wg ''PrivateKey'' v r"
    "read_line wg resolve (attr ''Address'' v) r = interface_key wg ''Address'' v r"
    "read_line wg resolve (attr ''DNS'' v) r = interface_key wg ''DNS'' v r"
  using assms by (simp_all add: read_attr key_char_def byte_def)

lemma read_peer_keys:
  assumes "attr_value v" "\<not> isInterface r"
  shows "read_line wg resolve (attr ''PublicKey'' v) r = (if isPeer r then peer_key wg resolve ''PublicKey'' v r else Inr r)"
    "read_line wg resolve (attr ''Endpoint'' v) r = (if isPeer r then peer_key wg resolve ''Endpoint'' v r else Inr r)"
    "read_line wg resolve (attr ''PersistentKeepalive'' v) r =
       (if isPeer r then peer_key wg resolve ''PersistentKeepalive'' v r else Inr r)"
    "read_line wg resolve (attr ''AllowedIPs'' v) r = (if isPeer r then peer_key wg resolve ''AllowedIPs'' v r else Inr r)"
  using assms by (simp_all add: read_attr key_char_def byte_def)

lemmas read_rules = read_sections read_empty read_interface_keys read_peer_keys

section \<open>The text of configuration data\<close>

definition data_lines :: "wireguardConfigData \<Rightarrow> string list" where
  "data_lines d =
     [''[Interface]'', attr ''PrivateKey'' (privateKey d), attr ''Address'' (Address d @ ''/32'')] @
     (if DNS d \<noteq> [] then [attr ''DNS'' (DNS d)] else []) @
     [[], ''[Peer]'', attr ''PublicKey'' (PeerPublicKey d), attr ''Endpoint'' (PeerEndpoint d),
      attr ''PersistentKeepalive'' (show_int64 (KeepAlivePing d))] @
     (if AllowedSubnets d \<noteq> [] then [attr ''AllowedIPs'' (join '','' (AllowedSubnets d))] else [])"

lemma wgd_Data_lines: "wgd_Data d = unlines (data_lines d)"
  by (simp add: wgd_Data_def data_lines_def attr_def)

lemma attr_value_int64: "attr_value (show_int64 w)"
proof -
  have d: "c \<noteq> CHR ''['' \<and> c \<noteq> newline \<and> c \<noteq> CHR 0x0D \<and> \<not> is_blank c" if "is_digit c" for c
    using that by (auto simp: is_digit_def byte_def newline_def is_blank_def)
  have n: "\<forall>c \<in> set (show_nat n). is_digit c" "is_digit (hd (show_nat n))" for n
    using show_nat_digits [of n] by (auto simp: list_all_iff)
  have "c \<noteq> CHR ''['' \<and> c \<noteq> newline \<and> c \<noteq> CHR 0x0D" if "c \<in> set (show_int64 w)" for c
  proof -
    from that have "c = CHR ''-'' \<or> is_digit c"
      using n(1) by (auto simp: show_int64_def show_int_def split: if_splits)
    then show ?thesis using d [of c] by (auto simp: newline_def)
  qed
  moreover have "\<not> is_blank (hd (show_int64 w))"
    using n(2) d by (simp add: show_int64_def show_int_def is_blank_def)
  ultimately show ?thesis using show_int64_length [of w] unfolding attr_value_def by auto
qed

text \<open>
  Data whose text the reader takes apart again: values of one line without a bracket,
  keys that parse, an endpoint that resolves to \<open>addr\<close>, and networks without a comma.
\<close>

definition data_wf :: "wgtypes \<Rightarrow> (string \<Rightarrow> string + udp_addr) \<Rightarrow> wireguardConfigData \<Rightarrow> bool" where
  "data_wf wg resolve d \<longleftrightarrow>
     attr_value (privateKey d) \<and> attr_value (Address d @ ''/32'') \<and> attr_value (DNS d) \<and>
     attr_value (PeerPublicKey d) \<and> attr_value (PeerEndpoint d) \<and> attr_value (join '','' (AllowedSubnets d)) \<and>
     \<not> isl (ParseKey wg (privateKey d)) \<and> \<not> isl (ParseKey wg (PeerPublicKey d)) \<and>
     \<not> isl (resolve (PeerEndpoint d)) \<and>
     list_all (\<lambda>n. CHR '','' \<notin> set n \<and> ParseCIDR n \<noteq> None) (AllowedSubnets d)"

lemma attr_plain:
  assumes "attr_value v" "newline \<notin> set k" "CHR 0x0D \<notin> set k" "length k < 100"
  shows "plain_line (attr k v)"
  using assms by (auto simp: plain_line_def attr_def attr_value_def newline_def MaxScanTokenSize_def)

lemma scan_data_lines:
  assumes "attr_value (privateKey d)" "attr_value (Address d @ ''/32'')" "attr_value (DNS d)"
    "attr_value (PeerPublicKey d)" "attr_value (join '','' (AllowedSubnets d))"
    and "plain_line (attr ''Endpoint'' (PeerEndpoint d))"
  shows "scan_text (wgd_Data d) = (data_lines d, False)"
proof -
  have "plain_line ''[Interface]''" "plain_line ''[Peer]''" "plain_line []"
    by (simp_all add: plain_line_def newline_def MaxScanTokenSize_def)
  moreover have "plain_line (attr ''PrivateKey'' (privateKey d))" "plain_line (attr ''Address'' (Address d @ ''/32''))"
    "plain_line (attr ''DNS'' (DNS d))" "plain_line (attr ''PublicKey'' (PeerPublicKey d))"
    "plain_line (attr ''AllowedIPs'' (join '','' (AllowedSubnets d)))"
    "plain_line (attr ''PersistentKeepalive'' (show_int64 (KeepAlivePing d)))"
    by (rule attr_plain; use assms in \<open>simp add: newline_def attr_value_int64\<close>)+
  ultimately have "\<forall>l \<in> set (data_lines d). plain_line l"
    using assms(6) by (simp add: data_lines_def ball_Un)
  then show ?thesis unfolding wgd_Data_lines by (rule scan_text_unlines)
qed

lemma scan_data: "data_wf wg resolve d \<Longrightarrow> scan_text (wgd_Data d) = (data_lines d, False)"
  by (rule scan_data_lines) (auto simp: data_wf_def newline_def intro: attr_plain)

lemma allowed_loop_all:
  "list_all (\<lambda>n. ParseCIDR n \<noteq> None) ns \<Longrightarrow> allowed_loop ns r =
     Inr (r\<lparr>rd_c := (rd_c r)\<lparr>isDefaultRoute := isDefaultRoute (rd_c r) \<or> ''0.0.0.0/0'' \<in> set ns\<rparr>,
        peerConfig := (peerConfig r)\<lparr>cfg_AllowedIPs := cfg_AllowedIPs (peerConfig r) @ map (the \<circ> ParseCIDR) ns\<rparr>\<rparr>)"
proof (induction ns arbitrary: r)
  case (Cons n ns)
  then show ?case by (auto simp: Let_def)
qed simp

lemma read_lines_append:
  "read_lines wg resolve (ls @ ms) r = (case read_lines wg resolve ls r of
      Inl e \<Rightarrow> Inl e | Inr r' \<Rightarrow> read_lines wg resolve ms r')"
  by (induction ls arbitrary: r) (auto split: sum.split)

definition nanosecond :: int64 where
  "nanosecond = 1"

text \<open>
  The configuration the data stands for, with its keepalive counted in a unit of time. The
  file format and the data mean seconds.
\<close>

definition data_peer :: "wgtypes \<Rightarrow> (string \<Rightarrow> string + udp_addr) \<Rightarrow> int64 \<Rightarrow> wireguardConfigData \<Rightarrow> peer_config" where
  "data_peer wg resolve unit_of_time d =
     \<lparr>cfg_PublicKey = projr (ParseKey wg (PeerPublicKey d)), cfg_Endpoint = Some (projr (resolve (PeerEndpoint d))),
      cfg_PersistentKeepaliveInterval = Some (KeepAlivePing d * unit_of_time),
      cfg_AllowedIPs = map (the \<circ> ParseCIDR) (AllowedSubnets d)\<rparr>"

definition data_config ::
    "wgtypes \<Rightarrow> (string \<Rightarrow> string + udp_addr) \<Rightarrow> int64 \<Rightarrow> wireguardConfigData \<Rightarrow> wireguardConfig" where
  "data_config wg resolve unit_of_time d =
     \<lparr>configFileName = wgd_name d @ ''.conf'', configData = wgd_Data d, tunAddress = Address d @ ''/32'',
      tunDNS = DNS d, peerAddresses = [IP_String (addr_IP (projr (resolve (PeerEndpoint d))))],
      isDefaultRoute = (''0.0.0.0/0'' \<in> set (AllowedSubnets d)),
      wgconfig = \<lparr>cfg_PrivateKey = Some (projr (ParseKey wg (privateKey d))),
        cfg_Peers = [data_peer wg resolve unit_of_time d]\<rparr>\<rparr>"

definition interface_lines :: "wireguardConfigData \<Rightarrow> string list" where
  "interface_lines d =
     [''[Interface]'', attr ''PrivateKey'' (privateKey d), attr ''Address'' (Address d @ ''/32'')] @
     (if DNS d \<noteq> [] then [attr ''DNS'' (DNS d)] else []) @ [[], ''[Peer]'']"

definition peer_section :: "wireguardConfigData \<Rightarrow> string list" where
  "peer_section d =
     [attr ''PublicKey'' (PeerPublicKey d), attr ''Endpoint'' (PeerEndpoint d),
      attr ''PersistentKeepalive'' (show_int64 (KeepAlivePing d))] @
     (if AllowedSubnets d \<noteq> [] then [attr ''AllowedIPs'' (join '','' (AllowedSubnets d))] else [])"

lemma data_lines_parts: "data_lines d = interface_lines d @ peer_section d"
  by (simp add: data_lines_def interface_lines_def peer_section_def)

definition at_peer :: "wgtypes \<Rightarrow> wireguardConfigData \<Rightarrow> string \<Rightarrow> string \<Rightarrow> reader" where
  "at_peer wg d f t = \<lparr>rd_c = \<lparr>configFileName = f, configData = t, tunAddress = Address d @ ''/32'', tunDNS = DNS d,
        peerAddresses = [], isDefaultRoute = False,
        wgconfig = \<lparr>cfg_PrivateKey = Some (projr (ParseKey wg (privateKey d))), cfg_Peers = []\<rparr>\<rparr>,
      isInterface = False, isPeer = True, peerConfig = zero_peer_config\<rparr>"

lemma read_interface:
  assumes "attr_value (privateKey d)" "attr_value (Address d @ ''/32'')" "attr_value (DNS d)"
    and "\<not> isl (ParseKey wg (privateKey d))"
  shows "read_lines wg resolve (interface_lines d) (new_reader f t) = Inr (at_peer wg d f t)"
proof -
  obtain k where k: "ParseKey wg (privateKey d) = Inr k" using assms(4) by (cases "ParseKey wg (privateKey d)") auto
  show ?thesis
    using assms k
    by (cases "DNS d = []")
      (simp_all add: interface_lines_def read_rules interface_key_def new_reader_def at_peer_def finish_peer_def)
qed

lemma join_empty_split: "ns \<noteq> [] \<Longrightarrow> list_all (\<lambda>n. CHR '','' \<notin> set n) ns \<Longrightarrow> split_on CHR '','' (join '','' ns) = ns"
  using split_on_join [of ns "CHR '',''"] by (simp add: list_all_iff)

lemma read_peer_section:
  assumes "data_wf wg resolve d"
  shows "\<exists>r. read_lines wg resolve (peer_section d) (at_peer wg d (wgd_name d @ ''.conf'') (wgd_Data d)) = Inr r \<and>
     rd_c (finish_peer r) = data_config wg resolve nanosecond d"
proof -
  obtain pk where pk: "ParseKey wg (PeerPublicKey d) = Inr pk"
    using assms by (cases "ParseKey wg (PeerPublicKey d)") (auto simp: data_wf_def)
  obtain addr where addr: "resolve (PeerEndpoint d) = Inr addr"
    using assms by (cases "resolve (PeerEndpoint d)") (auto simp: data_wf_def)
  have nets: "list_all (\<lambda>n. ParseCIDR n \<noteq> None) (AllowedSubnets d)"
      "AllowedSubnets d \<noteq> [] \<Longrightarrow> split_on CHR '','' (join '','' (AllowedSubnets d)) = AllowedSubnets d"
    using assms join_empty_split [of "AllowedSubnets d"] by (auto simp: data_wf_def list_all_iff)
  show ?thesis
    using assms pk addr allowed_loop_all [OF nets(1)] nets(2)
    by (cases "AllowedSubnets d = []")
      (auto simp: peer_section_def read_rules attr_value_int64 ParseInt_show_int64 peer_key_def at_peer_def
        data_wf_def finish_peer_def data_config_def data_peer_def zero_peer_config_def nanosecond_def)
qed

lemma read_data:
  assumes "data_wf wg resolve d"
  shows "newWireguardConfigFromTarget wg resolve (WireguardData d) = Inr (data_config wg resolve nanosecond d)"
proof -
  have i: "read_lines wg resolve (interface_lines d) (new_reader (wgd_name d @ ''.conf'') (wgd_Data d)) =
      Inr (at_peer wg d (wgd_name d @ ''.conf'') (wgd_Data d))"
    by (rule read_interface) (use assms in \<open>simp_all add: data_wf_def\<close>)
  from read_peer_section [OF assms] obtain r where
    "read_lines wg resolve (peer_section d) (at_peer wg d (wgd_name d @ ''.conf'') (wgd_Data d)) = Inr r"
    "rd_c (finish_peer r) = data_config wg resolve nanosecond d" by blast
  with i scan_data [OF assms] show ?thesis
    by (simp add: newWireguardConfigFromTarget_def data_lines_parts read_lines_append wgd_Name_def)
qed

section \<open>Properties\<close>

text \<open>
  C5: what survives the text form of a configuration. For data whose values are single
  lines of fewer than 65000 bytes that do not begin with a blank and have no opening bracket
  (so an endpoint in brackets is excluded), whose keys parse, whose endpoint resolves and whose networks parse
  and have no comma, reading the file that \<open>wireguardConfigData.Data\<close> renders gives the
  configuration the data stands for: the interface's key, address and name server, one peer
  with its key, resolved endpoint and networks in order, and the mark of a default route
  exactly when all of IPv4 is among the networks. The one value that does not survive is the
  keepalive: the number of seconds written is read as that number of nanoseconds.
\<close>

theorem config_roundtrip:
  assumes "data_wf wg resolve d"
  shows "newWireguardConfigFromTarget wg resolve (WireguardData d) = Inr (data_config wg resolve nanosecond d)"
  by (rule read_data) (rule assms)

definition sample_data :: "string \<Rightarrow> wireguardConfigData" where
  "sample_data ep = \<lparr>wgd_name = ''space'', privateKey = ''s'', Address = ''10.0.0.2'', DNS = ''10.0.0.1'',
     PeerEndpoint = ep, PeerPublicKey = ''k'', AllowedSubnets = [''0.0.0.0/0''], KeepAlivePing = 25\<rparr>"

definition sample_keys :: wgtypes where
  "sample_keys = sample_wgtypes\<lparr>ParseKey := \<lambda>s. Inr (replicate 32 (hd s))\<rparr>"

definition sample_resolve :: "string \<Rightarrow> string + udp_addr" where
  "sample_resolve v = (if v = ''host:51820'' then Inr \<lparr>addr_IP = [192, 0, 2, 1], addr_Port = 51820\<rparr> else Inl ''no such host'')"

lemma parse_default_route: "ParseCIDR ''0.0.0.0/0'' = Some \<lparr>net_IP = [0, 0, 0, 0], net_Mask = [0, 0, 0, 0]\<rparr>"
proof -
  have "canonical_net \<lparr>net_IP = [0, 0, 0, 0], net_Mask = [0, 0, 0, 0]\<rparr>"
  proof (rule canonical_netI [of _ 0])
    have "CIDRMask 0 4 = [0, 0, 0, 0]" by code_simp
    then show "net_Mask \<lparr>net_IP = [0, 0, 0, 0], net_Mask = [0, 0, 0, 0]\<rparr> =
        CIDRMask 0 (length (net_IP \<lparr>net_IP = [0, 0, 0, 0], net_Mask = [0, 0, 0, 0]\<rparr>))" by simp
  qed simp_all
  moreover have "IPNet_String \<lparr>net_IP = [0, 0, 0, 0], net_Mask = [0, 0, 0, 0]\<rparr> = ''0.0.0.0/0''"
    by code_simp
  ultimately show ?thesis using ParseCIDR_String by fastforce
qed

lemma sample_data_wf: "data_wf sample_keys sample_resolve (sample_data ''host:51820'')"
  by (simp add: data_wf_def sample_data_def attr_value_def sample_keys_def sample_resolve_def parse_default_route
      newline_def is_blank_def)

theorem config_roundtrip_witness:
  "\<exists>c. newWireguardConfigFromTarget sample_keys sample_resolve (WireguardData (sample_data ''host:51820'')) = Inr c \<and>
     tunAddress c = ''10.0.0.2/32'' \<and> isDefaultRoute c \<and> length (cfg_Peers (wgconfig c)) = 1"
  using config_roundtrip [OF sample_data_wf] by (simp add: data_config_def sample_data_def)

text \<open>
  The keepalive is read as nanoseconds: a configured ping of a number of seconds below
  a thousand million gives a peer an interval of less than one second, although the file
  and the reader of the device's own answer count seconds.
\<close>

theorem keepalive_below_one_second:
  assumes "data_wf wg resolve d" and "0 \<le> sint (KeepAlivePing d)" and "sint (KeepAlivePing d) < 1000000000"
  shows "\<exists>c p n. newWireguardConfigFromTarget wg resolve (WireguardData d) = Inr c \<and> cfg_Peers (wgconfig c) = [p] \<and>
     cfg_PersistentKeepaliveInterval p = Some n \<and> go_div n second = 0"
proof -
  have "go_div (KeepAlivePing d) second = 0"
    using assms(2,3) by (simp add: go_div_def duration_simps signed_divide_int_def)
  moreover have "newWireguardConfigFromTarget wg resolve (WireguardData d) = Inr (data_config wg resolve nanosecond d)"
    using read_data [OF assms(1)] .
  ultimately show ?thesis by (simp add: data_config_def data_peer_def nanosecond_def)
qed

theorem keepalive_below_one_second_witness:
  "\<exists>c p n. newWireguardConfigFromTarget sample_keys sample_resolve (WireguardData (sample_data ''host:51820'')) = Inr c \<and>
     cfg_Peers (wgconfig c) = [p] \<and> cfg_PersistentKeepaliveInterval p = Some n \<and> go_div n second = 0"
  by (rule keepalive_below_one_second [OF sample_data_wf]) (simp_all add: sample_data_def)

text \<open>
  A bracketed (IPv6) endpoint ends the peer section: the line is taken for a section
  header, so the peer is left without endpoint, keepalive and networks, the tunnel is not
  the default route whatever was allowed, and no error is reported.
\<close>

theorem bracketed_endpoint_drops_peer:
  assumes "PeerEndpoint d = ''['' @ a @ '']:'' @ port"
    and "CHR ''['' \<notin> set a" "CHR '']'' \<notin> set a" "CHR ''['' \<notin> set port" "CHR '']'' \<notin> set port"
    and "a \<noteq> ''Interface''" "a \<noteq> ''Peer''" and "plain_line (attr ''Endpoint'' (PeerEndpoint d))"
    and "data_wf wg (\<lambda>_. Inr addr) (d\<lparr>PeerEndpoint := []\<rparr>)"
  shows "\<exists>c. newWireguardConfigFromTarget wg resolve (WireguardData d) = Inr c \<and> peerAddresses c = [] \<and>
     \<not> isDefaultRoute c \<and> (\<exists>k. cfg_Peers (wgconfig c) = [zero_peer_config\<lparr>cfg_PublicKey := k\<rparr>])"
proof -
  let ?f = "wgd_name d @ ''.conf''"
  have wf: "attr_value (privateKey d)" "attr_value (Address d @ ''/32'')" "attr_value (DNS d)"
      "attr_value (PeerPublicKey d)" "attr_value (join '','' (AllowedSubnets d))"
      "\<not> isl (ParseKey wg (privateKey d))" "\<not> isl (ParseKey wg (PeerPublicKey d))"
    using assms(9) by (simp_all add: data_wf_def)
  obtain k where k: "ParseKey wg (PeerPublicKey d) = Inr k"
    using wf(7) by (cases "ParseKey wg (PeerPublicKey d)") auto
  have scan: "scan_text (wgd_Data d) = (data_lines d, False)"
    by (rule scan_data_lines) (use wf assms(8) in simp_all)
  have i: "read_lines wg resolve (interface_lines d) (new_reader ?f (wgd_Data d)) = Inr (at_peer wg d ?f (wgd_Data d))"
    by (rule read_interface) (use wf in simp_all)
  have "section_match (attr ''Endpoint'' (PeerEndpoint d)) = Some a"
    using section_match_brackets [of "''Endpoint = ''" "'':'' @ port" a] assms(1,5) by (simp add: attr_def)
  then have ep: "read_line wg resolve (attr ''Endpoint'' (PeerEndpoint d)) r =
      Inr ((finish_peer r)\<lparr>isInterface := False, isPeer := False\<rparr>)" for r
    using assms(6,7) by (simp add: read_line_def)
  have "\<exists>r. read_lines wg resolve (peer_section d) (at_peer wg d ?f (wgd_Data d)) = Inr r \<and>
      peerAddresses (rd_c (finish_peer r)) = [] \<and> \<not> isDefaultRoute (rd_c (finish_peer r)) \<and>
      cfg_Peers (wgconfig (rd_c (finish_peer r))) = [zero_peer_config\<lparr>cfg_PublicKey := k\<rparr>]"
    using wf k ep by (simp add: peer_section_def read_rules attr_value_int64 peer_key_def at_peer_def finish_peer_def)
  with i scan show ?thesis
    by (auto simp: newWireguardConfigFromTarget_def data_lines_parts read_lines_append wgd_Name_def)
qed

theorem bracketed_endpoint_drops_peer_witness:
  "\<exists>c. newWireguardConfigFromTarget sample_keys sample_resolve (WireguardData (sample_data ''[2001:db8::1]:51820'')) = Inr c \<and>
     peerAddresses c = [] \<and> \<not> isDefaultRoute c \<and>
     (\<exists>k. cfg_Peers (wgconfig c) = [zero_peer_config\<lparr>cfg_PublicKey := k\<rparr>])"
  by (rule bracketed_endpoint_drops_peer [where a = "''2001:db8::1''" and port = "''51820''" and
        addr = "\<lparr>addr_IP = [], addr_Port = 0\<rparr>"])
    (simp_all add: sample_data_def attr_def plain_line_def newline_def MaxScanTokenSize_def data_wf_def
      attr_value_def sample_keys_def parse_default_route is_blank_def)

definition peer_headers :: "string list \<Rightarrow> nat" where
  "peer_headers ls = length (filter (\<lambda>l. section_match l = Some ''Peer'') ls)"

definition peers_read :: "reader \<Rightarrow> nat" where
  "peers_read r = length (cfg_Peers (wgconfig (rd_c (finish_peer r))))"

lemma peers_read_simp:
  "peers_read r = length (cfg_Peers (wgconfig (rd_c r))) + (if isPeer r then 1 else 0)"
  by (simp add: peers_read_def finish_peer_def)

lemma allowed_loop_frame:
  "allowed_loop ns r = Inr r' \<Longrightarrow> wgconfig (rd_c r') = wgconfig (rd_c r) \<and> isPeer r' = isPeer r"
  by (induction ns arbitrary: r) (auto simp: Let_def split: option.splits if_splits)

lemma key_frame:
  "interface_key wg k v r = Inr r' \<Longrightarrow> peers_read r' = peers_read r"
  "peer_key wg resolve k v r = Inr r' \<Longrightarrow> peers_read r' = peers_read r"
  by (auto simp: interface_key_def peer_key_def peers_read_simp dest: allowed_loop_frame split: if_splits sum.splits)

lemma read_line_peers:
  assumes "read_line wg resolve l r = Inr r'"
  shows "peers_read r' = peers_read r + peer_headers [l]"
proof (cases "section_match l")
  case None
  then show ?thesis
    using assms key_frame
    by (auto simp: read_line_def peer_headers_def split: option.splits if_splits prod.splits)
next
  case (Some name)
  then show ?thesis
    using assms by (auto simp: read_line_def peer_headers_def peers_read_simp finish_peer_def split: if_splits)
qed

lemma read_lines_peers:
  "read_lines wg resolve ls r = Inr r' \<Longrightarrow> peers_read r' = peers_read r + peer_headers ls"
proof (induction ls arbitrary: r)
  case (Cons l ls)
  then obtain r1 where "read_line wg resolve l r = Inr r1" "read_lines wg resolve ls r1 = Inr r'"
    by (auto split: sum.splits)
  with Cons.IH [of r1] read_line_peers [of wg resolve l r r1] show ?case by (simp add: peer_headers_def)
qed (simp add: peer_headers_def)

text \<open>The networks of every finished peer and of the current one are well formed.\<close>

definition nets_wf :: "reader \<Rightarrow> bool" where
  "nets_wf r \<longleftrightarrow> (\<forall>p \<in> set (cfg_Peers (wgconfig (rd_c r))). list_all net_wf (cfg_AllowedIPs p)) \<and>
     list_all net_wf (cfg_AllowedIPs (peerConfig r))"

lemma allowed_loop_wf: "allowed_loop ns r = Inr r' \<Longrightarrow> nets_wf r \<Longrightarrow> nets_wf r'"
proof (induction ns arbitrary: r)
  case (Cons n ns)
  obtain nt where nt: "ParseCIDR n = Some nt" using Cons.prems(1) by (cases "ParseCIDR n") (auto simp: Let_def)
  then have "net_wf nt" by (rule ParseCIDR_wf)
  let ?c = "if \<not> isDefaultRoute (rd_c r) \<and> n = ''0.0.0.0/0'' then (rd_c r)\<lparr>isDefaultRoute := True\<rparr> else rd_c r"
  let ?r = "r\<lparr>rd_c := ?c, peerConfig := (peerConfig r)\<lparr>cfg_AllowedIPs := cfg_AllowedIPs (peerConfig r) @ [nt]\<rparr>\<rparr>"
  have "allowed_loop ns ?r = Inr r'" using Cons.prems(1) nt by (simp add: Let_def)
  moreover have "nets_wf ?r" using Cons.prems(2) \<open>net_wf nt\<close> by (simp add: nets_wf_def)
  ultimately show ?case by (rule Cons.IH)
qed simp

lemma key_wf:
  "interface_key wg k v r = Inr r' \<Longrightarrow> nets_wf r \<Longrightarrow> nets_wf r'"
  "peer_key wg resolve k v r = Inr r' \<Longrightarrow> nets_wf r \<Longrightarrow> nets_wf r'"
  by (auto simp: interface_key_def peer_key_def dest: allowed_loop_wf split: if_splits sum.splits)
    (auto simp: nets_wf_def)

lemma finish_peer_wf: "nets_wf r \<Longrightarrow> nets_wf (finish_peer r)"
  by (auto simp: nets_wf_def finish_peer_def zero_peer_config_def)

lemma nets_wf_section [simp]: "nets_wf (r\<lparr>isInterface := a, isPeer := b\<rparr>) = nets_wf r"
  by (simp add: nets_wf_def)

lemma read_line_wf:
  assumes "read_line wg resolve l r = Inr r'" and "nets_wf r"
  shows "nets_wf r'"
proof (cases "section_match l")
  case None
  then show ?thesis
    using assms key_wf by (auto simp: read_line_def split: option.splits if_splits prod.splits)
next
  case (Some name)
  then show ?thesis using assms finish_peer_wf [OF assms(2)] by (auto simp: read_line_def)
qed

lemma read_lines_wf: "read_lines wg resolve ls r = Inr r' \<Longrightarrow> nets_wf r \<Longrightarrow> nets_wf r'"
  by (induction wg resolve ls r rule: read_lines.induct) (auto dest: read_line_wf split: sum.splits)

lemma config_nets_wf:
  assumes "newWireguardConfigFromTarget wg resolve cd = Inr c" and "p \<in> set (cfg_Peers (wgconfig c))"
  shows "list_all net_wf (cfg_AllowedIPs p)"
proof -
  from assms(1) obtain r where r: "read_lines wg resolve (fst (scan_text (cd_Data cd)))
      (new_reader (cd_Name cd @ ''.conf'') (cd_Data cd)) = Inr r" "c = rd_c (finish_peer r)"
    by (auto simp: newWireguardConfigFromTarget_def split: sum.splits)
  have "nets_wf (new_reader (cd_Name cd @ ''.conf'') (cd_Data cd))"
    by (simp add: nets_wf_def new_reader_def zero_peer_config_def)
  from finish_peer_wf [OF read_lines_wf [OF r(1) this]] assms(2) r(2) show ?thesis by (simp add: nets_wf_def)
qed

lemma scan_lines_eq:
  "fst (scan_lines ls) = map drop_cr (takeWhile (\<lambda>l. length l < MaxScanTokenSize) ls)"
  by (induction ls) (auto simp: Let_def split_beta)

text \<open>
  C31: every peer section the scanner reaches gives one peer. A configuration that is read
  has as many peers as its text has lines matched as a header with the name \<open>Peer\<close> before
  its first line of 65536 bytes or more, and in the whole text if it has no such line; line
  ends may be those of Windows.
\<close>

theorem one_peer_per_section:
  assumes "newWireguardConfigFromTarget wg resolve cd = Inr c"
  shows "length (cfg_Peers (wgconfig c)) =
      peer_headers (map drop_cr (takeWhile (\<lambda>l. length l < 65536) (raw_lines (cd_Data cd)))) \<and>
    (list_all (\<lambda>l. length l < 65536) (raw_lines (cd_Data cd)) \<longrightarrow>
      length (cfg_Peers (wgconfig c)) = peer_headers (map drop_cr (raw_lines (cd_Data cd))))"
proof -
  from assms obtain r where "read_lines wg resolve (fst (scan_text (cd_Data cd)))
      (new_reader (cd_Name cd @ ''.conf'') (cd_Data cd)) = Inr r" "c = rd_c (finish_peer r)"
    by (auto simp: newWireguardConfigFromTarget_def split: sum.splits)
  with read_lines_peers [OF this(1)] have "length (cfg_Peers (wgconfig c)) = peer_headers (fst (scan_text (cd_Data cd)))"
    by (simp add: peers_read_def) (simp add: new_reader_def finish_peer_def)
  moreover have "fst (scan_text (cd_Data cd)) = map drop_cr (takeWhile (\<lambda>l. length l < 65536) (raw_lines (cd_Data cd)))"
    by (simp add: scan_text_def scan_lines_eq MaxScanTokenSize_def)
  ultimately show ?thesis by (simp add: list_all_iff takeWhile_eq_all_conv [THEN iffD2])
qed

theorem one_peer_per_section_witness:
  "1 = peer_headers (map drop_cr (takeWhile (\<lambda>l. length l < 65536)
     (raw_lines (cd_Data (WireguardData (sample_data ''host:51820''))))))"
  using one_peer_per_section [OF read_data [OF sample_data_wf]] by (simp add: data_config_def)

definition with_data :: "string \<Rightarrow> reader \<Rightarrow> reader" where
  "with_data t r = r\<lparr>rd_c := (rd_c r)\<lparr>configData := t\<rparr>\<rparr>"

lemma with_data_fields [simp]:
  "isPeer (with_data t r) = isPeer r" "isInterface (with_data t r) = isInterface r"
  "finish_peer (with_data t r) = with_data t (finish_peer r)"
  by (simp_all add: with_data_def finish_peer_def)

lemma allowed_loop_with_data: "allowed_loop ns (with_data t r) = map_sum id (with_data t) (allowed_loop ns r)"
proof (induction ns arbitrary: r)
  case (Cons n ns)
  show ?case
  proof (cases "ParseCIDR n")
    case (Some nt)
    let ?c = "if \<not> isDefaultRoute (rd_c r) \<and> n = ''0.0.0.0/0'' then (rd_c r)\<lparr>isDefaultRoute := True\<rparr> else rd_c r"
    let ?r = "r\<lparr>rd_c := ?c, peerConfig := (peerConfig r)\<lparr>cfg_AllowedIPs := cfg_AllowedIPs (peerConfig r) @ [nt]\<rparr>\<rparr>"
    have "allowed_loop (n # ns) (with_data t r) = allowed_loop ns (with_data t ?r)"
      using Some by (cases r, cases "rd_c r") (simp add: with_data_def Let_def)
    with Cons.IH [of ?r] Some show ?thesis by (simp add: Let_def)
  qed (simp add: Let_def)
qed simp

lemma read_line_with_data:
  "read_line wg resolve l (with_data t r) = map_sum id (with_data t) (read_line wg resolve l r)"
proof -
  have "interface_key wg k v (with_data t r) = map_sum id (with_data t) (interface_key wg k v r)" for k v
    by (simp add: interface_key_def with_data_def split: sum.split)
  moreover have "peer_key wg resolve k v (with_data t r) = map_sum id (with_data t) (peer_key wg resolve k v r)" for k v
    using allowed_loop_with_data by (simp add: peer_key_def) (simp add: with_data_def split: sum.split)
  ultimately show ?thesis
    by (simp add: read_line_def split: option.split prod.split) (simp add: with_data_def)
qed

lemma read_lines_with_data:
  "read_lines wg resolve ls (with_data t r) = map_sum id (with_data t) (read_lines wg resolve ls r)"
  by (induction ls arbitrary: r) (auto simp: read_line_with_data split: sum.splits)

lemma scan_lines_too_long:
  "\<forall>l \<in> set ls. plain_line l \<Longrightarrow> MaxScanTokenSize \<le> length long \<Longrightarrow> fst (scan_lines (ls @ long # rest)) = ls"
  by (induction ls) (auto simp: drop_cr_plain plain_line_def Let_def split_beta)

lemma raw_lines_append:
  assumes "\<forall>l \<in> set ls. newline \<notin> set l" and "newline \<notin> set long" and "long \<noteq> []"
  shows "\<exists>more. raw_lines (unlines ls @ long @ newline # rest) = ls @ long # more"
proof -
  have "split_on newline (unlines ls @ long @ newline # rest) = ls @ long # split_on newline rest"
    using assms(1,2) by (induction ls) (auto simp: split_on_append)
  then show ?thesis
    by (auto simp: raw_lines_def Let_def butlast_append)
qed

text \<open>
  An over-long line silently ends the configuration: the scanner's error is not looked
  at, so a file with a line of 65536 bytes or more is read as if it ended before that line.
\<close>

theorem long_line_truncates_silently:
  assumes "\<forall>l \<in> set ls. plain_line l" and "newline \<notin> set long" and "MaxScanTokenSize \<le> length long"
    and "newWireguardConfigFromTarget wg resolve (StaticData (sd\<lparr>scd_data := unlines ls\<rparr>)) = Inr c"
  shows "newWireguardConfigFromTarget wg resolve (StaticData (sd\<lparr>scd_data := unlines ls @ long @ newline # rest\<rparr>)) =
     Inr (c\<lparr>configData := unlines ls @ long @ newline # rest\<rparr>)"
proof -
  let ?t = "unlines ls @ long @ newline # rest" and ?f = "scd_name sd @ ''.conf''"
  have "long \<noteq> []" using assms(3) by (auto simp: MaxScanTokenSize_def)
  then obtain more where "raw_lines ?t = ls @ long # more"
    using raw_lines_append [of ls long rest] assms(1,2) by (auto simp: plain_line_def)
  then have scan: "fst (scan_text ?t) = ls"
    using scan_lines_too_long [OF assms(1,3)] by (simp add: scan_text_def)
  have new: "new_reader ?f ?t = with_data ?t (new_reader ?f (unlines ls))"
    by (simp add: new_reader_def with_data_def)
  from assms(4) obtain r where r: "read_lines wg resolve ls (new_reader ?f (unlines ls)) = Inr r" "c = rd_c (finish_peer r)"
    using scan_text_unlines [OF assms(1)] by (auto simp: newWireguardConfigFromTarget_def split: sum.splits)
  have "read_lines wg resolve ls (new_reader ?f ?t) = Inr (with_data ?t r)"
    unfolding new by (simp add: read_lines_with_data r(1))
  then show ?thesis
    using scan r(2) by (simp add: newWireguardConfigFromTarget_def) (simp add: with_data_def)
qed

theorem long_line_truncates_silently_witness:
  "newWireguardConfigFromTarget sample_keys sample_resolve (StaticData
      \<lparr>scd_name = ''s'', scd_vpnType = ''wireguard'', scd_data = unlines [] @ replicate 65536 CHR ''x'' @ newline # ''[Peer]''\<rparr>) =
   Inr \<lparr>configFileName = ''s.conf'', configData = unlines [] @ replicate 65536 CHR ''x'' @ newline # ''[Peer]'', tunAddress = [],
     tunDNS = [], peerAddresses = [], isDefaultRoute = False, wgconfig = \<lparr>cfg_PrivateKey = None, cfg_Peers = []\<rparr>\<rparr>"
proof -
  let ?sd = "\<lparr>scd_name = ''s'', scd_vpnType = ''wireguard'', scd_data = []\<rparr>"
  let ?c = "\<lparr>configFileName = ''s.conf'', configData = [], tunAddress = [], tunDNS = [], peerAddresses = [],
     isDefaultRoute = False, wgconfig = \<lparr>cfg_PrivateKey = None, cfg_Peers = []\<rparr>\<rparr>"
  have "newWireguardConfigFromTarget sample_keys sample_resolve (StaticData (?sd\<lparr>scd_data := unlines []\<rparr>)) = Inr ?c"
    using scan_text_unlines [of "[]"] by (simp add: newWireguardConfigFromTarget_def new_reader_def finish_peer_def)
  from long_line_truncates_silently [OF _ _ _ this, of "replicate 65536 CHR ''x''" "''[Peer]''"]
  show ?thesis by (simp add: MaxScanTokenSize_def newline_def)
qed

end
