(* ===== verification/Wg_Ctrl.thy ===== *)
theory Wg_Ctrl
  imports Wg_Types
begin

text \<open>
  The WireGuard control service and client (\<^verbatim>\<open>vpn/wireguard_ctrl.go\<close> with
  \<^verbatim>\<open>wireguard_ctrl_unix.go\<close> and \<^verbatim>\<open>wireguard_ctrl_windows.go\<close>). The listener's goroutine is
  part of the service's state; what \<open>Accept\<close> returns and what the control package
  answers are parameters. A call that waits on a channel nobody writes to has no result
  (\<open>None\<close>).
\<close>

section \<open>The control service\<close>

text \<open>
  The goroutine has not been started, accepts connections, is about to report how it
  ended on the unbuffered error channel, or has ended.
\<close>

datatype acceptor = NoAcceptor | Accepting | Reporting "string option" | AcceptorDone

record WGCtrlService =
  svc_ifaceName :: string
  uapi :: bool
  acceptor :: acceptor
  handled :: nat

definition NewWireguardCtrlService :: "string \<Rightarrow> WGCtrlService" where
  "NewWireguardCtrlService ifaceName =
     \<lparr>svc_ifaceName = ifaceName, uapi = False, acceptor = NoAcceptor, handled = 0\<rparr>"

text \<open>
  \<open>startUAPI\<close>: on Unix the socket file is opened and listened on, on Windows only
  listened on. A failed listen leaves the listener nil.
\<close>

definition startUAPI_unix ::
    "string option \<Rightarrow> string option \<Rightarrow> WGCtrlService \<Rightarrow> string option \<times> WGCtrlService" where
  "startUAPI_unix openErr listenErr s = (case openErr of
      Some e \<Rightarrow> (Some e, s)
    | None \<Rightarrow> (case listenErr of
        Some e \<Rightarrow> (Some e, s\<lparr>uapi := False\<rparr>)
      | None \<Rightarrow> (None, s\<lparr>uapi := True, acceptor := Accepting\<rparr>)))"

definition startUAPI_windows :: "string option \<Rightarrow> WGCtrlService \<Rightarrow> string option \<times> WGCtrlService" where
  "startUAPI_windows listenErr s = (case listenErr of
      Some e \<Rightarrow> (Some e, s\<lparr>uapi := False\<rparr>)
    | None \<Rightarrow> (None, s\<lparr>uapi := True, acceptor := Accepting\<rparr>))"

datatype os = Unix | Windows

definition StartService ::
    "os \<Rightarrow> string option \<Rightarrow> string option \<Rightarrow> WGCtrlService \<Rightarrow> string option \<times> WGCtrlService" where
  "StartService os openErr listenErr s = (case os of
      Unix \<Rightarrow> startUAPI_unix openErr listenErr s | Windows \<Rightarrow> startUAPI_windows listenErr s)"

text \<open>
  What \<open>Accept\<close> returns: a connection, which is handed to the device, or an error, of
  which \<open>EBADF\<close> is the one of a closed socket. The Unix goroutine reports any other error,
  the Windows one none.
\<close>

datatype accept_result = Conn | AcceptErr bool string

fun accept_step :: "os \<Rightarrow> accept_result \<Rightarrow> WGCtrlService \<Rightarrow> WGCtrlService" where
  "accept_step os Conn s = (if acceptor s = Accepting then s\<lparr>handled := handled s + 1\<rparr> else s)"
| "accept_step os (AcceptErr isEBADF e) s =
     (if acceptor s = Accepting
      then s\<lparr>acceptor := Reporting (if os = Unix \<and> \<not> isEBADF then Some e else None)\<rparr> else s)"

text \<open>
  \<open>Stop\<close> closes the listener, so a goroutine that still accepts gets the error \<open>r\<close>, and
  receives its report. The listener stays set.
\<close>

definition StopService ::
    "os \<Rightarrow> accept_result \<Rightarrow> WGCtrlService \<Rightarrow> (string option \<times> WGCtrlService) option" where
  "StopService os r s =
     (if uapi s
      then (case acceptor (accept_step os r s) of
          Reporting e \<Rightarrow> Some (e, s\<lparr>acceptor := AcceptorDone\<rparr>)
        | _ \<Rightarrow> None)
      else Some (None, s))"

section \<open>The control client\<close>

text \<open>The interface's name and the control package's connection.\<close>

record 'c wgctrl =
  wgctrl_New :: "string + 'c"
  wgctrl_Device :: "'c \<Rightarrow> string \<Rightarrow> string + wgdevice"
  wgctrl_ConfigureDevice :: "'c \<Rightarrow> string \<Rightarrow> wg_config \<Rightarrow> string option"

record 'c WGCtrlClient =
  cl_ifaceName :: string
  wgClient :: 'c

definition NewWireguardCtrlClient :: "'c wgctrl \<Rightarrow> string \<Rightarrow> string + 'c WGCtrlClient" where
  "NewWireguardCtrlClient w ifaceName =
     (case wgctrl_New w of Inl e \<Rightarrow> Inl e | Inr c \<Rightarrow> Inr \<lparr>cl_ifaceName = ifaceName, wgClient = c\<rparr>)"

definition ctrl_Device :: "'c wgctrl \<Rightarrow> 'c WGCtrlClient \<Rightarrow> string + wgdevice" where
  "ctrl_Device w cl = wgctrl_Device w (wgClient cl) (cl_ifaceName cl)"

definition Configure :: "'c wgctrl \<Rightarrow> wg_config \<Rightarrow> 'c WGCtrlClient \<Rightarrow> string option" where
  "Configure w cfg cl = wgctrl_ConfigureDevice w (wgClient cl) (cl_ifaceName cl) cfg"

definition ctrl_PublicKey :: "wgtypes \<Rightarrow> 'c wgctrl \<Rightarrow> 'c WGCtrlClient \<Rightarrow> string + string" where
  "ctrl_PublicKey wg w cl = (case ctrl_Device w cl of
      Inl e \<Rightarrow> Inl e | Inr d \<Rightarrow> Inr (key_String wg (DevicePublicKey d)))"

fun ips_loop :: "string list \<Rightarrow> ipnet list \<Rightarrow> string list" where
  "ips_loop acc [] = acc"
| "ips_loop acc (ip # ips) = ips_loop (acc @ [IPNet_String ip]) ips"

definition peer_status :: "wgtypes \<Rightarrow> (go_time \<Rightarrow> string) \<Rightarrow> wgpeer \<Rightarrow> string" where
  "peer_status wg timeString p =
     [newline] @ ''peer: '' @ key_String wg (PublicKey p) @ [newline] @
     ''  endpoint: '' @ (case Endpoint p of None \<Rightarrow> ''<nil>'' | Some e \<Rightarrow> e) @ [newline] @
     ''  allowed ips: '' @ join '', '' (ips_loop [] (AllowedIPs p)) @ [newline] @
     ''  latest handshake: '' @ timeString (LastHandshakeTime p) @ [newline] @
     ''  transfer: '' @ show_int64 (ReceiveBytes p) @ '' B received, '' @
       show_int64 (TransmitBytes p) @ '' B sent'' @ [newline]"

fun status_loop :: "wgtypes \<Rightarrow> (go_time \<Rightarrow> string) \<Rightarrow> string \<Rightarrow> wgpeer list \<Rightarrow> string" where
  "status_loop wg timeString status [] = status"
| "status_loop wg timeString status (p # ps) =
     status_loop wg timeString (status @ peer_status wg timeString p) ps"

definition StatusText ::
    "wgtypes \<Rightarrow> (go_time \<Rightarrow> string) \<Rightarrow> 'c wgctrl \<Rightarrow> 'c WGCtrlClient \<Rightarrow> string + string" where
  "StatusText wg timeString w cl = (case ctrl_Device w cl of
      Inl e \<Rightarrow> Inl e
    | Inr d \<Rightarrow> Inr (status_loop wg timeString
        (''interface: '' @ DeviceName d @ '' ('' @ type_String wg (DeviceType d) @ '')'' @ [newline] @
         ''  public key: '' @ key_String wg (DevicePublicKey d) @ [newline] @
         ''  private key: (hidden)'' @ [newline]) (Peers d)))"

fun bytes_loop :: "int64 \<Rightarrow> int64 \<Rightarrow> wgpeer list \<Rightarrow> int64 \<times> int64" where
  "bytes_loop recd sent [] = (recd, sent)"
| "bytes_loop recd sent (p # ps) = bytes_loop (recd + ReceiveBytes p) (sent + TransmitBytes p) ps"

definition ctrl_BytesTransmitted ::
    "'c wgctrl \<Rightarrow> 'c WGCtrlClient \<Rightarrow> int64 \<times> int64 \<times> string option" where
  "ctrl_BytesTransmitted w cl = (case ctrl_Device w cl of
      Inl e \<Rightarrow> (-1, -1, Some e)
    | Inr d \<Rightarrow> (let (recd, sent) = bytes_loop 0 0 (Peers d) in (recd, sent, None)))"

section \<open>Properties\<close>

lemma bytes_loop_sum:
  "bytes_loop recd sent ps = (recd + sum_list (map ReceiveBytes ps), sent + sum_list (map TransmitBytes ps))"
  by (induction recd sent ps rule: bytes_loop.induct) (simp_all add: algebra_simps)

lemma ips_loop_map: "ips_loop acc ips = acc @ map IPNet_String ips"
  by (induction acc ips rule: ips_loop.induct) simp_all

lemma status_loop_concat: "status_loop wg ts st ps = st @ concat (map (peer_status wg ts) ps)"
  by (induction wg ts st ps rule: status_loop.induct) simp_all

text \<open>
  C36: the bytes reported are the sums over the device's peers, received first, reduced
  to 64 bits as the additions wrap; an error of the control package gives minus one for
  both.
\<close>

theorem BytesTransmitted_sums:
  "case ctrl_Device w cl of
     Inl e \<Rightarrow> ctrl_BytesTransmitted w cl = (-1, -1, Some e)
   | Inr d \<Rightarrow> \<exists>recd sent. ctrl_BytesTransmitted w cl = (recd, sent, None) \<and>
       recd = word_of_int (\<Sum>p \<leftarrow> Peers d. sint (ReceiveBytes p)) \<and>
       sent = word_of_int (\<Sum>p \<leftarrow> Peers d. sint (TransmitBytes p))"
proof -
  have sum: "sum_list (map f ps) = (word_of_int (\<Sum>p \<leftarrow> ps. sint (f p)) :: int64)" for f :: "wgpeer \<Rightarrow> int64" and ps
    by (induction ps) simp_all
  show ?thesis by (auto simp: ctrl_BytesTransmitted_def bytes_loop_sum sum split: sum.split)
qed

text \<open>
  C37: stopping a started service receives the goroutine's report and ends it, however many
  connections it handled before; stopping it a second time waits forever, because the
  listener stays set while nobody writes to the error channel any more. A service that
  was never started stops at once.
\<close>

theorem service_stops_once:
  "StartService os None None (NewWireguardCtrlService name) = (None, s) \<Longrightarrow>
   fold (\<lambda>_. accept_step os Conn) [0..<n] s = s1 \<Longrightarrow>
   (\<exists>s2. StopService os (AcceptErr b e) s1 = Some (if os = Unix \<and> \<not> b then Some e else None, s2) \<and>
      handled s2 = n \<and> (\<forall>os' r. StopService os' r s2 = None)) \<and>
   StopService os (AcceptErr b e) (NewWireguardCtrlService name) = Some (None, NewWireguardCtrlService name)"
proof -
  assume s: "StartService os None None (NewWireguardCtrlService name) = (None, s)"
    and s1: "fold (\<lambda>_. accept_step os Conn) [0..<n] s = s1"
  have "fold (\<lambda>_. accept_step os Conn) [0..<n] t = t\<lparr>handled := handled t + n\<rparr>" if "acceptor t = Accepting" for t
    using that by (induction n) simp_all
  with s s1 have "s1 = \<lparr>svc_ifaceName = name, uapi = True, acceptor = Accepting, handled = n\<rparr>"
    by (cases os) (auto simp: StartService_def startUAPI_unix_def startUAPI_windows_def NewWireguardCtrlService_def)
  moreover have "StopService os' r \<lparr>svc_ifaceName = name, uapi = True, acceptor = AcceptorDone, handled = n\<rparr> = None" for os' r
    by (cases r) (simp_all add: StopService_def)
  ultimately show ?thesis
    by (simp add: StopService_def NewWireguardCtrlService_def)
qed

theorem service_stops_once_witness:
  "\<exists>s1 s2. fold (\<lambda>_. accept_step Unix Conn) [0..<2] (snd (StartService Unix None None (NewWireguardCtrlService ''wg0''))) = s1 \<and>
     StopService Unix (AcceptErr True ''closed'') s1 = Some (None, s2) \<and> handled s2 = 2"
proof -
  have "StartService Unix None None (NewWireguardCtrlService ''wg0'') =
      (None, snd (StartService Unix None None (NewWireguardCtrlService ''wg0'')))"
    by (simp add: StartService_def startUAPI_unix_def)
  from service_stops_once [OF this refl, where n = 2 and b = True and e = "''closed''"] show ?thesis by auto
qed

end
