(* ===== verification/Wg_Client.thy ===== *)
theory Wg_Client
  imports Monitor Wg_Config Wg_Ctrl
begin

text \<open>
  The WireGuard client (\<^verbatim>\<open>vpn/wireguard_client.go\<close> and its Unix and Windows halves). The
  tunnel package, the network context, the control package, the timer and the WireGuard
  executable are parameters; what the client does with them is its state: handles that
  are open or closed, the calls made on the network context in order, and the goroutine
  that tears the connection down. Counters live in the store of the monitor service.
\<close>

section \<open>The Unix client\<close>

datatype handle = NoHandle | IsOpen | IsClosed

datatype net_call =
    DisableIPv6 | NewRouteManager | AddExternalRouteToIPs "string list"
  | NewRoutableInterface string string | MakeDefaultRoute
  | NewDNSManager | AddDNSServers "string list" | AddSearchDomains "string list" | Clear

text \<open>The goroutine \<open>Connect\<close> starts, by what it does next.\<close>

datatype watcher =
    NotStarted | Waiting | StoppingService | ClosingTunnel | ClearingNetwork | ClosingDevice
  | Notifying | Ended

record 'c wireguard =
  w_cfg :: wireguardConfig
  w_ifaceName :: string
  tunnel :: handle
  device :: handle
  wgctrlService :: "WGCtrlService option"
  wgctrlClient :: "'c WGCtrlClient option"
  watcher :: watcher
  nc :: "net_call list"
  sent :: cref
  recd :: cref
  metricsTimer :: "bool option"
  metricsError :: "string option"

text \<open>
  The platform. What the network context answers to a call may depend on the calls made on
  it before.
\<close>

record 'c platform =
  isDarwin :: bool
  GetNextAvailabeInterface :: "string \<Rightarrow> string \<times> string option"
  CreateTUN :: "string \<Rightarrow> string option"
  tun_Name :: "string + string"
  device_Up :: "string option"
  UAPIOpen :: "string \<Rightarrow> string option"
  UAPIListen :: "string \<Rightarrow> string option"
  wgctrl_api :: "'c wgctrl"
  nc_result :: "net_call list \<Rightarrow> net_call \<Rightarrow> string option"
  timer_Start :: "int64 \<Rightarrow> string option"

text \<open>
  The two counters are allocated in the store and, when the service is not nil, added to
  a monitor of it. Registering is the same on both platforms.
\<close>

definition new_metrics :: "bool \<Rightarrow> 'ev monitorService \<Rightarrow> cref \<times> cref \<times> 'ev monitorService" where
  "new_metrics hasService ms =
     (let (s, ms) = alloc_counter (NewCounter ''sent'' True True) ms;
          (r, ms) = alloc_counter (NewCounter ''recd'' True True) ms
      in if hasService
         then (let (m, ms) = NewMonitor ''space-vpn'' ms in (s, r, AddCounter m r (AddCounter m s ms)))
         else (s, r, ms))"

definition newWireguardClient ::
    "string option \<Rightarrow> wireguardConfig \<Rightarrow> bool \<Rightarrow> 'ev monitorService \<Rightarrow>
     (string + 'c wireguard) \<times> 'ev monitorService" where
  "newWireguardClient ncErr cfg hasService ms = (case ncErr of
      Some e \<Rightarrow> (Inl e, ms)
    | None \<Rightarrow> (let (s, r, ms') = new_metrics hasService ms in
        (Inr \<lparr>w_cfg = cfg, w_ifaceName = [], tunnel = NoHandle, device = NoHandle, wgctrlService = None,
           wgctrlClient = None, watcher = NotStarted, nc = [], sent = s, recd = r,
           metricsTimer = None, metricsError = None\<rparr>, ms')))"

definition wgc_NewClient ::
    "string option \<Rightarrow> bool \<Rightarrow> wireguardConfig \<Rightarrow> 'ev monitorService \<Rightarrow>
     (string + 'c wireguard) \<times> 'ev monitorService" where
  "wgc_NewClient ncErr hasService c ms = newWireguardClient ncErr c hasService ms"

subsection \<open>Metrics\<close>

text \<open>
  One run of the metrics timer. Calling through a client that was never created panics.
\<close>

definition recordNetworkMetrics ::
    "'c wgctrl \<Rightarrow> 'c wireguard \<Rightarrow> 'ev monitorService \<Rightarrow> (int64 \<times> 'c wireguard \<times> 'ev monitorService) outcome"
where
  "recordNetworkMetrics api w ms = (case wgctrlClient w of
      None \<Rightarrow> Panic ''invalid memory address or nil pointer dereference''
    | Some cl \<Rightarrow> Ret (case ctrl_BytesTransmitted api cl of
        (r, s, Some e) \<Rightarrow> (500, w\<lparr>metricsError := Some e\<rparr>, ms)
      | (r, s, None) \<Rightarrow>
          (let ms1 = (if 0 <s r then update_counter (OpSet r) (recd w) ms else ms);
               ms2 = (if 0 <s s then update_counter (OpSet s) (sent w) ms1 else ms1)
           in (500, w, ms2))))"

definition BytesTransmitted :: "'c wireguard \<Rightarrow> 'ev monitorService \<Rightarrow> int64 \<times> int64 \<times> string option" where
  "BytesTransmitted w ms = (Get (counters ms ! recd w), Get (counters ms ! sent w), metricsError w)"

subsection \<open>Connecting\<close>

definition open_tunnel :: "'c platform \<Rightarrow> 'c wireguard \<Rightarrow> string option \<times> 'c wireguard" where
  "open_tunnel env w =
     (let (name, err) = GetNextAvailabeInterface env (if isDarwin env then ''utun'' else ''wg'');
          w1 = w\<lparr>w_ifaceName := name\<rparr> in
      case err of Some e \<Rightarrow> (Some e, w1) | None \<Rightarrow>
      (case CreateTUN env name of
         Some e \<Rightarrow> (Some e, w1\<lparr>tunnel := NoHandle\<rparr>)
       | None \<Rightarrow> (None, w1\<lparr>tunnel := IsOpen,
           w_ifaceName := (case tun_Name env of Inl _ \<Rightarrow> name | Inr n \<Rightarrow> n)\<rparr>)))"

definition start_services :: "'c platform \<Rightarrow> 'c wireguard \<Rightarrow> string option \<times> 'c wireguard" where
  "start_services env w = (case device_Up env of Some e \<Rightarrow> (Some e, w) | None \<Rightarrow>
     (case StartService Unix (UAPIOpen env (w_ifaceName w)) (UAPIListen env (w_ifaceName w))
         (NewWireguardCtrlService (w_ifaceName w)) of
        (Some e, svc) \<Rightarrow> (Some e, w\<lparr>wgctrlService := Some svc\<rparr>)
      | (None, svc) \<Rightarrow>
          (case NewWireguardCtrlClient (wgctrl_api env) (w_ifaceName w) of
             Inl e \<Rightarrow> (Some e, w\<lparr>wgctrlService := Some svc, wgctrlClient := None\<rparr>)
           | Inr cl \<Rightarrow> (None, w\<lparr>wgctrlService := Some svc, wgctrlClient := Some cl, watcher := Waiting\<rparr>))))"

text \<open>Calls on the network context, up to the first that fails.\<close>

fun nc_calls :: "'c platform \<Rightarrow> net_call list \<Rightarrow> 'c wireguard \<Rightarrow> string option \<times> 'c wireguard" where
  "nc_calls env [] w = (None, w)"
| "nc_calls env (c # cs) w =
     (let w' = w\<lparr>nc := nc w @ [c]\<rparr> in
      case nc_result env (nc w) c of Some e \<Rightarrow> (Some e, w') | None \<Rightarrow> nc_calls env cs w')"

definition network_plan :: "'c wireguard \<Rightarrow> net_call list" where
  "network_plan w =
     [DisableIPv6, NewRouteManager, AddExternalRouteToIPs (peerAddresses (w_cfg w)),
      NewRoutableInterface (w_ifaceName w) (tunAddress (w_cfg w))] @
     (if isDefaultRoute (w_cfg w) then [MakeDefaultRoute] else []) @
     [NewDNSManager, AddDNSServers [tunDNS (w_cfg w)], AddSearchDomains []]"

text \<open>
  The part of \<open>Connect\<close> below its deferred function: what is returned, what the variable
  \<open>err\<close> holds then, and the client. The error of the metrics timer stays in \<open>err\<close> while nil
  is returned.
\<close>

definition connect_body ::
    "'c platform \<Rightarrow> 'c wireguard \<Rightarrow> string option \<times> string option \<times> 'c wireguard" where
  "connect_body env w = (case start_services env w of
      (Some e, w1) \<Rightarrow> (Some e, Some e, w1)
    | (None, w1) \<Rightarrow> (case Configure (wgctrl_api env) (wgconfig (w_cfg w1)) (the (wgctrlClient w1)) of
        Some e \<Rightarrow> (Some e, Some e, w1)
      | None \<Rightarrow> (case nc_calls env (network_plan w1) w1 of
          (Some e, w2) \<Rightarrow> (Some e, Some e, w2)
        | (None, w2) \<Rightarrow> (case timer_Start env 500 of
            Some e \<Rightarrow> (None, Some e, w2\<lparr>metricsTimer := Some False\<rparr>)
          | None \<Rightarrow> (None, None, w2\<lparr>metricsTimer := Some True\<rparr>)))))"

text \<open>
  \<open>Connect\<close> in one piece: the goroutine it starts does not move before it returns. That this
  is no restriction as long as the device stays, and what changes when it does not, is the
  subject of the theory of the interleaved \<open>Connect\<close>.
\<close>

definition wg_Connect :: "'c platform \<Rightarrow> 'c wireguard \<Rightarrow> string option \<times> 'c wireguard" where
  "wg_Connect env w = (case open_tunnel env w of
      (Some e, w1) \<Rightarrow> (Some e, w1)
    | (None, w1) \<Rightarrow> (case connect_body env (w1\<lparr>device := IsOpen\<rparr>) of
        (res, err, w2) \<Rightarrow>
          (res, if err \<noteq> None then w2\<lparr>tunnel := IsClosed, device := IsClosed\<rparr> else w2)))"

subsection \<open>Disconnecting\<close>

text \<open>
  The caller of \<open>Disconnect\<close>: not called, sending on the unbuffered channel \<open>close\<close>,
  waiting for \<open>disconnected\<close> or the timeout, or returned.
\<close>

datatype caller = NotCalled | SendingClose | AwaitDone | Returned

definition stop_metrics :: "'c wireguard \<Rightarrow> 'c wireguard" where
  "stop_metrics w = w\<lparr>metricsTimer := map_option (\<lambda>_. False) (metricsTimer w)\<rparr>"

text \<open>
  One step of the connection: the device going away by itself, the statements of
  \<open>Disconnect\<close>, those of the goroutine, and their two meetings on the channels. The
  accept error the service's goroutine gets when its socket is closed is the
  environment's.
\<close>

inductive wg_step :: "'c wireguard \<times> caller \<Rightarrow> 'c wireguard \<times> caller \<Rightarrow> bool" where
  device_fails: "device w = IsOpen \<Longrightarrow> wg_step (w, c) (w\<lparr>device := IsClosed\<rparr>, c)"
| disconnect: "wg_step (w, NotCalled) (stop_metrics w, SendingClose)"
| receive_close: "watcher w = Waiting \<Longrightarrow>
    wg_step (w, SendingClose) (w\<lparr>watcher := StoppingService\<rparr>, AwaitDone)"
| device_wait: "watcher w = Waiting \<Longrightarrow> device w = IsClosed \<Longrightarrow>
    wg_step (w, c) (w\<lparr>watcher := StoppingService\<rparr>, c)"
| stop_service: "watcher w = StoppingService \<Longrightarrow> wgctrlService w = Some svc \<Longrightarrow>
    StopService Unix (AcceptErr b e) svc = Some (res, svc') \<Longrightarrow>
    wg_step (w, c) (w\<lparr>wgctrlService := Some svc', watcher := ClosingTunnel\<rparr>, c)"
| close_tunnel: "watcher w = ClosingTunnel \<Longrightarrow>
    wg_step (w, c) (w\<lparr>tunnel := IsClosed, watcher := ClearingNetwork\<rparr>, c)"
| clear_network: "watcher w = ClearingNetwork \<Longrightarrow>
    wg_step (w, c) (w\<lparr>nc := nc w @ [Clear], watcher := ClosingDevice\<rparr>, c)"
| close_device: "watcher w = ClosingDevice \<Longrightarrow>
    wg_step (w, c) (w\<lparr>device := IsClosed, watcher := Notifying\<rparr>, c)"
| receive_done: "watcher w = Notifying \<Longrightarrow>
    wg_step (w, AwaitDone) (w\<lparr>watcher := Ended\<rparr>, Returned)"
| timed_out: "wg_step (w, AwaitDone) (w\<lparr>nc := nc w @ [Clear]\<rparr>, Returned)"

inductive_cases wg_stepE: "wg_step (w, c) (w', c')"

section \<open>The Windows client\<close>

text \<open>
  The client installs the tunnel as a service by running \<^verbatim>\<open>wireguard.exe\<close>. Its state is
  extended by the files it wrote and the runs of the executable.
\<close>

record 'c win_wireguard =
  ww_cfg :: wireguardConfig
  tunnelName :: string
  configFilePath :: string
  ww_wgctrlClient :: "'c WGCtrlClient option"
  ww_sent :: cref
  ww_recd :: cref
  ww_metricsTimer :: "bool option"
  files :: "string \<rightharpoonup> string"
  exe_runs :: "string list list"

record 'c win_platform =
  WriteFile :: "string \<Rightarrow> string option"
  exe_Run :: "string list \<Rightarrow> string option"
  win_wgctrl :: "'c wgctrl"
  win_timer_Start :: "int64 \<Rightarrow> string option"

text \<open>
  The package's initialisation looks for the executable: below the directory of the
  running program and in two directories of every drive. What it leaves is the search
  paths it registered and the executable, nil unless one was found. The null device that
  cannot be opened makes it panic.
\<close>

record 'x win_search =
  DevNull_Open :: "string option"
  Executable :: "string + string"
  win_Dir :: "string \<Rightarrow> string"
  win_Join :: "string list \<Rightarrow> string"
  GetLogicalDrives :: "string + string list"
  CreateCLI :: "string list \<Rightarrow> string + 'x"

fun drive_paths :: "(string list \<Rightarrow> string) \<Rightarrow> string list \<Rightarrow> string list \<Rightarrow> string list" where
  "drive_paths join_paths acc [] = acc"
| "drive_paths join_paths acc (d # ds) =
     drive_paths join_paths
       (acc @ [join_paths [d, ''Program Files'', ''WireGuard''], join_paths [d, ''WireGuard'']]) ds"

definition win_init :: "'x win_search \<Rightarrow> (string list \<times> 'x option) outcome" where
  "win_init env = (case DevNull_Open env of Some e \<Rightarrow> Panic e | None \<Rightarrow>
     (case Executable env of
        Inl e \<Rightarrow> Ret ([], None)
      | Inr executablePath \<Rightarrow>
          (let paths = [win_Dir env executablePath];
               paths = (case GetLogicalDrives env of Inl e \<Rightarrow> paths | Inr drives \<Rightarrow> drive_paths (win_Join env) paths drives)
           in case CreateCLI env paths of Inl e \<Rightarrow> Ret (paths, None) | Inr exe \<Rightarrow> Ret (paths, Some exe))))"

text \<open>\<open>strings.LastIndex\<close> of one character.\<close>

fun LastIndex :: "string \<Rightarrow> char \<Rightarrow> nat option" where
  "LastIndex [] c = None"
| "LastIndex (x # xs) c = (case LastIndex xs c of
      Some i \<Rightarrow> Some (Suc i) | None \<Rightarrow> if x = c then Some 0 else None)"

definition newWireguardClient_windows ::
    "'x option \<Rightarrow> (string \<Rightarrow> string) \<Rightarrow> (string \<rightharpoonup> string) \<Rightarrow> wireguardConfig \<Rightarrow> bool \<Rightarrow> 'ev monitorService \<Rightarrow>
     ((string + 'c win_wireguard) \<times> 'ev monitorService) outcome" where
  "newWireguardClient_windows wireguardEXE tempPath fs cfg hasService ms =
     (if wireguardEXE = None then Ret (Inl ''wireguard exe not found'', ms)
      else case LastIndex (configFileName cfg) (CHR ''.'') of
        None \<Rightarrow> Panic ''slice bounds out of range [:-1]''
      | Some i \<Rightarrow> (let (s, r, ms') = new_metrics hasService ms in
          Ret (Inr \<lparr>ww_cfg = cfg, tunnelName = take i (configFileName cfg),
             configFilePath = tempPath (configFileName cfg), ww_wgctrlClient = None, ww_sent = s, ww_recd = r,
             ww_metricsTimer = None, files = fs, exe_runs = []\<rparr>, ms')))"

definition run_exe :: "string list \<Rightarrow> 'c win_wireguard \<Rightarrow> 'c win_wireguard" where
  "run_exe args w = w\<lparr>exe_runs := exe_runs w @ [args]\<rparr>"

definition win_Disconnect :: "'c win_platform \<Rightarrow> 'c win_wireguard \<Rightarrow> string option \<times> 'c win_wireguard" where
  "win_Disconnect env w =
     (let w1 = w\<lparr>ww_metricsTimer := map_option (\<lambda>_. False) (ww_metricsTimer w)\<rparr>;
          args = [''/uninstalltunnelservice'', tunnelName w1];
          w2 = run_exe args w1 in
      case exe_Run env args of
        Some e \<Rightarrow> (Some e, w2)
      | None \<Rightarrow> (None, w2\<lparr>files := (files w2)(configFilePath w2 := None)\<rparr>))"

definition win_Connect :: "'c win_platform \<Rightarrow> 'c win_wireguard \<Rightarrow> string option \<times> 'c win_wireguard" where
  "win_Connect env w = (case WriteFile env (configFilePath w) of Some e \<Rightarrow> (Some e, w) | None \<Rightarrow>
     (let w1 = w\<lparr>files := (files w)(configFilePath w \<mapsto> configData (ww_cfg w))\<rparr>;
          args = [''/installtunnelservice'', configFilePath w];
          w2 = run_exe args w1 in
      case exe_Run env args of Some e \<Rightarrow> (Some e, w2) | None \<Rightarrow>
      (case NewWireguardCtrlClient (win_wgctrl env) (tunnelName w2) of
         Inl e \<Rightarrow> (Some e, snd (win_Disconnect env (w2\<lparr>ww_wgctrlClient := None\<rparr>)))
       | Inr cl \<Rightarrow>
          (let w3 = w2\<lparr>ww_wgctrlClient := Some cl\<rparr> in
           case win_timer_Start env 500 of
             Some e \<Rightarrow> (None, snd (win_Disconnect env (w3\<lparr>ww_metricsTimer := Some False\<rparr>)))
           | None \<Rightarrow> (None, w3\<lparr>ww_metricsTimer := Some True\<rparr>)))))"

end
