(* ===== verification/Wg_Client_Props.thy ===== *)
theory Wg_Client_Props
  imports Monitor_Props Wg_Config_Props Wg_Client
begin

text \<open>
  Correctness of the WireGuard client: what \<open>Connect\<close> leaves behind, that
  a disconnect that returns has cleared the network, that it returns within a bounded
  number of steps unless the connection had already gone, and that the traffic the
  monitor service reports is the device's.
\<close>

section \<open>Connecting\<close>

lemma nc_calls_frame:
  "nc_calls env cs w = (res, w') \<Longrightarrow>
   \<exists>n. w' = w\<lparr>nc := nc w @ take n cs\<rparr> \<and> (res = None \<longrightarrow> take n cs = cs)"
proof (induction env cs w arbitrary: res w' rule: nc_calls.induct)
  case (2 env c cs w)
  show ?case
  proof (cases "nc_result env (nc w) c")
    case None
    with 2 obtain n where "w' = w\<lparr>nc := nc w @ [c], nc := (nc w @ [c]) @ take n cs\<rparr>"
      "res = None \<longrightarrow> take n cs = cs" by (auto simp: Let_def)
    then show ?thesis by (intro exI [of _ "Suc n"]) simp
  next
    case (Some e)
    with 2 show ?thesis by (intro exI [of _ 1]) (auto simp: Let_def)
  qed
qed simp

lemma network_plan_update [simp]:
  "network_plan (w\<lparr>nc := a\<rparr>) = network_plan w" "network_plan (w\<lparr>metricsTimer := b\<rparr>) = network_plan w"
  "network_plan (w\<lparr>tunnel := c\<rparr>) = network_plan w" "network_plan (w\<lparr>device := d\<rparr>) = network_plan w"
  by (simp_all add: network_plan_def)

text \<open>The control service runs and its goroutine accepts connections.\<close>

definition serving :: "'c wireguard \<Rightarrow> bool" where
  "serving w \<longleftrightarrow> (case wgctrlService w of None \<Rightarrow> False | Some svc \<Rightarrow> uapi svc \<and> acceptor svc = Accepting)"

lemma serving_update [simp]:
  "serving (w\<lparr>nc := a\<rparr>) = serving w" "serving (w\<lparr>metricsTimer := b\<rparr>) = serving w"
  "serving (w\<lparr>tunnel := c\<rparr>) = serving w" "serving (w\<lparr>device := d\<rparr>) = serving w"
  by (simp_all add: serving_def)

lemma start_services_cases:
  assumes "start_services env w = (res, w')"
  shows "nc w' = nc w \<and> tunnel w' = tunnel w \<and> device w' = device w \<and> w_cfg w' = w_cfg w \<and>
    w_ifaceName w' = w_ifaceName w \<and> metricsTimer w' = metricsTimer w \<and>
    (res = None \<longrightarrow> watcher w' = Waiting \<and> wgctrlClient w' \<noteq> None \<and>
      serving w') \<and>
    (res \<noteq> None \<longrightarrow> watcher w' = watcher w)"
  using assms
  by (cases "device_Up env"; cases res) (auto simp: start_services_def StartService_def startUAPI_unix_def NewWireguardCtrlService_def serving_def
      split: option.splits prod.splits sum.splits)

lemma open_tunnel_cases:
  assumes "open_tunnel env w = (res, w')"
  shows "nc w' = nc w \<and> device w' = device w \<and> w_cfg w' = w_cfg w \<and> watcher w' = watcher w \<and>
    (res = None \<longrightarrow> tunnel w' = IsOpen) \<and> (tunnel w \<noteq> IsOpen \<longrightarrow> res \<noteq> None \<longrightarrow> tunnel w' \<noteq> IsOpen)"
  using assms by (auto simp: open_tunnel_def Let_def split: option.splits prod.splits)

text \<open>What \<open>Connect\<close> leaves behind below its deferred function, by what \<open>err\<close> holds.\<close>

lemma connect_body_cases:
  assumes "connect_body env w = (res, err, w')" and "watcher w = NotStarted" and "nc w = []"
  shows "tunnel w' = tunnel w \<and> device w' = device w \<and>
    (res \<noteq> None \<longrightarrow> err \<noteq> None \<and> (nc w' = [] \<or> watcher w' = Waiting \<and> serving w')) \<and>
    (res = None \<longrightarrow> err = timer_Start env 500 \<and> nc w' = network_plan w' \<and> watcher w' = Waiting \<and>
       metricsTimer w' = Some (err = None) \<and>
       serving w')"
proof -
  obtain r1 w1 where s: "start_services env w = (r1, w1)" by (cases "start_services env w")
  note c1 = start_services_cases [OF s]
  obtain r2 w2 where n: "nc_calls env (network_plan w1) w1 = (r2, w2)"
    by (cases "nc_calls env (network_plan w1) w1")
  from nc_calls_frame [OF n] obtain k where k: "w2 = w1\<lparr>nc := nc w1 @ take k (network_plan w1)\<rparr>"
    "r2 = None \<longrightarrow> take k (network_plan w1) = network_plan w1" by blast
  have out: "res = fst (connect_body env w)" "err = fst (snd (connect_body env w))"
    "w' = snd (snd (connect_body env w))" by (simp_all add: assms(1))
  show ?thesis
  proof (cases r1)
    case (Some e)
    with assms(2,3) out c1 show ?thesis by (simp add: connect_body_def s)
  next
    case None
    note None1 = this
    show ?thesis
    proof (cases "Configure (wgctrl_api env) (wgconfig (w_cfg w1)) (the (wgctrlClient w1))")
      case (Some e)
      with assms(2,3) out c1 None1 show ?thesis by (simp add: connect_body_def s)
    next
      case None
      with assms(2,3) out c1 k None1 show ?thesis
        by (cases r2; cases "timer_Start env 500") (simp_all add: connect_body_def s n)
    qed
  qed
qed

lemma new_client_fields:
  assumes "newWireguardClient ncErr cfg b ms = (Inr w, ms')"
  shows "watcher w = NotStarted \<and> nc w = [] \<and> tunnel w = NoHandle \<and> device w = NoHandle \<and> w_cfg w = cfg"
  using assms by (auto simp: newWireguardClient_def split: option.splits prod.splits)

lemma Connect_cases:
  assumes new: "newWireguardClient ncErr cfg b ms = (Inr w, ms')" and con: "wg_Connect env w = (res, w')"
  shows "(res \<noteq> None \<longrightarrow> tunnel w' \<noteq> IsOpen \<and> device w' \<noteq> IsOpen \<and>
      (nc w' = [] \<or> watcher w' = Waiting \<and> serving w' \<and> device w' = IsClosed)) \<and>
    (res = None \<longrightarrow> nc w' = network_plan w' \<and> watcher w' = Waiting \<and>
      metricsTimer w' = Some (timer_Start env 500 = None) \<and>
      serving w' \<and>
      tunnel w' = (if timer_Start env 500 = None then IsOpen else IsClosed) \<and>
      device w' = (if timer_Start env 500 = None then IsOpen else IsClosed))"
proof -
  obtain r1 w1 where o1: "open_tunnel env w = (r1, w1)" by (cases "open_tunnel env w")
  note c1 = open_tunnel_cases [OF o1] and f = new_client_fields [OF new]
  obtain r2 err w2 where b2: "connect_body env (w1\<lparr>device := IsOpen\<rparr>) = (r2, err, w2)"
    by (cases "connect_body env (w1\<lparr>device := IsOpen\<rparr>)") auto
  have c2: "tunnel w2 = tunnel w1 \<and> device w2 = IsOpen \<and>
    (r2 \<noteq> None \<longrightarrow> err \<noteq> None \<and> (nc w2 = [] \<or> watcher w2 = Waiting \<and> serving w2)) \<and>
    (r2 = None \<longrightarrow> err = timer_Start env 500 \<and> nc w2 = network_plan w2 \<and> watcher w2 = Waiting \<and>
       metricsTimer w2 = Some (err = None) \<and>
       serving w2)"
    using connect_body_cases [OF b2] c1 f by simp
  show ?thesis
  proof (cases r1)
    case (Some e)
    then show ?thesis using con o1 c1 f by (auto simp: wg_Connect_def)
  next
    case None
    then have "res = r2" "w' = (if err \<noteq> None then w2\<lparr>tunnel := IsClosed, device := IsClosed\<rparr> else w2)"
      using con o1 b2 by (auto simp: wg_Connect_def)
    with c1 c2 None show ?thesis by (cases "err = None"; cases r2) simp_all
  qed
qed

section \<open>Disconnecting\<close>

text \<open>
  The invariant of a connection: the goroutine has been started, and each stage it has
  passed is done; only a caller it met, or one that timed out and cleared the network
  itself, has returned.
\<close>

definition cleared :: "'c wireguard \<Rightarrow> bool" where
  "cleared w \<longleftrightarrow> nc w \<noteq> [] \<and> last (nc w) = Clear"

fun service_stage :: "'c wireguard \<Rightarrow> bool" where
  "service_stage w = (case wgctrlService w of None \<Rightarrow> False | Some svc \<Rightarrow>
     uapi svc \<and> acceptor svc = (if watcher w = Waiting \<or> watcher w = StoppingService then Accepting
       else AcceptorDone))"

definition conn_inv :: "'c wireguard \<times> caller \<Rightarrow> bool" where
  "conn_inv = (\<lambda>(w, c). watcher w \<noteq> NotStarted \<and> service_stage w \<and>
     (watcher w \<in> {ClearingNetwork, ClosingDevice, Notifying, Ended} \<longrightarrow> tunnel w = IsClosed) \<and>
     (watcher w \<in> {ClosingDevice, Notifying, Ended} \<longrightarrow> cleared w) \<and>
     (watcher w \<in> {Notifying, Ended} \<longrightarrow> device w = IsClosed) \<and>
     (watcher w = Ended \<longrightarrow> c = Returned) \<and>
     (c = AwaitDone \<longrightarrow> watcher w \<noteq> Waiting) \<and>
     (c = Returned \<longrightarrow> cleared w))"

definition conn_initial :: "'c wireguard \<times> caller \<Rightarrow> bool" where
  "conn_initial s \<longleftrightarrow> watcher (fst s) = Waiting \<and> snd s = NotCalled \<and>
     serving (fst s)"

lemma conn_initial_inv: "conn_initial s \<Longrightarrow> conn_inv s"
  by (cases s) (auto simp: conn_initial_def conn_inv_def serving_def split: option.splits)

lemma wg_step_inv: "wg_step s t \<Longrightarrow> conn_inv s \<Longrightarrow> conn_inv t"
  by (induction rule: wg_step.induct)
    (auto simp: conn_inv_def cleared_def stop_metrics_def StopService_def split: option.splits)

text \<open>How many steps a connection has left at most.\<close>

fun watcher_left :: "watcher \<Rightarrow> nat" where
  "watcher_left NotStarted = 0"
| "watcher_left Waiting = 6"
| "watcher_left StoppingService = 5"
| "watcher_left ClosingTunnel = 4"
| "watcher_left ClearingNetwork = 3"
| "watcher_left ClosingDevice = 2"
| "watcher_left Notifying = 1"
| "watcher_left Ended = 0"

fun caller_left :: "caller \<Rightarrow> nat" where
  "caller_left NotCalled = 3"
| "caller_left SendingClose = 2"
| "caller_left AwaitDone = 1"
| "caller_left Returned = 0"

definition steps_left :: "'c wireguard \<times> caller \<Rightarrow> nat" where
  "steps_left = (\<lambda>(w, c). (if device w = IsOpen then 1 else 0) + watcher_left (watcher w) + caller_left c)"

lemma wg_step_decreases: "wg_step s t \<Longrightarrow> steps_left t < steps_left s"
  by (induction rule: wg_step.induct) (auto simp: steps_left_def stop_metrics_def)

interpretation conn: bounded_system conn_initial wg_step conn_inv steps_left
  by unfold_locales (auto intro: conn_initial_inv wg_step_inv wg_step_decreases)

text \<open>A connection that cannot move: the caller has returned or waits for a goroutine that has gone past its channel.\<close>

lemma wg_stuck:
  assumes "conn_inv (w, c)" and stuck: "\<not> (\<exists>t. wg_step (w, c) t)"
  shows "c = Returned \<or> c = SendingClose \<and> watcher w = Notifying"
proof (cases c)
  case SendingClose
  then show ?thesis
  proof (cases "watcher w")
    case StoppingService
    with assms(1) obtain svc where "wgctrlService w = Some svc" "uapi svc" "acceptor svc = Accepting"
      by (auto simp: conn_inv_def split: option.splits)
    then have "StopService Unix (AcceptErr True []) svc = Some (None, svc\<lparr>acceptor := AcceptorDone\<rparr>)"
      by (simp add: StopService_def)
    from wg_step.stop_service [OF StoppingService \<open>wgctrlService w = Some svc\<close> this, of c] stuck
    show ?thesis by simp
  next
    case Waiting
    with stuck SendingClose wg_step.receive_close [OF Waiting] show ?thesis by simp
  next
    case ClosingTunnel
    from stuck wg_step.close_tunnel [OF ClosingTunnel, of c] show ?thesis by simp
  next
    case ClearingNetwork
    from stuck wg_step.clear_network [OF ClearingNetwork, of c] show ?thesis by simp
  next
    case ClosingDevice
    from stuck wg_step.close_device [OF ClosingDevice, of c] show ?thesis by simp
  qed (use SendingClose assms(1) in \<open>simp_all add: conn_inv_def\<close>)
next
  case NotCalled
  with stuck wg_step.disconnect [of w] show ?thesis by simp
next
  case AwaitDone
  with stuck wg_step.timed_out [of w] show ?thesis by simp
qed simp

lemma late_disconnect_waits:
  assumes "wg_step\<^sup>*\<^sup>* (w, NotCalled) s" and "watcher w \<noteq> Waiting"
  shows "watcher (fst s) \<noteq> Waiting \<and> (snd s = NotCalled \<or> snd s = SendingClose)"
  using assms(1)
proof (induction rule: rtranclp_induct)
  case (step s t)
  from step(2,3) show ?case
    by (induction rule: wg_step.induct) (auto simp: stop_metrics_def)
qed (use assms(2) in simp)

lemma conn_stuck_cleared:
  assumes "conn_inv s0" and "wg_step\<^sup>*\<^sup>* s0 s" and "\<not> (\<exists>t. wg_step s t)"
  shows "cleared (fst s)"
proof -
  obtain w c where s: "s = (w, c)" by (cases s)
  have inv: "conn_inv (w, c)" using conn.run_invariant [OF assms(2,1)] s by simp
  from wg_stuck [OF inv] assms(3) s have "c = Returned \<or> c = SendingClose \<and> watcher w = Notifying" by blast
  with inv show ?thesis unfolding s by (auto simp: conn_inv_def)
qed

section \<open>Properties of a connection\<close>

text \<open>A platform on which every call succeeds, but for the timer and one network call.\<close>

definition sample_cfg :: wireguardConfig where
  "sample_cfg = \<lparr>configFileName = ''space.conf'', configData = ''data'', tunAddress = ''192.168.111.194/32'',
     tunDNS = ''10.12.16.253'', peerAddresses = [''54.82.69.27''], isDefaultRoute = True,
     wgconfig = \<lparr>cfg_PrivateKey = None, cfg_Peers = []\<rparr>\<rparr>"

definition sample_wgctrl :: "int64 \<Rightarrow> int64 \<Rightarrow> unit wgctrl" where
  "sample_wgctrl r s = \<lparr>wgctrl_New = Inr (),
     wgctrl_Device = (\<lambda>_ name. Inr (zero_device\<lparr>DeviceName := name,
       Peers := [zero_peer\<lparr>ReceiveBytes := r, TransmitBytes := s\<rparr>]\<rparr>)),
     wgctrl_ConfigureDevice = (\<lambda>_ _ _. None)\<rparr>"

definition sample_platform :: "(net_call \<Rightarrow> string option) \<Rightarrow> string option \<Rightarrow> unit platform" where
  "sample_platform ncr tmr = \<lparr>isDarwin = False, GetNextAvailabeInterface = (\<lambda>p. (p @ ''0'', None)),
     CreateTUN = (\<lambda>_. None), tun_Name = Inr ''wg0'', device_Up = None, UAPIOpen = (\<lambda>_. None),
     UAPIListen = (\<lambda>_. None), wgctrl_api = sample_wgctrl 0 0, nc_result = (\<lambda>_. ncr), timer_Start = (\<lambda>_. tmr)\<rparr>"

definition sample_client :: "unit wireguard" where
  "sample_client = \<lparr>w_cfg = sample_cfg, w_ifaceName = [], tunnel = NoHandle, device = NoHandle,
     wgctrlService = None, wgctrlClient = None, watcher = NotStarted, nc = [], sent = 0, recd = 1,
     metricsTimer = None, metricsError = None\<rparr>"

lemma sample_client_new:
  "newWireguardClient None sample_cfg True demo_new = (Inr sample_client, snd (snd (new_metrics True demo_new)))"
  by (simp add: newWireguardClient_def new_metrics_def alloc_counter_def NewMonitor_def demo_new_eq
      sample_client_def Let_def)

lemmas connect_defs = wg_Connect_def open_tunnel_def connect_body_def start_services_def
  StartService_def startUAPI_unix_def NewWireguardCtrlService_def NewWireguardCtrlClient_def Configure_def network_plan_def
  sample_platform_def sample_wgctrl_def sample_client_def sample_cfg_def

definition sample_connected :: "unit wireguard" where
  "sample_connected = snd (wg_Connect (sample_platform (\<lambda>_. None) None) sample_client)"

lemma sample_connects:
  "wg_Connect (sample_platform (\<lambda>_. None) None) sample_client = (None, sample_connected)"
  by (simp add: sample_connected_def connect_defs)

lemma connected_initial:
  assumes "newWireguardClient ncErr cfg b ms = (Inr w, ms')" and "wg_Connect env w = (None, w')"
  shows "conn_initial (w', NotCalled)"
  using Connect_cases [OF assms] by (simp add: conn_initial_def)

lemma sample_run: "\<exists>w''. wg_step\<^sup>*\<^sup>* (sample_connected, NotCalled) (w'', Returned)"
proof -
  have "watcher (stop_metrics sample_connected) = Waiting"
    by (simp add: sample_connected_def stop_metrics_def connect_defs)
  from wg_step.disconnect wg_step.receive_close [OF this] wg_step.timed_out
  show ?thesis by (meson converse_rtranclp_into_rtranclp rtranclp.rtrancl_refl)
qed

text \<open>
  C7: a \<open>Disconnect\<close> that returns has left the network cleared, whichever way the device,
  the goroutine and the caller interleave and whether it met the goroutine or timed out.
  If it met the goroutine, the tunnel and the device are closed as well and the control
  service's goroutine has ended.
\<close>

theorem disconnect_cleans:
  assumes "newWireguardClient ncErr cfg b ms = (Inr w, ms')" and "wg_Connect env w = (None, w')"
    and "wg_step\<^sup>*\<^sup>* (w', NotCalled) (w'', Returned)"
  shows "cleared w'' \<and> (watcher w'' = Ended \<longrightarrow> tunnel w'' = IsClosed \<and> device w'' = IsClosed \<and>
    (\<exists>svc. wgctrlService w'' = Some svc \<and> acceptor svc = AcceptorDone))"
  using conn.reachable_invariant [OF connected_initial [OF assms(1,2)] assms(3)]
  by (auto simp: conn_inv_def split: option.splits)

theorem disconnect_cleans_witness:
  "\<exists>w''. wg_step\<^sup>*\<^sup>* (sample_connected, NotCalled) (w'', Returned) \<and> cleared w''"
proof -
  from sample_run obtain w'' where run: "wg_step\<^sup>*\<^sup>* (sample_connected, NotCalled) (w'', Returned)" by blast
  from disconnect_cleans [OF sample_client_new sample_connects run] run show ?thesis by blast
qed

text \<open>
  C8: a connection comes to rest. From a connected client no run has more than ten
  steps, so a \<open>Disconnect\<close> cannot be delayed for ever by the goroutine; and a run that
  cannot go on has the caller returned, or still sending on \<open>close\<close> to a goroutine that
  ended the connection by itself and is blocked on \<open>disconnected\<close>.
\<close>

theorem disconnect_bounded:
  assumes "newWireguardClient ncErr cfg b ms = (Inr w, ms')" and "wg_Connect env w = (None, w')"
    and "(wg_step ^^ n) (w', NotCalled) (w'', c)"
  shows "n \<le> 10 \<and> ((\<exists>t. wg_step (w'', c) t) \<or> c = Returned \<or> c = SendingClose \<and> watcher w'' = Notifying)"
proof -
  have "steps_left (w', NotCalled) \<le> 10" using Connect_cases [OF assms(1,2)] by (simp add: steps_left_def)
  with conn.run_bounded [OF assms(3) conn_initial_inv [OF connected_initial [OF assms(1,2)]]]
  have "n \<le> 10" by simp
  moreover have "conn_inv (w'', c)"
    using conn.reachable_invariant [OF connected_initial [OF assms(1,2)] relpowp_imp_rtranclp [OF assms(3)]] .
  ultimately show ?thesis using wg_stuck by blast
qed

theorem disconnect_bounded_witness:
  "\<exists>n w''. (wg_step ^^ n) (sample_connected, NotCalled) (w'', Returned) \<and> n \<le> 10"
proof -
  from sample_run obtain w'' n where run: "(wg_step ^^ n) (sample_connected, NotCalled) (w'', Returned)"
    by (auto dest: rtranclp_imp_relpowp)
  from disconnect_bounded [OF sample_client_new sample_connects run] run show ?thesis by blast
qed

text \<open>
  C34: \<open>Disconnect\<close> never returns when no goroutine receives on \<open>close\<close>: on a client that
  was never connected, or whose goroutine has left its first wait because the device went
  away. The send is outside the select that has the timeout.
\<close>

theorem late_disconnect_blocks:
  assumes "watcher w \<noteq> Waiting" and "wg_step\<^sup>*\<^sup>* (w, NotCalled) (w', c)"
  shows "c = NotCalled \<or> c = SendingClose"
  using late_disconnect_waits [OF assms(2,1)] by simp

theorem late_disconnect_blocks_witness:
  "watcher sample_client = NotStarted \<and> \<not> (\<exists>w'. wg_step\<^sup>*\<^sup>* (sample_client, NotCalled) (w', Returned))"
proof -
  have idle: "watcher sample_client = NotStarted" by (simp add: sample_client_def)
  show ?thesis using late_disconnect_blocks [of sample_client _ Returned] idle by auto
qed

text \<open>
  A control client that cannot be created leaves the control service running: its
  listener is open and its goroutine accepts, but nothing will ever stop it, because the
  teardown goroutine was not started.
\<close>

theorem ctrl_client_failure_leaks_listener:
  assumes "newWireguardClient ncErr cfg b ms = (Inr w, ms')" and "open_tunnel env w = (None, w1)"
    and "device_Up env = None" and "UAPIOpen env (w_ifaceName w1) = None"
    and "UAPIListen env (w_ifaceName w1) = None" and "wgctrl_New (wgctrl_api env) = Inl e"
  shows "\<exists>w'. wg_Connect env w = (Some e, w') \<and> serving w' \<and> watcher w' = NotStarted"
  using assms new_client_fields [OF assms(1)] open_tunnel_cases [OF assms(2)]
  by (simp add: wg_Connect_def connect_body_def start_services_def StartService_def startUAPI_unix_def serving_def
      NewWireguardCtrlService_def NewWireguardCtrlClient_def)

section \<open>The Windows client\<close>

lemma LastIndex_append:
  "LastIndex (xs @ ys) c = (case LastIndex ys c of Some i \<Rightarrow> Some (length xs + i) | None \<Rightarrow> LastIndex xs c)"
  by (induction xs) (auto split: option.splits)

lemma allowed_loop_file: "allowed_loop ips r = Inr r' \<Longrightarrow> configFileName (rd_c r') = configFileName (rd_c r)"
  by (induction ips r rule: allowed_loop.induct) (auto simp: Let_def split: option.splits if_splits)

lemma peer_key_file: "peer_key wg resolve k v r = Inr r' \<Longrightarrow> configFileName (rd_c r') = configFileName (rd_c r)"
  by (auto simp: peer_key_def dest: allowed_loop_file split: if_splits sum.splits)

lemma interface_key_file: "interface_key wg k v r = Inr r' \<Longrightarrow> configFileName (rd_c r') = configFileName (rd_c r)"
  by (auto simp: interface_key_def split: if_splits sum.splits)

lemma finish_peer_file [simp]: "configFileName (rd_c (finish_peer r)) = configFileName (rd_c r)"
  by (simp add: finish_peer_def)

lemma read_line_file: "read_line wg resolve l r = Inr r' \<Longrightarrow> configFileName (rd_c r') = configFileName (rd_c r)"
  by (auto simp: read_line_def dest: peer_key_file interface_key_file split: option.splits if_splits)

lemma read_lines_file: "read_lines wg resolve ls r = Inr r' \<Longrightarrow> configFileName (rd_c r') = configFileName (rd_c r)"
  by (induction wg resolve ls r rule: read_lines.induct) (auto dest: read_line_file split: sum.splits)

lemma read_config_file:
  assumes "newWireguardConfigFromTarget wg resolve cd = Inr cfg"
  shows "configFileName cfg = cd_Name cd @ ''.conf''"
  using assms
  by (auto simp: newWireguardConfigFromTarget_def new_reader_def dest!: read_lines_file split: sum.splits)

lemma drive_paths_set:
  "set (drive_paths j acc ds) =
     set acc \<union> (\<lambda>d. j [d, ''Program Files'', ''WireGuard'']) ` set ds \<union> (\<lambda>d. j [d, ''WireGuard'']) ` set ds"
  by (induction j acc ds rule: drive_paths.induct) auto

text \<open>
  C35: on Windows an executable that the search finds in the program's own directory, or
  in one of the two directories of any drive, is found by the initialisation, and a
  configuration that was read then gives a client whose tunnel has the name of the
  configuration, whatever characters that name has: the file name always has the dot at
  which it is cut, so the slice never panics.
\<close>

theorem windows_client_made:
  assumes "DevNull_Open env = None" and "Executable env = Inr prog" and "GetLogicalDrives env = Inr drives"
    and "dir = win_Dir env prog \<or>
      (\<exists>d \<in> set drives. dir = win_Join env [d, ''Program Files'', ''WireGuard''] \<or> dir = win_Join env [d, ''WireGuard''])"
    and "\<And>paths. dir \<in> set paths \<Longrightarrow> \<exists>exe. CreateCLI env paths = Inr exe"
    and "newWireguardConfigFromTarget wg resolve cd = Inr cfg"
  shows "\<exists>paths wireguardEXE w ms'. win_init env = Ret (paths, wireguardEXE) \<and>
    newWireguardClient_windows wireguardEXE tempPath fs cfg b ms = Ret (Inr w, ms') \<and>
    tunnelName w = cd_Name cd \<and> configFilePath w = tempPath (cd_Name cd @ ''.conf'')"
proof -
  let ?paths = "drive_paths (win_Join env) [win_Dir env prog] drives"
  have "dir \<in> set ?paths" using assms(4) by (auto simp: drive_paths_set)
  then obtain exe where "CreateCLI env ?paths = Inr exe" using assms(5) by blast
  then have "win_init env = Ret (?paths, Some exe)" using assms(1-3) by (simp add: win_init_def)
  moreover have "LastIndex (configFileName cfg) (CHR ''.'') = Some (length (cd_Name cd))"
    by (simp add: read_config_file [OF assms(6)] LastIndex_append)
  ultimately show ?thesis
    by (simp add: newWireguardClient_windows_def read_config_file [OF assms(6)] Let_def case_prod_beta)
qed

definition sample_search :: "unit win_search" where
  "sample_search = \<lparr>DevNull_Open = None, Executable = Inr ''C:/mycs/cli.exe'', win_Dir = (\<lambda>_. ''C:/mycs''),
     win_Join = join ''/'', GetLogicalDrives = Inr [''C:'', ''D:''],
     CreateCLI = (\<lambda>paths. if ''D:/WireGuard'' \<in> set paths then Inr () else Inl ''not found'')\<rparr>"

theorem windows_client_made_witness:
  "\<exists>cfg paths wireguardEXE w ms'.
     newWireguardConfigFromTarget sample_keys sample_resolve (WireguardData (sample_data ''host:51820'')) = Inr cfg \<and>
     win_init sample_search = Ret (paths, wireguardEXE) \<and>
     newWireguardClient_windows wireguardEXE (\<lambda>f. ''/tmp/'' @ f) Map.empty cfg True demo_new = Ret (Inr w, ms') \<and>
     tunnelName w = wgd_name (sample_data ''host:51820'')"
proof -
  obtain cfg where cfg: "newWireguardConfigFromTarget sample_keys sample_resolve
      (WireguardData (sample_data ''host:51820'')) = Inr cfg"
    using read_data [OF sample_data_wf] by blast
  have "\<exists>paths wireguardEXE w ms'. win_init sample_search = Ret (paths, wireguardEXE) \<and>
      newWireguardClient_windows wireguardEXE (\<lambda>f. ''/tmp/'' @ f) Map.empty cfg True demo_new = Ret (Inr w, ms') \<and>
      tunnelName w = cd_Name (WireguardData (sample_data ''host:51820'')) \<and>
      configFilePath w = ''/tmp/'' @ (cd_Name (WireguardData (sample_data ''host:51820'')) @ ''.conf'')"
    by (rule windows_client_made [where dir = "''D:/WireGuard''" and prog = "''C:/mycs/cli.exe''"
        and drives = "[''C:'', ''D:'']", OF _ _ _ _ _ cfg]) (simp_all add: sample_search_def)
  with cfg show ?thesis by (auto simp: wgd_Name_def)
qed

text \<open>
  What a Windows \<open>Connect\<close> leaves behind once the configuration file is written. When
  the service cannot be installed, the file stays; when the control client cannot be
  created or the timer not started, the tunnel is uninstalled again and, if that worked,
  the file is gone, although in the second case no error is returned; otherwise the file
  and the service stay.
\<close>

theorem windows_connect_outcome:
  assumes "WriteFile env (configFilePath w) = None"
  defines "install \<equiv> [''/installtunnelservice'', configFilePath w]"
    and "uninstall \<equiv> [''/uninstalltunnelservice'', tunnelName w]"
    and "written \<equiv> (files w)(configFilePath w \<mapsto> configData (ww_cfg w))"
  shows "case (exe_Run env install, wgctrl_New (win_wgctrl env), win_timer_Start env 500) of
      (Some e, _, _) \<Rightarrow> \<exists>w'. win_Connect env w = (Some e, w') \<and> files w' = written \<and>
        exe_runs w' = exe_runs w @ [install]
    | (None, Inr _, None) \<Rightarrow> \<exists>w'. win_Connect env w = (None, w') \<and> files w' = written \<and>
        exe_runs w' = exe_runs w @ [install] \<and> ww_metricsTimer w' = Some True
    | (None, c, _) \<Rightarrow> \<exists>w'. win_Connect env w = ((case c of Inl e \<Rightarrow> Some e | Inr _ \<Rightarrow> None), w') \<and>
        files w' = (if exe_Run env uninstall = None then (files w)(configFilePath w := None) else written) \<and>
        exe_runs w' = exe_runs w @ [install, uninstall]"
  using assms(1)
  by (simp add: win_Connect_def win_Disconnect_def run_exe_def NewWireguardCtrlClient_def Let_def
      install_def uninstall_def written_def split: option.split sum.split)

theorem windows_connect_outcome_witness:
  "let env = \<lparr>WriteFile = (\<lambda>_. None), exe_Run = (\<lambda>_. None), win_wgctrl = (sample_wgctrl 0 0)\<lparr>wgctrl_New := Inl ''no access''\<rparr>,
         win_timer_Start = (\<lambda>_. None)\<rparr>;
       w = \<lparr>ww_cfg = sample_cfg, tunnelName = ''space'', configFilePath = ''/tmp/space.conf'', ww_wgctrlClient = None,
         ww_sent = 0, ww_recd = 1, ww_metricsTimer = None, files = Map.empty, exe_runs = []\<rparr>
   in \<exists>w'. win_Connect env w = (Some ''no access'', w') \<and> files w' = Map.empty \<and>
        exe_runs w' = [[''/installtunnelservice'', ''/tmp/space.conf''], [''/uninstalltunnelservice'', ''space'']]"
  using windows_connect_outcome [of "\<lparr>WriteFile = (\<lambda>_. None), exe_Run = (\<lambda>_. None),
      win_wgctrl = (sample_wgctrl 0 0)\<lparr>wgctrl_New := Inl ''no access''\<rparr>, win_timer_Start = (\<lambda>_. None)\<rparr>"
      "\<lparr>ww_cfg = sample_cfg, tunnelName = ''space'', configFilePath = ''/tmp/space.conf'', ww_wgctrlClient = None,
         ww_sent = 0, ww_recd = 1, ww_metricsTimer = None, files = Map.empty, exe_runs = []\<rparr>"]
  by (simp add: sample_wgctrl_def)

end
