(* ===== verification/Vpn_Traffic.thy ===== *)
theory Vpn_Traffic
  imports Wg_Client_Props
begin

text \<open>
  The WireGuard client and the monitor service together: the client's timer copies the
  device's byte counts into two counters, the service collects and posts them. The state
  of the composition is the client, the service, the events its sender has accepted and,
  for the specification only, the last positive counts read from the device.
\<close>

section \<open>The composition\<close>

type_synonym ('c, 'ev) vpn_state = "'c wireguard \<times> 'ev monitorService \<times> 'ev list \<times> int64 \<times> int64"

text \<open>The counts a run of the timer sees; a count that is not positive is passed over.\<close>

definition observe :: "'c wgctrl \<Rightarrow> 'c wireguard \<Rightarrow> int64 \<times> int64 \<Rightarrow> int64 \<times> int64" where
  "observe api w = (\<lambda>(lr, ls). case wgctrlClient w of None \<Rightarrow> (lr, ls) | Some cl \<Rightarrow>
     (case ctrl_BytesTransmitted api cl of
        (r, s, None) \<Rightarrow> (if 0 <s r then r else lr, if 0 <s s then s else ls)
      | (r, s, Some e) \<Rightarrow> (lr, ls)))"

text \<open>
  The steps: connecting, the teardown and a disconnect, the metrics timer with whatever
  the control package answers, and every step of the monitor service in which no other
  client updates a counter.
\<close>

inductive vpn_step ::
    "'ev ce_api \<Rightarrow> (nat \<Rightarrow> int64) \<Rightarrow> ('c, 'ev) vpn_state \<Rightarrow> ('c, 'ev) vpn_state \<Rightarrow> bool"
  for api now
where
  connect: "wg_Connect env w = (res, w') \<Longrightarrow> vpn_step api now (w, ms, d, l) (w', ms, d, l)"
| teardown: "wg_step (w, c) (w', c') \<Longrightarrow> vpn_step api now (w, ms, d, l) (w', ms, d, l)"
| record_metrics: "recordNetworkMetrics wc w ms = Ret (next, w', ms') \<Longrightarrow>
    vpn_step api now (w, ms, d, l) (w', ms', d, observe wc w l)"
| service: "service_step api now (ms, d) (ms', d') \<Longrightarrow> same_counters (counters ms) (counters ms') \<Longrightarrow>
    vpn_step api now (w, ms, d, l) (w, ms', d', l)"

section \<open>What the steps keep\<close>

definition same_metrics :: "'c wireguard \<Rightarrow> 'c wireguard \<Rightarrow> bool" where
  "same_metrics w w' \<longleftrightarrow> sent w' = sent w \<and> recd w' = recd w"

lemma same_metrics_trans: "same_metrics u v \<Longrightarrow> same_metrics v w \<Longrightarrow> same_metrics u w"
  by (simp add: same_metrics_def)

lemma connect_same_metrics:
  assumes "wg_Connect env w = (res, w')"
  shows "same_metrics w w'"
proof -
  have o1: "same_metrics u u'" if "open_tunnel env u = (r, u')" for u u' r
    using that by (auto simp: open_tunnel_def Let_def same_metrics_def split: option.splits prod.splits)
  have s1: "same_metrics u u'" if "start_services env u = (r, u')" for u u' r
    using that by (auto simp: start_services_def same_metrics_def split: option.splits prod.splits sum.splits)
  have n1: "same_metrics u u'" if "nc_calls env cs u = (r, u')" for u u' r cs
    using nc_calls_frame [OF that] by (auto simp: same_metrics_def)
  have b1: "same_metrics u u'" if "connect_body env u = (r, e, u')" for u u' r e
    using that by (auto simp: connect_body_def same_metrics_def split: option.splits prod.splits
        dest!: s1 [unfolded same_metrics_def] n1 [unfolded same_metrics_def])
  show ?thesis
    using assms by (auto simp: wg_Connect_def same_metrics_def split: option.splits prod.splits if_splits
        dest!: o1 [unfolded same_metrics_def] b1 [unfolded same_metrics_def])
qed

lemma teardown_same_metrics: "wg_step s t \<Longrightarrow> same_metrics (fst s) (fst t)"
  by (induction rule: wg_step.induct) (simp_all add: same_metrics_def stop_metrics_def)

text \<open>
  The counter at position \<open>r\<close> is the only one of its name, is cumulative and shows \<open>v\<close>.
\<close>

definition sole_counter :: "string \<Rightarrow> cref \<Rightarrow> int64 \<Rightarrow> counter list \<Rightarrow> bool" where
  "sole_counter n r v st \<longleftrightarrow> r < length st \<and> (\<forall>i < length st. ctr_name (st ! i) = n \<longleftrightarrow> i = r) \<and>
     cumalative (st ! r) \<and> Get (st ! r) = v"

lemma sole_counter_reading:
  assumes "sole_counter n r v st"
  shows "reading_total n st = v"
proof -
  have "reading_total n st = (\<Sum>i = 0..<length st. if ctr_name (st ! i) = n then Get (st ! i) else 0)"
    by (simp add: reading_total_def sum_list_sum_nth)
  also have "\<dots> = (\<Sum>i = 0..<length st. if i = r then Get (st ! i) else 0)"
    using assms by (intro sum.cong) (auto simp: sole_counter_def)
  also have "\<dots> = v" using assms by (simp add: sole_counter_def)
  finally show ?thesis .
qed

lemma sole_counter_cumalative: "sole_counter n r v st \<Longrightarrow> all_cumalative n st"
  by (auto simp: sole_counter_def all_cumalative_def list_all_length)

lemma sole_counter_same: "sole_counter n r v st \<Longrightarrow> same_counters st st' \<Longrightarrow> sole_counter n r v st'"
  by (auto simp: sole_counter_def same_counters_length same_counters_nth)

lemma Set_Get: "cumalative c \<Longrightarrow> Get (Set v c) = v"
  by (simp add: counter_defs)

lemma sole_counter_set:
  "sole_counter n r v st \<Longrightarrow> sole_counter n r v' (st[r := apply_op (OpSet v') (st ! r)])"
  using apply_op_frame [of "OpSet v'" "st ! r"]
  by (auto simp: sole_counter_def nth_list_update Set_Get)

lemma sole_counter_other:
  "sole_counter n r v st \<Longrightarrow> q \<noteq> r \<Longrightarrow> sole_counter n r v (st[q := apply_op u (st ! q)])"
  by (cases "q < length st") (auto simp: sole_counter_def nth_list_update)

section \<open>The invariant\<close>

definition vpn_inv :: "'ev ce_api \<Rightarrow> ('c, 'ev) vpn_state \<Rightarrow> bool" where
  "vpn_inv api = (\<lambda>(w, ms, d, lr, ls). service_inv api (ms, d) \<and>
     sole_counter ''recd'' (recd w) lr (counters ms) \<and> sole_counter ''sent'' (sent w) ls (counters ms))"

definition vpn_initial :: "'ev ce_api \<Rightarrow> ('c, 'ev) vpn_state \<Rightarrow> bool" where
  "vpn_initial api = (\<lambda>(w, ms, d, lr, ls). lr = 0 \<and> ls = 0 \<and>
     (\<exists>ms0 cfg b. service_inv api (ms0, d) \<and>
        (\<forall>c \<in> set (counters ms0). ctr_name c \<noteq> ''recd'' \<and> ctr_name c \<noteq> ''sent'') \<and>
        newWireguardClient None cfg b ms0 = (Inr w, ms)))"

lemma service_inv_step: "ce_laws api \<Longrightarrow> service_inv api s \<Longrightarrow> service_step api now s t \<Longrightarrow> service_inv api t"
  using svc.step_invariant [of api s now t] by (simp add: lawful_step_def)

lemma service_inv_set:
  "ce_laws api \<Longrightarrow> service_inv api (ms, d) \<Longrightarrow> r < length (counters ms) \<Longrightarrow>
   service_inv api (update_counter u r ms, d)"
  by (blast intro: service_inv_step service_step.update)

lemma NewCounter_attribs: "NewCounter n cum z = NewCounterWithAttribs n cum z None"
  by (simp add: counter_defs)

lemma new_metrics_inv:
  assumes laws: "ce_laws api" and inv: "service_inv api (ms0, d)" and new: "new_metrics b ms0 = (s, r, ms)"
  shows "service_inv api (ms, d)"
proof -
  note step = service_inv_step [OF laws]
  let ?m1 = "snd (alloc_counter (NewCounter ''sent'' True True) ms0)"
  let ?m2 = "snd (alloc_counter (NewCounter ''recd'' True True) ?m1)"
  let ?m3 = "snd (NewMonitor ''space-vpn'' ?m2)"
  let ?m = "length (monitors ms0)" and ?s = "length (counters ms0)"
  have i2: "service_inv api (?m2, d)"
    unfolding NewCounter_attribs by (intro step [OF _ service_step.new_counter] inv)
  then have i3: "service_inv api (?m3, d)" by (rule step [OF _ service_step.new_monitor])
  have "service_inv api (AddCounter ?m ?s ?m3, d)"
    by (rule step [OF i3 service_step.add_counter]) (simp_all add: NewMonitor_def alloc_counter_def)
  then have "service_inv api (AddCounter ?m (Suc ?s) (AddCounter ?m ?s ?m3), d)"
    by (rule step [OF _ service_step.add_counter]) (simp_all add: NewMonitor_def alloc_counter_def AddCounter_def)
  with i2 new show ?thesis
    by (cases b) (auto simp: new_metrics_def alloc_counter_def NewMonitor_def Let_def)
qed

lemma new_metrics_counters:
  "new_metrics b ms0 = (s, r, ms) \<Longrightarrow> s = length (counters ms0) \<and> r = Suc s \<and>
   counters ms = counters ms0 @ [NewCounter ''sent'' True True, NewCounter ''recd'' True True]"
  by (auto simp: new_metrics_def alloc_counter_def NewMonitor_def AddCounter_def Let_def split: if_splits)

lemma vpn_initial_inv:
  assumes "ce_laws api" and "vpn_initial api s"
  shows "vpn_inv api s"
proof -
  obtain w ms d lr ls where s: "s = (w, ms, d, lr, ls)" by (cases s)
  with assms(2) obtain ms0 cfg b where inv: "service_inv api (ms0, d)"
    and fresh: "\<forall>c \<in> set (counters ms0). ctr_name c \<noteq> ''recd'' \<and> ctr_name c \<noteq> ''sent''"
    and new: "newWireguardClient None cfg b ms0 = (Inr w, ms)" and zero: "lr = 0" "ls = 0"
    by (auto simp: vpn_initial_def)
  from new have m: "new_metrics b ms0 = (sent w, recd w, ms)"
    by (auto simp: newWireguardClient_def split: prod.splits)
  note c = new_metrics_counters [OF m]
  have old: "ctr_name (counters ms0 ! i) \<noteq> ''recd'' \<and> ctr_name (counters ms0 ! i) \<noteq> ''sent''"
    if "i < length (counters ms0)" for i using fresh that by simp
  have "sole_counter ''recd'' (recd w) 0 (counters ms)" "sole_counter ''sent'' (sent w) 0 (counters ms)"
    using c old by (auto simp: sole_counter_def nth_append counter_defs less_Suc_eq)
  with new_metrics_inv [OF assms(1) inv m] show ?thesis by (simp add: vpn_inv_def s zero)
qed

lemma sole_counter_distinct:
  assumes "sole_counter ''recd'' r v st" and "sole_counter ''sent'' s u st"
  shows "r \<noteq> s"
proof
  assume "r = s"
  with assms have "ctr_name (st ! r) = ''recd''" "ctr_name (st ! r) = ''sent''"
    by (simp_all add: sole_counter_def)
  then show False by simp
qed

text \<open>One run of the metrics timer, as at most two assignments to counters.\<close>

lemma record_metrics_inv:
  assumes laws: "ce_laws api" and inv: "vpn_inv api (w, ms, d, lr, ls)"
    and rec: "recordNetworkMetrics wc w ms = Ret (to, w', ms')"
  shows "vpn_inv api (w', ms', d, observe wc w (lr, ls))"
proof -
  from rec obtain cl where cl: "wgctrlClient w = Some cl"
    by (auto simp: recordNetworkMetrics_def split: option.splits)
  obtain r s e where b: "ctrl_BytesTransmitted wc cl = (r, s, e)" by (cases "ctrl_BytesTransmitted wc cl")
  from inv have si: "service_inv api (ms, d)" and sr: "sole_counter ''recd'' (recd w) lr (counters ms)"
    and ss: "sole_counter ''sent'' (sent w) ls (counters ms)" by (simp_all add: vpn_inv_def)
  show ?thesis
  proof (cases e)
    case (Some x)
    with rec cl b inv show ?thesis by (auto simp: recordNetworkMetrics_def observe_def vpn_inv_def)
  next
    case None
    define ms1 where "ms1 = (if 0 <s r then update_counter (OpSet r) (recd w) ms else ms)"
    have out: "w' = w" "ms' = (if 0 <s s then update_counter (OpSet s) (sent w) ms1 else ms1)"
      using rec cl b None by (auto simp: recordNetworkMetrics_def ms1_def Let_def)
    define lr' where "lr' = (if 0 <s r then r else lr)"
    have i1: "service_inv api (ms1, d)"
      using service_inv_set [OF laws si] si sr by (simp add: ms1_def sole_counter_def)
    have r1: "sole_counter ''recd'' (recd w) lr' (counters ms1)"
      using sole_counter_set [OF sr] sr by (simp add: ms1_def lr'_def update_counter_def)
    have s1: "sole_counter ''sent'' (sent w) ls (counters ms1)"
      using sole_counter_other [OF ss sole_counter_distinct [OF sr ss], of "OpSet r"] ss
      by (simp add: ms1_def update_counter_def)
    have i2: "service_inv api (ms', d)"
      using service_inv_set [OF laws i1] i1 s1 by (simp add: out sole_counter_def)
    have r2: "sole_counter ''recd'' (recd w) lr' (counters ms')"
      using sole_counter_other [OF r1 sole_counter_distinct [OF r1 s1, symmetric], of "OpSet s"] r1
      by (simp add: out update_counter_def)
    have s2: "sole_counter ''sent'' (sent w) (if 0 <s s then s else ls) (counters ms')"
      using sole_counter_set [OF s1] s1 by (simp add: out update_counter_def)
    show ?thesis using i2 r2 s2 cl b None by (simp add: vpn_inv_def observe_def out lr'_def)
  qed
qed

lemma vpn_step_inv:
  assumes "vpn_step api now s t" and "ce_laws api" and "vpn_inv api s"
  shows "vpn_inv api t"
  using assms
proof (induction rule: vpn_step.induct)
  case (connect env w res w' ms d l)
  then show ?case using connect_same_metrics [OF connect(1)] by (auto simp: vpn_inv_def same_metrics_def)
next
  case (teardown w c w' c' ms d l)
  then show ?case using teardown_same_metrics [OF teardown(1)] by (auto simp: vpn_inv_def same_metrics_def)
next
  case (record_metrics wc w ms to w' ms' d l)
  then show ?case by (cases l) (simp add: record_metrics_inv)
next
  case (service ms d ms' d' w l)
  then show ?case
    using service_inv_step [OF service(3) _ service(1)] by (auto simp: vpn_inv_def sole_counter_same)
qed

definition lawful_vpn_step ::
    "'ev ce_api \<Rightarrow> (nat \<Rightarrow> int64) \<Rightarrow> ('c, 'ev) vpn_state \<Rightarrow> ('c, 'ev) vpn_state \<Rightarrow> bool" where
  "lawful_vpn_step api now s t \<longleftrightarrow> ce_laws api \<and> vpn_step api now s t"

definition lawful_vpn_initial :: "'ev ce_api \<Rightarrow> ('c, 'ev) vpn_state \<Rightarrow> bool" where
  "lawful_vpn_initial api s \<longleftrightarrow> ce_laws api \<and> vpn_initial api s"

interpretation vpn: transition_system "lawful_vpn_initial api" "lawful_vpn_step api now" "vpn_inv api" for api now
  by unfold_locales
    (auto simp: lawful_vpn_initial_def lawful_vpn_step_def intro: vpn_initial_inv vpn_step_inv)

lemma lawful_vpn_step_eq: "ce_laws api \<Longrightarrow> lawful_vpn_step api now = vpn_step api now"
  by (intro ext) (simp add: lawful_vpn_step_def)

lemma vpn_run_inv:
  assumes "ce_laws api" and "vpn_initial api s" and "(vpn_step api now)\<^sup>*\<^sup>* s t"
  shows "vpn_inv api t"
  using vpn.reachable_invariant [of api s now t] assms
  by (simp add: lawful_vpn_initial_def lawful_vpn_step_eq)

end
