(* ===== verification/Wg_Connect_Race.thy ===== *)
theory Wg_Connect_Race
  imports Wg_Client_Props
begin

text \<open>
  \<open>Connect\<close> and the goroutine it starts run at the same time: here every statement of
  \<open>Connect\<close> after the start of the goroutine is a step of its own, interleaved with the
  goroutine's and, if \<open>loss\<close> is set, with the device going away. As long as the device
  stays, \<open>wg_Connect\<close> followed by the goroutine is all that can happen; what is left behind
  when it does not stay is shown for the interleaved \<open>Connect\<close> as well. No \<open>Disconnect\<close> is
  called before \<open>Connect\<close> returns.
\<close>

section \<open>The statements of Connect as steps\<close>

text \<open>The statement \<open>Connect\<close> is at; those of the deferred function have the result to return.\<close>

datatype connect_pc =
    AtConfigure | AtDisableIPv6 | AtNewRouteManager | AtAddExternalRoute | AtNewRoutableInterface
  | AtMakeDefaultRoute | AtNewDNSManager | AtAddDNSServers | AtAddSearchDomains | AtTimer
  | AtCloseTunnel "string option" | AtCloseDevice "string option" | ConnectReturned "string option"

text \<open>The call a statement makes on the network context, and the statement after it.\<close>

fun net_stmt :: "connect_pc \<Rightarrow> 'c wireguard \<Rightarrow> (net_call \<times> connect_pc) option" where
  "net_stmt AtDisableIPv6 w = Some (DisableIPv6, AtNewRouteManager)"
| "net_stmt AtNewRouteManager w = Some (NewRouteManager, AtAddExternalRoute)"
| "net_stmt AtAddExternalRoute w = Some (AddExternalRouteToIPs (peerAddresses (w_cfg w)), AtNewRoutableInterface)"
| "net_stmt AtNewRoutableInterface w = Some (NewRoutableInterface (w_ifaceName w) (tunAddress (w_cfg w)),
     if isDefaultRoute (w_cfg w) then AtMakeDefaultRoute else AtNewDNSManager)"
| "net_stmt AtMakeDefaultRoute w = Some (MakeDefaultRoute, AtNewDNSManager)"
| "net_stmt AtNewDNSManager w = Some (NewDNSManager, AtAddDNSServers)"
| "net_stmt AtAddDNSServers w = Some (AddDNSServers [tunDNS (w_cfg w)], AtAddSearchDomains)"
| "net_stmt AtAddSearchDomains w = Some (AddSearchDomains [], AtTimer)"
| "net_stmt _ w = None"

text \<open>A statement of the goroutine, while no \<open>Disconnect\<close> is called.\<close>

definition goroutine_step :: "'c wireguard \<Rightarrow> 'c wireguard \<Rightarrow> bool" where
  "goroutine_step w w' \<longleftrightarrow> wg_step (w, NotCalled) (w', NotCalled) \<and> watcher w' \<noteq> watcher w"

text \<open>
  A device that has gone away may make any statement fail, whatever the platform would
  have answered.
\<close>

inductive connect_step ::
    "bool \<Rightarrow> 'c platform \<Rightarrow> 'c wireguard \<times> connect_pc \<Rightarrow> 'c wireguard \<times> connect_pc \<Rightarrow> bool"
  for loss env
where
  configured: "Configure (wgctrl_api env) (wgconfig (w_cfg w)) (the (wgctrlClient w)) = None \<Longrightarrow>
    connect_step loss env (w, AtConfigure) (w, AtDisableIPv6)"
| not_configured: "Configure (wgctrl_api env) (wgconfig (w_cfg w)) (the (wgctrlClient w)) = Some e \<or> device w = IsClosed \<Longrightarrow>
    connect_step loss env (w, AtConfigure) (w, AtCloseTunnel (Some e))"
| net: "net_stmt pc w = Some (c, pc') \<Longrightarrow> nc_result env (nc w) c = None \<Longrightarrow>
    connect_step loss env (w, pc) (w\<lparr>nc := nc w @ [c]\<rparr>, pc')"
| net_fails: "net_stmt pc w = Some (c, pc') \<Longrightarrow> nc_result env (nc w) c = Some e \<or> device w = IsClosed \<Longrightarrow>
    connect_step loss env (w, pc) (w\<lparr>nc := nc w @ [c]\<rparr>, AtCloseTunnel (Some e))"
| timer_started: "timer_Start env 500 = None \<Longrightarrow>
    connect_step loss env (w, AtTimer) (w\<lparr>metricsTimer := Some True\<rparr>, ConnectReturned None)"
| timer_fails: "timer_Start env 500 = Some e \<Longrightarrow>
    connect_step loss env (w, AtTimer) (w\<lparr>metricsTimer := Some False\<rparr>, AtCloseTunnel None)"
| deferred_tunnel: "connect_step loss env (w, AtCloseTunnel r) (w\<lparr>tunnel := IsClosed\<rparr>, AtCloseDevice r)"
| deferred_device: "connect_step loss env (w, AtCloseDevice r) (w\<lparr>device := IsClosed\<rparr>, ConnectReturned r)"
| goroutine: "goroutine_step w w' \<Longrightarrow> connect_step loss env (w, pc) (w', pc)"
| device_lost: "loss \<Longrightarrow> device w = IsOpen \<Longrightarrow>
    connect_step loss env (w, pc) (w\<lparr>device := IsClosed\<rparr>, pc)"

text \<open>The whole of \<open>Connect\<close>: its result, and the client when it has returned or later.\<close>

inductive connect_run :: "bool \<Rightarrow> 'c platform \<Rightarrow> 'c wireguard \<Rightarrow> string option \<Rightarrow> 'c wireguard \<Rightarrow> bool"
  for loss env w
where
  no_tunnel: "open_tunnel env w = (Some e, w1) \<Longrightarrow> connect_run loss env w (Some e) w1"
| no_services: "open_tunnel env w = (None, w1) \<Longrightarrow> start_services env (w1\<lparr>device := IsOpen\<rparr>) = (Some e, w2) \<Longrightarrow>
    connect_run loss env w (Some e) (w2\<lparr>tunnel := IsClosed, device := IsClosed\<rparr>)"
| running: "open_tunnel env w = (None, w1) \<Longrightarrow> start_services env (w1\<lparr>device := IsOpen\<rparr>) = (None, w2) \<Longrightarrow>
    (connect_step loss env)\<^sup>*\<^sup>* (w2, AtConfigure) (w', ConnectReturned res) \<Longrightarrow> connect_run loss env w res w'"

section \<open>The sequential result\<close>

text \<open>The calls on the network context still to be made at a statement.\<close>

definition dns_calls :: "'c wireguard \<Rightarrow> net_call list" where
  "dns_calls w = [NewDNSManager, AddDNSServers [tunDNS (w_cfg w)], AddSearchDomains []]"

definition route_calls :: "'c wireguard \<Rightarrow> net_call list" where
  "route_calls w = NewRoutableInterface (w_ifaceName w) (tunAddress (w_cfg w)) #
     (if isDefaultRoute (w_cfg w) then [MakeDefaultRoute] else []) @ dns_calls w"

primrec remaining :: "connect_pc \<Rightarrow> 'c wireguard \<Rightarrow> net_call list" where
  "remaining AtConfigure w = []"
| "remaining AtDisableIPv6 w = DisableIPv6 # NewRouteManager # AddExternalRouteToIPs (peerAddresses (w_cfg w)) # route_calls w"
| "remaining AtNewRouteManager w = NewRouteManager # AddExternalRouteToIPs (peerAddresses (w_cfg w)) # route_calls w"
| "remaining AtAddExternalRoute w = AddExternalRouteToIPs (peerAddresses (w_cfg w)) # route_calls w"
| "remaining AtNewRoutableInterface w = route_calls w"
| "remaining AtMakeDefaultRoute w = MakeDefaultRoute # dns_calls w"
| "remaining AtNewDNSManager w = dns_calls w"
| "remaining AtAddDNSServers w = tl (dns_calls w)"
| "remaining AtAddSearchDomains w = tl (tl (dns_calls w))"
| "remaining AtTimer w = []"
| "remaining (AtCloseTunnel r) w = []"
| "remaining (AtCloseDevice r) w = []"
| "remaining (ConnectReturned r) w = []"

lemmas call_defs = route_calls_def dns_calls_def

lemma remaining_step: "net_stmt pc w = Some (c, pc') \<Longrightarrow> remaining pc w = c # remaining pc' w"
  by (cases pc) (auto simp: call_defs)

lemma net_stmt_call: "net_stmt pc w = Some (c, pc') \<Longrightarrow> c \<noteq> Clear \<and> (net_stmt pc' w \<noteq> None \<or> pc' = AtTimer)"
  by (cases pc) auto

lemma remaining_cong: "w_cfg w' = w_cfg w \<Longrightarrow> w_ifaceName w' = w_ifaceName w \<Longrightarrow> remaining pc w' = remaining pc w"
  by (cases pc) (auto simp: call_defs)

lemma net_stmt_cong: "w_cfg w' = w_cfg w \<Longrightarrow> w_ifaceName w' = w_ifaceName w \<Longrightarrow> net_stmt pc w' = net_stmt pc w"
  by (cases pc) auto

lemma remaining_plan: "remaining AtDisableIPv6 w = network_plan w"
  by (simp add: network_plan_def call_defs)

definition close_all :: "'c wireguard \<Rightarrow> 'c wireguard" where
  "close_all w = w\<lparr>tunnel := IsClosed, device := IsClosed\<rparr>"

text \<open>What \<open>Connect\<close> does from a statement on when nothing else runs.\<close>

definition finish_timer :: "'c platform \<Rightarrow> 'c wireguard \<Rightarrow> string option \<times> 'c wireguard" where
  "finish_timer env w = (None, case timer_Start env 500 of
      None \<Rightarrow> w\<lparr>metricsTimer := Some True\<rparr> | Some e \<Rightarrow> close_all (w\<lparr>metricsTimer := Some False\<rparr>))"

definition finish_calls :: "'c platform \<Rightarrow> net_call list \<Rightarrow> 'c wireguard \<Rightarrow> string option \<times> 'c wireguard" where
  "finish_calls env cs w = (case nc_calls env cs w of
      (Some e, w') \<Rightarrow> (Some e, close_all w') | (None, w') \<Rightarrow> finish_timer env w')"

definition finish :: "'c platform \<Rightarrow> 'c wireguard \<times> connect_pc \<Rightarrow> string option \<times> 'c wireguard" where
  "finish env = (\<lambda>(w, pc). case pc of
      AtConfigure \<Rightarrow> (case Configure (wgctrl_api env) (wgconfig (w_cfg w)) (the (wgctrlClient w)) of
        Some e \<Rightarrow> (Some e, close_all w) | None \<Rightarrow> finish_calls env (remaining AtDisableIPv6 w) w)
    | AtCloseTunnel r \<Rightarrow> (r, close_all w)
    | AtCloseDevice r \<Rightarrow> (r, w\<lparr>device := IsClosed\<rparr>)
    | ConnectReturned r \<Rightarrow> (r, w)
    | _ \<Rightarrow> finish_calls env (remaining pc w) w)"

lemma finish_simps [simp]:
  "finish env (w, AtConfigure) = (case Configure (wgctrl_api env) (wgconfig (w_cfg w)) (the (wgctrlClient w)) of
     Some e \<Rightarrow> (Some e, close_all w) | None \<Rightarrow> finish_calls env (remaining AtDisableIPv6 w) w)"
  "finish env (w, AtCloseTunnel r) = (r, close_all w)" "finish env (w, AtCloseDevice r) = (r, w\<lparr>device := IsClosed\<rparr>)"
  "finish env (w, ConnectReturned r) = (r, w)" "finish env (w, AtTimer) = finish_timer env w"
  by (simp_all add: finish_def finish_calls_def)

lemma finish_net: "net_stmt pc w \<noteq> None \<or> pc = AtTimer \<Longrightarrow> finish env (w, pc) = finish_calls env (remaining pc w) w"
  by (cases pc) (simp_all add: finish_def del: remaining.simps)

lemma finish_net_step:
  assumes "net_stmt pc w = Some (c, pc')"
  shows "finish env (w, pc) = (case nc_result env (nc w) c of
      Some e \<Rightarrow> (Some e, close_all (w\<lparr>nc := nc w @ [c]\<rparr>)) | None \<Rightarrow> finish env (w\<lparr>nc := nc w @ [c]\<rparr>, pc'))"
proof -
  let ?w = "w\<lparr>nc := nc w @ [c]\<rparr>"
  have "net_stmt pc' ?w \<noteq> None \<or> pc' = AtTimer"
    using net_stmt_call [OF assms] net_stmt_cong [of ?w w pc'] by simp
  from finish_net [OF this, of env] have "finish env (?w, pc') = finish_calls env (remaining pc' w) ?w"
    using remaining_cong [of ?w w pc'] by simp
  then show ?thesis
    using assms by (simp add: finish_net remaining_step finish_calls_def Let_def split: option.split)
qed

lemma finish_Connect:
  assumes "open_tunnel env w = (None, w0)" and "start_services env (w0\<lparr>device := IsOpen\<rparr>) = (None, w1)"
  shows "wg_Connect env w = finish env (w1, AtConfigure)"
  using assms
  by (simp add: wg_Connect_def connect_body_def finish_calls_def finish_timer_def close_all_def remaining_plan
      del: remaining.simps split: option.split prod.split)

lemma deferred_run: "(connect_step loss env)\<^sup>*\<^sup>* (w, AtCloseTunnel r) (close_all w, ConnectReturned r)"
proof -
  have "connect_step loss env (w\<lparr>tunnel := IsClosed\<rparr>, AtCloseDevice r) (close_all w, ConnectReturned r)"
    using connect_step.deferred_device [of loss env "w\<lparr>tunnel := IsClosed\<rparr>" r] by (simp add: close_all_def)
  with connect_step.deferred_tunnel [of loss env w r] show ?thesis
    by (meson converse_rtranclp_into_rtranclp r_into_rtranclp)
qed

lemma timer_run:
  "(connect_step loss env)\<^sup>*\<^sup>* (w, AtTimer) (snd (finish_timer env w), ConnectReturned (fst (finish_timer env w)))"
proof (cases "timer_Start env 500")
  case None
  from connect_step.timer_started [OF this] None show ?thesis by (simp add: finish_timer_def r_into_rtranclp)
next
  case (Some e)
  from converse_rtranclp_into_rtranclp [OF connect_step.timer_fails [OF this] deferred_run] Some show ?thesis
    by (simp add: finish_timer_def)
qed

lemma net_run:
  "net_stmt pc w \<noteq> None \<or> pc = AtTimer \<Longrightarrow>
   (connect_step loss env)\<^sup>*\<^sup>* (w, pc) (snd (finish env (w, pc)), ConnectReturned (fst (finish env (w, pc))))"
proof (induction "length (remaining pc w)" arbitrary: pc w)
  case 0
  then have "pc = AtTimer" using remaining_step by fastforce
  then show ?case using timer_run by simp
next
  case (Suc n)
  then have "net_stmt pc w \<noteq> None" by auto
  then obtain c pc' where st: "net_stmt pc w = Some (c, pc')" by auto
  let ?w = "w\<lparr>nc := nc w @ [c]\<rparr>"
  show ?case
  proof (cases "nc_result env (nc w) c")
    case None
    have "n = length (remaining pc' ?w)"
      using Suc(2) remaining_step [OF st] remaining_cong [of ?w w pc'] by simp
    moreover have "net_stmt pc' ?w \<noteq> None \<or> pc' = AtTimer"
      using net_stmt_call [OF st] net_stmt_cong [of ?w w pc'] by simp
    ultimately have "(connect_step loss env)\<^sup>*\<^sup>* (?w, pc') (snd (finish env (?w, pc')), ConnectReturned (fst (finish env (?w, pc'))))"
      by (rule Suc(1))
    from converse_rtranclp_into_rtranclp [OF connect_step.net [OF st None] this] None show ?thesis
      by (simp add: finish_net_step [OF st])
  next
    case (Some e)
    from converse_rtranclp_into_rtranclp [OF connect_step.net_fails [OF st disjI1 [OF Some]] deferred_run] Some
    show ?thesis by (simp add: finish_net_step [OF st])
  qed
qed

lemma finish_run:
  "(connect_step loss env)\<^sup>*\<^sup>* (w, AtConfigure)
     (snd (finish env (w, AtConfigure)), ConnectReturned (fst (finish env (w, AtConfigure))))"
proof (cases "Configure (wgctrl_api env) (wgconfig (w_cfg w)) (the (wgctrlClient w))")
  case None
  have "finish env (w, AtConfigure) = finish env (w, AtDisableIPv6)" using None finish_net [of AtDisableIPv6 w env] by simp
  with converse_rtranclp_into_rtranclp [OF connect_step.configured [OF None] net_run [of AtDisableIPv6 w loss env]]
  show ?thesis by simp
next
  case (Some e)
  from converse_rtranclp_into_rtranclp [OF connect_step.not_configured [OF disjI1 [OF Some]] deferred_run] Some
  show ?thesis by simp
qed

text \<open>\<open>Connect\<close> in one piece is one of the runs.\<close>

lemma Connect_is_run:
  assumes "wg_Connect env w = (res, w')"
  shows "connect_run loss env w res w'"
proof -
  obtain r1 w1 where o1: "open_tunnel env w = (r1, w1)" by (cases "open_tunnel env w")
  obtain r2 w2 where s2: "start_services env (w1\<lparr>device := IsOpen\<rparr>) = (r2, w2)"
    by (cases "start_services env (w1\<lparr>device := IsOpen\<rparr>)")
  show ?thesis
  proof (cases r1)
    case (Some e)
    with assms o1 show ?thesis using connect_run.no_tunnel [of env w e w1 loss] by (simp add: wg_Connect_def)
  next
    case None
    note o1 = o1 [unfolded None]
    show ?thesis
    proof (cases r2)
      case (Some e)
      note s2 = s2 [unfolded Some]
      from assms o1 s2 connect_run.no_services [OF o1 s2] show ?thesis by (simp add: wg_Connect_def connect_body_def)
    next
      case None
      note s2 = s2 [unfolded None]
      from finish_run [of loss env w2] assms finish_Connect [OF o1 s2]
      have "(connect_step loss env)\<^sup>*\<^sup>* (w2, AtConfigure) (w', ConnectReturned res)" by simp
      then show ?thesis by (rule connect_run.running [OF o1 s2])
    qed
  qed
qed

section \<open>Interleavings without a loss of the device\<close>

lemma goroutine_waits: "goroutine_step w w' \<Longrightarrow> watcher w = Waiting \<Longrightarrow> device w = IsClosed"
  by (auto simp: goroutine_step_def elim!: wg_stepE)

text \<open>
  Until \<open>Connect\<close> returns, the device is open, the goroutine waits and the result is the
  sequential one; afterwards only the goroutine has moved.
\<close>

fun has_returned :: "connect_pc \<Rightarrow> bool" where
  "has_returned (ConnectReturned r) = True"
| "has_returned _ = False"

definition undisturbed :: "'c platform \<Rightarrow> string option \<times> 'c wireguard \<Rightarrow> 'c wireguard \<times> connect_pc \<Rightarrow> bool" where
  "undisturbed env out = (\<lambda>(w, pc). if has_returned pc
     then pc = ConnectReturned (fst out) \<and> goroutine_step\<^sup>*\<^sup>* (snd out) w
     else watcher w = Waiting \<and> device w = IsOpen \<and> finish env (w, pc) = out)"

lemma net_not_returned: "net_stmt pc w = Some (c, pc') \<Longrightarrow> \<not> has_returned pc \<and> \<not> has_returned pc'"
  by (cases pc) (auto split: if_splits)

lemma connect_step_undisturbed:
  assumes "connect_step False env s t" and "undisturbed env out s"
  shows "undisturbed env out t"
  using assms
proof (induction rule: connect_step.induct)
  case (configured w)
  then show ?case using finish_net [of AtDisableIPv6 w env] by (simp add: undisturbed_def)
next
  case (net pc w c pc')
  then show ?case using net_not_returned [OF net(1)] by (simp add: undisturbed_def finish_net_step [OF net(1)])
next
  case (net_fails pc w c pc' e)
  then show ?case using net_not_returned [OF net_fails(1)] by (auto simp: undisturbed_def finish_net_step [OF net_fails(1)])
next
  case (goroutine w w' pc)
  then show ?case using goroutine_waits [OF goroutine(1)]
    by (auto simp: undisturbed_def split: if_splits)
qed (auto simp: undisturbed_def finish_timer_def close_all_def)

interpretation race: transition_system "undisturbed env out" "connect_step False env" "undisturbed env out" for env out
  by unfold_locales (auto intro: connect_step_undisturbed)

lemma goroutine_run: "goroutine_step\<^sup>*\<^sup>* w w' \<Longrightarrow> (connect_step loss env)\<^sup>*\<^sup>* (w, pc) (w', pc)"
  by (induction rule: rtranclp_induct) (auto intro: connect_step.goroutine rtranclp.rtrancl_into_rtrancl)

lemma idle_goroutine:
  assumes "goroutine_step\<^sup>*\<^sup>* w w'" and "watcher w = NotStarted"
  shows "w' = w"
  using assms by (cases rule: converse_rtranclpE) (auto simp: goroutine_step_def elim!: wg_stepE)

lemma atomic_run:
  assumes "open_tunnel env w = (None, w1)" and "start_services env (w1\<lparr>device := IsOpen\<rparr>) = (None, w2)"
    and "(connect_step False env)\<^sup>*\<^sup>* (w2, AtConfigure) (w', ConnectReturned res)"
  shows "wg_Connect env w = (res, snd (finish env (w2, AtConfigure))) \<and>
    goroutine_step\<^sup>*\<^sup>* (snd (finish env (w2, AtConfigure))) w'"
proof -
  have "undisturbed env (finish env (w2, AtConfigure)) (w2, AtConfigure)"
    using start_services_cases [OF assms(2)] by (simp add: undisturbed_def del: finish_simps)
  from race.reachable_invariant [OF this assms(3)]
  have "res = fst (finish env (w2, AtConfigure))" "goroutine_step\<^sup>*\<^sup>* (snd (finish env (w2, AtConfigure))) w'"
    by (simp_all add: undisturbed_def del: finish_simps)
  then show ?thesis using finish_Connect [OF assms(1,2)] by (simp del: finish_simps)
qed

lemma finish_frame:
  "watcher (snd (finish env (w, AtConfigure))) = watcher w" "serving (snd (finish env (w, AtConfigure))) = serving w"
proof -
  obtain r w2 where n: "nc_calls env (network_plan w) w = (r, w2)" by (cases "nc_calls env (network_plan w) w")
  from nc_calls_frame [OF n] have "watcher w2 = watcher w" "serving w2 = serving w" by auto
  then show "watcher (snd (finish env (w, AtConfigure))) = watcher w" "serving (snd (finish env (w, AtConfigure))) = serving w"
    by (cases r; simp add: finish_calls_def finish_timer_def close_all_def n remaining_plan del: remaining.simps split: option.split)+
qed

text \<open>
  C11: as long as the device does not go away by itself, the interleaving of \<open>Connect\<close> with
  the goroutine it starts cannot be told from \<open>Connect\<close> running in one piece: it returns what
  \<open>wg_Connect\<close> returns, and every state it can then be in, or get into later, is one the
  goroutine reaches from the state \<open>wg_Connect\<close> leaves; and all of these do occur.
\<close>

theorem connect_is_atomic:
  assumes "newWireguardClient ncErr cfg b ms = (Inr w, ms')"
  shows "connect_run False env w res w' \<longleftrightarrow>
    (\<exists>w0. wg_Connect env w = (res, w0) \<and> goroutine_step\<^sup>*\<^sup>* w0 w')"
proof
  assume "connect_run False env w res w'"
  then show "\<exists>w0. wg_Connect env w = (res, w0) \<and> goroutine_step\<^sup>*\<^sup>* w0 w'"
  proof cases
    case (running w1 w2)
    from atomic_run [OF running] show ?thesis by blast
  qed (auto simp: wg_Connect_def connect_body_def)
next
  assume "\<exists>w0. wg_Connect env w = (res, w0) \<and> goroutine_step\<^sup>*\<^sup>* w0 w'"
  then obtain w0 where w0: "wg_Connect env w = (res, w0)" "goroutine_step\<^sup>*\<^sup>* w0 w'" by blast
  from Connect_is_run [OF w0(1), of False] show "connect_run False env w res w'"
  proof cases
    case (running w1 w2)
    from rtranclp_trans [OF running(3) goroutine_run [OF w0(2)]] show ?thesis
      by (rule connect_run.running [OF running(1,2)])
  next
    case (no_tunnel e)
    then have "watcher w0 = NotStarted" using open_tunnel_cases [OF no_tunnel(2)] new_client_fields [OF assms] by simp
    with idle_goroutine [OF w0(2)] no_tunnel show ?thesis by (simp add: connect_run.no_tunnel)
  next
    case (no_services w1 e w2)
    then have "watcher w0 = NotStarted"
      using start_services_cases [OF no_services(4)] open_tunnel_cases [OF no_services(3)] new_client_fields [OF assms] by simp
    with idle_goroutine [OF w0(2)] connect_run.no_services [OF no_services(3,4), of False] no_services(1,2)
    show ?thesis by simp
  qed
qed

theorem connect_is_atomic_witness:
  "connect_run False (sample_platform (\<lambda>_. None) None) sample_client None sample_connected"
  using connect_is_atomic [OF sample_client_new] sample_connects by blast

section \<open>Interleavings in general\<close>

text \<open>
  What holds at every statement, whether or not the device goes away: the goroutine has
  been started and not ended, it has left its wait only if the device is closed, it has
  closed the tunnel once it is past that, and the network has been cleared exactly if it
  has cleared it.
\<close>

definition teardown_inv :: "'c wireguard \<Rightarrow> bool" where
  "teardown_inv w \<longleftrightarrow> watcher w \<notin> {NotStarted, Ended} \<and> service_stage w \<and>
     device w \<noteq> NoHandle \<and> tunnel w \<noteq> NoHandle \<and> (device w = IsOpen \<longrightarrow> watcher w = Waiting) \<and>
     (Clear \<in> set (nc w) \<longleftrightarrow> watcher w \<in> {ClosingDevice, Notifying}) \<and>
     (watcher w \<in> {ClearingNetwork, ClosingDevice, Notifying} \<longrightarrow> tunnel w = IsClosed)"

abbreviation made :: "'c wireguard \<Rightarrow> net_call list" where
  "made w \<equiv> filter (\<lambda>c. c \<noteq> Clear) (nc w)"

text \<open>What \<open>Connect\<close> has done when it is at a statement, for a client that started as \<open>w0\<close>.\<close>

definition progress :: "'c platform \<Rightarrow> 'c wireguard \<Rightarrow> 'c wireguard \<times> connect_pc \<Rightarrow> bool" where
  "progress env w0 = (\<lambda>(w, pc). case pc of
      AtConfigure \<Rightarrow> made w = []
    | AtCloseTunnel r \<Rightarrow> r = None \<longrightarrow> made w = network_plan w0 \<and> timer_Start env 500 \<noteq> None \<and> metricsTimer w = Some False
    | AtCloseDevice r \<Rightarrow> tunnel w = IsClosed \<and>
        (r = None \<longrightarrow> made w = network_plan w0 \<and> timer_Start env 500 \<noteq> None \<and> metricsTimer w = Some False)
    | ConnectReturned r \<Rightarrow>
        (r = None \<longrightarrow> made w = network_plan w0 \<and> metricsTimer w = Some (timer_Start env 500 = None)) \<and>
        (r \<noteq> None \<or> timer_Start env 500 \<noteq> None \<longrightarrow> tunnel w = IsClosed \<and> device w = IsClosed)
    | _ \<Rightarrow> made w @ remaining pc w0 = network_plan w0)"

definition run_inv :: "'c platform \<Rightarrow> 'c wireguard \<Rightarrow> 'c wireguard \<times> connect_pc \<Rightarrow> bool" where
  "run_inv env w0 = (\<lambda>(w, pc). w_cfg w = w_cfg w0 \<and> w_ifaceName w = w_ifaceName w0 \<and> teardown_inv w \<and>
     (device w = IsOpen \<longrightarrow> (\<exists>r. pc = AtCloseDevice r) \<or> tunnel w = IsOpen) \<and> progress env w0 (w, pc))"

lemma progress_net:
  assumes "net_stmt pc w = Some (c, pc')" and "w_cfg w = w_cfg w0" "w_ifaceName w = w_ifaceName w0"
  shows "progress env w0 (v, pc) \<longleftrightarrow> made v @ remaining pc w0 = network_plan w0"
    and "progress env w0 (v, pc') \<longleftrightarrow> made v @ remaining pc' w0 = network_plan w0"
    and "remaining pc w0 = c # remaining pc' w0" and "\<exists>r. pc' = AtCloseDevice r \<Longrightarrow> False"
  using assms remaining_step [of pc w0 c pc'] net_stmt_cong [of w w0 pc]
  by (cases pc; auto simp: progress_def simp del: remaining.simps split: if_splits)+

lemma wg_step_keeps:
  "wg_step s t \<Longrightarrow> snd s = NotCalled \<Longrightarrow> snd t = NotCalled \<Longrightarrow> watcher (fst t) \<noteq> watcher (fst s) \<Longrightarrow>
   teardown_inv (fst s) \<Longrightarrow> device (fst s) = IsClosed \<Longrightarrow>
   teardown_inv (fst t) \<and> made (fst t) = made (fst s) \<and> w_cfg (fst t) = w_cfg (fst s) \<and>
   w_ifaceName (fst t) = w_ifaceName (fst s) \<and> metricsTimer (fst t) = metricsTimer (fst s) \<and>
   device (fst t) = IsClosed \<and> (tunnel (fst s) = IsClosed \<longrightarrow> tunnel (fst t) = IsClosed)"
proof (induction rule: wg_step.induct)
  case (stop_service w svc b e res svc' c)
  then show ?case by (auto simp: teardown_inv_def StopService_def split: if_splits)
qed (simp_all add: teardown_inv_def split: option.splits)

lemma goroutine_keeps:
  assumes "goroutine_step w w'" and "teardown_inv w"
  shows "teardown_inv w' \<and> made w' = made w \<and> w_cfg w' = w_cfg w \<and> w_ifaceName w' = w_ifaceName w \<and>
    metricsTimer w' = metricsTimer w \<and> device w' = IsClosed \<and> (tunnel w = IsClosed \<longrightarrow> tunnel w' = IsClosed)"
proof -
  have "device w = IsClosed"
    using goroutine_waits [OF assms(1)] assms(2) by (cases "device w") (auto simp: teardown_inv_def)
  with wg_step_keeps [of "(w, NotCalled)" "(w', NotCalled)"] assms show ?thesis by (simp add: goroutine_step_def)
qed

lemma teardown_inv_update:
  "c \<noteq> Clear \<Longrightarrow> teardown_inv (w\<lparr>nc := nc w @ [c]\<rparr>) = teardown_inv w"
  "teardown_inv (w\<lparr>metricsTimer := m\<rparr>) = teardown_inv w"
  "teardown_inv w \<Longrightarrow> teardown_inv (w\<lparr>tunnel := IsClosed\<rparr>)"
  "teardown_inv w \<Longrightarrow> teardown_inv (w\<lparr>device := IsClosed\<rparr>)"
proof -
  have "service_stage (w\<lparr>nc := n\<rparr>) = service_stage w" "service_stage (w\<lparr>metricsTimer := m\<rparr>) = service_stage w"
    "service_stage (w\<lparr>tunnel := h\<rparr>) = service_stage w" "service_stage (w\<lparr>device := h\<rparr>) = service_stage w" for n h
    by simp_all
  note keep = this
  show "c \<noteq> Clear \<Longrightarrow> teardown_inv (w\<lparr>nc := nc w @ [c]\<rparr>) = teardown_inv w"
    "teardown_inv (w\<lparr>metricsTimer := m\<rparr>) = teardown_inv w"
    "teardown_inv w \<Longrightarrow> teardown_inv (w\<lparr>tunnel := IsClosed\<rparr>)"
    "teardown_inv w \<Longrightarrow> teardown_inv (w\<lparr>device := IsClosed\<rparr>)"
    by (simp_all add: teardown_inv_def keep del: service_stage.simps)
qed

lemma connect_step_run_inv:
  assumes "connect_step loss env s t" and "run_inv env w0 s"
  shows "run_inv env w0 t"
  using assms
proof (induction rule: connect_step.induct)
  case (net pc w c pc')
  then have eq: "w_cfg w = w_cfg w0" "w_ifaceName w = w_ifaceName w0" by (simp_all add: run_inv_def)
  note p = progress_net [OF net(1) eq]
  from net(3) have "made w @ remaining pc w0 = network_plan w0" by (simp add: run_inv_def p(1))
  then have "progress env w0 (w\<lparr>nc := nc w @ [c]\<rparr>, pc')"
    using net_stmt_call [OF net(1)] unfolding p(2) p(3) by simp
  moreover have "\<not> (\<exists>r. pc = AtCloseDevice r)" using net(1) by auto
  ultimately show ?case
    using net(3) net_stmt_call [OF net(1)] unfolding run_inv_def prod.case by (simp add: teardown_inv_update)
next
  case (net_fails pc w c pc' e)
  have "\<not> (\<exists>r. pc = AtCloseDevice r)" using net_fails(1) by auto
  moreover have "progress env w0 (w\<lparr>nc := nc w @ [c]\<rparr>, AtCloseTunnel (Some e))" by (simp add: progress_def)
  ultimately show ?case
    using net_fails(3) net_stmt_call [OF net_fails(1)] unfolding run_inv_def prod.case by (simp add: teardown_inv_update)
next
  case (goroutine w w' pc)
  then have keep: "teardown_inv w'" "made w' = made w" "w_cfg w' = w_cfg w" "w_ifaceName w' = w_ifaceName w"
    "metricsTimer w' = metricsTimer w" "device w' = IsClosed" "tunnel w = IsClosed \<longrightarrow> tunnel w' = IsClosed"
    using goroutine_keeps [OF goroutine(1)] by (simp_all add: run_inv_def)
  have "progress env w0 (w, pc)" using goroutine(2) by (simp add: run_inv_def)
  then have "progress env w0 (w', pc)" using keep by (cases pc) (simp_all add: progress_def del: remaining.simps)
  with goroutine(2) keep show ?case by (simp add: run_inv_def)
next
  case (device_lost w pc)
  then have "progress env w0 (w, pc)" by (simp add: run_inv_def)
  then have "progress env w0 (w\<lparr>device := IsClosed\<rparr>, pc)" by (cases pc) (simp_all add: progress_def del: remaining.simps)
  with device_lost show ?case by (simp add: run_inv_def teardown_inv_update)
qed (simp_all add: run_inv_def teardown_inv_update progress_def remaining_plan del: remaining.simps(2))

interpretation general: transition_system "run_inv env w0" "connect_step loss env" "run_inv env w0" for env w0 loss
  by unfold_locales (auto intro: connect_step_run_inv)

lemma running_inv:
  assumes "newWireguardClient ncErr cfg b ms = (Inr w, ms')" and "open_tunnel env w = (None, w1)"
    and "start_services env (w1\<lparr>device := IsOpen\<rparr>) = (None, w2)"
    and "(connect_step loss env)\<^sup>*\<^sup>* (w2, AtConfigure) (w', ConnectReturned res)"
  shows "run_inv env w2 (w', ConnectReturned res)" "w_cfg w2 = cfg" "w_ifaceName w2 = w_ifaceName w1"
proof -
  note f = start_services_cases [OF assms(3)] open_tunnel_cases [OF assms(2)] new_client_fields [OF assms(1)]
  then have "run_inv env w2 (w2, AtConfigure)"
    by (auto simp: run_inv_def teardown_inv_def progress_def serving_def split: option.splits)
  from general.reachable_invariant [OF this assms(4)] show "run_inv env w2 (w', ConnectReturned res)" .
  show "w_cfg w2 = cfg" "w_ifaceName w2 = w_ifaceName w1" using f by simp_all
qed

section \<open>Properties of Connect\<close>

text \<open>
  C33: what a \<open>Connect\<close> that returned nil has done, whether or not the device goes away
  meanwhile. It made these calls on the network context, in this order: IPv6 is disabled, a
  route manager made and given the peers' addresses, the interface made routable with the
  tunnel's address and made the default route if the configuration says so, a name server
  manager made and given the configuration's name server and no search domains; between them
  there can only be the goroutine's clean-up. If the metrics timer could not be started, the
  tunnel and the device are closed nevertheless: the error is not returned, but stays in the
  variable the deferred function looks at. If the device is open, so is the tunnel, the
  goroutine waits, the control service is served and nothing was cleaned up; and it is open
  if the timer was started and the device does not go away by itself.
\<close>

theorem connect_established:
  assumes "newWireguardClient ncErr cfg b ms = (Inr w, ms')" and "connect_run loss env w None w'"
  shows "filter (\<lambda>c. c \<noteq> Clear) (nc w') =
      [DisableIPv6, NewRouteManager, AddExternalRouteToIPs (peerAddresses cfg),
       NewRoutableInterface (w_ifaceName (snd (open_tunnel env w))) (tunAddress cfg)] @
      (if isDefaultRoute cfg then [MakeDefaultRoute] else []) @
      [NewDNSManager, AddDNSServers [tunDNS cfg], AddSearchDomains []] \<and>
    metricsTimer w' = Some (timer_Start env 500 = None) \<and>
    (timer_Start env 500 \<noteq> None \<longrightarrow> tunnel w' = IsClosed \<and> device w' = IsClosed) \<and>
    (device w' = IsOpen \<longrightarrow> tunnel w' = IsOpen \<and> watcher w' = Waiting \<and> serving w' \<and> Clear \<notin> set (nc w')) \<and>
    (\<not> loss \<and> timer_Start env 500 = None \<longrightarrow> device w' = IsOpen)"
  using assms(2)
proof cases
  case (running w1 w2)
  note inv = running_inv [OF assms(1) running]
  have "device w' = IsOpen" if "\<not> loss" "timer_Start env 500 = None"
  proof -
    have "(connect_step False env)\<^sup>*\<^sup>* (w2, AtConfigure) (w', ConnectReturned None)" using running(3) that(1) by simp
    from atomic_run [OF running(1,2) this] obtain w0 where
      w0: "wg_Connect env w = (None, w0)" "goroutine_step\<^sup>*\<^sup>* w0 w'" by blast
    have up: "device w0 = IsOpen" "watcher w0 = Waiting" using Connect_cases [OF assms(1) w0(1)] that(2) by simp_all
    from w0(2) have "w' = w0" by (cases rule: converse_rtranclpE) (use goroutine_waits up in force)+
    with up show ?thesis by simp
  qed
  with inv show ?thesis
    using running(1) by (auto simp: run_inv_def progress_def network_plan_def teardown_inv_def serving_def split: option.splits)
qed

theorem connect_established_witness:
  "\<exists>w'. connect_run False (sample_platform (\<lambda>_. None) (Some ''no timer'')) sample_client None w' \<and>
     tunnel w' = IsClosed \<and> AddDNSServers [''10.12.16.253''] \<in> set (nc w')"
proof -
  let ?env = "sample_platform (\<lambda>_. None) (Some ''no timer'')"
  obtain w' where "wg_Connect ?env sample_client = (None, w')" by (simp add: connect_defs)
  note run = Connect_is_run [OF this, of False]
  have "timer_Start ?env 500 \<noteq> None" "tunDNS sample_cfg = ''10.12.16.253''"
    by (simp_all add: sample_platform_def sample_cfg_def)
  with connect_established [OF sample_client_new run]
  have "tunnel w' = IsClosed" "AddDNSServers [''10.12.16.253''] \<in> set (filter (\<lambda>c. c \<noteq> Clear) (nc w'))"
    by simp_all
  with run show ?thesis by auto
qed

text \<open>A client whose network is cleared once nothing is left to do, with or without a \<open>Disconnect\<close>.\<close>

definition will_be_cleared :: "'c wireguard \<Rightarrow> bool" where
  "will_be_cleared w \<longleftrightarrow> (\<forall>s. wg_step\<^sup>*\<^sup>* (w, NotCalled) s \<longrightarrow>
     (\<exists>t. wg_step\<^sup>*\<^sup>* s t \<and> \<not> (\<exists>u. wg_step t u)) \<and> (\<not> (\<exists>u. wg_step s u) \<longrightarrow> cleared (fst s)))"

lemma conn_inv_cleared: "conn_inv (w, NotCalled) \<Longrightarrow> will_be_cleared w"
  unfolding will_be_cleared_def
  using conn.run_settles [OF conn.run_invariant] conn_stuck_cleared by blast

lemma goroutine_conn_inv: "goroutine_step\<^sup>*\<^sup>* w w' \<Longrightarrow> conn_inv (w, NotCalled) \<Longrightarrow> conn_inv (w', NotCalled)"
  by (induction rule: rtranclp_induct) (auto simp: goroutine_step_def intro: conn.step_invariant)

text \<open>
  C15: when \<open>Connect\<close> returns an error, the tunnel and the device are not open, whatever
  happened to the device meanwhile. If the device does not go away by itself, what \<open>Connect\<close>
  had changed on the network is undone: either no call was made on the network context, or
  every run of the goroutine, with or without a later \<open>Disconnect\<close>, can be continued until
  nothing is left to do and has the network cleared then. If the device does go away while
  \<open>Connect\<close> runs, the same holds as long as the goroutine has not cleared the network before
  \<open>Connect\<close> returned; calls made after that are not undone.
\<close>

theorem failed_connect_cleaned:
  assumes "newWireguardClient ncErr cfg b ms = (Inr w, ms')" and "connect_run loss env w (Some e) w'"
  shows "tunnel w' \<noteq> IsOpen \<and> device w' \<noteq> IsOpen \<and>
    (nc w' = [] \<or> will_be_cleared w' \<or> loss \<and> Clear \<in> set (nc w'))"
  using assms(2)
proof cases
  case no_tunnel
  then show ?thesis using open_tunnel_cases [OF no_tunnel(1)] new_client_fields [OF assms(1)] by simp
next
  case (no_services w1 w2)
  then show ?thesis
    using start_services_cases [OF no_services(3)] open_tunnel_cases [OF no_services(2)] new_client_fields [OF assms(1)] by simp
next
  case (running w1 w2)
  note inv = running_inv(1) [OF assms(1) running]
  have "conn_inv (w', NotCalled)" if "Clear \<notin> set (nc w')"
    using inv that by (auto simp: run_inv_def teardown_inv_def conn_inv_def)
  moreover have "conn_inv (w', NotCalled)" if "\<not> loss"
  proof -
    let ?w0 = "snd (finish env (w2, AtConfigure))"
    have "(connect_step False env)\<^sup>*\<^sup>* (w2, AtConfigure) (w', ConnectReturned (Some e))" using running(3) that by simp
    from atomic_run [OF running(1,2) this] have "goroutine_step\<^sup>*\<^sup>* ?w0 w'" by blast
    moreover have "conn_initial (?w0, NotCalled)"
      using start_services_cases [OF running(2)] by (simp add: conn_initial_def finish_frame del: finish_simps)
    ultimately show ?thesis by (blast intro: goroutine_conn_inv conn_initial_inv)
  qed
  ultimately show ?thesis
    using inv conn_inv_cleared by (auto simp: run_inv_def progress_def)
qed

theorem failed_connect_cleaned_witness:
  "\<exists>w'. connect_run False (sample_platform (\<lambda>c. if c = MakeDefaultRoute then Some ''denied'' else None) None)
       sample_client (Some ''denied'') w' \<and> tunnel w' \<noteq> IsOpen \<and> nc w' \<noteq> [] \<and> will_be_cleared w'"
proof -
  let ?env = "sample_platform (\<lambda>c. if c = MakeDefaultRoute then Some ''denied'' else None) None"
  obtain w' where con: "wg_Connect ?env sample_client = (Some ''denied'', w')" and nc: "nc w' \<noteq> []"
    by (simp add: connect_defs)
  note run = Connect_is_run [OF con, of False]
  from failed_connect_cleaned [OF sample_client_new run] nc run show ?thesis by blast
qed

section \<open>A device lost while connecting\<close>

lemma nc_calls_ok: "\<forall>h c. nc_result env h c = None \<Longrightarrow> nc_calls env cs w = (None, w\<lparr>nc := nc w @ cs\<rparr>)"
  by (induction cs arbitrary: w) (simp_all add: Let_def)

text \<open>
  If the device goes away while \<open>Connect\<close> is still running, the goroutine clears the network
  first and \<open>Connect\<close> configures it afterwards: the call returns nil, the tunnel and the
  device are closed, the goroutine waits for a \<open>Disconnect\<close> that cannot reach it, and the
  routes and name servers of the connection stay.
\<close>

theorem lost_device_leaves_routes:
  assumes wait: "watcher w = Waiting" "serving w" and up: "device w = IsOpen" "nc w = []"
    and ok: "\<forall>h c. nc_result env h c = None" "timer_Start env 500 = None"
      "Configure (wgctrl_api env) (wgconfig (w_cfg w)) (the (wgctrlClient w)) = None"
  shows "\<exists>w'. (connect_step True env)\<^sup>*\<^sup>* (w, AtConfigure) (w', ConnectReturned None) \<and>
    tunnel w' = IsClosed \<and> device w' = IsClosed \<and> watcher w' = Notifying \<and>
    nc w' = Clear # network_plan w \<and> \<not> cleared w'"
proof -
  from wait(2) obtain svc where svc: "wgctrlService w = Some svc" "uapi svc" "acceptor svc = Accepting"
    by (auto simp: serving_def split: option.splits)
  define v1 where "v1 = w\<lparr>device := IsClosed\<rparr>"
  define v2 where "v2 = v1\<lparr>watcher := StoppingService\<rparr>"
  define v3 where "v3 = v2\<lparr>wgctrlService := Some (svc\<lparr>acceptor := AcceptorDone\<rparr>), watcher := ClosingTunnel\<rparr>"
  define v4 where "v4 = v3\<lparr>tunnel := IsClosed, watcher := ClearingNetwork\<rparr>"
  define v5 where "v5 = v4\<lparr>nc := nc v4 @ [Clear], watcher := ClosingDevice\<rparr>"
  define v6 where "v6 = v5\<lparr>device := IsClosed, watcher := Notifying\<rparr>"
  note v = v1_def v2_def v3_def v4_def v5_def v6_def
  have stop: "StopService Unix (AcceptErr True []) svc = Some (None, svc\<lparr>acceptor := AcceptorDone\<rparr>)"
    using svc by (simp add: StopService_def)
  have "goroutine_step v1 v2" unfolding goroutine_step_def
    using wg_step.device_wait [of v1 NotCalled] wait by (simp add: v)
  moreover have "goroutine_step v2 v3" unfolding goroutine_step_def
    using wg_step.stop_service [OF _ _ stop, of v2 NotCalled] svc by (simp add: v)
  moreover have "goroutine_step v3 v4" unfolding goroutine_step_def
    using wg_step.close_tunnel [of v3 NotCalled] by (simp add: v)
  moreover have "goroutine_step v4 v5" unfolding goroutine_step_def
    using wg_step.clear_network [of v4 NotCalled] by (simp add: v)
  moreover have "goroutine_step v5 v6" unfolding goroutine_step_def
    using wg_step.close_device [of v5 NotCalled] by (simp add: v)
  ultimately have "goroutine_step\<^sup>*\<^sup>* v1 v6" by (meson converse_rtranclp_into_rtranclp rtranclp.rtrancl_refl)
  then have torn: "(connect_step True env)\<^sup>*\<^sup>* (w, AtConfigure) (v6, AtConfigure)"
    using connect_step.device_lost [OF TrueI up(1), of env AtConfigure] goroutine_run [of v1 v6 True env AtConfigure]
    by (simp add: v1_def converse_rtranclp_into_rtranclp)
  have plan: "network_plan v6 = network_plan w" by (simp add: v network_plan_def)
  let ?w' = "v6\<lparr>nc := nc v6 @ network_plan w, metricsTimer := Some True\<rparr>"
  have "finish env (v6, AtConfigure) = (None, ?w')"
    using ok plan by (simp add: v finish_calls_def finish_timer_def nc_calls_ok remaining_plan del: remaining.simps)
  with finish_run [of True env v6] torn
  have "(connect_step True env)\<^sup>*\<^sup>* (w, AtConfigure) (?w', ConnectReturned None)" by (simp del: finish_simps)
  moreover have "last (Clear # network_plan w) = AddSearchDomains []" by (simp add: network_plan_def)
  ultimately show ?thesis
    using up(2) by (intro exI [of _ ?w']) (simp add: v cleared_def)
qed

end
