(* ===== verification/Tailscale_Daemon.thy ===== *)
theory Tailscale_Daemon
  imports Go_Net
begin

text \<open>
  The embedded Tailscale daemon (\<^verbatim>\<open>tailscale/tailscale_daemon.go\<close>). The Tailscale packages
  it assembles are parameters (record \<open>tailscale\<close>): what each constructor answers. The
  daemon's state also has what it opened and closed while trying tunnel devices, the
  network stack's settings, and the goroutines it started. Logging is left out.
\<close>

section \<open>Data\<close>

datatype daemon_error =
    ErrTun string string
  | ErrRouter string
  | ErrDNS string
  | ErrEngine string
  | ErrNoTun
  | ErrAll "daemon_error list"
  | ErrStatePath
  | ErrMonitor string
  | ErrListen string
  | ErrCreateEngine daemon_error
  | ErrNetstack string
  | ErrStore string
  | ErrBackend string
  | ErrNetstackStart string
  | ErrTimer string

datatype resource_event = NetnsEnabled bool | TunOpened | TunClosed | RouterOpened | RouterClosed

datatype router = PlainRouter | SubnetRouter

record engine_config =
  ListenPort :: uint16
  conf_Tun :: bool
  IsTAP :: bool
  conf_Router :: "router option"
  conf_DNS :: bool

text \<open>The goroutine of the IPN server: \<open>run\<close> adds one to the wait group for each.\<close>

record ('e, 'b) TailscaleDaemon =
  tunname :: string
  port :: uint16
  statePath :: string
  socketPath :: string
  verbose :: int64
  devName :: string
  wgDevice :: "'e option"
  wgDevice_setters :: "'e list"
  LocalBackend :: "'b option"
  ctx_cancelled :: bool
  nodeCheckTimer :: bool
  exit_count :: nat
  resources :: "resource_event list"
  ProcessLocalIPs :: bool
  ProcessSubnets :: bool
  dialer_netstack :: bool
  srv_backend :: "'b option"

text \<open>
  The environment: the platform, the answers of the Tailscale packages, and the state
  directory functions. \<open>tstun_New\<close> gives the device's name and an error or nil. What the
  constructors of devices and engines answer may depend on what the daemon has opened and
  closed before, which is their first argument.
\<close>

record ('e, 'b) tailscale =
  GOOS :: string
  isSynology :: bool
  LookupBool :: "bool option"
  tstun_New :: "resource_event list \<Rightarrow> string \<Rightarrow> string \<times> string option"
  router_New :: "resource_event list \<Rightarrow> string \<Rightarrow> string option"
  NewOSConfigurator :: "resource_event list \<Rightarrow> string \<Rightarrow> string option"
  NewUserspaceEngine :: "resource_event list \<Rightarrow> engine_config \<Rightarrow> string + 'e"
  monitor_New :: "string option"
  safesocket_Listen :: "string \<Rightarrow> string option"
  GetResolver :: "'e \<Rightarrow> bool"
  GetInternals :: "'e \<Rightarrow> bool"
  netstack_Create :: "'e \<Rightarrow> string option"
  filepath_Join :: "string \<Rightarrow> string \<Rightarrow> string"
  filepath_Dir :: "string \<Rightarrow> string"
  homedir_Dir :: string
  store_New :: "string \<Rightarrow> string option"
  NewLocalBackend :: "'e \<Rightarrow> bool \<Rightarrow> string + 'b"
  netstack_Start :: "'b \<Rightarrow> string option"
  timer_Start :: "int64 \<Rightarrow> string option"
  DefaultTailscaledSocket :: string
  DefaultTailscaledStateFile :: string

definition nodeCheckTimeout :: int64 where
  "nodeCheckTimeout = 5000"

section \<open>Creating the daemon\<close>

definition defaultTunName :: "('e, 'b) tailscale \<Rightarrow> string" where
  "defaultTunName ts =
     (if GOOS ts = ''openbsd'' then ''tun''
      else if GOOS ts = ''windows'' then ''Tailscale''
      else if GOOS ts = ''darwin'' then ''utun''
      else if GOOS ts = ''linux'' \<and> isSynology ts then ''tailscale0,userspace-networking''
      else ''tailscale0'')"

datatype log_level = TraceLevel | DebugLevel | OtherLevel

datatype removal = Remove string | RemoveAll string

definition NewTailscaleDaemon ::
    "('e, 'b) tailscale \<Rightarrow> log_level \<Rightarrow> string \<Rightarrow> removal list \<times> ('e, 'b) TailscaleDaemon" where
  "NewTailscaleDaemon ts level path =
     ((if length (DefaultTailscaledSocket ts) > 0 then [Remove (DefaultTailscaledSocket ts)] else []) @
      (if path \<noteq> DefaultTailscaledStateFile ts then [RemoveAll (filepath_Dir ts (DefaultTailscaledStateFile ts))] else []),
      \<lparr>tunname = defaultTunName ts, port = 0, statePath = path, socketPath = DefaultTailscaledSocket ts,
       verbose = (case level of TraceLevel \<Rightarrow> 2 | DebugLevel \<Rightarrow> 2 | OtherLevel \<Rightarrow> 0),
       devName = [], wgDevice = None, wgDevice_setters = [], LocalBackend = None, ctx_cancelled = False,
       nodeCheckTimer = False, exit_count = 0, resources = [], ProcessLocalIPs = False,
       ProcessSubnets = False, dialer_netstack = False, srv_backend = None\<rparr>)"

definition TunnelDeviceName :: "('e, 'b) TailscaleDaemon \<Rightarrow> string" where
  "TunnelDeviceName tsd = devName tsd"

section \<open>Creating the engine\<close>

definition handleSubnetsInNetstack :: "('e, 'b) tailscale \<Rightarrow> bool" where
  "handleSubnetsInNetstack ts = (case LookupBool ts of
      Some v \<Rightarrow> v
    | None \<Rightarrow> GOOS ts \<in> {''windows'', ''darwin'', ''freebsd'', ''openbsd''})"

definition log_resource :: "resource_event list \<Rightarrow> ('e, 'b) TailscaleDaemon \<Rightarrow> ('e, 'b) TailscaleDaemon" where
  "log_resource rs tsd = tsd\<lparr>resources := resources tsd @ rs\<rparr>"

definition HasPrefix :: "string \<Rightarrow> string \<Rightarrow> bool" where
  "HasPrefix s p \<longleftrightarrow> take (length p) s = p"

text \<open>The device part of \<open>tryEngine\<close>: the configuration with its tunnel, router and DNS.\<close>

definition open_devices ::
    "('e, 'b) tailscale \<Rightarrow> string \<Rightarrow> engine_config \<Rightarrow> ('e, 'b) TailscaleDaemon \<Rightarrow>
     (daemon_error + engine_config) \<times> ('e, 'b) TailscaleDaemon" where
  "open_devices ts name conf tsd =
     (let (dev, tunErr) = tstun_New ts (resources tsd) name; tsd1 = tsd\<lparr>devName := dev\<rparr> in
      case tunErr of Some e \<Rightarrow> (Inl (ErrTun name e), tsd1) | None \<Rightarrow>
      (let tsd2 = log_resource [TunOpened] tsd1; conf1 = conf\<lparr>conf_Tun := True\<rparr> in
       if HasPrefix name ''tap:'' then (Inr (conf1\<lparr>IsTAP := True\<rparr>), tsd2)
       else case router_New ts (resources tsd2) name of
         Some e \<Rightarrow> (Inl (ErrRouter e), log_resource [TunClosed] tsd2)
       | None \<Rightarrow>
           (let tsd3 = log_resource [RouterOpened] tsd2 in
            case NewOSConfigurator ts (resources tsd3) dev of
              Some e \<Rightarrow> (Inl (ErrDNS e), log_resource [TunClosed, RouterClosed] tsd3)
            | None \<Rightarrow> (Inr (conf1\<lparr>conf_Router := Some (if handleSubnetsInNetstack ts then SubnetRouter else PlainRouter),
                conf_DNS := True\<rparr>), tsd3))))"

definition tryEngine ::
    "('e, 'b) tailscale \<Rightarrow> string \<Rightarrow> ('e, 'b) TailscaleDaemon \<Rightarrow>
     (daemon_error + 'e \<times> bool) \<times> ('e, 'b) TailscaleDaemon" where
  "tryEngine ts name tsd =
     (let conf = \<lparr>ListenPort = port tsd, conf_Tun = False, IsTAP = False, conf_Router = None, conf_DNS = False\<rparr>;
          useNetstack = (name = ''userspace-networking'');
          tsd1 = log_resource [NetnsEnabled (\<not> useNetstack)] tsd;
          (r, tsd2) = (if \<not> useNetstack then open_devices ts name conf tsd1 else (Inr conf, tsd1)) in
      case r of
        Inl e \<Rightarrow> (Inl e, tsd2)
      | Inr conf' \<Rightarrow> (case NewUserspaceEngine ts (resources tsd2) conf' of
          Inl e \<Rightarrow> (Inl (ErrEngine e), tsd2)
        | Inr eng \<Rightarrow> (Inr (eng, useNetstack), tsd2\<lparr>wgDevice_setters := wgDevice_setters tsd2 @ [eng]\<rparr>)))"

text \<open>The goroutine \<open>tryEngine\<close> starts: it takes the mutex and stores the device.\<close>

definition run_setter :: "('e, 'b) TailscaleDaemon \<Rightarrow> ('e, 'b) TailscaleDaemon" where
  "run_setter tsd = (case wgDevice_setters tsd of
      [] \<Rightarrow> tsd | e # es \<Rightarrow> tsd\<lparr>wgDevice := Some e, wgDevice_setters := es\<rparr>)"

fun engine_loop ::
    "('e, 'b) tailscale \<Rightarrow> daemon_error list \<Rightarrow> string list \<Rightarrow> ('e, 'b) TailscaleDaemon \<Rightarrow>
     (daemon_error + 'e \<times> bool) \<times> ('e, 'b) TailscaleDaemon" where
  "engine_loop ts errs [] tsd = (Inl (ErrAll errs), tsd)"
| "engine_loop ts errs (name # names) tsd = (case tryEngine ts name tsd of
      (Inr r, tsd') \<Rightarrow> (Inr r, tsd')
    | (Inl e, tsd') \<Rightarrow> engine_loop ts (errs @ [e]) names tsd')"

definition createEngine ::
    "('e, 'b) tailscale \<Rightarrow> ('e, 'b) TailscaleDaemon \<Rightarrow>
     (daemon_error + 'e \<times> bool) \<times> ('e, 'b) TailscaleDaemon" where
  "createEngine ts tsd =
     (if tunname tsd = [] then (Inl ErrNoTun, tsd)
      else engine_loop ts [] (split_on CHR '','' (tunname tsd)) tsd)"

text \<open>An engine that does not give its parts away is an error of its own.\<close>

definition newNetstack :: "('e, 'b) tailscale \<Rightarrow> 'e \<Rightarrow> string option" where
  "newNetstack ts e =
     (if \<not> GetInternals ts e then Some ''engine is not a wgengine.InternalsGetter'' else netstack_Create ts e)"

section \<open>Starting and stopping\<close>

definition ipnServerOpts :: "('e, 'b) tailscale \<Rightarrow> ('e, 'b) TailscaleDaemon \<Rightarrow> string \<times> bool" where
  "ipnServerOpts ts tsd =
     (if statePath tsd = [] then filepath_Join ts (homedir_Dir ts) ''.tailscale'' else statePath tsd,
      GOOS ts = ''js'')"

text \<open>
  The part of \<open>run\<close> after the server's goroutine has been started. An engine without a
  resolver panics.
\<close>

definition start_backend ::
    "('e, 'b) tailscale \<Rightarrow> 'e \<Rightarrow> bool \<Rightarrow> ('e, 'b) TailscaleDaemon \<Rightarrow>
     daemon_error option \<times> ('e, 'b) TailscaleDaemon" where
  "start_backend ts eng onlyNetstack tsd =
     (case newNetstack ts eng of Some e \<Rightarrow> (Some (ErrNetstack e), tsd) | None \<Rightarrow>
      (let tsd1 = tsd\<lparr>ProcessLocalIPs := onlyNetstack,
             ProcessSubnets := (onlyNetstack \<or> handleSubnetsInNetstack ts), dialer_netstack := onlyNetstack\<rparr>;
           (varRoot, ephemeral) = ipnServerOpts ts tsd1 in
       case store_New ts (filepath_Join ts varRoot ''tailscaled.state'') of
         Some e \<Rightarrow> (Some (ErrStore e), tsd1)
       | None \<Rightarrow> (case NewLocalBackend ts eng ephemeral of
           Inl e \<Rightarrow> (Some (ErrBackend e), tsd1\<lparr>LocalBackend := None\<rparr>)
         | Inr b \<Rightarrow>
             (let tsd2 = tsd1\<lparr>LocalBackend := Some b\<rparr> in
              case netstack_Start ts b of
                Some e \<Rightarrow> (Some (ErrNetstackStart e), tsd2)
              | None \<Rightarrow> (None, tsd2\<lparr>srv_backend := Some b\<rparr>)))))"

definition run ::
    "('e, 'b) tailscale \<Rightarrow> ('e, 'b) TailscaleDaemon \<Rightarrow>
     (daemon_error option \<times> ('e, 'b) TailscaleDaemon) outcome" where
  "run ts tsd =
     (if statePath tsd = [] then Ret (Some ErrStatePath, tsd)
      else case monitor_New ts of Some e \<Rightarrow> Ret (Some (ErrMonitor e), tsd) | None \<Rightarrow>
      (case safesocket_Listen ts (socketPath tsd) of Some e \<Rightarrow> Ret (Some (ErrListen e), tsd) | None \<Rightarrow>
       (case createEngine ts (tsd\<lparr>exit_count := exit_count tsd + 1\<rparr>) of
          (Inl e, tsd1) \<Rightarrow> Ret (Some (ErrCreateEngine e), tsd1)
        | (Inr (eng, onlyNetstack), tsd1) \<Rightarrow>
            if GetResolver ts eng then Ret (start_backend ts eng onlyNetstack tsd1)
            else Panic ''internal error: exit node resolver not wired up'')))"

definition tsd_Start ::
    "('e, 'b) tailscale \<Rightarrow> ('e, 'b) TailscaleDaemon \<Rightarrow>
     (daemon_error option \<times> ('e, 'b) TailscaleDaemon) outcome" where
  "tsd_Start ts tsd = (case timer_Start ts nodeCheckTimeout of
      Some e \<Rightarrow> Ret (Some (ErrTimer e), tsd)
    | None \<Rightarrow> run ts (tsd\<lparr>nodeCheckTimer := True\<rparr>))"

text \<open>The server's \<open>Run\<close> returns, for whatever reason: its goroutine leaves the wait group.\<close>

definition server_returns :: "('e, 'b) TailscaleDaemon \<Rightarrow> ('e, 'b) TailscaleDaemon" where
  "server_returns tsd = tsd\<lparr>exit_count := exit_count tsd - 1\<rparr>"

text \<open>
  \<open>Stop\<close> waits for the wait group after cancelling: \<open>returns\<close> is how many of the servers'
  goroutines come back once the context is cancelled. With one missing it has no result.
\<close>

definition tsd_Stop :: "nat \<Rightarrow> ('e, 'b) TailscaleDaemon \<Rightarrow> ('e, 'b) TailscaleDaemon option" where
  "tsd_Stop returns tsd =
     (let tsd1 = tsd\<lparr>nodeCheckTimer := False, ctx_cancelled := True\<rparr>;
          tsd2 = (server_returns ^^ returns) tsd1
      in if exit_count tsd2 = 0 then Some tsd2 else None)"

text \<open>\<open>Cleanup\<close> passes the tunnel's name to the two cleanup functions.\<close>

definition Cleanup :: "('e, 'b) TailscaleDaemon \<Rightarrow> (string \<Rightarrow> 'w \<Rightarrow> 'w) \<Rightarrow> (string \<Rightarrow> 'w \<Rightarrow> 'w) \<Rightarrow> 'w \<Rightarrow> 'w" where
  "Cleanup tsd dns_Cleanup router_Cleanup world = router_Cleanup (tunname tsd) (dns_Cleanup (tunname tsd) world)"

section \<open>Checking the nodes\<close>

record peer_status =
  DNSName :: string
  Online :: bool

datatype check_error = ContextCanceled

text \<open>
  One run of the node check: the next interval, its error, and the peers a goroutine was
  started for. A panic of the backend, or of a backend that is still nil, is recovered;
  goroutines started before it go on, here none, since the status is read first.
\<close>

definition nodeCheck ::
    "('b \<Rightarrow> peer_status list outcome) \<Rightarrow> ('e, 'b) TailscaleDaemon \<Rightarrow>
     int64 \<times> check_error option \<times> peer_status list" where
  "nodeCheck Status tsd =
     (if ctx_cancelled tsd then (nodeCheckTimeout, Some ContextCanceled, [])
      else case (case LocalBackend tsd of
             None \<Rightarrow> Panic ''invalid memory address or nil pointer dereference'' | Some b \<Rightarrow> Status b) of
          Panic _ \<Rightarrow> (nodeCheckTimeout, None, [])
        | Ret ps \<Rightarrow> (nodeCheckTimeout, None, filter Online ps))"

text \<open>\<open>netip.AddrFromSlice\<close>.\<close>

definition AddrFromSlice :: "ip \<Rightarrow> netip_addr option" where
  "AddrFromSlice b = (if length b = 4 then Some (Addr4 b) else if length b = 16 then Some (Addr6 b []) else None)"

text \<open>
  The loop over \<open>Ping\<close>: \<open>ping i\<close> is the answer to the \<open>i\<close>-th call. Any error but an expired
  deadline is tried again at once.
\<close>

datatype ping_answer = Pong | DeadlineExceeded | PingError string

partial_function (option) ping_loop :: "(nat \<Rightarrow> ping_answer) \<Rightarrow> nat \<Rightarrow> ping_answer option" where
  "ping_loop ping i = (case ping i of
      PingError e \<Rightarrow> ping_loop ping (Suc i)
    | Pong \<Rightarrow> Some Pong
    | DeadlineExceeded \<Rightarrow> Some DeadlineExceeded)"

datatype check_result = NotResolved | Reached netip_addr | TimedOut netip_addr

text \<open>
  The goroutine of one peer. An address that is neither of four nor of sixteen bytes makes
  it print the error of the lookup, which is nil, and panic.
\<close>

definition check_peer ::
    "(string \<Rightarrow> string + ip list) \<Rightarrow> (netip_addr \<Rightarrow> nat \<Rightarrow> ping_answer) \<Rightarrow> peer_status \<Rightarrow>
     check_result outcome option" where
  "check_peer LookupIP Ping p = (case LookupIP (DNSName p) of
      Inl e \<Rightarrow> Some (Ret NotResolved)
    | Inr [] \<Rightarrow> Some (Ret NotResolved)
    | Inr (b # _) \<Rightarrow> (case AddrFromSlice b of
        None \<Rightarrow> Some (Panic ''invalid memory address or nil pointer dereference'')
      | Some a \<Rightarrow> (case ping_loop (Ping a) 0 of
          None \<Rightarrow> None
        | Some Pong \<Rightarrow> Some (Ret (Reached a))
        | Some _ \<Rightarrow> Some (Ret (TimedOut a)))))"

end
