(* ===== verification/Tailscale_Daemon_Props.thy ===== *)
theory Tailscale_Daemon_Props
  imports Tailscale_Daemon
begin

text \<open>
  Correctness of the daemon: the order in which the tunnel names are tried and what the
  attempts leave open, the fall-back to userspace networking, the wait group of the
  servers, and when the check of a peer ends.
\<close>

section \<open>Trying the tunnel names\<close>

lemma log_resource_simps [simp]:
  "port (log_resource rs tsd) = port tsd" "tunname (log_resource rs tsd) = tunname tsd"
  "exit_count (log_resource rs tsd) = exit_count tsd" "statePath (log_resource rs tsd) = statePath tsd"
  "resources (log_resource rs tsd) = resources tsd @ rs" "wgDevice_setters (log_resource rs tsd) = wgDevice_setters tsd"
  by (simp_all add: log_resource_def)

lemma open_devices_frame:
  assumes "open_devices ts name conf tsd = (r, tsd')"
  shows "port tsd' = port tsd \<and> exit_count tsd' = exit_count tsd \<and> statePath tsd' = statePath tsd \<and>
    wgDevice_setters tsd' = wgDevice_setters tsd"
  using assms by (auto simp: open_devices_def Let_def split: prod.splits option.splits if_splits)

lemma tryEngine_frame:
  assumes "tryEngine ts name tsd = (r, tsd')"
  shows "port tsd' = port tsd \<and> exit_count tsd' = exit_count tsd \<and> statePath tsd' = statePath tsd"
  using assms
  by (auto simp: tryEngine_def Let_def split: prod.splits sum.splits if_splits dest!: open_devices_frame)

lemma engine_loop_frame:
  "engine_loop ts errs names tsd = (r, tsd') \<Longrightarrow>
   port tsd' = port tsd \<and> exit_count tsd' = exit_count tsd \<and> statePath tsd' = statePath tsd"
proof (induction names arbitrary: errs tsd)
  case (Cons n names)
  obtain x tsd1 where t: "tryEngine ts n tsd = (x, tsd1)" by (cases "tryEngine ts n tsd")
  from tryEngine_frame [OF t] Cons show ?case by (cases x) (auto simp: t)
qed auto

lemma createEngine_frame:
  "createEngine ts tsd = (r, tsd') \<Longrightarrow> exit_count tsd' = exit_count tsd \<and> statePath tsd' = statePath tsd"
  by (auto simp: createEngine_def dest: engine_loop_frame split: if_splits)

section \<open>What an attempt leaves open\<close>

definition tuns_open :: "('e, 'b) TailscaleDaemon \<Rightarrow> int" where
  "tuns_open tsd = int (count_list (resources tsd) TunOpened) - int (count_list (resources tsd) TunClosed)"

definition routers_open :: "('e, 'b) TailscaleDaemon \<Rightarrow> int" where
  "routers_open tsd = int (count_list (resources tsd) RouterOpened) - int (count_list (resources tsd) RouterClosed)"

lemma tryEngine_releases:
  assumes "tryEngine ts name tsd = (Inl err, tsd')"
  shows "if (\<exists>e. err = ErrEngine e) \<and> name \<noteq> ''userspace-networking''
    then tuns_open tsd' = tuns_open tsd + 1 \<and>
      routers_open tsd' = routers_open tsd + (if HasPrefix name ''tap:'' then 0 else 1)
    else tuns_open tsd' = tuns_open tsd \<and> routers_open tsd' = routers_open tsd"
  using assms
  by (auto simp: tryEngine_def open_devices_def Let_def tuns_open_def routers_open_def
      split: prod.splits sum.splits option.splits if_splits)

lemma tryEngine_success:
  assumes "tryEngine ts name tsd = (Inr (eng, onlyNetstack), tsd')"
  shows "onlyNetstack = (name = ''userspace-networking'') \<and> tuns_open tsd' = tuns_open tsd + (if onlyNetstack then 0 else 1)"
  using assms
  by (auto simp: tryEngine_def open_devices_def Let_def tuns_open_def
      split: prod.splits sum.splits option.splits if_splits)

text \<open>
  A run of failed attempts, each made in the state the one before it left; and how many of
  them leave a tunnel open.
\<close>

inductive failed_attempts ::
    "('e, 'b) tailscale \<Rightarrow> ('e, 'b) TailscaleDaemon \<Rightarrow> string list \<Rightarrow> daemon_error list \<Rightarrow> ('e, 'b) TailscaleDaemon \<Rightarrow> bool"
  for ts
where
  no_attempt: "failed_attempts ts tsd [] [] tsd"
| attempt: "tryEngine ts name tsd = (Inl e, tsd1) \<Longrightarrow> failed_attempts ts tsd1 names errs tsd2 \<Longrightarrow>
    failed_attempts ts tsd (name # names) (e # errs) tsd2"

definition left_open :: "string list \<Rightarrow> daemon_error list \<Rightarrow> int" where
  "left_open names errs = int (length (filter (\<lambda>(name, err). name \<noteq> ''userspace-networking'' \<and>
     (case err of ErrEngine _ \<Rightarrow> True | _ \<Rightarrow> False)) (zip names errs)))"

lemma failed_attempts_open:
  "failed_attempts ts tsd names errs tsd' \<Longrightarrow>
   length errs = length names \<and> tuns_open tsd' = tuns_open tsd + left_open names errs"
proof (induction rule: failed_attempts.induct)
  case (attempt name tsd e tsd1 names errs tsd2)
  from tryEngine_releases [OF attempt(1)] attempt(3) show ?case
    by (cases e) (auto simp: left_open_def split: if_splits)
qed (simp add: left_open_def)

lemma engine_loop_attempts:
  assumes "engine_loop ts errs0 names tsd = (r, tsd')"
  shows "case r of
      Inl err \<Rightarrow> \<exists>errs. err = ErrAll (errs0 @ errs) \<and> failed_attempts ts tsd names errs tsd'
    | Inr x \<Rightarrow> \<exists>tried name rest errs tsd1. names = tried @ name # rest \<and> failed_attempts ts tsd tried errs tsd1 \<and>
        tryEngine ts name tsd1 = (Inr x, tsd')"
  using assms
proof (induction names arbitrary: errs0 tsd)
  case Nil
  then show ?case by (auto intro: failed_attempts.intros)
next
  case (Cons n names)
  obtain y tsd1 where t: "tryEngine ts n tsd = (y, tsd1)" by (cases "tryEngine ts n tsd")
  show ?case
  proof (cases y)
    case (Inr x)
    with t Cons.prems have "r = Inr x" "tryEngine ts n tsd = (Inr x, tsd')" by auto
    moreover have "n # names = [] @ n # names" by simp
    ultimately show ?thesis using failed_attempts.no_attempt [of ts tsd] by (simp only: sum.case) blast
  next
    case (Inl e)
    with t Cons.prems have "engine_loop ts (errs0 @ [e]) names tsd1 = (r, tsd')" by simp
    from Cons.IH [OF this] show ?thesis
    proof (cases r)
      case err: (Inl err)
      with Cons.IH [OF \<open>engine_loop ts (errs0 @ [e]) names tsd1 = (r, tsd')\<close>] obtain errs
        where "err = ErrAll (errs0 @ e # errs)" "failed_attempts ts tsd1 names errs tsd'" by auto
      with failed_attempts.attempt [of ts n tsd e tsd1] t Inl err show ?thesis by auto
    next
      case succ: (Inr x)
      with Cons.IH [OF \<open>engine_loop ts (errs0 @ [e]) names tsd1 = (r, tsd')\<close>] obtain tried name rest errs tsd2
        where "names = tried @ name # rest" "failed_attempts ts tsd1 tried errs tsd2"
          "tryEngine ts name tsd2 = (Inr x, tsd')" by auto
      moreover from this have "n # names = (n # tried) @ name # rest" "failed_attempts ts tsd (n # tried) (e # errs) tsd2"
        using failed_attempts.attempt [of ts n tsd e tsd1] t Inl by simp_all
      ultimately show ?thesis using succ by (simp only: sum.case) blast
    qed
  qed
qed

text \<open>
  C9: creating the engine tries the names of the comma separated list in order, each in the
  state the attempts before it left, whatever the devices still open make the next one
  answer. The first attempt that succeeds gives the result and ends the search; without one
  the result is the list of all errors, in the order of the names. The tunnels left open are
  exactly those of the attempts whose engine could not be created, and the one in use unless
  the result is userspace networking.
\<close>

theorem createEngine_attempts:
  assumes "createEngine ts tsd = (r, tsd')" and "tunname tsd \<noteq> []"
  shows "case r of
      Inl err \<Rightarrow> \<exists>errs. err = ErrAll errs \<and>
        failed_attempts ts tsd (split_on CHR '','' (tunname tsd)) errs tsd' \<and>
        tuns_open tsd' = tuns_open tsd + left_open (split_on CHR '','' (tunname tsd)) errs
    | Inr (eng, onlyNetstack) \<Rightarrow> \<exists>tried name rest errs tsd1. split_on CHR '','' (tunname tsd) = tried @ name # rest \<and>
        failed_attempts ts tsd tried errs tsd1 \<and> tryEngine ts name tsd1 = (Inr (eng, onlyNetstack), tsd') \<and>
        onlyNetstack = (name = ''userspace-networking'') \<and>
        tuns_open tsd' = tuns_open tsd + left_open tried errs + (if onlyNetstack then 0 else 1)"
proof -
  have "engine_loop ts [] (split_on CHR '','' (tunname tsd)) tsd = (r, tsd')"
    using assms by (simp add: createEngine_def)
  note loop = engine_loop_attempts [OF this]
  show ?thesis
  proof (cases r)
    case (Inl err)
    with loop show ?thesis by (auto dest: failed_attempts_open)
  next
    case (Inr x)
    obtain eng ns where x: "x = (eng, ns)" by (cases x)
    from loop Inr x obtain tried name rest errs tsd1 where
      a: "split_on CHR '','' (tunname tsd) = tried @ name # rest" "failed_attempts ts tsd tried errs tsd1"
      "tryEngine ts name tsd1 = (Inr (eng, ns), tsd')" by auto
    have "ns = (name = ''userspace-networking'')"
      "tuns_open tsd' = tuns_open tsd + left_open tried errs + (if ns then 0 else 1)"
      using tryEngine_success [OF a(3)] failed_attempts_open [OF a(2)] by simp_all
    with a show ?thesis unfolding Inr x sum.case prod.case by blast
  qed
qed

text \<open>A daemon and an environment in which only the userspace engine can be made.\<close>

definition sample_ts :: "(unit, unit) tailscale" where
  "sample_ts = \<lparr>GOOS = ''linux'', isSynology = True, LookupBool = None,
     tstun_New = (\<lambda>_ _. ([], Some ''no tun'')), router_New = (\<lambda>_ _. None), NewOSConfigurator = (\<lambda>_ _. None),
     NewUserspaceEngine = (\<lambda>_ _. Inr ()), monitor_New = None, safesocket_Listen = (\<lambda>_. None),
     GetResolver = (\<lambda>_. True), GetInternals = (\<lambda>_. True), netstack_Create = (\<lambda>_. None), filepath_Join = (\<lambda>a b. a @ ''/'' @ b),
     filepath_Dir = id, homedir_Dir = ''/root'', store_New = (\<lambda>_. None), NewLocalBackend = (\<lambda>_ _. Inr ()),
     netstack_Start = (\<lambda>_. None), timer_Start = (\<lambda>_. None),
     DefaultTailscaledSocket = ''/var/run/tailscaled.sock'', DefaultTailscaledStateFile = ''/var/lib/tailscaled.state''\<rparr>"

definition sample_tsd :: "(unit, unit) TailscaleDaemon" where
  "sample_tsd = snd (NewTailscaleDaemon sample_ts OtherLevel ''/state'')"

lemmas sample_defs = sample_ts_def sample_tsd_def NewTailscaleDaemon_def defaultTunName_def

lemma sample_names: "split_on CHR '','' (tunname sample_tsd) = [''tailscale0'', ''userspace-networking'']"
  by (simp add: sample_defs)

definition busy_ts :: "(unit, unit) tailscale" where
  "busy_ts = sample_ts\<lparr>tstun_New := (\<lambda>_ n. (n, None)),
     NewUserspaceEngine := (\<lambda>h _. if TunOpened \<in> set h \<and> NetnsEnabled False \<notin> set h then Inl ''busy'' else Inr ())\<rparr>"

lemma busy_attempts:
  "\<exists>tsd1 tsd2. tryEngine busy_ts ''tailscale0'' sample_tsd = (Inl (ErrEngine ''busy''), tsd1) \<and>
     tryEngine busy_ts ''userspace-networking'' tsd1 = (Inr ((), True), tsd2)"
proof -
  have "resources sample_tsd = []" by (simp add: sample_defs)
  then show ?thesis
    by (simp add: tryEngine_def open_devices_def HasPrefix_def busy_ts_def sample_ts_def Let_def)
qed

theorem createEngine_attempts_witness:
  "\<exists>tsd'. createEngine busy_ts sample_tsd = (Inr ((), True), tsd') \<and> tuns_open tsd' = 1"
proof -
  from busy_attempts obtain tsd1 tsd2 where
    t: "tryEngine busy_ts ''tailscale0'' sample_tsd = (Inl (ErrEngine ''busy''), tsd1)"
      "tryEngine busy_ts ''userspace-networking'' tsd1 = (Inr ((), True), tsd2)" by blast
  have names: "tunname sample_tsd \<noteq> []" and zero: "tuns_open sample_tsd = 0"
    by (simp_all add: sample_defs tuns_open_def)
  then have c: "createEngine busy_ts sample_tsd = (Inr ((), True), tsd2)"
    by (simp add: createEngine_def sample_names t)
  from createEngine_attempts [OF c names] obtain tried name rest errs tsd' where
    split: "[''tailscale0'', ''userspace-networking''] = tried @ name # rest" "name = ''userspace-networking''"
    and failed: "failed_attempts busy_ts sample_tsd tried errs tsd'" and "open": "tuns_open tsd2 = left_open tried errs"
    unfolding sum.case prod.case sample_names zero by auto
  from split have "tried = [''tailscale0'']" by (auto simp: Cons_eq_append_conv)
  with failed t(1) have "left_open tried errs = 1" by (auto simp: left_open_def elim!: failed_attempts.cases)
  with c "open" show ?thesis by simp
qed

text \<open>
  C38: an attempt that fails before the engine is created has closed the tunnel and the
  router it opened. An attempt in which only the engine cannot be created leaves both
  open, but for userspace networking, which opens none.
\<close>

theorem failed_attempt_releases:
  assumes "tryEngine ts name tsd = (Inl err, tsd')"
  shows "if (\<exists>e. err = ErrEngine e) \<and> name \<noteq> ''userspace-networking''
    then tuns_open tsd' = tuns_open tsd + 1 \<and>
      routers_open tsd' = routers_open tsd + (if HasPrefix name ''tap:'' then 0 else 1)
    else tuns_open tsd' = tuns_open tsd \<and> routers_open tsd' = routers_open tsd"
  by (rule tryEngine_releases) (rule assms)

theorem failed_attempt_releases_witness:
  "\<exists>tsd'. tryEngine (sample_ts\<lparr>tstun_New := (\<lambda>_ n. (n, None)), NewUserspaceEngine := (\<lambda>_ _. Inl ''busy'')\<rparr>)
       ''tailscale0'' sample_tsd = (Inl (ErrEngine ''busy''), tsd') \<and>
     tuns_open tsd' = tuns_open sample_tsd + 1 \<and> routers_open tsd' = routers_open sample_tsd + 1"
proof -
  let ?ts = "sample_ts\<lparr>tstun_New := (\<lambda>_ n. (n, None)), NewUserspaceEngine := (\<lambda>_ _. Inl ''busy'')\<rparr>"
  have tap: "\<not> HasPrefix ''tailscale0'' ''tap:''" by (simp add: HasPrefix_def)
  then obtain tsd' where t: "tryEngine ?ts ''tailscale0'' sample_tsd = (Inl (ErrEngine ''busy''), tsd')"
    by (simp add: tryEngine_def open_devices_def sample_ts_def Let_def)
  from failed_attempt_releases [OF t] t tap show ?thesis by simp
qed

section \<open>Starting and stopping\<close>

lemma start_backend_frame:
  "start_backend ts eng ns tsd = (r, tsd') \<Longrightarrow> exit_count tsd' = exit_count tsd"
  by (auto simp: start_backend_def Let_def split: option.splits sum.splits prod.splits)

lemma start_backend_success:
  "start_backend ts eng ns tsd = (None, tsd') \<Longrightarrow>
   \<exists>b. LocalBackend tsd' = Some b \<and> srv_backend tsd' = Some b \<and> ProcessLocalIPs tsd' = ns \<and>
     dialer_netstack tsd' = ns \<and> ProcessSubnets tsd' = (ns \<or> handleSubnetsInNetstack ts)"
  by (auto simp: start_backend_def Let_def split: option.splits sum.splits prod.splits)

definition before_server :: "daemon_error option \<Rightarrow> bool" where
  "before_server r \<longleftrightarrow> (case r of Some ErrStatePath \<Rightarrow> True | Some (ErrMonitor _) \<Rightarrow> True
     | Some (ErrListen _) \<Rightarrow> True | Some (ErrTimer _) \<Rightarrow> True | _ \<Rightarrow> False)"

lemma start_backend_error: "start_backend ts eng ns tsd = (r, tsd') \<Longrightarrow> \<not> before_server r"
  by (auto simp: start_backend_def before_server_def Let_def split: option.splits sum.splits prod.splits)

lemma run_servers:
  assumes "run ts tsd = Ret (r, tsd')"
  shows "exit_count tsd' = exit_count tsd + (if before_server r then 0 else 1)"
proof (cases "statePath tsd = [] \<or> monitor_New ts \<noteq> None \<or> safesocket_Listen ts (socketPath tsd) \<noteq> None")
  case True
  with assms show ?thesis by (auto simp: run_def before_server_def split: option.splits if_splits)
next
  case False
  obtain x tsd1 where c: "createEngine ts (tsd\<lparr>exit_count := exit_count tsd + 1\<rparr>) = (x, tsd1)"
    by (cases "createEngine ts (tsd\<lparr>exit_count := exit_count tsd + 1\<rparr>)")
  from createEngine_frame [OF c] have n: "exit_count tsd1 = exit_count tsd + 1" by simp
  show ?thesis
  proof (cases x)
    case (Inl e)
    with assms False c n show ?thesis by (auto simp: run_def before_server_def)
  next
    case (Inr y)
    with assms False c have "start_backend ts (fst y) (snd y) tsd1 = (r, tsd')"
      by (cases y) (auto simp: run_def split: if_splits)
    with start_backend_frame start_backend_error n show ?thesis by fastforce
  qed
qed

lemma server_returns_iter: "exit_count ((server_returns ^^ k) tsd) = exit_count tsd - k"
  by (induction k) (simp_all add: server_returns_def)

text \<open>
  C39: \<open>Stop\<close> waits exactly for the server \<open>Start\<close> left running. A start that fails before
  the socket is listened on leaves none; any other, successful or not, leaves one. Stopping
  returns exactly when as many servers come back after the cancellation, then with the
  check timer stopped, and every later node check does nothing but report the cancellation.
\<close>

theorem stop_waits_for_server:
  assumes "tsd_Start ts tsd = Ret (r, tsd')" and "exit_count tsd = 0"
  shows "exit_count tsd' = (if before_server r then 0 else 1) \<and>
    (case tsd_Stop k tsd' of
       None \<Rightarrow> k < exit_count tsd'
     | Some tsd'' \<Rightarrow> exit_count tsd' \<le> k \<and> exit_count tsd'' = 0 \<and> \<not> nodeCheckTimer tsd'' \<and>
         nodeCheck Status tsd'' = (nodeCheckTimeout, Some ContextCanceled, []))"
proof -
  have n: "exit_count tsd' = (if before_server r then 0 else 1)"
    using assms run_servers [of ts "tsd\<lparr>nodeCheckTimer := True\<rparr>" r tsd']
    by (auto simp: tsd_Start_def before_server_def split: option.splits)
  have iter: "ctx_cancelled ((server_returns ^^ k) t) = ctx_cancelled t"
    "nodeCheckTimer ((server_returns ^^ k) t) = nodeCheckTimer t" for t :: "('a, 'b) TailscaleDaemon"
    by (induction k) (simp_all add: server_returns_def)
  show ?thesis
    using n by (auto simp: tsd_Stop_def server_returns_iter Let_def iter nodeCheck_def split: option.splits)
qed

text \<open>
  On a Synology host without a tunnel device the daemon still starts: the second name
  of its default list is userspace networking, the network stack then handles local
  addresses and subnets and the dialer goes through it, and the server has the backend.
\<close>

theorem synology_falls_back:
  assumes host: "GOOS ts = ''linux''" "isSynology ts" and path: "path \<noteq> []"
    and notun: "\<And>h. tstun_New ts h ''tailscale0'' = (dev, Some e)"
    and engine: "\<And>h. NewUserspaceEngine ts h \<lparr>ListenPort = 0, conf_Tun = False, IsTAP = False, conf_Router = None, conf_DNS = False\<rparr> = Inr eng"
    and rest: "timer_Start ts nodeCheckTimeout = None" "monitor_New ts = None"
      "safesocket_Listen ts (DefaultTailscaledSocket ts) = None" "GetResolver ts eng" "GetInternals ts eng" "netstack_Create ts eng = None"
      "store_New ts (filepath_Join ts path ''tailscaled.state'') = None" "NewLocalBackend ts eng False = Inr b"
      "netstack_Start ts b = None"
  shows "\<exists>tsd'. tsd_Start ts (snd (NewTailscaleDaemon ts level path)) = Ret (None, tsd') \<and>
    srv_backend tsd' = Some b \<and> LocalBackend tsd' = Some b \<and> ProcessLocalIPs tsd' \<and> ProcessSubnets tsd' \<and>
    dialer_netstack tsd' \<and> last (resources tsd') = NetnsEnabled False \<and> wgDevice (run_setter tsd') = Some eng"
  using assms
  by (simp add: tsd_Start_def run_def NewTailscaleDaemon_def defaultTunName_def createEngine_def tryEngine_def
      open_devices_def start_backend_def newNetstack_def ipnServerOpts_def run_setter_def log_resource_def Let_def)

theorem synology_falls_back_witness:
  "\<exists>tsd'. tsd_Start sample_ts sample_tsd = Ret (None, tsd') \<and> srv_backend tsd' = Some () \<and> ProcessSubnets tsd'"
  unfolding sample_tsd_def
  using synology_falls_back [of sample_ts "''/state''" "[]" "''no tun''" "()" "()" OtherLevel]
  by (auto simp: sample_ts_def)

theorem stop_waits_for_server_witness:
  "\<exists>tsd'. tsd_Start sample_ts sample_tsd = Ret (None, tsd') \<and> exit_count tsd' = 1 \<and>
     tsd_Stop 0 tsd' = None \<and> tsd_Stop 1 tsd' \<noteq> None"
proof -
  have "\<exists>tsd'. tsd_Start sample_ts sample_tsd = Ret (None, tsd')"
    by (simp add: tsd_Start_def run_def sample_defs createEngine_def tryEngine_def
      open_devices_def start_backend_def newNetstack_def ipnServerOpts_def log_resource_def Let_def)
  then obtain tsd' where s: "tsd_Start sample_ts sample_tsd = Ret (None, tsd')" by blast
  have zero: "exit_count sample_tsd = 0" by (simp add: sample_defs)
  note w = stop_waits_for_server [OF s zero, of _ "\<lambda>_. Ret []"]
  have one: "exit_count tsd' = 1" using w [of 0] by (simp add: before_server_def)
  have "tsd_Stop 0 tsd' = None" using w [of 0, THEN conjunct2] one by (cases "tsd_Stop 0 tsd'") simp_all
  moreover have "tsd_Stop 1 tsd' \<noteq> None" using w [of 1, THEN conjunct2] one by (cases "tsd_Stop 1 tsd'") simp_all
  ultimately show ?thesis using s one by blast
qed

section \<open>Checking a peer\<close>

definition is_error :: "ping_answer \<Rightarrow> bool" where
  "is_error r = (case r of PingError _ \<Rightarrow> True | _ \<Rightarrow> False)"

lemma ping_loop_again: "is_error (ping i) \<Longrightarrow> ping_loop ping i = ping_loop ping (Suc i)"
  by (subst ping_loop.simps) (simp add: is_error_def split: ping_answer.splits)

lemma ping_loop_stop: "\<not> is_error (ping i) \<Longrightarrow> ping_loop ping i = Some (ping i)"
  by (subst ping_loop.simps) (simp add: is_error_def split: ping_answer.splits)

lemma ping_loop_reaches:
  "\<forall>j<k. is_error (ping (i + j)) \<Longrightarrow> \<not> is_error (ping (i + k)) \<Longrightarrow> ping_loop ping i = Some (ping (i + k))"
proof (induction k arbitrary: i)
  case 0
  then show ?case using ping_loop_stop [of ping i] by simp
next
  case (Suc k)
  have "is_error (ping i)" using spec [OF Suc.prems(1), of 0] by simp
  moreover have "\<forall>j<k. is_error (ping (Suc i + j))" using Suc.prems(1) by auto
  ultimately show ?case using Suc.IH [of "Suc i"] Suc.prems(2) ping_loop_again [of ping i] by simp
qed

lemma ping_loop_result:
  assumes "ping_loop ping i = Some r"
  shows "\<not> is_error r \<and> (\<exists>k. ping k = r)"
  using _ assms
proof (rule ping_loop.raw_induct)
  fix loop ping i r
  assume IH: "\<And>p j y. loop p j = Some y \<Longrightarrow> \<not> is_error y \<and> (\<exists>k. p k = y)"
    and body: "(case ping i of Pong \<Rightarrow> Some Pong | DeadlineExceeded \<Rightarrow> Some DeadlineExceeded
      | PingError e \<Rightarrow> loop ping (Suc i)) = Some r"
  show "\<not> is_error r \<and> (\<exists>k. ping k = r)"
  proof (cases "ping i")
    case (PingError e)
    with body IH show ?thesis by simp
  qed (use body in \<open>auto simp: is_error_def intro: exI [of _ i]\<close>)
qed

lemma ping_loop_ends: "ping_loop ping 0 \<noteq> None \<longleftrightarrow> (\<exists>k. \<not> is_error (ping k))"
proof
  assume "\<exists>k. \<not> is_error (ping k)"
  then obtain k where "\<not> is_error (ping k)" "\<forall>j<k. is_error (ping j)"
    using exists_least_iff [of "\<lambda>k. \<not> is_error (ping k)"] by auto
  with ping_loop_reaches [of k ping 0] show "ping_loop ping 0 \<noteq> None" by simp
next
  assume "ping_loop ping 0 \<noteq> None"
  then obtain r where "ping_loop ping 0 = Some r" by auto
  with ping_loop_result [OF this] show "\<exists>k. \<not> is_error (ping k)" by auto
qed

text \<open>
  C19: when the check of a peer ends. It ends if the name does not resolve; otherwise it
  ends exactly if some ping is answered or runs into its deadline, and the first such
  answer decides the result. When every ping fails in another way, as all do once the
  daemon's context has been cancelled, the goroutine calls \<open>Ping\<close> for ever.
\<close>

theorem check_peer_ends:
  assumes "LookupIP (DNSName p) = Inr (b # bs)" and "AddrFromSlice b = Some a"
  shows "(check_peer LookupIP Ping p = None \<longleftrightarrow> (\<forall>k. is_error (Ping a k))) \<and>
    (\<forall>k. \<not> is_error (Ping a k) \<longrightarrow> (\<forall>j<k. is_error (Ping a j)) \<longrightarrow>
      check_peer LookupIP Ping p = Some (Ret (if Ping a k = Pong then Reached a else TimedOut a)))"
proof (intro conjI allI impI)
  have eq: "check_peer LookupIP Ping p = (case ping_loop (Ping a) 0 of None \<Rightarrow> None
      | Some Pong \<Rightarrow> Some (Ret (Reached a)) | Some _ \<Rightarrow> Some (Ret (TimedOut a)))"
    using assms by (simp add: check_peer_def)
  show "check_peer LookupIP Ping p = None \<longleftrightarrow> (\<forall>k. is_error (Ping a k))"
    using ping_loop_ends [of "Ping a"] by (auto simp: eq split: option.splits ping_answer.splits)
  fix k assume "\<not> is_error (Ping a k)" "\<forall>j<k. is_error (Ping a j)"
  with ping_loop_reaches [of k "Ping a" 0]
  show "check_peer LookupIP Ping p = Some (Ret (if Ping a k = Pong then Reached a else TimedOut a))"
    by (cases "Ping a k") (auto simp: eq is_error_def)
qed

theorem check_peer_ends_witness:
  "check_peer (\<lambda>_. Inr [[10, 0, 0, 7]]) (\<lambda>_ _. PingError ''context canceled'') \<lparr>DNSName = ''node'', Online = True\<rparr> = None \<and>
   check_peer (\<lambda>_. Inr [[10, 0, 0, 7]]) (\<lambda>_ k. if k = 0 then PingError ''no path'' else Pong)
     \<lparr>DNSName = ''node'', Online = True\<rparr> = Some (Ret (Reached (Addr4 [10, 0, 0, 7])))"
proof -
  have a: "AddrFromSlice [10, 0, 0, 7] = Some (Addr4 [10, 0, 0, 7])" by (simp add: AddrFromSlice_def)
  show ?thesis
    using check_peer_ends [of "\<lambda>_. Inr [[10, 0, 0, 7]]" "\<lparr>DNSName = ''node'', Online = True\<rparr>" "[10, 0, 0, 7]" "[]"
        "Addr4 [10, 0, 0, 7]" "\<lambda>_ _. PingError ''context canceled''", OF refl a]
      check_peer_ends [of "\<lambda>_. Inr [[10, 0, 0, 7]]" "\<lparr>DNSName = ''node'', Online = True\<rparr>" "[10, 0, 0, 7]" "[]"
        "Addr4 [10, 0, 0, 7]" "\<lambda>_ k. if k = 0 then PingError ''no path'' else Pong", OF refl a, THEN conjunct2, rule_format, of 1]
    by (simp add: is_error_def)
qed

text \<open>
  The node check itself never fails before the daemon is stopped: a backend that is not
  ready yet, or that panics, only means that no peer is checked this time.
\<close>

theorem nodeCheck_survives:
  "\<not> ctx_cancelled tsd \<Longrightarrow> \<exists>ps. nodeCheck Status tsd = (5000, None, ps) \<and>
     (ps \<noteq> [] \<longrightarrow> (\<exists>b all. LocalBackend tsd = Some b \<and> Status b = Ret all \<and> ps = filter Online all))"
  by (auto simp: nodeCheck_def nodeCheckTimeout_def split: option.splits outcome.splits)

end
