(* ===== verification/Headscale.thy ===== *)
theory Headscale
  imports Go_Json
begin

text \<open>
  The mesh key exchange's messages (\<^verbatim>\<open>mycsnode/headscale.go\<close>) and their JSON form. A
  field tagged \<open>omitempty\<close> is left out when it is zero, an empty string or an empty slice;
  on a field of struct type the tag has no effect.
\<close>

record CreateMeshAuthKeyReq =
  ExpiresIn :: int64

record TSNode =
  node_Name :: string
  node_IP :: string
  Endpoints :: "string list"
  Routes :: "string list"

record CreateMeshAuthKeyResp =
  AuthKey :: string
  resp_DNS :: "string list"
  SpaceNode :: TSNode
  DeviceNodes :: "TSNode list"

definition omitempty :: "bool \<Rightarrow> string \<Rightarrow> json \<Rightarrow> (string \<times> json) list" where
  "omitempty isEmpty k j = (if isEmpty then [] else [(k, j)])"

definition encode_CreateMeshAuthKeyReq :: "CreateMeshAuthKeyReq \<Rightarrow> json" where
  "encode_CreateMeshAuthKeyReq r = JObj (omitempty (ExpiresIn r = 0) ''expiresIn'' (encode_int64 (ExpiresIn r)))"

definition decode_CreateMeshAuthKeyReq :: "json \<Rightarrow> json_error + CreateMeshAuthKeyReq" where
  "decode_CreateMeshAuthKeyReq = decode_object (\<lambda>kvs.
     case decode_int64 (json_field ''expiresIn'' kvs) of Inl e \<Rightarrow> Inl e | Inr t \<Rightarrow> Inr \<lparr>ExpiresIn = t\<rparr>)"

definition encode_TSNode :: "TSNode \<Rightarrow> json" where
  "encode_TSNode n = JObj
     (omitempty (node_Name n = []) ''name'' (JStr (node_Name n)) @
      omitempty (node_IP n = []) ''ip'' (JStr (node_IP n)) @
      omitempty (Endpoints n = []) ''endpoints'' (encode_slice JStr (Endpoints n)) @
      omitempty (Routes n = []) ''routes'' (encode_slice JStr (Routes n)))"

definition decode_TSNode :: "json \<Rightarrow> json_error + TSNode" where
  "decode_TSNode = decode_object (\<lambda>kvs.
     case decode_string (json_field ''name'' kvs) of Inl e \<Rightarrow> Inl e | Inr n \<Rightarrow>
     (case decode_string (json_field ''ip'' kvs) of Inl e \<Rightarrow> Inl e | Inr i \<Rightarrow>
     (case decode_slice decode_string (json_field ''endpoints'' kvs) of Inl e \<Rightarrow> Inl e | Inr es \<Rightarrow>
     (case decode_slice decode_string (json_field ''routes'' kvs) of Inl e \<Rightarrow> Inl e | Inr rs \<Rightarrow>
        Inr \<lparr>node_Name = n, node_IP = i, Endpoints = es, Routes = rs\<rparr>))))"

definition encode_CreateMeshAuthKeyResp :: "CreateMeshAuthKeyResp \<Rightarrow> json" where
  "encode_CreateMeshAuthKeyResp r = JObj
     (omitempty (AuthKey r = []) ''authKey'' (JStr (AuthKey r)) @
      omitempty (resp_DNS r = []) ''dns'' (encode_slice JStr (resp_DNS r)) @
      [(''space_node'', encode_TSNode (SpaceNode r))] @
      omitempty (DeviceNodes r = []) ''device_nodes'' (encode_slice encode_TSNode (DeviceNodes r)))"

definition decode_CreateMeshAuthKeyResp :: "json \<Rightarrow> json_error + CreateMeshAuthKeyResp" where
  "decode_CreateMeshAuthKeyResp = decode_object (\<lambda>kvs.
     case decode_string (json_field ''authKey'' kvs) of Inl e \<Rightarrow> Inl e | Inr k \<Rightarrow>
     (case decode_slice decode_string (json_field ''dns'' kvs) of Inl e \<Rightarrow> Inl e | Inr ds \<Rightarrow>
     (case decode_TSNode (json_field ''space_node'' kvs) of Inl e \<Rightarrow> Inl e | Inr n \<Rightarrow>
     (case decode_slice decode_TSNode (json_field ''device_nodes'' kvs) of Inl e \<Rightarrow> Inl e | Inr ns \<Rightarrow>
        Inr \<lparr>AuthKey = k, resp_DNS = ds, SpaceNode = n, DeviceNodes = ns\<rparr>))))"

section \<open>Properties\<close>

text \<open>Looking a field up in an object whose other fields may have been left out.\<close>

lemma json_field_append:
  "json_field k (xs @ ys) = (if list_ex (\<lambda>(k', _). fold_equal k' k) ys then json_field k ys else json_field k xs)"
proof (cases "list_ex (\<lambda>(k', _). fold_equal k' k) ys")
  case True
  then have "find (\<lambda>(k', _). fold_equal k' k) (rev ys) \<noteq> None" by (auto simp: find_None_iff list_ex_iff)
  moreover have "find P (us @ vs) = (case find P us of None \<Rightarrow> find P vs | Some x \<Rightarrow> Some x)"
    for P and us vs :: "(string \<times> json) list" by (induction us) auto
  ultimately show ?thesis using True by (auto simp: json_field_def split: option.split)
next
  case False
  then have "find (\<lambda>(k', _). fold_equal k' k) (rev ys) = None" by (auto simp: find_None_iff list_ex_iff)
  moreover have "find P (us @ vs) = (case find P us of None \<Rightarrow> find P vs | Some x \<Rightarrow> Some x)"
    for P and us vs :: "(string \<times> json) list" by (induction us) auto
  ultimately show ?thesis using False by (simp add: json_field_def)
qed

lemma json_field_omitempty:
  "json_field k (omitempty b k j) = (if b then JNull else j)"
  "\<not> fold_equal k' k \<Longrightarrow> json_field k (omitempty b k' j) = JNull"
  "list_ex (\<lambda>(k'', _). fold_equal k'' k) (omitempty b k' j) = (\<not> b \<and> fold_equal k' k)"
  by (simp_all add: omitempty_def json_field_def fold_equal_def)

lemma decode_missing:
  "decode_string (if s = [] then JNull else JStr s) = Inr s"
  "decode_int64 (if w = 0 then JNull else encode_int64 w) = Inr w"
  by (simp_all add: decode_string_def) (simp add: decode_int64_def)

lemma decode_strings: "decode_slice decode_string (if ss = [] then JNull else encode_slice JStr ss) = Inr ss"
  using decode_slice_encode [of ss decode_string JStr id] by (cases "ss = []") (simp_all add: decode_slice_def)

lemma field_names:
  "fold_equal k k" "fold_equal ''name'' ''ip'' = False" "fold_equal ''name'' ''endpoints'' = False"
  "fold_equal ''name'' ''routes'' = False" "fold_equal ''ip'' ''name'' = False" "fold_equal ''ip'' ''endpoints'' = False"
  "fold_equal ''ip'' ''routes'' = False" "fold_equal ''endpoints'' ''name'' = False" "fold_equal ''endpoints'' ''ip'' = False"
  "fold_equal ''endpoints'' ''routes'' = False" "fold_equal ''routes'' ''name'' = False" "fold_equal ''routes'' ''ip'' = False"
  "fold_equal ''routes'' ''endpoints'' = False" "fold_equal ''authKey'' ''dns'' = False"
  "fold_equal ''authKey'' ''space_node'' = False" "fold_equal ''authKey'' ''device_nodes'' = False"
  "fold_equal ''dns'' ''authKey'' = False" "fold_equal ''dns'' ''space_node'' = False" "fold_equal ''dns'' ''device_nodes'' = False"
  "fold_equal ''space_node'' ''authKey'' = False" "fold_equal ''space_node'' ''dns'' = False"
  "fold_equal ''space_node'' ''device_nodes'' = False" "fold_equal ''device_nodes'' ''authKey'' = False"
  "fold_equal ''device_nodes'' ''dns'' = False" "fold_equal ''device_nodes'' ''space_node'' = False"
  by (simp_all add: fold_equal_def ascii_lower_def)

lemma decode_TSNode_encode: "decode_TSNode (encode_TSNode n) = Inr n"
proof -
  define kvs where "kvs = omitempty (node_Name n = []) ''name'' (JStr (node_Name n)) @
      omitempty (node_IP n = []) ''ip'' (JStr (node_IP n)) @
      omitempty (Endpoints n = []) ''endpoints'' (encode_slice JStr (Endpoints n)) @
      omitempty (Routes n = []) ''routes'' (encode_slice JStr (Routes n))"
  have "json_field ''name'' kvs = (if node_Name n = [] then JNull else JStr (node_Name n))"
    "json_field ''ip'' kvs = (if node_IP n = [] then JNull else JStr (node_IP n))"
    "json_field ''endpoints'' kvs = (if Endpoints n = [] then JNull else encode_slice JStr (Endpoints n))"
    "json_field ''routes'' kvs = (if Routes n = [] then JNull else encode_slice JStr (Routes n))"
    by (simp_all add: kvs_def json_field_append json_field_omitempty field_names)
  moreover have "encode_TSNode n = JObj kvs" by (simp add: encode_TSNode_def kvs_def)
  ultimately show ?thesis
    by (simp add: decode_TSNode_def decode_object_def decode_missing decode_strings split del: if_split)
qed

lemma encode_TSNode_not_null: "encode_TSNode n \<noteq> JNull"
  by (simp add: encode_TSNode_def)

lemma json_field_single: "json_field k [(k', j)] = (if fold_equal k' k then j else JNull)"
  by (simp add: json_field_def)

lemma json_field_Cons:
  "json_field k ((k', j) # ys) =
     (if list_ex (\<lambda>(k', _). fold_equal k' k) ys then json_field k ys else if fold_equal k' k then j else JNull)"
  using json_field_append [of k "[(k', j)]" ys] by (simp add: json_field_single)

lemma decode_nodes: "decode_slice decode_TSNode (if ns = [] then JNull else encode_slice encode_TSNode ns) = Inr ns"
  using decode_slice_encode [of ns decode_TSNode encode_TSNode id] decode_TSNode_encode
  by (cases "ns = []") (simp_all add: decode_slice_def)

text \<open>
  C40: a request and a response of the mesh key exchange are read back unchanged from their
  JSON form, although empty fields are not written.
\<close>

theorem mesh_messages_roundtrip:
  "decode_CreateMeshAuthKeyReq (encode_CreateMeshAuthKeyReq q) = Inr q \<and>
   decode_CreateMeshAuthKeyResp (encode_CreateMeshAuthKeyResp r) = Inr r"
proof
  show "decode_CreateMeshAuthKeyReq (encode_CreateMeshAuthKeyReq q) = Inr q"
    by (simp add: decode_CreateMeshAuthKeyReq_def encode_CreateMeshAuthKeyReq_def decode_object_def
        json_field_omitempty decode_missing)
  define kvs where "kvs = omitempty (AuthKey r = []) ''authKey'' (JStr (AuthKey r)) @
      omitempty (resp_DNS r = []) ''dns'' (encode_slice JStr (resp_DNS r)) @
      [(''space_node'', encode_TSNode (SpaceNode r))] @
      omitempty (DeviceNodes r = []) ''device_nodes'' (encode_slice encode_TSNode (DeviceNodes r))"
  have "json_field ''authKey'' kvs = (if AuthKey r = [] then JNull else JStr (AuthKey r))"
    "json_field ''dns'' kvs = (if resp_DNS r = [] then JNull else encode_slice JStr (resp_DNS r))"
    "json_field ''space_node'' kvs = encode_TSNode (SpaceNode r)"
    "json_field ''device_nodes'' kvs = (if DeviceNodes r = [] then JNull else encode_slice encode_TSNode (DeviceNodes r))"
    by (simp_all add: kvs_def json_field_append json_field_Cons json_field_omitempty field_names)
  moreover have "encode_CreateMeshAuthKeyResp r = JObj kvs"
    by (simp add: encode_CreateMeshAuthKeyResp_def kvs_def)
  ultimately show "decode_CreateMeshAuthKeyResp (encode_CreateMeshAuthKeyResp r) = Inr r"
    by (simp add: decode_CreateMeshAuthKeyResp_def decode_object_def decode_missing decode_strings decode_nodes
        decode_TSNode_encode split del: if_split)
qed

end
