(* ===== verification/Spec2Isabelle.thy ===== *)
theory Spec2Isabelle
  imports Counter Monitor_Props Events Api_Client_Props Port_Mapper Wg_Device_Roundtrip Wg_Config_Props
    Vpn_Traffic Wg_Connect_Race Tailscale_Daemon_Props Headscale
begin

text \<open>
  A model of the Go library \<^verbatim>\<open>mycloudspace-common\<close> and its correctness. The library is what
  the clients and nodes of a cloud space share: monitors that count and post events, the
  client of a node's API, a port mapper, VPN configurations and clients, and an embedded
  Tailscale daemon.

  \<^bold>\<open>Conventions.\<close> Go's \<open>int\<close>, \<open>int64\<close> and \<open>time.Duration\<close> are 64 bit words with the
  signed order, so every addition wraps as in the code; strings are byte strings; a panic
  is the value \<open>Panic\<close> of type \<open>outcome\<close>, an error a value of a sum or option; a call that
  waits for ever, or a loop that does not end, has the value \<open>None\<close>. A struct is a record,
  an object shared by pointer is a position in a store (the counters of the monitor
  service). A goroutine is part of the state: a list entry, a field, or a component of a
  step relation, so that interleavings are sequences of steps. Packages that are not part
  of the repository are arguments, records of functions whose documented behaviour is a
  named hypothesis where it is needed (\<open>ce_laws\<close>, \<open>zlib_laws\<close>, \<open>ecdh_laws\<close>, \<open>router_laws\<close>), and each such
  property has a witness with concrete functions. The parts of Go's standard library the
  code relies on are modelled: number, base64, hex and address texts, line scanning, JSON
  at the level of document trees, prefix masks.

  \<^bold>\<open>Shared theories.\<close> \<open>Mycs_Prelude\<close> has the integers, panics, slices, sums over lists and
  the locale \<open>transition_system\<close> (an initial condition, a step relation, an inductive
  invariant), which is interpreted on the monitor service (\<open>svc\<close>), the API client
  (\<open>client\<close>), the device reader (\<open>parser\<close>), \<open>Connect\<close> with its goroutine (\<open>race\<close>) and the VPN
  client with the monitor service (\<open>vpn\<close>), the port mapper (\<open>mapper\<close>) and \<open>Connect\<close> with a
  device that may go away (\<open>general\<close>); its extension \<open>bounded_system\<close>, whose runs end,
  is interpreted on the VPN connection (\<open>conn\<close>). \<open>Go_Encoding\<close>, \<open>Go_Strings\<close>, \<open>Go_Json\<close>, \<open>Go_Net\<close> and
  \<open>Go_Net_Props\<close> hold the standard library and its round trips, \<open>Cloud_Events\<close> the interface
  of the CloudEvents package, \<open>Wg_Types\<close> the data of the WireGuard packages.

  \<^bold>\<open>Monitors\<close> (\<^verbatim>\<open>monitors/counter.go\<close>, \<^verbatim>\<open>monitors/monitor.go\<close>). Theory \<open>Counter\<close> has the
  counter's operations and shows that a counter refines a running total that knows no
  collections; the locale \<open>metric_source\<close> is what a collector relies on. \<open>Monitor\<close> has the
  service: registration, \<open>collect_tick\<close>, \<open>postEvents\<close> with its goroutines (\<open>start_post\<close>,
  \<open>finish_post\<close>), reposting, \<open>Stop\<close>. \<open>Monitor_Props\<close> shows for every interleaving and every
  answer of the sender that no measurement is lost or counted twice, that \<open>Stop\<close> delivers
  everything, how often events are posted, the JSON round trip (locale \<open>payload_codec\<close>)
  and what \<open>DeleteCounter\<close> does.

  \<^bold>\<open>Events\<close> (\<^verbatim>\<open>events/events.go\<close>). Theory \<open>Events\<close>: what is published decodes to the events,
  and failures are mapped back to them.

  \<^bold>\<open>API client\<close> (\<^verbatim>\<open>mycsnode/api_client.go\<close>, \<^verbatim>\<open>mycsnode/auth.go\<close>). \<open>Api_Client\<close> has every
  operation of the client, \<open>Api_Client_Props\<close> the handshake: a success is backed by an
  answer to this request, client and node agree on the key, an authenticated client has a
  cipher, renewal happens in time, waiting ends. \<open>Headscale\<close> has the messages of
  \<^verbatim>\<open>mycsnode/headscale.go\<close> and their round trip.

  \<^bold>\<open>Port mapper\<close> (\<^verbatim>\<open>network/port_mapper.go\<close>). Theory \<open>Port_Mapper\<close>: the choice of a router
  for every outcome of the discovery, and, over a log of the requests sent to it
  (\<open>logged\<close>), what a refresh asks for whatever the router answers and that the leases outlive
  the refresh interval.

  \<^bold>\<open>VPN configuration\<close> (\<^verbatim>\<open>vpn/service.go\<close>, \<^verbatim>\<open>vpn/static_config_data.go\<close>,
  \<^verbatim>\<open>vpn/wireguard_config_data.go\<close>, \<^verbatim>\<open>vpn/wireguard_config.go\<close>, \<^verbatim>\<open>vpn/openvpn_config.go\<close>,
  \<^verbatim>\<open>vpn/openvpn_client.go\<close>). \<open>Vpn_Config_Data\<close> has the data and where it comes from,
  \<open>Wg_Config\<close> the reader of the configuration file, \<open>Wg_Config_Props\<close> that it reads back what
  the data writes but for the unit of the keepalive, that it makes one peer of every section
  it reaches, and the texts it misreads.

  \<^bold>\<open>VPN client\<close> (\<^verbatim>\<open>vpn/wireguard_ctrl.go\<close> with its Unix and Windows halves,
  \<^verbatim>\<open>vpn/wireguard_client.go\<close>, \<^verbatim>\<open>vpn/wireguard_client_unix.go\<close>,
  \<^verbatim>\<open>vpn/wireguard_client_windows.go\<close>). \<open>Wg_Ctrl\<close> has the control service with its accept
  goroutine and the control client. In \<open>Wg_Client\<close>, \<open>wg_Connect\<close> is \<open>Connect\<close> with its
  deferred function (\<open>connect_body\<close> returns what is returned and what \<open>err\<close> holds), and
  \<open>wg_step\<close> has the statements of \<open>Disconnect\<close>, of the teardown goroutine and their meetings
  on the two channels; the timeout and the device's failure can happen at any step.
  \<open>Wg_Client_Props\<close> shows that a returned \<open>Disconnect\<close> has cleaned up, that no run has more
  than ten steps, and when \<open>Disconnect\<close> cannot return. \<open>Wg_Connect_Race\<close> has \<open>Connect\<close> statement by statement beside the
  goroutine it starts (\<open>connect_step\<close>, \<open>connect_run\<close>), with the device going away at any time or
  not: without a loss of the device it is equivalent to \<open>wg_Connect\<close> followed by the goroutine;
  with or without one it shows what a failed and what a successful \<open>Connect\<close> leave, and that a
  device lost in between can leave routes behind. \<open>Vpn_Traffic\<close> composes the client with the monitor service. The Windows
  client has its initialisation (\<open>win_init\<close>), \<open>win_Connect\<close> and \<open>win_Disconnect\<close>, with the files
  written and the runs of \<^verbatim>\<open>wireguard.exe\<close> as its state.

  \<^bold>\<open>Tailscale\<close> (\<^verbatim>\<open>tailscale/wireguard_device.go\<close>, \<^verbatim>\<open>tailscale/tailscale_daemon.go\<close>).
  \<open>Wg_Device\<close> has the reader of the device's answer and the status text, \<open>Wg_Device_Props\<close>
  that it never panics and exactly what it accepts, \<open>Wg_Device_Roundtrip\<close> what it keeps and
  what it drops of the lines the userspace protocol has for a device. \<open>Tailscale_Daemon\<close> has the daemon: creation, the engine with its
  list of tunnel names, \<open>run\<close>, start and stop with the wait group, and the check of the
  nodes; \<open>ping_loop\<close> is a partial function because the loop may not end.
  The answers of the constructors depend on what the daemon opened and closed before.
  \<open>Tailscale_Daemon_Props\<close> shows in which order and state the names are tried, what the
  attempts leave open, what \<open>Stop\<close> waits for and when a check ends.

  \<^bold>\<open>This theory\<close> has the properties that span components: the traffic the monitor service
  reports is the device's, and the networks both readers produce are well formed.

  \<^bold>\<open>Bounds.\<close> No definition runs on fuel. Loops over lists and texts are structural; the
  waiting loop of the API client runs over the ticks it is given, the ping loop is partial,
  and the ten steps of a connection are a proved bound.

  \<^bold>\<open>Not modelled.\<close> Logging; the text form of JSON documents; what the third-party
  packages do inside (tunnel devices, routing, the Tailscale engine, cryptography, UPnP,
  HTTP); data races on fields the code shares without a lock; the mutexes, whose critical
  sections are single steps here (so a node check that was past its look at the context when
  \<open>Stop\<close> took the daemon's mutex is not represented); a \<open>Disconnect\<close> called while \<open>Connect\<close> is
  still running; the mock node under
  \<^verbatim>\<open>test\<close>, which is test support.
\<close>

section \<open>Traffic of the VPN client in the monitor service\<close>

definition sample_metrics :: "sample_event monitorService" where
  "sample_metrics = snd (snd (new_metrics True demo_new))"

lemma sample_metrics_eq: "sample_metrics = demo_new\<lparr>
    counters := [NewCounter ''sent'' True True, NewCounter ''recd'' True True],
    monitors := [\<lparr>mon_name = ''space-vpn'', mon_counters = [0, 1]\<rparr>]\<rparr>"
  by (simp add: sample_metrics_def new_metrics_def alloc_counter_def NewMonitor_def AddCounter_def demo_new_eq)

lemma sample_observes:
  "\<exists>ms. recordNetworkMetrics (sample_wgctrl 700 300) sample_connected sample_metrics = Ret (500, sample_connected, ms) \<and>
     counters ms = [Set 300 (NewCounter ''sent'' True True), Set 700 (NewCounter ''recd'' True True)]"
  and sample_observed: "observe (sample_wgctrl 700 300) sample_connected (0, 0) = (700, 300)"
  by (simp_all add: recordNetworkMetrics_def observe_def sample_connected_def connect_defs ctrl_BytesTransmitted_def
      ctrl_Device_def zero_device_def zero_peer_def sample_metrics_eq update_counter_def word_sless_alt)

text \<open>
  C2: the traffic the monitor service reports is the traffic of the device. A client made
  on a running service connects, disconnects and records the device's byte counts while
  the service collects, posts and reposts in any interleaving and with any failures of the
  sender; then the last counts read from the device are exactly the values in the accepted
  events, plus those queued or being posted, plus those not collected yet, and they are
  what \<open>BytesTransmitted\<close> returns.
\<close>

theorem vpn_traffic_accounted:
  assumes "ce_laws api" and "service_initial s0" and "(service_step api now)\<^sup>*\<^sup>* s0 (ms0, d0)"
    and "\<forall>c \<in> set (counters ms0). ctr_name c \<noteq> ''recd'' \<and> ctr_name c \<noteq> ''sent''"
    and "newWireguardClient None cfg b ms0 = (Inr w0, ms1)"
    and "(vpn_step api now)\<^sup>*\<^sup>* (w0, ms1, d0, 0, 0) (w, ms, d, lr, ls)"
  shows "lr = sum_list (map (event_value api ''recd'') d) + pending_value ''recd'' ms +
      uncollected_total ''recd'' (counters ms) \<and>
    ls = sum_list (map (event_value api ''sent'') d) + pending_value ''sent'' ms +
      uncollected_total ''sent'' (counters ms) \<and>
    BytesTransmitted w ms = (lr, ls, metricsError w)"
proof -
  have "vpn_initial api (w0, ms1, d0, 0, 0)"
    using service_run_inv [OF assms(1-3)] assms(4,5) unfolding vpn_initial_def by blast
  from vpn_run_inv [OF assms(1) this assms(6)]
  have inv: "service_inv api (ms, d)" "sole_counter ''recd'' (recd w) lr (counters ms)"
    "sole_counter ''sent'' (sent w) ls (counters ms)" by (simp_all add: vpn_inv_def)
  have total: "reading_total n (counters ms) = sum_list (map (event_value api n) d) + pending_value n ms +
      uncollected_total n (counters ms)" if "all_cumalative n (counters ms)" for n
    using inv(1) that by (simp add: service_inv_def conserved_def reading_split)
  have "BytesTransmitted w ms = (lr, ls, metricsError w)"
    using inv(2,3) by (simp add: BytesTransmitted_def sole_counter_def)
  with total inv(2,3) show ?thesis
    using sole_counter_reading sole_counter_cumalative by metis
qed

theorem vpn_traffic_accounted_witness:
  "\<exists>w ms. (vpn_step sample_api (\<lambda>_. 5000000))\<^sup>*\<^sup>* (sample_client, sample_metrics, [], 0, 0) (w, ms, [], 700, 300) \<and>
     (700 :: int64) = pending_value ''recd'' ms + uncollected_total ''recd'' (counters ms) \<and>
     BytesTransmitted w ms = (700, 300, metricsError w)"
proof -
  let ?step = "vpn_step sample_api (\<lambda>_. 5000000)"
  from sample_observes obtain ms where rec:
    "recordNetworkMetrics (sample_wgctrl 700 300) sample_connected sample_metrics = Ret (500, sample_connected, ms)"
    by blast
  have "?step (sample_client, sample_metrics, [], 0, 0) (sample_connected, sample_metrics, [], 0, 0)"
    by (rule vpn_step.connect [OF sample_connects])
  moreover have "?step (sample_connected, sample_metrics, [], 0, 0) (sample_connected, ms, [], 700, 300)"
    using vpn_step.record_metrics [OF rec, of sample_api "\<lambda>_. 5000000" "[]" "(0, 0)"] by (simp add: sample_observed)
  ultimately have run: "?step\<^sup>*\<^sup>* (sample_client, sample_metrics, [], 0, 0) (sample_connected, ms, [], 700, 300)"
    by (meson converse_rtranclp_into_rtranclp rtranclp.rtrancl_refl)
  have none: "\<forall>c \<in> set (counters demo_new). ctr_name c \<noteq> ''recd'' \<and> ctr_name c \<noteq> ''sent''"
    by (simp add: demo_new_eq)
  from vpn_traffic_accounted [OF sample_api_laws demo_initial rtranclp.rtrancl_refl none
      sample_client_new [folded sample_metrics_def] run] run
  show ?thesis by auto
qed

section \<open>Networks the readers produce\<close>

text \<open>
  C10: every network value the two readers of the system produce is well formed. The allowed
  networks of a configuration file and those of a device's answer have an address and a
  mask of four or of sixteen bytes, a mask that is a prefix, and no bit of the address
  outside it, whatever the text.
\<close>

theorem networks_well_typed:
  "(newWireguardConfigFromTarget wg resolve cd = Inr c \<longrightarrow>
      (\<forall>p \<in> set (cfg_Peers (wgconfig c)). list_all net_wf (cfg_AllowedIPs p))) \<and>
   (WireguardDevice wg ipc dev = Ret (Inr d) \<longrightarrow> (\<forall>p \<in> set (Peers d). list_all net_wf (AllowedIPs p)))"
proof -
  have "peer_ok p" if "parseDevice wg doc = Ret (Inr d)" "p \<in> set (Peers d)" for doc p
    using parse_lines_accepts [OF new_parser_ok, of wg "snd (scan_text doc)" "fst (scan_text doc)"] that
    by (auto simp: parseDevice_def split_beta)
  then show ?thesis
    using config_nets_wf [of wg resolve cd c]
    by (auto simp: WireguardDevice_def peer_ok_def split: option.splits)
qed

theorem networks_well_typed_witness:
  "list_all (\<lambda>p. list_all net_wf (cfg_AllowedIPs p))
     (cfg_Peers (wgconfig (data_config sample_keys sample_resolve nanosecond (sample_data ''host:51820'')))) \<and>
   list_all (\<lambda>p. list_all net_wf (AllowedIPs p)) (Peers (device_kept sample_wgtypes sample_device))"
proof -
  have "WireguardDevice sample_wgtypes (\<lambda>dev. unlines (device_lines dev)) (Some sample_device) =
      Ret (Inr (device_kept sample_wgtypes sample_device))"
    using parse_device_lines [OF sample_device_wf] by (simp add: WireguardDevice_def)
  then show ?thesis
    using networks_well_typed [of sample_keys sample_resolve "WireguardData (sample_data ''host:51820'')"
        "data_config sample_keys sample_resolve nanosecond (sample_data ''host:51820'')"]
      networks_well_typed [of sample_wgtypes _ _ _ "\<lambda>dev. unlines (device_lines dev)" "Some sample_device"
        "device_kept sample_wgtypes sample_device"]
      read_data [OF sample_data_wf] unfolding list_all_iff by blast
qed

end
